(* ===== verification/Prelude.thy ===== *)
theory Prelude
  imports Complex_Main
begin

text \<open>
  Shared vocabulary of the development: the names of the model's basic types, the
  theorem collections the component theories fill, and generic lemmas on lists that
  several components use. Nothing here models a line of the repository.
\<close>

section \<open>Names of the model's types\<close>

text \<open>
  Time is what \<open>Date.now()\<close> and \<open>new Date()\<close> return: integer milliseconds since the
  epoch. Entity keys (the 16-character OKX \<open>uniqueCode\<close>), e-mail addresses and the
  JSON strings the OKX feed delivers are HOL strings.
\<close>

type_synonym ms = int
type_synonym entity_key = string
type_synonym email_addr = string

section \<open>Theorem collections\<close>

named_theorems model_simps
  "equations that evaluate the model on concrete inputs (used by the witnesses)"
named_theorems frame_simps
  "frame facts: fields an operation does not touch"

section \<open>Generic list lemmas\<close>

lemma pair_in_fst_image [intro]: "(a, b) \<in> S \<Longrightarrow> a \<in> fst ` S"
  by force

lemma count_list_distinct:
  "distinct xs \<Longrightarrow> count_list xs x = (if x \<in> set xs then 1 else 0)"
  by (induction xs) auto

lemma concat_map_Nil [simp]: "concat (map (\<lambda>x. []) xs) = []"
  by (induction xs) simp_all

lemma set_map_fst_filter_key [simp]:
  "set (map fst (filter (\<lambda>(k, _). P k) m)) = {k \<in> fst ` set m. P k}"
  by force

lemma filter_empty_if_none [simp]:
  "(\<forall>x\<in>set xs. \<not> P x) \<Longrightarrow> filter P xs = []"
  by (induction xs) auto

lemma length_filter_concat_map:
  "length (filter P (concat (map f xs))) = (\<Sum>x\<leftarrow>xs. length (filter P (f x)))"
  by (induction xs) auto

lemma distinct_map_fst_filter:
  "distinct (map fst xs) \<Longrightarrow> distinct (map fst (filter P xs))"
  by (induction xs) (auto simp: image_iff)

lemma count_keys_filter:
  "distinct (map fst m) \<Longrightarrow>
   count_list (map fst (filter (\<lambda>(k, _). P k) m)) k = (if k \<in> fst ` set m \<and> P k then 1 else 0)"
  by (simp add: count_list_distinct distinct_map_fst_filter del: set_map)

lemma map_of_filter_in:
  "distinct (map fst xs) \<Longrightarrow> (k, v) \<in> set xs \<Longrightarrow> P (k, v) \<Longrightarrow> map_of (filter P xs) k = Some v"
  by (induction xs) (auto simp: image_iff)

end
