(* ===== verification/JsRuntime.thy ===== *)
theory JsRuntime
  imports Prelude
begin

text \<open>
  The parts of the JavaScript runtime the services rely on, as the ECMAScript
  specification defines them: numbers with \<open>NaN\<close> and the two infinities, the
  arithmetic and comparisons the monitor and the e-mail service perform on them,
  the truthiness of strings used by \<open>a || b\<close>, and \<open>parseFloat\<close>.
  Finite numbers are exact rationals: binary64 rounding, overflow to \<open>Infinity\<close> of
  huge exponents and the sign of zero are not modelled. The two semantics differ near
  thresholds (in binary64 \<open>|0.33 - 0.3| / 0.3\<close> exceeds \<open>0.1\<close>,
  \<open>(1.005).toFixed(2)\<close> is \<open>'1.00'\<close>, \<open>parseInt('-0.5')\<close> is \<open>-0\<close>), so the
  theorems built on these numbers are about signs, \<open>NaN\<close>, the infinities and equal
  operands, which rounding preserves, or say in their statement that they are exact.
\<close>

section \<open>Numbers\<close>

datatype jsnum = Num rat | PosInf | NegInf | NaN

definition inf_of_sign :: "bool \<Rightarrow> jsnum" where
  "inf_of_sign positive = (if positive then PosInf else NegInf)"

fun js_neg :: "jsnum \<Rightarrow> jsnum" where
  "js_neg (Num a) = Num (- a)"
| "js_neg PosInf = NegInf"
| "js_neg NegInf = PosInf"
| "js_neg NaN = NaN"

fun js_add :: "jsnum \<Rightarrow> jsnum \<Rightarrow> jsnum" where
  "js_add NaN _ = NaN"
| "js_add _ NaN = NaN"
| "js_add PosInf NegInf = NaN"
| "js_add NegInf PosInf = NaN"
| "js_add PosInf _ = PosInf"
| "js_add NegInf _ = NegInf"
| "js_add _ PosInf = PosInf"
| "js_add _ NegInf = NegInf"
| "js_add (Num a) (Num b) = Num (a + b)"

definition js_sub :: "jsnum \<Rightarrow> jsnum \<Rightarrow> jsnum" where
  "js_sub a b = js_add a (js_neg b)"

fun js_mul :: "jsnum \<Rightarrow> jsnum \<Rightarrow> jsnum" where
  "js_mul NaN _ = NaN"
| "js_mul _ NaN = NaN"
| "js_mul (Num a) (Num b) = Num (a * b)"
| "js_mul (Num a) PosInf = (if a = 0 then NaN else inf_of_sign (0 < a))"
| "js_mul (Num a) NegInf = (if a = 0 then NaN else inf_of_sign (a < 0))"
| "js_mul PosInf (Num b) = (if b = 0 then NaN else inf_of_sign (0 < b))"
| "js_mul NegInf (Num b) = (if b = 0 then NaN else inf_of_sign (b < 0))"
| "js_mul PosInf PosInf = PosInf"
| "js_mul PosInf NegInf = NegInf"
| "js_mul NegInf PosInf = NegInf"
| "js_mul NegInf NegInf = PosInf"

text \<open>Division: a non-zero number over zero is an infinity, \<open>0 / 0\<close> is \<open>NaN\<close>.\<close>

fun js_div :: "jsnum \<Rightarrow> jsnum \<Rightarrow> jsnum" where
  "js_div NaN _ = NaN"
| "js_div _ NaN = NaN"
| "js_div (Num a) (Num b) =
     (if b = 0 then (if a = 0 then NaN else inf_of_sign (0 < a)) else Num (a / b))"
| "js_div (Num a) PosInf = Num 0"
| "js_div (Num a) NegInf = Num 0"
| "js_div PosInf (Num b) = inf_of_sign (0 \<le> b)"
| "js_div NegInf (Num b) = inf_of_sign (b < 0)"
| "js_div _ _ = NaN"

text \<open>\<open>Math.abs\<close>.\<close>

fun js_abs :: "jsnum \<Rightarrow> jsnum" where
  "js_abs (Num a) = Num \<bar>a\<bar>"
| "js_abs PosInf = PosInf"
| "js_abs NegInf = PosInf"
| "js_abs NaN = NaN"

text \<open>The relational operators: every comparison with \<open>NaN\<close> is false.\<close>

fun js_less :: "jsnum \<Rightarrow> jsnum \<Rightarrow> bool" where
  "js_less NaN _ = False"
| "js_less _ NaN = False"
| "js_less (Num a) (Num b) = (a < b)"
| "js_less NegInf NegInf = False"
| "js_less NegInf _ = True"
| "js_less _ NegInf = False"
| "js_less PosInf _ = False"
| "js_less _ PosInf = True"

definition js_gt :: "jsnum \<Rightarrow> jsnum \<Rightarrow> bool" where
  "js_gt a b = js_less b a"

definition js_ge :: "jsnum \<Rightarrow> jsnum \<Rightarrow> bool" where
  "js_ge a b = (a \<noteq> NaN \<and> b \<noteq> NaN \<and> \<not> js_less a b)"

section \<open>Truthiness of strings\<close>

text \<open>
  \<open>s || d\<close> on a string \<open>s\<close> is \<open>d\<close> when \<open>s\<close> is falsy, that is empty; an
  optional field that is \<open>undefined\<close> is falsy as well.
\<close>

definition js_or :: "string \<Rightarrow> string \<Rightarrow> string" where
  "js_or s d = (if s = [] then d else s)"

definition js_or_opt :: "string option \<Rightarrow> string \<Rightarrow> string" where
  "js_or_opt s d = (case s of None \<Rightarrow> d | Some t \<Rightarrow> js_or t d)"

text \<open>\<open>xs.join(sep)\<close> on an array of strings.\<close>

fun js_join :: "string \<Rightarrow> string list \<Rightarrow> string" where
  "js_join sep [] = []"
| "js_join sep [x] = x"
| "js_join sep (x # y # xs) = x @ sep @ js_join sep (y # xs)"

text \<open>\<open>toLowerCase\<close> and \<open>toUpperCase\<close> on the ASCII letters.\<close>

definition js_lower :: "char \<Rightarrow> char" where
  "js_lower c = (let n = of_char c :: nat in if 65 \<le> n \<and> n \<le> 90 then char_of (n + 32) else c)"

definition js_upper :: "char \<Rightarrow> char" where
  "js_upper c = (let n = of_char c :: nat in if 97 \<le> n \<and> n \<le> 122 then char_of (n - 32) else c)"

section \<open>parseFloat\<close>

text \<open>
  \<open>parseFloat(s)\<close> skips leading white space and reads the longest prefix that is a
  \<open>StrDecimalLiteral\<close>: an optional sign, then \<open>Infinity\<close> or decimal digits with an
  optional fraction and an optional exponent. No such prefix gives \<open>NaN\<close>. Strings
  are lists of 8-bit characters read as the code points U+0000 to U+00FF; white space
  is the part of the specification's \<open>WhiteSpace\<close> and \<open>LineTerminator\<close> set in that
  range (tab, line feed, vertical tab, form feed, carriage return, space, no-break
  space U+00A0), the set \<open>\s\<close> of a regular expression and \<open>trim\<close> use as well.
\<close>

definition is_js_space :: "char \<Rightarrow> bool" where
  "is_js_space c = (let n = of_char c :: nat in n = 32 \<or> (9 \<le> n \<and> n \<le> 13) \<or> n = 160)"

definition digit_of :: "char \<Rightarrow> nat option" where
  "digit_of c = (let n = of_char c :: nat in if 48 \<le> n \<and> n \<le> 57 then Some (n - 48) else None)"

fun span_digits :: "string \<Rightarrow> nat list \<times> string" where
  "span_digits [] = ([], [])"
| "span_digits (c # cs) =
     (case digit_of c of
        None \<Rightarrow> ([], c # cs)
      | Some d \<Rightarrow> (let (ds, r) = span_digits cs in (d # ds, r)))"

definition digits_value :: "nat list \<Rightarrow> nat" where
  "digits_value ds = foldl (\<lambda>acc d. 10 * acc + d) 0 ds"

text \<open>The value of an \<open>ExponentPart\<close> at the start of the rest, 0 when there is none.\<close>

definition exponent_part :: "string \<Rightarrow> int" where
  "exponent_part s =
     (if s \<noteq> [] \<and> (hd s = CHR ''e'' \<or> hd s = CHR ''E'') then
        (let r = tl s;
             neg = (r \<noteq> [] \<and> hd r = CHR ''-'');
             r' = (if r \<noteq> [] \<and> (hd r = CHR ''-'' \<or> hd r = CHR ''+'') then tl r else r);
             ds = fst (span_digits r')
         in if ds = [] then 0
            else if neg then - int (digits_value ds) else int (digits_value ds))
      else 0)"

definition scale10 :: "nat \<Rightarrow> int \<Rightarrow> rat" where
  "scale10 m e = (if 0 \<le> e then of_nat m * 10 ^ nat e else of_nat m / 10 ^ nat (- e))"

definition parse_unsigned :: "string \<Rightarrow> jsnum" where
  "parse_unsigned s =
     (if take 8 s = ''Infinity'' then PosInf
      else
        (let (ip, r) = span_digits s in
         if r \<noteq> [] \<and> hd r = CHR ''.'' then
           (let (fp, r') = span_digits (tl r) in
            if ip = [] \<and> fp = [] then NaN
            else Num (scale10 (digits_value (ip @ fp)) (exponent_part r' - int (length fp))))
         else if ip = [] then NaN
         else Num (scale10 (digits_value ip) (exponent_part r))))"

definition parse_float :: "string \<Rightarrow> jsnum" where
  "parse_float s =
     (let t = dropWhile is_js_space s in
      if t \<noteq> [] \<and> hd t = CHR ''-'' then js_neg (parse_unsigned (tl t))
      else if t \<noteq> [] \<and> hd t = CHR ''+'' then parse_unsigned (tl t)
      else parse_unsigned t)"

section \<open>Facts about the arithmetic\<close>

lemma js_sub_self: "js_sub x x = Num 0 \<or> js_sub x x = NaN"
  by (cases x) (simp_all add: js_sub_def)

lemma not_gt_abs_sub_self: "0 \<le> c \<Longrightarrow> \<not> js_gt (js_abs (js_sub x x)) (Num c)"
  using js_sub_self [of x] by (auto simp: js_gt_def)

lemma not_gt_ratio_self: "0 \<le> c \<Longrightarrow> \<not> js_gt (js_div (js_abs (js_sub x x)) y) (Num c)"
  using js_sub_self [of x] by (cases y) (auto simp: js_gt_def split: if_splits)

lemma js_num_arith [simp]:
  "js_sub (Num a) (Num b) = Num (a - b)"
  "js_gt (Num a) (Num b) \<longleftrightarrow> b < a"
  "js_ge (Num a) (Num b) \<longleftrightarrow> b \<le> a"
  by (auto simp: js_sub_def js_gt_def js_ge_def)

lemma js_div_Num_nonzero [simp]: "b \<noteq> 0 \<Longrightarrow> js_div (Num a) (Num b) = Num (a / b)"
  by simp

lemma parse_float_zero [simp]: "parse_float ''0'' = Num 0"
  by (simp add: parse_float_def parse_unsigned_def scale10_def digits_value_def
      exponent_part_def digit_of_def is_js_space_def)

lemmas js_arith_defs [model_simps] =
  js_sub_def js_gt_def js_ge_def inf_of_sign_def js_or_def js_or_opt_def
lemmas parse_defs [model_simps] =
  parse_float_def parse_unsigned_def exponent_part_def scale10_def digits_value_def
  digit_of_def is_js_space_def

end
