(* ===== verification/JsMap.thy ===== *)
theory JsMap
  imports Prelude
begin

text \<open>
  The JavaScript \<open>Map\<close> the services keep their state in (the monitor's
  \<open>positionSnapshots\<close>, the position indexes of \<open>comparePositions\<close>, the e-mail
  service's \<open>emailQueue\<close>). A \<open>Map\<close> iterates in insertion order, and \<open>set\<close> on a
  key already present replaces the value in place. It is modelled as an association
  list whose keys are distinct; \<open>map_of\<close> is its abstraction to a HOL map, and each
  operation is shown to refine the corresponding map operation.
\<close>

type_synonym ('k, 'v) jsmap = "('k \<times> 'v) list"

definition jsmap_wf :: "('k, 'v) jsmap \<Rightarrow> bool" where
  "jsmap_wf m = distinct (map fst m)"

text \<open>\<open>m.set(k, v)\<close>.\<close>

fun jsmap_set :: "('k, 'v) jsmap \<Rightarrow> 'k \<Rightarrow> 'v \<Rightarrow> ('k, 'v) jsmap" where
  "jsmap_set [] k v = [(k, v)]"
| "jsmap_set ((k', v') # m) k v =
     (if k' = k then (k, v) # m else (k', v') # jsmap_set m k v)"

text \<open>\<open>m.get(k)\<close> (\<open>undefined\<close> is \<open>None\<close>), \<open>m.has(k)\<close>, \<open>m.size\<close>, \<open>m.delete(k)\<close>.\<close>

definition jsmap_get :: "('k, 'v) jsmap \<Rightarrow> 'k \<Rightarrow> 'v option" where
  "jsmap_get m k = map_of m k"

definition jsmap_has :: "('k, 'v) jsmap \<Rightarrow> 'k \<Rightarrow> bool" where
  "jsmap_has m k = list_ex (\<lambda>(k', _). k' = k) m"

definition jsmap_size :: "('k, 'v) jsmap \<Rightarrow> nat" where
  "jsmap_size m = length m"

definition jsmap_delete :: "('k, 'v) jsmap \<Rightarrow> 'k \<Rightarrow> ('k, 'v) jsmap" where
  "jsmap_delete m k = filter (\<lambda>(k', _). k' \<noteq> k) m"

text \<open>\<open>new Map()\<close> filled by \<open>xs.forEach(x => m.set(key(x), x))\<close>.\<close>

definition jsmap_index :: "('v \<Rightarrow> 'k) \<Rightarrow> 'v list \<Rightarrow> ('k, 'v) jsmap" where
  "jsmap_index key xs = foldl (\<lambda>m x. jsmap_set m (key x) x) [] xs"

lemmas jsmap_defs [model_simps] = jsmap_get_def jsmap_has_def jsmap_size_def
  jsmap_delete_def jsmap_index_def

section \<open>Characteristic facts\<close>

lemma jsmap_has_iff [simp]: "jsmap_has m k \<longleftrightarrow> k \<in> fst ` set m"
  by (induction m) (auto simp: jsmap_has_def)

lemma jsmap_has_get: "jsmap_has m k \<longleftrightarrow> jsmap_get m k \<noteq> None"
  by (simp add: jsmap_get_def domIff flip: dom_map_of_conv_image_fst)

lemma map_fst_jsmap_set:
  "map fst (jsmap_set m k v) = (if k \<in> fst ` set m then map fst m else map fst m @ [k])"
  by (induction m) auto

lemma keys_jsmap_set [simp]: "fst ` set (jsmap_set m k v) = insert k (fst ` set m)"
  using map_fst_jsmap_set [of m k v]
  by (metis insert_absorb list.set(1,2) set_append set_map Un_insert_right sup_bot.right_neutral)

lemma map_fst_jsmap_set_present:
  "k \<in> fst ` set m \<Longrightarrow> map fst (jsmap_set m k v) = map fst m"
  by (simp add: map_fst_jsmap_set)

lemma map_fst_jsmap_set_absent:
  "k \<notin> fst ` set m \<Longrightarrow> map fst (jsmap_set m k v) = map fst m @ [k]"
  by (simp add: map_fst_jsmap_set)

lemma jsmap_set_set [simp]: "jsmap_set (jsmap_set m k v) k v' = jsmap_set m k v'"
  by (induction m) auto

lemma jsmap_wf_set [intro]: "jsmap_wf m \<Longrightarrow> jsmap_wf (jsmap_set m k v)"
  by (cases "k \<in> fst ` set m")
    (simp_all add: jsmap_wf_def map_fst_jsmap_set_present map_fst_jsmap_set_absent)

lemma jsmap_wf_delete [intro]: "jsmap_wf m \<Longrightarrow> jsmap_wf (jsmap_delete m k)"
  by (simp add: jsmap_wf_def jsmap_delete_def distinct_map_fst_filter)

lemma jsmap_wf_index [intro]: "jsmap_wf (jsmap_index key xs)"
proof -
  have "jsmap_wf m \<Longrightarrow> jsmap_wf (foldl (\<lambda>m x. jsmap_set m (key x) x) m xs)" for m
    by (induction xs arbitrary: m) auto
  then show ?thesis by (simp add: jsmap_index_def jsmap_wf_def)
qed

section \<open>Refinement of HOL maps\<close>

lemma map_of_jsmap_set [simp]: "map_of (jsmap_set m k v) = (map_of m)(k \<mapsto> v)"
  by (induction m) (auto simp: fun_upd_twist)

lemma jsmap_get_set [simp]:
  "jsmap_get (jsmap_set m k v) k' = (if k' = k then Some v else jsmap_get m k')"
  by (simp add: jsmap_get_def)

lemma map_of_jsmap_delete [simp]: "map_of (jsmap_delete m k) = (map_of m)(k := None)"
  by (induction m) (auto simp: jsmap_delete_def)

lemma jsmap_get_wf_member:
  "jsmap_wf m \<Longrightarrow> (k, v) \<in> set m \<Longrightarrow> jsmap_get m k = Some v"
  by (simp add: jsmap_wf_def jsmap_get_def)

lemma jsmap_size_set:
  "jsmap_size (jsmap_set m k v) = (if jsmap_has m k then jsmap_size m else Suc (jsmap_size m))"
  using arg_cong [OF map_fst_jsmap_set [of m k v], of length]
  by (simp add: jsmap_size_def split: if_splits)

lemma jsmap_size_card: "jsmap_wf m \<Longrightarrow> jsmap_size m = card (dom (map_of m))"
  using distinct_card [of "map fst m"]
  by (simp add: jsmap_wf_def jsmap_size_def dom_map_of_conv_image_fst)

lemma map_of_foldl_set:
  "map_of (foldl (\<lambda>m x. jsmap_set m (key x) x) m xs) k =
     (case filter (\<lambda>x. key x = k) (rev xs) of [] \<Rightarrow> map_of m k | x # _ \<Rightarrow> Some x)"
  by (induction xs arbitrary: m) (auto split: list.splits)

text \<open>The position index built by forEach(pos => map.set(id(pos), pos)) maps each identity to the last position with that identity, and nothing else.\<close>

theorem jsmap_get_index:
  "jsmap_get (jsmap_index key xs) k =
     (case filter (\<lambda>x. key x = k) (rev xs) of [] \<Rightarrow> None | x # _ \<Rightarrow> Some x)"
  by (simp add: jsmap_index_def jsmap_get_def map_of_foldl_set split: list.split)

lemma keys_jsmap_index [simp]: "fst ` set (jsmap_index key xs) = key ` set xs"
proof -
  have "fst ` set (foldl (\<lambda>m x. jsmap_set m (key x) x) m xs) = fst ` set m \<union> key ` set xs" for m
    by (induction xs arbitrary: m) auto
  then show ?thesis by (simp add: jsmap_index_def)
qed

lemma set_jsmap_set_subset: "set (jsmap_set m k v) \<subseteq> insert (k, v) (set m)"
  by (induction m) (auto split: if_splits)

lemma jsmap_index_values: "(k, v) \<in> set (jsmap_index key xs) \<Longrightarrow> v \<in> set xs \<and> key v = k"
proof -
  have "set (foldl (\<lambda>m x. jsmap_set m (key x) x) m xs) \<subseteq> set m \<union> {(key x, x) | x. x \<in> set xs}" for m
  proof (induction xs arbitrary: m)
    case Nil then show ?case by simp
  next
    case (Cons x xs)
    from Cons.IH [of "jsmap_set m (key x) x"] set_jsmap_set_subset [of m "key x" x]
    show ?case by auto
  qed
  then show "(k, v) \<in> set (jsmap_index key xs) \<Longrightarrow> v \<in> set xs \<and> key v = k"
    by (fastforce simp: jsmap_index_def)
qed

lemma jsmap_set_member:
  assumes "jsmap_wf m" and "(k, v) \<in> set (jsmap_set m c x)"
  shows "(k = c \<and> v = x) \<or> (k \<noteq> c \<and> (k, v) \<in> set m)"
proof (cases "k = c")
  case True
  have "jsmap_get (jsmap_set m c x) k = Some v"
    using jsmap_get_wf_member [OF jsmap_wf_set [OF assms(1)] assms(2)] .
  with True show ?thesis by simp
next
  case False
  with assms(2) set_jsmap_set_subset [of m c x] show ?thesis by auto
qed

end
