(* ===== verification/Positions.thy ===== *)
theory Positions
  imports JsRuntime JsMap
begin

text \<open>
  The diff engine of \<open>src/src/services/monitor.service.ts\<close>: the position record
  of \<open>src/src/types/index.ts\<close>, the identity of a position across polls
  (\<open>posId || subPosId || instId_posSide\<close>), \<open>comparePositions\<close> and
  \<open>checkPositionChanges\<close>. Their effects (a notification through the e-mail service,
  a log line) are returned as a list of actions in the order the code performs them;
  the e-mail theory gives the notification actions their effect.
\<close>

section \<open>Data\<close>

text \<open>
  \<open>LeadPosition\<close>, restricted to the fields the monitor and the e-mail templates
  read. All are the JSON strings of the OKX response; \<open>posId\<close>, \<open>pos\<close>, \<open>avgPx\<close>
  and \<open>notionalUsd\<close> are the optional compatibility fields, \<open>subPosId\<close> and
  \<open>subPos\<close> the fields the public endpoint fills.
\<close>

record LeadPosition =
  instId :: string
  subPosId :: string
  posId :: "string option"
  posSide :: string
  subPos :: string
  pos :: "string option"
  avgPx :: "string option"
  markPx :: string
  upl :: string
  uplRatio :: string
  lever :: string
  notionalUsd :: "string option"

datatype change_action =
    NewPosition string LeadPosition
  | ClosedPosition string LeadPosition
  | SizeChange LeadPosition jsnum
  | PnlChange LeadPosition jsnum

section \<open>Operations\<close>

definition pos_id_of :: "LeadPosition \<Rightarrow> string" where
  "pos_id_of p = js_or_opt (posId p) (js_or (subPosId p) (instId p @ ''_'' @ posSide p))"

definition check_position_changes :: "LeadPosition \<Rightarrow> LeadPosition \<Rightarrow> change_action list" where
  "check_position_changes previousPos currentPos =
     (let previousSize = parse_float (js_or_opt (pos previousPos) ''0'');
          currentSize = parse_float (js_or_opt (pos currentPos) ''0'');
          previousUpl = parse_float (js_or (upl previousPos) ''0'');
          currentUpl = parse_float (js_or (upl currentPos) ''0'');
          sizeChangeRatio = js_div (js_abs (js_sub currentSize previousSize)) previousSize;
          uplChange = js_abs (js_sub currentUpl previousUpl)
      in (if js_gt sizeChangeRatio (Num (1 / 10)) then [SizeChange currentPos sizeChangeRatio] else [])
         @ (if js_gt uplChange (Num 100) then [PnlChange currentPos uplChange] else []))"

definition compare_positions :: "LeadPosition list \<Rightarrow> LeadPosition list \<Rightarrow> change_action list" where
  "compare_positions previousPositions currentPositions =
     (let previousMap = jsmap_index pos_id_of previousPositions;
          currentMap = jsmap_index pos_id_of currentPositions
      in map (\<lambda>(k, p). NewPosition k p) (filter (\<lambda>(k, _). \<not> jsmap_has previousMap k) currentMap)
         @ map (\<lambda>(k, p). ClosedPosition k p) (filter (\<lambda>(k, _). \<not> jsmap_has currentMap k) previousMap)
         @ concat (map (\<lambda>(k, p). case jsmap_get previousMap k of
                                    None \<Rightarrow> []
                                  | Some q \<Rightarrow> check_position_changes q p) currentMap))"

text \<open>Reading an action list: the keys reported opened and closed, and the size and PnL log lines.\<close>

fun opened_key :: "change_action \<Rightarrow> string list" where
  "opened_key (NewPosition k _) = [k]"
| "opened_key _ = []"

fun closed_key :: "change_action \<Rightarrow> string list" where
  "closed_key (ClosedPosition k _) = [k]"
| "closed_key _ = []"

definition opened_ids :: "change_action list \<Rightarrow> string list" where
  "opened_ids acts = concat (map opened_key acts)"

definition closed_ids :: "change_action list \<Rightarrow> string list" where
  "closed_ids acts = concat (map closed_key acts)"

fun is_size_change :: "change_action \<Rightarrow> bool" where
  "is_size_change (SizeChange _ _) = True"
| "is_size_change _ = False"

fun is_pnl_change :: "change_action \<Rightarrow> bool" where
  "is_pnl_change (PnlChange _ _) = True"
| "is_pnl_change _ = False"

lemmas positions_defs [model_simps] = pos_id_of_def check_position_changes_def
  compare_positions_def opened_ids_def closed_ids_def

section \<open>Reading the action list\<close>

lemma opened_ids_simps [simp]:
  "opened_ids [] = []"
  "opened_ids (a # xs) = opened_key a @ opened_ids xs"
  "opened_ids (xs @ ys) = opened_ids xs @ opened_ids ys"
  by (simp_all add: opened_ids_def)

lemma closed_ids_simps [simp]:
  "closed_ids [] = []"
  "closed_ids (a # xs) = closed_key a @ closed_ids xs"
  "closed_ids (xs @ ys) = closed_ids xs @ closed_ids ys"
  by (simp_all add: closed_ids_def)

lemma ids_concat [simp]:
  "opened_ids (concat xss) = concat (map opened_ids xss)"
  "closed_ids (concat xss) = concat (map closed_ids xss)"
  by (induction xss) simp_all

lemma ids_map_new [simp]:
  "opened_ids (map (\<lambda>(k, p). NewPosition k p) m) = map fst m"
  "closed_ids (map (\<lambda>(k, p). NewPosition k p) m) = []"
  by (induction m) auto

lemma ids_map_closed [simp]:
  "opened_ids (map (\<lambda>(k, p). ClosedPosition k p) m) = []"
  "closed_ids (map (\<lambda>(k, p). ClosedPosition k p) m) = map fst m"
  by (induction m) auto

section \<open>checkPositionChanges\<close>

lemma check_position_changes_kinds:
  "a \<in> set (check_position_changes q p) \<Longrightarrow> is_size_change a \<or> is_pnl_change a"
  by (auto simp: check_position_changes_def Let_def split: if_splits)

lemma ids_check [simp]:
  "opened_ids (check_position_changes q p) = []"
  "closed_ids (check_position_changes q p) = []"
  by (simp_all add: check_position_changes_def Let_def)

lemma ids_check_opt [simp]:
  "opened_ids (case r of None \<Rightarrow> [] | Some q \<Rightarrow> check_position_changes q p) = []"
  "closed_ids (case r of None \<Rightarrow> [] | Some q \<Rightarrow> check_position_changes q p) = []"
  by (simp_all split: option.split)

lemma check_position_changes_self [simp]: "check_position_changes p p = []"
  by (simp add: check_position_changes_def Let_def not_gt_abs_sub_self not_gt_ratio_self)

text \<open>The two checks are independent: the size line depends on the sizes only, the PnL line on the PnL only.\<close>

lemma size_change_in_check:
  "(\<exists>r. SizeChange q r \<in> set (check_position_changes p q)) \<longleftrightarrow>
   js_gt (js_div (js_abs (js_sub (parse_float (js_or_opt (pos q) ''0'')) (parse_float (js_or_opt (pos p) ''0''))))
                 (parse_float (js_or_opt (pos p) ''0''))) (Num (1 / 10))"
  by (auto simp: check_position_changes_def Let_def)

lemma pnl_change_in_check:
  "(\<exists>r. PnlChange q r \<in> set (check_position_changes p q)) \<longleftrightarrow>
   js_gt (js_abs (js_sub (parse_float (js_or (upl q) ''0'')) (parse_float (js_or (upl p) ''0'')))) (Num 100)"
  by (auto simp: check_position_changes_def Let_def)

section \<open>comparePositions\<close>

lemma opened_ids_compare:
  "opened_ids (compare_positions prev cur) =
     map fst (filter (\<lambda>(k, _). k \<notin> pos_id_of ` set prev) (jsmap_index pos_id_of cur))"
  by (simp add: compare_positions_def Let_def split: prod.split)

lemma closed_ids_compare:
  "closed_ids (compare_positions prev cur) =
     map fst (filter (\<lambda>(k, _). k \<notin> pos_id_of ` set cur) (jsmap_index pos_id_of prev))"
  by (simp add: compare_positions_def Let_def split: prod.split)

lemma distinct_keys_index: "distinct (map fst (jsmap_index key xs))"
  using jsmap_wf_index by (simp add: jsmap_wf_def)

text \<open>C4: An identity present at the previous poll and absent now is reported closed exactly once by comparePositions; any other identity is never reported closed.\<close>

theorem count_closed:
  "count_list (closed_ids (compare_positions prev cur)) k =
     (if k \<in> pos_id_of ` set prev \<and> k \<notin> pos_id_of ` set cur then 1 else 0)"
  by (simp add: closed_ids_compare count_keys_filter distinct_keys_index)

text \<open>C5: An identity present now and absent at the previous poll is reported as a new position exactly once; any other identity never.\<close>

theorem count_opened:
  "count_list (opened_ids (compare_positions prev cur)) k =
     (if k \<in> pos_id_of ` set cur \<and> k \<notin> pos_id_of ` set prev then 1 else 0)"
  by (simp add: opened_ids_compare count_keys_filter distinct_keys_index)

text \<open>C3: comparePositions of a position list with itself performs no notification and logs no size or PnL change.\<close>

theorem compare_positions_self: "compare_positions ps ps = []"
proof -
  let ?m = "jsmap_index pos_id_of ps"
  have wf: "jsmap_wf ?m" by blast
  have "(case jsmap_get ?m k of None \<Rightarrow> [] | Some q \<Rightarrow> check_position_changes q p) = []"
    if "(k, p) \<in> set ?m" for k p
    using jsmap_get_wf_member [OF wf that] by simp
  moreover have "filter (\<lambda>(k, _). k \<notin> pos_id_of ` set ps) ?m = []"
    by (rule filter_empty_if_none) (auto dest: jsmap_index_values)
  ultimately show ?thesis
    by (simp add: compare_positions_def Let_def split_def)
qed

section \<open>The size rule\<close>

text \<open>C6: checkPositionChanges never logs a size change for a short position (a negative previous size, since the code divides by the signed previous size) nor when the compatibility field pos is absent on both polls (the public endpoint fills subPos instead), whatever the sizes do. Both hold in binary64 as well: the quotient's sign and NaN do not depend on rounding.\<close>

theorem size_change_never_short_or_subPos:
  "(parse_float (js_or_opt (pos p) ''0'') = Num a \<and> parse_float (js_or_opt (pos q) ''0'') = Num b \<and> a < 0) \<or>
   (pos p = None \<and> pos q = None) \<Longrightarrow>
   \<not> (\<exists>r. SizeChange q r \<in> set (check_position_changes p q))"
proof (elim disjE conjE)
  assume pa: "parse_float (js_or_opt (pos p) ''0'') = Num a" and pb: "parse_float (js_or_opt (pos q) ''0'') = Num b"
    and neg: "a < 0"
  have "\<bar>b - a\<bar> / a \<le> 0" using neg by (simp add: divide_nonneg_neg)
  then have "\<not> (1 / 10 < \<bar>b - a\<bar> / a)" by linarith
  then have "\<not> js_gt (Num (\<bar>b - a\<bar> / a)) (Num (1 / 10))" by (simp add: js_gt_def)
  with pa pb neg show ?thesis by (simp only: size_change_in_check) simp
next
  assume "pos p = None" and "pos q = None"
  then show ?thesis by (simp add: size_change_in_check js_or_opt_def js_gt_def)
qed

end
