(* ===== verification/Email.thy ===== *)
theory Email
  imports Positions
begin

text \<open>
  The notifier of \<open>src/src/services/email.service.ts\<close>: the subscribers of a trader
  (\<open>getTraderSubscribers\<close>), the per-recipient rate limit (\<open>canSendEmail\<close> over the
  \<open>emailQueue\<close> ledger), \<open>sendEmail\<close> and the two notifications the monitor calls
  (\<open>notifyNewPosition\<close>, \<open>notifyClosePosition\<close>). The SMTP transport, the
  \<open>email_logs\<close> insert and the subscriptions query are collaborators: their outcomes
  are fields of an environment record. The rendered subject and HTML are kept
  symbolic (which template, for which trader and position).
\<close>

section \<open>Data\<close>

text \<open>A row of \<open>email_subscriptions\<close> with its \<open>alert_types\<close> JSON already parsed.\<close>

record EmailSubscription =
  email :: email_addr
  unique_code :: entity_key
  alertTypes :: "string list"
  is_active :: bool

text \<open>
  The three alert kinds and their display names in the confirmation mail
  (\<open>alertTypeNames\<close> of \<open>sendSubscriptionConfirmationEmail\<close>); a type outside
  the table reads \<open>undefined\<close>, which \<open>join\<close> prints as the empty string.
\<close>

datatype alert_name = NewPositionNotice | ClosePositionNotice | ProfitLossNotice

definition alert_type_name :: "string \<Rightarrow> alert_name option" where
  "alert_type_name t =
     (if t = ''new_position'' then Some NewPositionNotice
      else if t = ''close_position'' then Some ClosePositionNotice
      else if t = ''profit_loss'' then Some ProfitLossNotice
      else None)"

text \<open>
  The messages the service renders, by template: the two position templates, the
  subscription confirmation (trader code, the selected alert names, the subscriber's
  address) and the development test mail of \<open>POST /api/test-email\<close>.
\<close>

datatype message =
    NewPositionMail string LeadPosition
  | ClosePositionMail string LeadPosition
  | ConfirmationMail entity_key "alert_name option list" email_addr
  | TestMail

record EmailNotification =
  to :: email_addr
  msg :: message
  notification_type :: string

text \<open>
  The service's state: the ledger \<open>emailQueue\<close> (recipient to the time of the last
  successful send), the messages handed to \<open>transporter.sendMail\<close> with the time of
  the hand-over, and the rows written to \<open>email_logs\<close> (recipient and type).
\<close>

record email_state =
  emailQueue :: "(email_addr, ms) jsmap"
  outbox :: "(ms \<times> EmailNotification) list"
  email_logs :: "(email_addr \<times> string) list"

record email_env =
  transporterConfigured :: bool
  rateLimit :: jsnum
  sendMailOk :: "EmailNotification \<Rightarrow> bool"
  logInsertOk :: bool
  subscriptionsTable :: "EmailSubscription list option"

definition email_init :: email_state where
  "email_init = \<lparr>emailQueue = [], outbox = [], email_logs = []\<rparr>"

section \<open>Operations\<close>

definition get_trader_subscribers :: "email_env \<Rightarrow> entity_key \<Rightarrow> EmailSubscription list option" where
  "get_trader_subscribers env uniqueCode =
     map_option (filter (\<lambda>s. unique_code s = uniqueCode \<and> is_active s)) (subscriptionsTable env)"

definition min_interval :: "email_env \<Rightarrow> jsnum" where
  "min_interval env = js_mul (js_div (Num 60) (rateLimit env)) (Num 1000)"

definition can_send_email :: "email_env \<Rightarrow> email_state \<Rightarrow> ms \<Rightarrow> email_addr \<Rightarrow> bool" where
  "can_send_email env st now e =
     (case jsmap_get (emailQueue st) e of
        None \<Rightarrow> True
      | Some lastSent \<Rightarrow> js_ge (Num (of_int (now - lastSent))) (min_interval env))"

definition send_email :: "email_env \<Rightarrow> ms \<Rightarrow> EmailNotification \<Rightarrow> email_state \<Rightarrow> bool \<times> email_state" where
  "send_email env now n st =
     (if \<not> transporterConfigured env then (False, st)
      else if \<not> can_send_email env st now (to n) then (False, st)
      else if \<not> sendMailOk env n then (False, st)
      else
        (let st' = st\<lparr>outbox := outbox st @ [(now, n)],
                      emailQueue := jsmap_set (emailQueue st) (to n) now\<rparr>
         in if \<not> logInsertOk env then (False, st')
            else (True, st'\<lparr>email_logs := email_logs st' @ [(to n, notification_type n)]\<rparr>)))"

fun send_to_subscribers ::
  "email_env \<Rightarrow> ms \<Rightarrow> string \<Rightarrow> message \<Rightarrow> EmailSubscription list \<Rightarrow> email_state \<Rightarrow> email_state" where
  "send_to_subscribers env now ty m [] st = st"
| "send_to_subscribers env now ty m (s # ss) st =
     send_to_subscribers env now ty m ss
       (if ty \<in> set (alertTypes s)
        then snd (send_email env now \<lparr>to = email s, msg = m, notification_type = ty\<rparr> st)
        else st)"

definition notify_new_position ::
  "email_env \<Rightarrow> ms \<Rightarrow> entity_key \<Rightarrow> string \<Rightarrow> LeadPosition \<Rightarrow> email_state \<Rightarrow> email_state" where
  "notify_new_position env now uniqueCode traderName position st =
     (case get_trader_subscribers env uniqueCode of
        None \<Rightarrow> st
      | Some subscribers \<Rightarrow>
          send_to_subscribers env now ''new_position'' (NewPositionMail traderName position) subscribers st)"

definition notify_close_position ::
  "email_env \<Rightarrow> ms \<Rightarrow> entity_key \<Rightarrow> string \<Rightarrow> LeadPosition \<Rightarrow> email_state \<Rightarrow> email_state" where
  "notify_close_position env now uniqueCode traderName position st =
     (case get_trader_subscribers env uniqueCode of
        None \<Rightarrow> st
      | Some subscribers \<Rightarrow>
          send_to_subscribers env now ''close_position'' (ClosePositionMail traderName position) subscribers st)"

text \<open>A sequence of \<open>sendEmail\<close> calls, each at its own time: the harness of the rate-limit properties.\<close>

fun send_run :: "email_env \<Rightarrow> (ms \<times> EmailNotification) list \<Rightarrow> email_state \<Rightarrow> email_state" where
  "send_run env [] st = st"
| "send_run env ((t, n) # rest) st = send_run env rest (snd (send_email env t n st))"

text \<open>Reading the outbox: the time of the last delivery to a recipient, and the spacing of deliveries.\<close>

definition last_time :: "email_addr \<Rightarrow> (ms \<times> EmailNotification) list \<Rightarrow> ms option" where
  "last_time e xs = (case rev (filter (\<lambda>(t, n). to n = e) xs) of [] \<Rightarrow> None | (t, _) # _ \<Rightarrow> Some t)"

fun spaced :: "rat \<Rightarrow> (ms \<times> EmailNotification) list \<Rightarrow> bool" where
  "spaced mi [] = True"
| "spaced mi ((t, n) # xs) =
     ((\<forall>(t', n') \<in> set xs. to n' = to n \<longrightarrow> mi \<le> of_int (t' - t)) \<and> spaced mi xs)"

definition ledger_inv :: "email_state \<Rightarrow> bool" where
  "ledger_inv st = (sorted (map fst (outbox st)) \<and>
                    (\<forall>e. jsmap_get (emailQueue st) e = last_time e (outbox st)))"

lemmas email_defs [model_simps] = email_init_def get_trader_subscribers_def min_interval_def
  can_send_email_def send_email_def notify_new_position_def notify_close_position_def

section \<open>The rate limit\<close>

lemma min_interval_Num:
  "0 < r \<Longrightarrow> rateLimit env = Num r \<Longrightarrow> min_interval env = Num (60 / r * 1000)"
  by (simp add: min_interval_def)

theorem can_send_email_rate:
  assumes "rateLimit env = Num r" and "0 < r"
    and "jsmap_get (emailQueue st) e = Some lastSent"
  shows "can_send_email env st now e \<longleftrightarrow> 60 / r * 1000 \<le> of_int (now - lastSent)"
  using assms by (simp add: can_send_email_def min_interval_Num)

lemma can_send_email_fresh [simp]:
  "jsmap_get (emailQueue st) e = None \<Longrightarrow> can_send_email env st now e"
  by (simp add: can_send_email_def)

section \<open>sendEmail\<close>

lemma send_email_cases:
  "send_email env now n st = (False, st) \<or>
   (snd (send_email env now n st) = st\<lparr>outbox := outbox st @ [(now, n)],
                          emailQueue := jsmap_set (emailQueue st) (to n) now,
                          email_logs := email_logs st @ (if logInsertOk env then [(to n, notification_type n)] else [])\<rparr>
    \<and> transporterConfigured env \<and> can_send_email env st now (to n) \<and> sendMailOk env n)"
  by (auto simp: send_email_def Let_def)

lemma send_email_delivers:
  "transporterConfigured env \<Longrightarrow> can_send_email env st now (to n) \<Longrightarrow> sendMailOk env n \<Longrightarrow>
   jsmap_get (emailQueue (snd (send_email env now n st))) (to n) = Some now"
  by (simp add: send_email_def Let_def)

text \<open>sendEmail to one recipient leaves the rate-limit ledger entry of every other recipient unchanged.\<close>

theorem send_email_other_recipient:
  "e \<noteq> to n \<Longrightarrow>
   jsmap_get (emailQueue (snd (send_email env now n st))) e = jsmap_get (emailQueue st) e"
  using send_email_cases [of env now n st] by auto

text \<open>C17: When the transport rejects a message, sendEmail returns false and changes neither the ledger, the outbox nor the log.\<close>

theorem send_email_transport_failure:
  "\<not> sendMailOk env n \<Longrightarrow> send_email env now n st = (False, st)"
  by (simp add: send_email_def)

lemma outbox_send_email:
  "outbox (snd (send_email env now n st)) = outbox st \<or>
   (outbox (snd (send_email env now n st)) = outbox st @ [(now, n)] \<and> can_send_email env st now (to n))"
  using send_email_cases [of env now n st] by auto

section \<open>The ledger invariant and the spacing of deliveries\<close>

lemma last_time_snoc [simp]:
  "last_time e (xs @ [(t, n)]) = (if to n = e then Some t else last_time e xs)"
  by (simp add: last_time_def)

lemma last_time_Nil [simp]: "last_time e [] = None"
  by (simp add: last_time_def)

lemma last_time_bound:
  "sorted (map fst xs) \<Longrightarrow> (t', n') \<in> set xs \<Longrightarrow>
   \<exists>t. last_time (to n') xs = Some t \<and> t' \<le> t"
proof (induction xs rule: rev_induct)
  case Nil then show ?case by simp
next
  case (snoc x xs)
  obtain t n where x: "x = (t, n)" by fastforce
  from snoc.prems(1) have s: "sorted (map fst xs)" and le: "\<forall>u\<in>fst ` set xs. u \<le> t"
    by (auto simp: sorted_append x)
  show ?case
  proof (cases "(t', n') \<in> set xs")
    case True
    with snoc.IH s le show ?thesis by (force simp: x)
  next
    case False
    with snoc.prems(2) show ?thesis by (simp add: x)
  qed
qed

lemma spaced_snoc:
  "spaced mi (xs @ [(t, n)]) \<longleftrightarrow>
   spaced mi xs \<and> (\<forall>(t', n') \<in> set xs. to n' = to n \<longrightarrow> mi \<le> of_int (t - t'))"
  by (induction xs) auto

lemma ledger_inv_init: "ledger_inv email_init"
  by (simp add: ledger_inv_def email_init_def jsmap_get_def)

lemma ledger_inv_send_email:
  assumes "ledger_inv st" and "\<forall>u \<in> fst ` set (outbox st). u \<le> now"
  shows "ledger_inv (snd (send_email env now n st))"
  using send_email_cases [of env now n st] assms
  by (auto simp: ledger_inv_def sorted_append)

lemma spaced_send_email:
  assumes inv: "ledger_inv st" and sp: "spaced (60 / r * 1000) (outbox st)"
    and rate: "rateLimit env = Num r" "0 < r"
  shows "spaced (60 / r * 1000) (outbox (snd (send_email env now n st)))"
proof (cases "outbox (snd (send_email env now n st)) = outbox st")
  case True with sp show ?thesis by simp
next
  case False
  with outbox_send_email [of env now n st]
  have out: "outbox (snd (send_email env now n st)) = outbox st @ [(now, n)]"
    and can: "can_send_email env st now (to n)" by auto
  have "60 / r * 1000 \<le> of_int (now - t')" if "(t', n') \<in> set (outbox st)" "to n' = to n" for t' n'
  proof -
    from inv have s: "sorted (map fst (outbox st))"
      and q: "jsmap_get (emailQueue st) (to n) = last_time (to n) (outbox st)"
      by (auto simp: ledger_inv_def)
    from last_time_bound [OF s that(1)] that(2) obtain t where
      lt: "last_time (to n) (outbox st) = Some t" and "t' \<le> t" by auto
    with can q rate have "60 / r * 1000 \<le> of_int (now - t)"
      using can_send_email_rate [OF rate, of st "to n" t now] by simp
    with \<open>t' \<le> t\<close> show ?thesis by linarith
  qed
  with sp out show ?thesis by (auto simp: spaced_snoc)
qed

lemma outbox_times_send_email:
  "fst ` set (outbox (snd (send_email env now n st))) \<subseteq> insert now (fst ` set (outbox st))"
  using outbox_send_email [of env now n st] by auto

lemma outbox_times_send_run:
  "fst ` set (outbox (send_run env run st)) \<subseteq> fst ` set (outbox st) \<union> fst ` set run"
proof (induction run arbitrary: st)
  case Nil then show ?case by simp
next
  case (Cons x run)
  obtain t n where x: "x = (t, n)" by fastforce
  from Cons.IH [of "snd (send_email env t n st)"] outbox_times_send_email [of env t n st]
  show ?case by (auto simp: x)
qed

lemma send_run_invariant:
  assumes "ledger_inv st" and "spaced (60 / r * 1000) (outbox st)"
    and "rateLimit env = Num r" "0 < r"
    and "sorted (map fst run)"
    and "\<forall>u \<in> fst ` set (outbox st). \<forall>t \<in> fst ` set run. u \<le> t"
  shows "ledger_inv (send_run env run st) \<and> spaced (60 / r * 1000) (outbox (send_run env run st))"
  using assms
proof (induction run arbitrary: st)
  case Nil then show ?case by simp
next
  case (Cons x run)
  obtain t n where x: "x = (t, n)" by fastforce
  let ?st = "snd (send_email env t n st)"
  from Cons.prems(1,6) have "ledger_inv ?st"
    by (intro ledger_inv_send_email) (auto simp: x)
  moreover from Cons.prems(1-4) have "spaced (60 / r * 1000) (outbox ?st)"
    by (rule spaced_send_email)
  moreover from Cons.prems(5,6) outbox_times_send_email [of env t n st]
  have "\<forall>u \<in> fst ` set (outbox ?st). \<forall>t' \<in> fst ` set run. u \<le> t'"
    by (fastforce simp: x)
  moreover from Cons.prems(5) have "sorted (map fst run)" by simp
  ultimately show ?case using Cons.IH [of ?st] Cons.prems(3,4) by (simp add: x)
qed

lemma spaced_window:
  assumes "spaced mi xs"
    and "\<forall>(t, n) \<in> set xs. to n = e \<longrightarrow> tstart \<le> t \<and> t \<le> tstart + d"
    and "of_int d < mi"
  shows "length (filter (\<lambda>(t, n). to n = e) xs) \<le> 1"
  using assms
proof (induction xs)
  case Nil then show ?case by simp
next
  case (Cons x xs)
  obtain t n where x: "x = (t, n)" by fastforce
  show ?case
  proof (cases "to n = e")
    case True
    have none: "to n' \<noteq> e" if mem: "(t', n') \<in> set xs" for t' n'
    proof
      assume e': "to n' = e"
      from Cons.prems(1) mem e' True have "mi \<le> of_int (t' - t)" by (auto simp: x)
      moreover from Cons.prems(2) mem e' True have "t' - t \<le> d" by (fastforce simp: x)
      ultimately show False using Cons.prems(3) by linarith
    qed
    have "filter (\<lambda>(t, n). to n = e) xs = []"
      by (auto simp: filter_empty_conv dest: none)
    then show ?thesis by (simp add: x)
  next
    case False
    with Cons show ?thesis by (simp add: x)
  qed
qed

text \<open>C7: For any sequence of sendEmail calls with a forward-running clock and rateLimit r > 0, any two messages delivered to the same recipient are at least 60/r seconds apart.\<close>

theorem deliveries_spaced:
  assumes "rateLimit env = Num r" and "0 < r" and "sorted (map fst run)"
  shows "spaced (60 / r * 1000) (outbox (send_run env run email_init))"
proof -
  have "ledger_inv email_init" by (rule ledger_inv_init)
  moreover have "spaced (60 / r * 1000) (outbox email_init)" by (simp add: email_init_def)
  ultimately show ?thesis
    using send_run_invariant [OF _ _ assms(1,2,3)] by (simp add: email_init_def)
qed

text \<open>C8: Within any time window shorter than 60/rateLimit seconds, at most one message per recipient is delivered, however many sends are attempted (with the default 5, six alerts within a second give one mail, not five).\<close>

theorem burst_delivers_at_most_one:
  assumes "rateLimit env = Num r" and "0 < r" and "sorted (map fst run)"
    and "\<forall>t \<in> fst ` set run. tstart \<le> t \<and> t \<le> tstart + d"
    and "of_int d < 60 / r * 1000"
  shows "length (filter (\<lambda>(t, n). to n = e) (outbox (send_run env run email_init))) \<le> 1"
proof -
  have sp: "spaced (60 / r * 1000) (outbox (send_run env run email_init))"
  proof -
    have "ledger_inv email_init" by (rule ledger_inv_init)
    moreover have "spaced (60 / r * 1000) (outbox email_init)" by (simp add: email_init_def)
    ultimately show ?thesis
      using send_run_invariant [OF _ _ assms(1,2,3)] by (simp add: email_init_def)
  qed
  have "fst ` set (outbox (send_run env run email_init)) \<subseteq> fst ` set run"
    using outbox_times_send_run [of env run email_init] by (simp add: email_init_def)
  with assms(4) have "\<forall>(t, n) \<in> set (outbox (send_run env run email_init)). to n = e \<longrightarrow> tstart \<le> t \<and> t \<le> tstart + d"
    by fastforce
  then show ?thesis by (rule spaced_window [OF sp _ assms(5)])
qed

end
