(* ===== verification/Monitor.thy ===== *)
theory Monitor
  imports Email
begin

text \<open>
  The monitor loop of \<open>src/src/services/monitor.service.ts\<close>: the snapshot store
  \<open>positionSnapshots\<close>, the timer handle \<open>monitoringInterval\<close>, and the
  operations \<open>start\<close>, \<open>stop\<close>, \<open>checkAllSubscriptions\<close>,
  \<open>checkTraderPositions\<close>, the notification half of \<open>comparePositions\<close>,
  \<open>checkTrader\<close> and \<open>getStatus\<close>. The e-mail service is a singleton the monitor
  calls, so its state is a field of the monitor's state. The position source
  (\<open>okxApi.getCurrentLeadPositions\<close>) is a function from entity key to an error or
  a position list; a cycle runs at one instant \<open>now\<close>.
\<close>

section \<open>State\<close>

type_synonym position_source = "entity_key \<Rightarrow> string + LeadPosition list"

record PositionSnapshot =
  snap_uniqueCode :: entity_key
  positions :: "LeadPosition list"
  timestamp :: ms

record monitor_state =
  positionSnapshots :: "(entity_key, PositionSnapshot) jsmap"
  monitoringInterval :: bool
  mailer :: email_state

definition monitor_init :: monitor_state where
  "monitor_init = \<lparr>positionSnapshots = [], monitoringInterval = False, mailer = email_init\<rparr>"

section \<open>Operations\<close>

definition start :: "monitor_state \<Rightarrow> monitor_state" where
  "start s = (if monitoringInterval s then s else s\<lparr>monitoringInterval := True\<rparr>)"

definition stop :: "monitor_state \<Rightarrow> monitor_state" where
  "stop s = (if monitoringInterval s then s\<lparr>monitoringInterval := False\<rparr> else s)"

text \<open>
  The trader label: the Chinese word for "trader" and a space before the code
  (\<open>`... ${uniqueCode}`\<close>), the prefix written as its UTF-8 bytes.
\<close>

definition trader_label :: "entity_key \<Rightarrow> string" where
  "trader_label c = map char_of [0xE4, 0xBA, 0xA4, 0xE6, 0x98, 0x93, 0xE5, 0x91, 0x98, 0x20 :: nat] @ c"

text \<open>The awaited notifications of \<open>comparePositions\<close>: its log lines have no effect on the state.\<close>

fun perform_action ::
  "email_env \<Rightarrow> ms \<Rightarrow> entity_key \<Rightarrow> string \<Rightarrow> email_state \<Rightarrow> change_action \<Rightarrow> email_state" where
  "perform_action env now code name st (NewPosition k p) = notify_new_position env now code name p st"
| "perform_action env now code name st (ClosedPosition k p) = notify_close_position env now code name p st"
| "perform_action env now code name st (SizeChange p r) = st"
| "perform_action env now code name st (PnlChange p r) = st"

definition compare_and_notify ::
  "email_env \<Rightarrow> ms \<Rightarrow> entity_key \<Rightarrow> string \<Rightarrow> LeadPosition list \<Rightarrow> LeadPosition list \<Rightarrow>
   email_state \<Rightarrow> email_state" where
  "compare_and_notify env now uniqueCode traderName previousPositions currentPositions st =
     foldl (perform_action env now uniqueCode traderName) st
       (compare_positions previousPositions currentPositions)"

definition check_trader_positions ::
  "email_env \<Rightarrow> position_source \<Rightarrow> ms \<Rightarrow> entity_key \<Rightarrow> string \<Rightarrow> monitor_state \<Rightarrow> monitor_state" where
  "check_trader_positions env fetch now uniqueCode traderName s =
     (case fetch uniqueCode of
        Inl err \<Rightarrow> s
      | Inr currentPositions \<Rightarrow>
          (let snap = \<lparr>snap_uniqueCode = uniqueCode, positions = currentPositions, timestamp = now\<rparr>
           in case jsmap_get (positionSnapshots s) uniqueCode of
                None \<Rightarrow> s\<lparr>positionSnapshots := jsmap_set (positionSnapshots s) uniqueCode snap\<rparr>
              | Some previousSnapshot \<Rightarrow>
                  s\<lparr>mailer := compare_and_notify env now uniqueCode traderName
                                (positions previousSnapshot) currentPositions (mailer s),
                    positionSnapshots := jsmap_set (positionSnapshots s) uniqueCode snap\<rparr>))"

text \<open>\<open>SELECT DISTINCT unique_code FROM email_subscriptions WHERE is_active = 1\<close>.\<close>

definition active_codes :: "EmailSubscription list \<Rightarrow> entity_key list" where
  "active_codes rows = remdups (map unique_code (filter is_active rows))"

fun check_traders ::
  "email_env \<Rightarrow> position_source \<Rightarrow> ms \<Rightarrow> entity_key list \<Rightarrow> monitor_state \<Rightarrow> monitor_state" where
  "check_traders env fetch now [] s = s"
| "check_traders env fetch now (c # cs) s =
     check_traders env fetch now cs (check_trader_positions env fetch now c (trader_label c) s)"

definition check_all_subscriptions ::
  "email_env \<Rightarrow> position_source \<Rightarrow> ms \<Rightarrow> monitor_state \<Rightarrow> monitor_state" where
  "check_all_subscriptions env fetch now s =
     (case subscriptionsTable env of
        None \<Rightarrow> s
      | Some rows \<Rightarrow> check_traders env fetch now (active_codes rows) s)"

definition check_trader ::
  "email_env \<Rightarrow> position_source \<Rightarrow> ms \<Rightarrow> entity_key \<Rightarrow> string option \<Rightarrow> monitor_state \<Rightarrow> monitor_state" where
  "check_trader env fetch now uniqueCode traderName s =
     check_trader_positions env fetch now uniqueCode (js_or_opt traderName (trader_label uniqueCode)) s"

definition get_status :: "monitor_state \<Rightarrow> bool \<times> nat \<times> ms option" where
  "get_status s =
     (monitoringInterval s, jsmap_size (positionSnapshots s),
      (case positionSnapshots s of
         [] \<Rightarrow> None
       | (k, sn) # rest \<Rightarrow> Some (fold max (map (timestamp \<circ> snd) rest) (timestamp sn))))"

section \<open>The service as a machine\<close>

text \<open>
  What can happen to the service: \<open>start()\<close>, \<open>stop()\<close>, a timer tick (which runs a
  cycle only while the interval is set), and the manual \<open>checkTrader\<close>.
\<close>

datatype monitor_event =
    Start
  | Stop
  | Tick email_env position_source ms
  | CheckTrader email_env position_source ms entity_key "string option"

fun monitor_step :: "monitor_state \<Rightarrow> monitor_event \<Rightarrow> monitor_state" where
  "monitor_step s Start = start s"
| "monitor_step s Stop = stop s"
| "monitor_step s (Tick env fetch now) =
     (if monitoringInterval s then check_all_subscriptions env fetch now s else s)"
| "monitor_step s (CheckTrader env fetch now c name) = check_trader env fetch now c name s"

definition monitor_run :: "monitor_state \<Rightarrow> monitor_event list \<Rightarrow> monitor_state" where
  "monitor_run s evs = foldl monitor_step s evs"

text \<open>Invariant of the snapshot store: a well-formed map whose entries are filed under their own key.\<close>

definition snapshot_inv :: "monitor_state \<Rightarrow> bool" where
  "snapshot_inv s = (jsmap_wf (positionSnapshots s) \<and>
                     (\<forall>(k, sn) \<in> set (positionSnapshots s). snap_uniqueCode sn = k))"

text \<open>The outbox grows only at its end, by messages whose type is in \<open>T\<close>.\<close>

definition appends_types :: "string set \<Rightarrow> email_state \<Rightarrow> email_state \<Rightarrow> bool" where
  "appends_types T st st' =
     (\<exists>new. outbox st' = outbox st @ new \<and> (\<forall>(t, n) \<in> set new. notification_type n \<in> T))"

lemmas monitor_defs [model_simps] = monitor_init_def start_def stop_def trader_label_def
  compare_and_notify_def check_trader_positions_def active_codes_def check_all_subscriptions_def
  check_trader_def get_status_def monitor_run_def

section \<open>checkTraderPositions\<close>

lemma check_trader_positions_fetch_error [simp]:
  "fetch c = Inl err \<Longrightarrow> check_trader_positions env fetch now c name s = s"
  by (simp add: check_trader_positions_def)

lemma check_trader_positions_interval [simp]:
  "monitoringInterval (check_trader_positions env fetch now c name s) = monitoringInterval s"
  by (simp add: check_trader_positions_def Let_def split: sum.split option.split)

lemma snapshots_check_other:
  "c' \<noteq> c \<Longrightarrow>
   jsmap_get (positionSnapshots (check_trader_positions env fetch now c name s)) c' =
   jsmap_get (positionSnapshots s) c'"
  by (simp add: check_trader_positions_def Let_def split: sum.split option.split)

lemma snapshots_check_keys:
  "fst ` set (positionSnapshots (check_trader_positions env fetch now c name s)) =
   fst ` set (positionSnapshots s) \<union> (case fetch c of Inl _ \<Rightarrow> {} | Inr _ \<Rightarrow> {c})"
  by (auto simp: check_trader_positions_def Let_def split: sum.split option.split)

lemma mailer_check_first_sight:
  "jsmap_get (positionSnapshots s) c = None \<Longrightarrow>
   mailer (check_trader_positions env fetch now c name s) = mailer s"
  by (simp add: check_trader_positions_def Let_def split: sum.split)

lemma snapshot_inv_check:
  "snapshot_inv s \<Longrightarrow> snapshot_inv (check_trader_positions env fetch now c name s)"
  using set_jsmap_set_subset [of "positionSnapshots s" c]
  by (fastforce simp: snapshot_inv_def check_trader_positions_def Let_def
      split: sum.split option.split)

section \<open>The cycle\<close>

lemma check_traders_unseen:
  assumes "distinct cs" and "\<forall>c \<in> set cs. jsmap_get (positionSnapshots s) c = None"
  shows "mailer (check_traders env fetch now cs s) = mailer s"
  using assms
proof (induction cs arbitrary: s)
  case Nil then show ?case by simp
next
  case (Cons c cs)
  let ?s = "check_trader_positions env fetch now c (trader_label c) s"
  have "jsmap_get (positionSnapshots ?s) c' = None" if c': "c' \<in> set cs" for c'
  proof -
    from c' Cons.prems(1) have "c' \<noteq> c" by auto
    with c' Cons.prems(2) show ?thesis by (simp add: snapshots_check_other)
  qed
  with Cons.prems(1) have "mailer (check_traders env fetch now cs ?s) = mailer ?s"
    by (intro Cons.IH) simp_all
  also from Cons.prems(2) have "mailer ?s = mailer s" by (simp add: mailer_check_first_sight)
  finally show ?case by simp
qed

lemma check_traders_keys:
  "fst ` set (positionSnapshots s) \<subseteq> fst ` set (positionSnapshots (check_traders env fetch now cs s))"
proof (induction cs arbitrary: s)
  case Nil then show ?case by simp
next
  case (Cons c cs)
  from Cons.IH [of "check_trader_positions env fetch now c (trader_label c) s"]
  show ?case by (auto simp: snapshots_check_keys)
qed

lemma check_traders_interval [simp]:
  "monitoringInterval (check_traders env fetch now cs s) = monitoringInterval s"
  by (induction cs arbitrary: s) simp_all

lemma snapshot_inv_check_traders:
  "snapshot_inv s \<Longrightarrow> snapshot_inv (check_traders env fetch now cs s)"
  by (induction cs arbitrary: s) (simp_all add: snapshot_inv_check)

section \<open>The notifications a cycle can send\<close>

lemma appends_types_refl [intro, simp]: "appends_types T st st"
  by (auto simp: appends_types_def)

lemma appends_types_trans:
  "appends_types T st1 st2 \<Longrightarrow> appends_types T st2 st3 \<Longrightarrow> appends_types T st1 st3"
  by (auto simp: appends_types_def)

lemma appends_types_mono:
  "appends_types T st st' \<Longrightarrow> T \<subseteq> T' \<Longrightarrow> appends_types T' st st'"
  by (fastforce simp: appends_types_def)

lemma appends_types_send_email:
  "notification_type n \<in> T \<Longrightarrow> appends_types T st (snd (send_email env now n st))"
  using outbox_send_email [of env now n st] by (auto simp: appends_types_def)

lemma appends_types_send_to_subscribers:
  "ty \<in> T \<Longrightarrow> appends_types T st (send_to_subscribers env now ty m subs st)"
proof (induction subs arbitrary: st)
  case Nil then show ?case by simp
next
  case (Cons sub subs)
  show ?case
  proof (cases "ty \<in> set (alertTypes sub)")
    case True
    have "appends_types T st (snd (send_email env now \<lparr>to = email sub, msg = m, notification_type = ty\<rparr> st))"
      by (rule appends_types_send_email) (simp add: Cons.prems)
    with Cons.IH [OF Cons.prems] True show ?thesis by (auto intro: appends_types_trans)
  next
    case False
    with Cons.IH [OF Cons.prems] show ?thesis by simp
  qed
qed

abbreviation position_types :: "string set" where
  "position_types \<equiv> {''new_position'', ''close_position''}"

lemma appends_types_perform_action:
  "appends_types position_types st (perform_action env now code name st a)"
  by (cases a) (auto simp: notify_new_position_def notify_close_position_def
      intro: appends_types_send_to_subscribers split: option.split)

lemma appends_types_compare_and_notify:
  "appends_types position_types st (compare_and_notify env now code name prev cur st)"
proof -
  have "appends_types position_types st (foldl (perform_action env now code name) st acts)" for acts
    by (induction acts arbitrary: st rule: rev_induct)
      (auto intro: appends_types_trans appends_types_perform_action)
  then show ?thesis by (simp add: compare_and_notify_def)
qed

lemma appends_types_check:
  "appends_types position_types (mailer s) (mailer (check_trader_positions env fetch now c name s))"
  by (auto simp: check_trader_positions_def Let_def appends_types_compare_and_notify
      split: sum.split option.split)

lemma appends_types_check_traders:
  "appends_types position_types (mailer s) (mailer (check_traders env fetch now cs s))"
proof (induction cs arbitrary: s)
  case Nil then show ?case by simp
next
  case (Cons c cs)
  then show ?case by (auto intro: appends_types_trans appends_types_check)
qed

section \<open>One step of the service\<close>

lemma monitor_step_cases:
  "monitor_step s e = s \<or> monitor_step s e = start s \<or> monitor_step s e = stop s \<or>
   (\<exists>env fetch now cs. monitor_step s e = check_traders env fetch now cs s) \<or>
   (\<exists>env fetch now c name. monitor_step s e = check_trader_positions env fetch now c name s)"
  by (cases e) (fastforce simp: check_all_subscriptions_def check_trader_def split: option.split)+

lemma start_stop_frame [simp]:
  "positionSnapshots (start s) = positionSnapshots s" "mailer (start s) = mailer s"
  "positionSnapshots (stop s) = positionSnapshots s" "mailer (stop s) = mailer s"
  by (simp_all add: start_def stop_def)

lemma snapshot_inv_start_stop [simp]:
  "snapshot_inv (start s) = snapshot_inv s" "snapshot_inv (stop s) = snapshot_inv s"
  by (simp_all add: snapshot_inv_def)

lemma snapshot_inv_step: "snapshot_inv s \<Longrightarrow> snapshot_inv (monitor_step s e)"
  using monitor_step_cases [of s e]
  by (elim disjE exE) (simp_all add: snapshot_inv_check_traders snapshot_inv_check)

lemma keys_step:
  "fst ` set (positionSnapshots s) \<subseteq> fst ` set (positionSnapshots (monitor_step s e))"
  using monitor_step_cases [of s e]
  by (elim disjE exE) (simp_all add: snapshots_check_keys check_traders_keys)

lemma appends_types_step: "appends_types position_types (mailer s) (mailer (monitor_step s e))"
  using monitor_step_cases [of s e]
  by (auto intro: appends_types_check_traders appends_types_check)

lemma monitor_run_Cons [simp]: "monitor_run s (e # evs) = monitor_run (monitor_step s e) evs"
  by (simp add: monitor_run_def)

lemma monitor_run_Nil [simp]: "monitor_run s [] = s"
  by (simp add: monitor_run_def)

lemma check_traders_append:
  "check_traders env fetch now (before @ after) s = check_traders env fetch now after (check_traders env fetch now before s)"
  by (induction before arbitrary: s) simp_all

section \<open>Properties of the monitor\<close>

text \<open>C1: The first successful poll of a trader with no snapshot sends no e-mail and stores the fetched positions as its snapshot, stamped with the poll time.\<close>

theorem first_poll_seeds_snapshot:
  assumes "jsmap_get (positionSnapshots s) c = None" and "fetch c = Inr ps"
  shows "mailer (check_trader_positions env fetch now c name s) = mailer s \<and>
         jsmap_get (positionSnapshots (check_trader_positions env fetch now c name s)) c =
           Some \<lparr>snap_uniqueCode = c, positions = ps, timestamp = now\<rparr>"
  using assms by (simp add: check_trader_positions_def)

text \<open>C10: A trader whose fetch fails is skipped: the cycle over the other traders has the same result as if that trader were not monitored.\<close>

theorem fetch_failure_isolated:
  assumes "fetch c = Inl err"
  shows "check_traders env fetch now (before @ c # after) s = check_traders env fetch now (before @ after) s"
  using assms by (simp add: check_traders_append)

text \<open>C2: After a restart (empty snapshot store) a whole checkAllSubscriptions cycle sends no e-mail, whatever positions the source returns.\<close>

theorem restart_cycle_sends_nothing:
  assumes "positionSnapshots s = []"
  shows "mailer (check_all_subscriptions env fetch now s) = mailer s"
proof (cases "subscriptionsTable env")
  case None then show ?thesis by (simp add: check_all_subscriptions_def)
next
  case (Some rows)
  have "mailer (check_traders env fetch now (active_codes rows) s) = mailer s"
    by (rule check_traders_unseen) (simp_all add: active_codes_def assms jsmap_get_def)
  with Some show ?thesis by (simp add: check_all_subscriptions_def)
qed

text \<open>start and stop are idempotent: starting twice is starting once, stopping twice is stopping once; start sets the interval and stop clears it.\<close>

theorem start_stop_idempotent:
  "start (start s) = start s \<and> stop (stop s) = stop s \<and>
   monitoringInterval (start s) \<and> \<not> monitoringInterval (stop s)"
  by (simp add: start_def stop_def)

text \<open>C14: Along every run from the initial state the snapshot store has distinct keys and every snapshot is filed under its own trader code.\<close>

theorem snapshot_inv_run: "snapshot_inv (monitor_run monitor_init evs)"
proof -
  have "snapshot_inv s \<Longrightarrow> snapshot_inv (monitor_run s evs)" for s
    by (induction evs arbitrary: s) (simp_all add: snapshot_inv_step)
  moreover have "snapshot_inv monitor_init"
    by (simp add: snapshot_inv_def monitor_init_def jsmap_wf_def)
  ultimately show ?thesis by blast
qed

text \<open>C15: No event (start, stop, tick, manual check) ever removes a snapshot: a trader keeps its entry after its last subscription is gone.\<close>

theorem snapshots_never_evicted:
  "fst ` set (positionSnapshots s) \<subseteq> fst ` set (positionSnapshots (monitor_run s evs))"
proof (induction evs arbitrary: s)
  case Nil then show ?case by simp
next
  case (Cons e evs)
  from keys_step [of s e] Cons.IH [of "monitor_step s e"] show ?case by simp
qed

text \<open>C11: Along any run of the service the outbox only grows, and only by new_position and close_position messages: profit_loss subscribers never receive a PnL or size alert.\<close>

theorem only_position_alerts_sent:
  "appends_types position_types (mailer s) (mailer (monitor_run s evs))"
proof (induction evs arbitrary: s)
  case Nil then show ?case by simp
next
  case (Cons e evs)
  from appends_types_step [of s e] Cons.IH [of "monitor_step s e"] show ?case
    by (auto intro: appends_types_trans)
qed

end
