(* ===== verification/Subscriptions.thy ===== *)
theory Subscriptions
  imports Email
begin

text \<open>
  The subscription store of \<open>src/src/services/email.service.ts\<close>
  (\<open>addSubscription\<close>, \<open>removeSubscription\<close>, \<open>getUserSubscriptions\<close>,
  \<open>sendSubscriptionConfirmationEmail\<close>) over the \<open>email_subscriptions\<close> table of
  \<open>src/src/database/index.ts\<close>. The table is a list of rows with their
  \<open>AUTOINCREMENT\<close> ids in insertion order and the next id; the constraint
  \<open>UNIQUE(email, unique_code)\<close> is the invariant \<open>sub_table_inv\<close>. SQLite's
  \<open>INSERT OR REPLACE\<close> deletes the conflicting row and inserts a fresh one, so the
  row gets a new id and the column defaults (\<open>is_active = 1\<close>) again. The
  \<open>alert_types\<close> column holds \<open>JSON.stringify(alertTypes)\<close>; the model stores the list
  itself, since \<open>JSON.parse\<close> reads back what \<open>JSON.stringify\<close> wrote. A failing
  statement is the error \<open>DbError\<close>.
\<close>

section \<open>The table\<close>

record sub_table =
  sub_rows :: "(nat \<times> EmailSubscription) list"
  sub_next_id :: nat

datatype db_error = DbError string

definition sub_table_init :: sub_table where
  "sub_table_init = \<lparr>sub_rows = [], sub_next_id = 1\<rparr>"

definition sub_key :: "EmailSubscription \<Rightarrow> email_addr \<times> entity_key" where
  "sub_key s = (email s, unique_code s)"

text \<open>\<open>INSERT OR REPLACE INTO email_subscriptions ...\<close>, returning \<open>lastID\<close>.\<close>

definition sql_insert_or_replace :: "sub_table \<Rightarrow> EmailSubscription \<Rightarrow> sub_table \<times> nat" where
  "sql_insert_or_replace t s =
     (let i = sub_next_id t
      in (\<lparr>sub_rows = filter (\<lambda>(_, r). sub_key r \<noteq> sub_key s) (sub_rows t) @ [(i, s)],
           sub_next_id = Suc i\<rparr>, i))"

text \<open>\<open>DELETE FROM email_subscriptions WHERE email = ? AND unique_code = ?\<close>, returning \<open>changes\<close>.\<close>

definition sql_delete :: "sub_table \<Rightarrow> email_addr \<Rightarrow> entity_key \<Rightarrow> sub_table \<times> nat" where
  "sql_delete t e c =
     (let keep = filter (\<lambda>(_, r). sub_key r \<noteq> (e, c)) (sub_rows t)
      in (t\<lparr>sub_rows := keep\<rparr>, length (sub_rows t) - length keep))"

definition sql_select :: "sub_table \<Rightarrow> (EmailSubscription \<Rightarrow> bool) \<Rightarrow> EmailSubscription list" where
  "sql_select t P = filter P (map snd (sub_rows t))"

definition sub_table_inv :: "sub_table \<Rightarrow> bool" where
  "sub_table_inv t =
     (distinct (map (sub_key \<circ> snd) (sub_rows t)) \<and> sorted_wrt (<) (map fst (sub_rows t)) \<and>
      list_all (\<lambda>(i, _). i < sub_next_id t) (sub_rows t))"

section \<open>Operations\<close>

definition send_subscription_confirmation_email ::
  "email_env \<Rightarrow> ms \<Rightarrow> email_addr \<Rightarrow> entity_key \<Rightarrow> string list \<Rightarrow> email_state \<Rightarrow> email_state" where
  "send_subscription_confirmation_email env now e c ts st =
     snd (send_email env now
            \<lparr>to = e, msg = ConfirmationMail c (map alert_type_name ts) e,
             notification_type = ''new_position''\<rparr> st)"

definition add_subscription ::
  "email_env \<Rightarrow> string option \<Rightarrow> ms \<Rightarrow> email_addr \<Rightarrow> entity_key \<Rightarrow> string list \<Rightarrow> sub_table
   \<Rightarrow> email_state \<Rightarrow> (db_error + nat \<times> EmailSubscription) \<times> sub_table \<times> email_state" where
  "add_subscription env dbFail now e c ts t st =
     (case dbFail of
        Some m \<Rightarrow> (Inl (DbError m), t, st)
      | None \<Rightarrow>
        (let row = \<lparr>email = e, unique_code = c, alertTypes = ts, is_active = True\<rparr>;
             (t', i) = sql_insert_or_replace t row
         in (Inr (i, row), t', send_subscription_confirmation_email env now e c ts st)))"

definition remove_subscription ::
  "string option \<Rightarrow> email_addr \<Rightarrow> entity_key \<Rightarrow> sub_table \<Rightarrow> (db_error + bool) \<times> sub_table" where
  "remove_subscription dbFail e c t =
     (case dbFail of
        Some m \<Rightarrow> (Inl (DbError m), t)
      | None \<Rightarrow> (let (t', changes) = sql_delete t e c in (Inr (0 < changes), t')))"

definition get_user_subscriptions ::
  "string option \<Rightarrow> email_addr \<Rightarrow> sub_table \<Rightarrow> db_error + EmailSubscription list" where
  "get_user_subscriptions dbFail e t =
     (case dbFail of
        Some m \<Rightarrow> Inl (DbError m)
      | None \<Rightarrow> Inr (sql_select t (\<lambda>s. email s = e \<and> is_active s)))"

definition get_trader_subscribers_db ::
  "string option \<Rightarrow> entity_key \<Rightarrow> sub_table \<Rightarrow> db_error + EmailSubscription list" where
  "get_trader_subscribers_db dbFail c t =
     (case dbFail of
        Some m \<Rightarrow> Inl (DbError m)
      | None \<Rightarrow> Inr (sql_select t (\<lambda>s. unique_code s = c \<and> is_active s)))"

text \<open>The table as the notifier's collaborator reads it (\<open>getTraderSubscribers\<close>' query).\<close>

definition table_env :: "email_env \<Rightarrow> string option \<Rightarrow> sub_table \<Rightarrow> email_env" where
  "table_env env dbFail t =
     env\<lparr>subscriptionsTable := (case dbFail of None \<Rightarrow> Some (map snd (sub_rows t)) | Some _ \<Rightarrow> None)\<rparr>"

lemmas subscriptions_defs [model_simps] = sub_table_init_def sub_key_def sql_insert_or_replace_def
  sql_delete_def sql_select_def send_subscription_confirmation_email_def add_subscription_def
  remove_subscription_def get_user_subscriptions_def get_trader_subscribers_db_def table_env_def alert_type_name_def

section \<open>The table invariant and the operations\<close>

lemma sorted_wrt_filter_less:
  "sorted_wrt (<) (map fst xs) \<Longrightarrow> sorted_wrt (<) (map fst (filter P xs))"
  by (induction xs) auto

lemma sub_table_inv_init: "sub_table_inv sub_table_init"
  by (simp add: sub_table_inv_def sub_table_init_def)

lemma sub_table_inv_insert:
  assumes "sub_table_inv t" shows "sub_table_inv (fst (sql_insert_or_replace t s))"
proof -
  let ?keep = "filter (\<lambda>(_, r). sub_key r \<noteq> sub_key s) (sub_rows t)"
  from assms have d: "distinct (map (sub_key \<circ> snd) (sub_rows t))"
    and o: "sorted_wrt (<) (map fst (sub_rows t))"
    and b: "list_all (\<lambda>(i, _). i < sub_next_id t) (sub_rows t)"
    by (simp_all add: sub_table_inv_def)
  have "distinct (map (sub_key \<circ> snd) ?keep)" using d by (simp add: distinct_map_filter)
  moreover have "sub_key s \<notin> (sub_key \<circ> snd) ` set ?keep" by auto
  moreover have "sorted_wrt (<) (map fst ?keep)" using o by (rule sorted_wrt_filter_less)
  moreover have "\<forall>x \<in> set ?keep. fst x < sub_next_id t" using b by (auto simp: list_all_iff)
  ultimately show ?thesis
    by (auto simp: sub_table_inv_def sql_insert_or_replace_def Let_def sorted_wrt_append list_all_iff)
qed

lemma sub_table_inv_delete:
  assumes "sub_table_inv t" shows "sub_table_inv (fst (sql_delete t e c))"
  using assms sorted_wrt_filter_less
  by (auto simp: sub_table_inv_def sql_delete_def Let_def distinct_map_filter list_all_iff)

text \<open>addSubscription and removeSubscription preserve the UNIQUE(email, unique_code) constraint, the increasing ids and the id counter.\<close>

theorem sub_table_inv_ops:
  assumes "sub_table_inv t"
  shows "sub_table_inv (fst (snd (add_subscription env d now e c ts t st))) \<and>
         sub_table_inv (snd (remove_subscription d e c t))"
  using sub_table_inv_insert [OF assms] sub_table_inv_delete [OF assms] assms
  by (auto simp: add_subscription_def remove_subscription_def Let_def case_prod_beta split: option.split)

lemma length_filter_less_iff:
  "length (filter P xs) < length xs \<longleftrightarrow> (\<exists>x \<in> set xs. \<not> P x)"
  by (induction xs) (auto simp: le_imp_less_Suc)

lemma remove_subscription_result:
  "remove_subscription None e c t =
     (Inr ((e, c) \<in> (sub_key \<circ> snd) ` set (sub_rows t)),
      t\<lparr>sub_rows := filter (\<lambda>(_, r). sub_key r \<noteq> (e, c)) (sub_rows t)\<rparr>)"
  using length_filter_less_iff [of "\<lambda>(_, r). sub_key r \<noteq> (e, c)" "sub_rows t"]
  by (auto simp: remove_subscription_def sql_delete_def Let_def rev_image_eqI)

text \<open>A successful addSubscription returns the fresh row id and the new active row; afterwards the pair (email, uniqueCode) has exactly that one row, and the rows of every other pair are unchanged.\<close>

theorem add_subscription_row:
  assumes "add_subscription env None now e c ts t st = (r, t', st')"
  shows "r = Inr (sub_next_id t, \<lparr>email = e, unique_code = c, alertTypes = ts, is_active = True\<rparr>) \<and>
         filter (\<lambda>(_, s). sub_key s = (e, c)) (sub_rows t') =
           [(sub_next_id t, \<lparr>email = e, unique_code = c, alertTypes = ts, is_active = True\<rparr>)] \<and>
         filter (\<lambda>(_, s). sub_key s \<noteq> (e, c)) (sub_rows t') =
           filter (\<lambda>(_, s). sub_key s \<noteq> (e, c)) (sub_rows t)"
  using assms by (auto simp: add_subscription_def sql_insert_or_replace_def Let_def sub_key_def
      filter_filter filter_empty_conv intro: filter_cong)

text \<open>The notifier's read of the table and the route's read agree.\<close>

lemma get_trader_subscribers_table:
  "get_trader_subscribers (table_env env d t) c =
     (case get_trader_subscribers_db d c t of Inl _ \<Rightarrow> None | Inr xs \<Rightarrow> Some xs)"
  by (simp add: get_trader_subscribers_def table_env_def get_trader_subscribers_db_def sql_select_def
      split: option.split)

text \<open>After addSubscription, the subscriber list the notifier reads for the trader holds exactly one entry for the address, the new one: re-subscribing never causes duplicate alerts.\<close>

theorem subscribe_single_subscriber:
  assumes "add_subscription env None now e c ts t st = (r, t', st')"
  shows "filter (\<lambda>s. email s = e) (the (get_trader_subscribers (table_env env' None t') c)) =
           [\<lparr>email = e, unique_code = c, alertTypes = ts, is_active = True\<rparr>]"
  using assms
  by (auto simp: get_trader_subscribers_table get_trader_subscribers_db_def add_subscription_def sql_insert_or_replace_def
      sql_select_def Let_def sub_key_def filter_filter filter_empty_conv)

text \<open>C20: The subscription confirmation goes through sendEmail and its rate limit: once delivered, every mail to the same address within the next 60/rateLimit seconds, a position alert included, is dropped.\<close>

theorem confirmation_blocks_alert:
  assumes "add_subscription env None now e c ts t st = (r, t', st')"
    and "transporterConfigured env"
    and "sendMailOk env \<lparr>to = e, msg = ConfirmationMail c (map alert_type_name ts) e,
                         notification_type = ''new_position''\<rparr>"
    and "can_send_email env st now e"
    and "rateLimit env = Num rl" "0 < rl"
    and "to n = e" and "of_int (t2 - now) < 60 / rl * 1000"
  shows "send_email env t2 n st' = (False, st')"
proof -
  have st': "st' = send_subscription_confirmation_email env now e c ts st"
    using assms(1) by (simp add: add_subscription_def Let_def split: prod.splits)
  have "jsmap_get (emailQueue st') e = Some now"
    using send_email_delivers [of env st now "\<lparr>to = e, msg = ConfirmationMail c (map alert_type_name ts) e,
                         notification_type = ''new_position''\<rparr>"] assms(2-4)
    by (simp add: st' send_subscription_confirmation_email_def)
  then have "\<not> can_send_email env st' t2 e"
    using can_send_email_rate [OF assms(5,6)] assms(8) by auto
  with assms(7) show ?thesis by (simp add: send_email_def)
qed

end
