(* ===== verification/Routes.thy ===== *)
theory Routes
  imports Subscriptions
begin

text \<open>
  The HTTP surface of the subscription store, \<open>src/src/routes/subscription.routes.ts\<close>:
  \<open>POST /api/subscribe\<close>, \<open>DELETE /api/unsubscribe\<close>, \<open>GET /api/subscriptions/:email\<close>,
  \<open>GET /api/subscribers/:uniqueCode\<close> and \<open>POST /api/test-email\<close>. Each handler is a
  function from the request (its JSON body fields as options, \<open>undefined\<close> being
  \<open>None\<close>) and the store to the response (status and \<open>ApiResponse\<close> body) and the new
  store. The two regular expressions of the file, the e-mail check
  \<open>/^[^\s@]+@[^\s@]+\.[^\s@]+$/\<close> and the masking \<open>/(.{2}).*(@.*)/\<close>, are written out
  as the matchers they denote.
\<close>

section \<open>Responses\<close>

datatype response_data =
    NoData
  | SubscriptionData nat EmailSubscription
  | SubscriptionList "EmailSubscription list"
  | PositionList "LeadPosition list"
  | TraderAdded string string

record api_response =
  success :: bool
  data :: response_data
  message :: "string option"
  error :: "string option"

type_synonym http_response = "nat \<times> api_response"

definition fail_response :: "nat \<Rightarrow> string \<Rightarrow> http_response" where
  "fail_response code err = (code, \<lparr>success = False, data = NoData, message = None, error = Some err\<rparr>)"

definition ok_response :: "response_data \<Rightarrow> string \<Rightarrow> http_response" where
  "ok_response d m = (200, \<lparr>success = True, data = d, message = Some m, error = None\<rparr>)"

text \<open>The \<open>catch\<close> of every handler: status 500 with the thrown error's message.\<close>

definition db_fail_response :: "db_error \<Rightarrow> http_response" where
  "db_fail_response err = (case err of DbError m \<Rightarrow> fail_response 500 m)"

section \<open>Requests and validation\<close>

text \<open>\<open>!x\<close> on a body field that is a string or \<open>undefined\<close>.\<close>

definition js_falsy_str :: "string option \<Rightarrow> bool" where
  "js_falsy_str s = (case s of None \<Rightarrow> True | Some x \<Rightarrow> x = [])"

record subscribe_request =
  sr_email :: "string option"
  sr_uniqueCode :: "string option"
  sr_alertTypes :: "string list option"

record unsubscribe_request =
  ur_email :: "string option"
  ur_uniqueCode :: "string option"

text \<open>\<open>[^\s@]\<close>, and the e-mail regular expression as a matcher.\<close>

definition email_char :: "char \<Rightarrow> bool" where
  "email_char c = (\<not> is_js_space c \<and> c \<noteq> CHR ''@'')"

definition email_regex_test :: "string \<Rightarrow> bool" where
  "email_regex_test s =
     (takeWhile email_char s \<noteq> [] \<and>
      (case dropWhile email_char s of
         [] \<Rightarrow> False
       | x # d \<Rightarrow> x = CHR ''@'' \<and> list_all email_char d \<and> CHR ''.'' \<in> set (butlast (tl d))))"

text \<open>The language of the e-mail regular expression, the reference the matcher is checked against.\<close>

definition email_regex_spec :: "string \<Rightarrow> bool" where
  "email_regex_spec s =
     (\<exists>a b c. s = a @ CHR ''@'' # b @ CHR ''.'' # c \<and> a \<noteq> [] \<and> b \<noteq> [] \<and> c \<noteq> [] \<and>
              list_all email_char (a @ b @ c))"

definition valid_alert_types :: "string list" where
  "valid_alert_types = [''new_position'', ''close_position'', ''profit_loss'']"

definition invalid_alert_types :: "string list \<Rightarrow> string list" where
  "invalid_alert_types ts = filter (\<lambda>ty. ty \<notin> set valid_alert_types) ts"

text \<open>
  \<open>email.replace(/(.{2}).*(@.*)/, '$1***$2')\<close>: the first match from the left; at a
  start position two characters other than a line terminator, then the greedy
  \<open>.*\<close> backs off to the last \<open>@\<close> of the line, and \<open>(@.*)\<close> runs to the line's end.
\<close>

definition is_line_terminator :: "char \<Rightarrow> bool" where
  "is_line_terminator c = (of_char c = (10::nat) \<or> of_char c = (13::nat))"

fun mask_at :: "string \<Rightarrow> string option" where
  "mask_at (a # b # rest) =
     (let seg = takeWhile (\<lambda>c. \<not> is_line_terminator c) rest in
      if \<not> is_line_terminator a \<and> \<not> is_line_terminator b \<and> CHR ''@'' \<in> set seg
      then Some (a # b # ''***'' @ CHR ''@'' # rev (takeWhile (\<lambda>c. c \<noteq> CHR ''@'') (rev seg))
                 @ drop (length seg) rest)
      else None)"
| "mask_at _ = None"

fun mask_email :: "string \<Rightarrow> string" where
  "mask_email [] = []"
| "mask_email (c # cs) = (case mask_at (c # cs) of Some r \<Rightarrow> r | None \<Rightarrow> c # mask_email cs)"

section \<open>Handlers\<close>

definition post_subscribe ::
  "email_env \<Rightarrow> string option \<Rightarrow> ms \<Rightarrow> subscribe_request \<Rightarrow> sub_table \<Rightarrow> email_state
   \<Rightarrow> http_response \<times> sub_table \<times> email_state" where
  "post_subscribe env dbFail now req t st =
     (if js_falsy_str (sr_email req) \<or> js_falsy_str (sr_uniqueCode req) \<or> sr_alertTypes req = None then
        (fail_response 400 ''email, uniqueCode, and alertTypes are required'', t, st)
      else
        (let e = the (sr_email req); c = the (sr_uniqueCode req); ts = the (sr_alertTypes req) in
         if \<not> email_regex_test e then (fail_response 400 ''Invalid email format'', t, st)
         else if length c \<noteq> 16 then (fail_response 400 ''Invalid uniqueCode format'', t, st)
         else if invalid_alert_types ts \<noteq> [] then
           (fail_response 400 (''Invalid alert types: '' @ js_join '', '' (invalid_alert_types ts)), t, st)
         else
           (case add_subscription env dbFail now e c ts t st of
              (Inl err, t', st') \<Rightarrow> (db_fail_response err, t', st')
            | (Inr (i, row), t', st') \<Rightarrow>
                (ok_response (SubscriptionData i row) ''Subscription added successfully'', t', st'))))"

definition delete_unsubscribe ::
  "string option \<Rightarrow> unsubscribe_request \<Rightarrow> sub_table \<Rightarrow> http_response \<times> sub_table" where
  "delete_unsubscribe dbFail req t =
     (if js_falsy_str (ur_email req) \<or> js_falsy_str (ur_uniqueCode req) then
        (fail_response 400 ''email and uniqueCode are required'', t)
      else
        (case remove_subscription dbFail (the (ur_email req)) (the (ur_uniqueCode req)) t of
           (Inl err, t') \<Rightarrow> (db_fail_response err, t')
         | (Inr False, t') \<Rightarrow> (fail_response 404 ''Subscription not found'', t')
         | (Inr True, t') \<Rightarrow> (ok_response NoData ''Subscription removed successfully'', t')))"

definition get_subscriptions :: "string option \<Rightarrow> string \<Rightarrow> sub_table \<Rightarrow> http_response" where
  "get_subscriptions dbFail e t =
     (if \<not> email_regex_test e then fail_response 400 ''Invalid email format''
      else
        (case get_user_subscriptions dbFail e t of
           Inl err \<Rightarrow> db_fail_response err
         | Inr subs \<Rightarrow> ok_response (SubscriptionList subs) ''User subscriptions retrieved successfully''))"

definition get_subscribers :: "string option \<Rightarrow> string \<Rightarrow> sub_table \<Rightarrow> http_response" where
  "get_subscribers dbFail c t =
     (if c = [] \<or> length c \<noteq> 16 then fail_response 400 ''Invalid uniqueCode format''
      else
        (case get_trader_subscribers_db dbFail c t of
           Inl err \<Rightarrow> db_fail_response err
         | Inr subs \<Rightarrow>
             ok_response (SubscriptionList (map (\<lambda>s. s\<lparr>email := mask_email (email s)\<rparr>) subs))
               ''Trader subscribers retrieved successfully''))"

definition post_test_email ::
  "email_env \<Rightarrow> bool \<Rightarrow> ms \<Rightarrow> string option \<Rightarrow> email_state \<Rightarrow> http_response \<times> email_state" where
  "post_test_email env production now e st =
     (if production then (fail_response 403 ''Test email is not allowed in production'', st)
      else if js_falsy_str e then (fail_response 400 ''email is required'', st)
      else
        (let (ok, st') = send_email env now
                           \<lparr>to = the e, msg = TestMail, notification_type = ''new_position''\<rparr> st
         in ((200, \<lparr>success = ok, data = NoData,
                    message = Some (if ok then ''Test email sent successfully'' else ''Failed to send test email''),
                    error = None\<rparr>), st')))"

text \<open>The requests \<open>POST /api/subscribe\<close> accepts, read off its guards.\<close>

definition subscribe_valid :: "subscribe_request \<Rightarrow> bool" where
  "subscribe_valid req =
     (\<exists>e c ts. sr_email req = Some e \<and> sr_uniqueCode req = Some c \<and> sr_alertTypes req = Some ts \<and>
              email_regex_test e \<and> length c = 16 \<and> set ts \<subseteq> set valid_alert_types)"

lemmas routes_defs [model_simps] = fail_response_def ok_response_def db_fail_response_def
  js_falsy_str_def email_char_def email_regex_test_def valid_alert_types_def invalid_alert_types_def
  is_line_terminator_def post_subscribe_def delete_unsubscribe_def get_subscriptions_def
  get_subscribers_def post_test_email_def

section \<open>Validation, masking and handlers\<close>

lemma email_char_simps [simp]:
  "\<not> email_char CHR ''@''" "email_char CHR ''.''"
  by (simp_all add: email_char_def is_js_space_def)

lemma email_regex_spec_test: "email_regex_spec s \<Longrightarrow> email_regex_test s"
proof -
  assume "email_regex_spec s"
  then obtain a b c where s: "s = a @ CHR ''@'' # b @ CHR ''.'' # c" and ne: "a \<noteq> []" "b \<noteq> []" "c \<noteq> []"
    and ok: "list_all email_char (a @ b @ c)" by (auto simp: email_regex_spec_def)
  from ok have oka: "\<And>x. x \<in> set a \<Longrightarrow> email_char x" by (simp add: list_all_iff)
  have tw: "takeWhile email_char s = a" and dw: "dropWhile email_char s = CHR ''@'' # b @ CHR ''.'' # c"
    using oka by (simp_all add: s takeWhile_append2 dropWhile_append2)
  obtain b0 b' where b: "b = b0 # b'" using ne(2) by (cases b) auto
  have "butlast (tl (b @ CHR ''.'' # c)) = b' @ CHR ''.'' # butlast c"
    using ne(3) by (simp add: b butlast_append)
  then show ?thesis using tw dw ne(1) ok by (simp add: email_regex_test_def)
qed

lemma email_regex_test_spec: "email_regex_test s \<Longrightarrow> email_regex_spec s"
proof -
  assume t: "email_regex_test s"
  let ?a = "takeWhile email_char s"
  obtain d where dw: "dropWhile email_char s = CHR ''@'' # d"
    using t by (auto simp: email_regex_test_def split: list.splits)
  with t have a: "?a \<noteq> []" and okd: "list_all email_char d" and dot: "CHR ''.'' \<in> set (butlast (tl d))"
    by (simp_all add: email_regex_test_def)
  obtain u v where uv: "butlast (tl d) = u @ CHR ''.'' # v" using dot by (meson split_list)
  then have "tl d \<noteq> []" by auto
  then obtain d0 where d: "d = d0 # tl d" by (cases d) auto
  have tl: "tl d = u @ CHR ''.'' # v @ [last (tl d)]"
    using append_butlast_last_id [OF \<open>tl d \<noteq> []\<close>] uv by simp
  have s: "s = ?a @ CHR ''@'' # (d0 # u) @ CHR ''.'' # (v @ [last (tl d)])"
    using takeWhile_dropWhile_id [of email_char s] dw d tl by simp
  have "list_all email_char ?a" by (auto simp: list_all_iff dest: set_takeWhileD)
  moreover have "list_all email_char (d0 # u) \<and> list_all email_char (v @ [last (tl d)])"
    using okd d tl by (metis list_all_append list.pred_inject(2))
  ultimately show ?thesis using s a unfolding email_regex_spec_def
    by (intro exI [of _ ?a] exI [of _ "d0 # u"] exI [of _ "v @ [last (tl d)]"]) simp
qed

text \<open>The matcher email_regex_test accepts exactly the language of /^[^\s@]+@[^\s@]+\.[^\s@]+$/: a non-empty local part, an @, and a domain with a dot that is neither its first nor its last character, with no white space (the white space of \<open>is_js_space\<close>) and no second @.\<close>

theorem email_regex_test_iff: "email_regex_test s \<longleftrightarrow> email_regex_spec s"
  using email_regex_test_spec email_regex_spec_test by blast

lemma mask_email_no_at: "CHR ''@'' \<notin> set s \<Longrightarrow> mask_email s = s"
proof (induction s rule: mask_email.induct)
  case 1 then show ?case by simp
next
  case (2 c cs)
  have "mask_at (c # cs) = None"
    using 2(2) by (cases cs) (auto simp: Let_def dest: set_takeWhileD)
  with 2 show ?case by simp
qed

text \<open>For an address l@d with at least two characters before the @, no @ in the domain and no line break, the subscriber listing shows the first two characters, ***, and the domain.\<close>

theorem mask_email_local:
  assumes "2 \<le> length l" and "\<not> list_ex is_line_terminator (l @ d)" and "CHR ''@'' \<notin> set d"
  shows "mask_email (l @ CHR ''@'' # d) = take 2 l @ ''***'' @ CHR ''@'' # d"
proof -
  obtain a b l' where l: "l = a # b # l'" using assms(1)
    by (metis One_nat_def Suc_1 Suc_le_length_iff)
  have tw: "takeWhile (\<lambda>c. \<not> is_line_terminator c) (l' @ CHR ''@'' # d) = l' @ CHR ''@'' # d"
    using assms(2) by (auto simp: l list_ex_iff is_line_terminator_def takeWhile_eq_all_conv)
  have rv: "takeWhile (\<lambda>c. c \<noteq> CHR ''@'') (rev d @ CHR ''@'' # rev l') = rev d"
    using assms(3) by (subst takeWhile_append2) auto
  show ?thesis
    using assms(2) by (simp add: l tw rv Let_def list_ex_iff)
qed

text \<open>An address with a one-character local part (x@d, no @ in d) is returned unmasked by the subscriber listing: the masking regex finds no match.\<close>

theorem mask_email_short_local:
  assumes "CHR ''@'' \<notin> set d"
  shows "mask_email (x # CHR ''@'' # d) = x # CHR ''@'' # d"
proof -
  have "mask_at (x # CHR ''@'' # d) = None"
    using assms by (auto simp: Let_def dest: set_takeWhileD)
  moreover have "mask_at (CHR ''@'' # d) = None"
    using assms by (cases d) (auto simp: Let_def dest: set_takeWhileD)
  ultimately show ?thesis using mask_email_no_at [OF assms] by simp
qed

lemma email_regex_test_nonempty: "email_regex_test e \<Longrightarrow> e \<noteq> []"
  by (auto simp: email_regex_test_def)

lemma add_subscription_outcome:
  "add_subscription env dbFail now e c ts t st =
     (case dbFail of
        Some m \<Rightarrow> (Inl (DbError m), t, st)
      | None \<Rightarrow> (Inr (sub_next_id t, \<lparr>email = e, unique_code = c, alertTypes = ts, is_active = True\<rparr>),
                 fst (sql_insert_or_replace t \<lparr>email = e, unique_code = c, alertTypes = ts, is_active = True\<rparr>),
                 send_subscription_confirmation_email env now e c ts st))"
  by (simp add: add_subscription_def sql_insert_or_replace_def Let_def split: option.split)

lemma post_subscribe_valid:
  assumes "sr_email req = Some e" "sr_uniqueCode req = Some c" "sr_alertTypes req = Some ts"
    and "email_regex_test e" "length c = 16" "set ts \<subseteq> set valid_alert_types"
  shows "post_subscribe env dbFail now req t st =
           (case dbFail of
              Some m \<Rightarrow> (fail_response 500 m, t, st)
            | None \<Rightarrow> (ok_response (SubscriptionData (sub_next_id t)
                          \<lparr>email = e, unique_code = c, alertTypes = ts, is_active = True\<rparr>)
                          ''Subscription added successfully'',
                       fst (sql_insert_or_replace t \<lparr>email = e, unique_code = c, alertTypes = ts, is_active = True\<rparr>),
                       send_subscription_confirmation_email env now e c ts st))"
  using assms email_regex_test_nonempty [OF assms(4)]
  by (auto simp: post_subscribe_def add_subscription_outcome js_falsy_str_def invalid_alert_types_def
      filter_empty_conv db_fail_response_def split: option.split)

lemma post_subscribe_invalid:
  "\<not> subscribe_valid req \<Longrightarrow> \<exists>m. post_subscribe env dbFail now req t st = (fail_response 400 m, t, st)"
  by (auto simp: subscribe_valid_def post_subscribe_def js_falsy_str_def Let_def invalid_alert_types_def
      filter_empty_conv split: option.splits)

lemma fail_response_status [simp]: "fst (fail_response n m) = n"
  by (simp add: fail_response_def)

lemma ok_response_status [simp]: "fst (ok_response d m) = 200"
  by (simp add: ok_response_def)

text \<open>A POST /api/subscribe that is not answered 200 (missing field, bad e-mail, code not 16 characters, unknown alert type, database error) changes neither the subscription table nor the mailer state.\<close>

theorem subscribe_rejection_no_effect:
  "fst (fst (post_subscribe env dbFail now req t st)) \<noteq> 200 \<Longrightarrow>
   snd (post_subscribe env dbFail now req t st) = (t, st)"
  using post_subscribe_invalid [of req env dbFail now t st]
  by (cases "subscribe_valid req") (auto simp: subscribe_valid_def post_subscribe_valid split: option.splits)

text \<open>C18: POST /api/subscribe answers 200 exactly when the database works and the request carries an e-mail accepted by the regex, a 16-character code and alert types drawn from new_position, close_position and profit_loss (the empty list included).\<close>

theorem subscribe_accepted_iff:
  "fst (fst (post_subscribe env dbFail now req t st)) = 200 \<longleftrightarrow> dbFail = None \<and> subscribe_valid req"
  using post_subscribe_invalid [of req env dbFail now t st]
  by (cases "subscribe_valid req") (auto simp: subscribe_valid_def post_subscribe_valid split: option.splits)

lemma unsubscribe_status:
  assumes "e \<noteq> []" and "c \<noteq> []"
  shows "delete_unsubscribe None \<lparr>ur_email = Some e, ur_uniqueCode = Some c\<rparr> t =
           (if (e, c) \<in> (sub_key \<circ> snd) ` set (sub_rows t)
            then ok_response NoData ''Subscription removed successfully''
            else fail_response 404 ''Subscription not found'',
            t\<lparr>sub_rows := filter (\<lambda>(_, r). sub_key r \<noteq> (e, c)) (sub_rows t)\<rparr>)"
  using assms by (simp add: delete_unsubscribe_def remove_subscription_result js_falsy_str_def)

lemma sql_insert_then_delete:
  "sub_rows (fst (sql_delete (fst (sql_insert_or_replace t s)) (email s) (unique_code s))) =
   filter (\<lambda>(_, r). sub_key r \<noteq> sub_key s) (sub_rows t)"
  by (simp add: sql_delete_def sql_insert_or_replace_def Let_def filter_filter sub_key_def split_def)

text \<open>C19: Subscribing and then unsubscribing the same (email, uniqueCode) succeeds and leaves exactly the rows of the other pairs of the original table.\<close>

theorem subscribe_unsubscribe_roundtrip:
  assumes "post_subscribe env None now \<lparr>sr_email = Some e, sr_uniqueCode = Some c, sr_alertTypes = Some ts\<rparr> t st
             = (r, t', st')"
    and "fst r = 200"
  shows "fst (delete_unsubscribe None \<lparr>ur_email = Some e, ur_uniqueCode = Some c\<rparr> t') =
           ok_response NoData ''Subscription removed successfully'' \<and>
         sub_rows (snd (delete_unsubscribe None \<lparr>ur_email = Some e, ur_uniqueCode = Some c\<rparr> t')) =
           filter (\<lambda>(_, r). sub_key r \<noteq> (e, c)) (sub_rows t)"
proof -
  let ?req = "\<lparr>sr_email = Some e, sr_uniqueCode = Some c, sr_alertTypes = Some ts\<rparr>"
  let ?row = "\<lparr>email = e, unique_code = c, alertTypes = ts, is_active = True\<rparr>"
  have valid: "subscribe_valid ?req"
    using post_subscribe_invalid [of ?req env None now t st] assms by force
  then have ok: "email_regex_test e" "length c = 16" "set ts \<subseteq> set valid_alert_types"
    by (auto simp: subscribe_valid_def)
  then have t': "t' = fst (sql_insert_or_replace t ?row)"
    using assms(1) by (simp add: post_subscribe_valid)
  have ne: "e \<noteq> []" "c \<noteq> []" using email_regex_test_nonempty [OF ok(1)] ok(2) by auto
  have "(e, c) \<in> (sub_key \<circ> snd) ` set (sub_rows t')"
  proof -
    have "(sub_next_id t, ?row) \<in> set (sub_rows t')" by (simp add: t' sql_insert_or_replace_def Let_def)
    then show ?thesis by (rule rev_image_eqI) (simp add: sub_key_def)
  qed
  moreover have "filter (\<lambda>(_, r). sub_key r \<noteq> (e, c)) (sub_rows t') = filter (\<lambda>(_, r). sub_key r \<noteq> (e, c)) (sub_rows t)"
    using sql_insert_then_delete [of t ?row] by (simp add: t' sql_delete_def Let_def sub_key_def)
  ultimately show ?thesis by (simp add: unsubscribe_status [OF ne])
qed

end
