(* ===== verification/RateLimit.thy ===== *)
theory RateLimit
  imports JsRuntime JsMap
begin

text \<open>
  The HTTP rate limiter \<open>rateLimit(maxRequests, windowMs)\<close> of
  \<open>src/src/middleware/index.ts\<close>, mounted on \<open>/api\<close> with 100 requests per 15 minutes
  by \<open>src/src/server.ts\<close>. Its state is the module-global \<open>rateLimitMap\<close> from client
  id (\<open>req.ip || 'unknown'\<close>) to \<open>{count, resetTime}\<close>; the record is mutated in place,
  which keeps its position in the map, so it is \<open>jsmap_set\<close> on a present key. A
  request either proceeds with the three \<open>X-RateLimit-*\<close> headers or is answered 429
  with \<open>retryAfter\<close> seconds. Times and counts are integers, as the JavaScript numbers
  are in this range.
\<close>

section \<open>State and the middleware\<close>

record client_record =
  count :: int
  resetTime :: ms

type_synonym rate_map = "(string, client_record) jsmap"

datatype rl_outcome =
    Proceed int int ms
  | TooManyRequests int

definition rate_limit :: "int \<Rightarrow> int \<Rightarrow> string option \<Rightarrow> ms \<Rightarrow> rate_map \<Rightarrow> rl_outcome \<times> rate_map" where
  "rate_limit maxRequests windowMs ip now m =
     (let clientId = js_or_opt ip ''unknown'';
          r = (case jsmap_get m clientId of
                 None \<Rightarrow> \<lparr>count = 1, resetTime = now + windowMs\<rparr>
               | Some r \<Rightarrow>
                   if now > resetTime r then \<lparr>count = 1, resetTime = now + windowMs\<rparr>
                   else r\<lparr>count := count r + 1\<rparr>);
          m' = jsmap_set m clientId r
      in if count r > maxRequests
         then (TooManyRequests (\<lceil>rat_of_int (resetTime r - now) / 1000\<rceil>), m')
         else (Proceed maxRequests (max 0 (maxRequests - count r)) (resetTime r), m'))"

fun proceeds :: "rl_outcome \<Rightarrow> bool" where
  "proceeds (Proceed _ _ _) = True"
| "proceeds (TooManyRequests _) = False"

text \<open>
  A sequence of requests (client address and arrival time) through one limiter,
  with the log of which client was let through when: the harness of the properties.
\<close>

fun rl_run ::
  "int \<Rightarrow> int \<Rightarrow> (string option \<times> ms) list \<Rightarrow> rate_map \<times> (string \<times> ms \<times> bool) list
   \<Rightarrow> rate_map \<times> (string \<times> ms \<times> bool) list" where
  "rl_run mx w [] s = s"
| "rl_run mx w ((ip, now) # rest) (m, hist) =
     (let (res, m') = rate_limit mx w ip now m
      in rl_run mx w rest (m', hist @ [(js_or_opt ip ''unknown'', now, proceeds res)]))"

text \<open>
  The window invariant: for every client, the hist entries since its window opened
  (at \<open>resetTime - windowMs\<close>) number \<open>count\<close>, the first \<open>maxRequests\<close> of them were let
  through, every entry of the client is no later than \<open>resetTime\<close>, and the window
  opened no later than the clock.
\<close>

definition window_entries :: "int \<Rightarrow> string \<Rightarrow> client_record \<Rightarrow> (string \<times> ms \<times> bool) list \<Rightarrow> (string \<times> ms \<times> bool) list" where
  "window_entries w c r hist = filter (\<lambda>(c', t, _). c' = c \<and> resetTime r - w \<le> t) hist"

definition rl_inv :: "int \<Rightarrow> int \<Rightarrow> ms \<Rightarrow> rate_map \<Rightarrow> (string \<times> ms \<times> bool) list \<Rightarrow> bool" where
  "rl_inv mx w clock m hist =
     (jsmap_wf m \<and>
      list_all (\<lambda>(c, _, _). c \<in> fst ` set m) hist \<and>
      list_all (\<lambda>(c, r).
         int (length (window_entries w c r hist)) = count r \<and>
         int (length (filter (\<lambda>(_, _, ok). ok) (window_entries w c r hist))) = min (count r) (max 0 mx) \<and>
         list_all (\<lambda>(c', t, _). c' = c \<longrightarrow> t \<le> resetTime r) hist \<and>
         resetTime r - w \<le> clock) m)"

lemmas rate_limit_defs [model_simps] = rate_limit_def window_entries_def

section \<open>The window invariant\<close>

lemma rate_limit_cases:
  assumes "rate_limit mx w ip now m = (res, m')"
  shows "\<exists>r'. m' = jsmap_set m (js_or_opt ip ''unknown'') r' \<and> proceeds res = (count r' \<le> mx) \<and>
           ((count r' = 1 \<and> resetTime r' = now + w \<and>
             (\<forall>r. jsmap_get m (js_or_opt ip ''unknown'') = Some r \<longrightarrow> resetTime r < now)) \<or>
            (\<exists>r. jsmap_get m (js_or_opt ip ''unknown'') = Some r \<and> now \<le> resetTime r \<and>
                 r' = r\<lparr>count := count r + 1\<rparr>))"
  using assms by (auto simp: rate_limit_def Let_def not_less split: option.splits if_splits)

lemma window_entries_snoc:
  "window_entries w c r (hist @ [(c', t, ok)]) =
     window_entries w c r hist @ (if c' = c \<and> resetTime r - w \<le> t then [(c', t, ok)] else [])"
  by (simp add: window_entries_def)

lemma window_entries_empty:
  "list_all (\<lambda>(c', t, _). c' = c \<longrightarrow> t < start) hist \<Longrightarrow> resetTime r - w = start \<Longrightarrow>
   window_entries w c r hist = []"
  by (auto simp: window_entries_def filter_empty_conv list_all_iff)

lemma rl_inv_step:
  assumes inv: "rl_inv mx w clock m hist" and clk: "clock \<le> now" and w: "0 \<le> w"
    and step: "rate_limit mx w ip now m = (res, m')"
  shows "rl_inv mx w now m' (hist @ [(js_or_opt ip ''unknown'', now, proceeds res)])"
proof -
  let ?c = "js_or_opt ip ''unknown''"
  let ?hist = "hist @ [(?c, now, proceeds res)]"
  obtain r' where m': "m' = jsmap_set m ?c r'" and ok: "proceeds res = (count r' \<le> mx)"
    and cases: "(count r' = 1 \<and> resetTime r' = now + w \<and>
                 (\<forall>r. jsmap_get m ?c = Some r \<longrightarrow> resetTime r < now)) \<or>
                (\<exists>r. jsmap_get m ?c = Some r \<and> now \<le> resetTime r \<and> r' = r\<lparr>count := count r + 1\<rparr>)"
    using rate_limit_cases [OF step] by blast
  from inv have wf: "jsmap_wf m" and keys: "list_all (\<lambda>(c, _, _). c \<in> fst ` set m) hist"
    and per: "\<And>c r. (c, r) \<in> set m \<Longrightarrow>
        int (length (window_entries w c r hist)) = count r \<and>
        int (length (filter (\<lambda>(_, _, ok). ok) (window_entries w c r hist))) = min (count r) (max 0 mx) \<and>
        list_all (\<lambda>(c', t, _). c' = c \<longrightarrow> t \<le> resetTime r) hist \<and> resetTime r - w \<le> clock"
    by (auto simp: rl_inv_def list_all_iff)
  have new: "int (length (window_entries w ?c r' ?hist)) = count r' \<and>
      int (length (filter (\<lambda>(_, _, ok). ok) (window_entries w ?c r' ?hist))) = min (count r') (max 0 mx) \<and>
      list_all (\<lambda>(c', t, _). c' = ?c \<longrightarrow> t \<le> resetTime r') ?hist \<and> resetTime r' - w \<le> now"
  proof (cases "count r' = 1 \<and> resetTime r' = now + w \<and>
                (\<forall>r. jsmap_get m ?c = Some r \<longrightarrow> resetTime r < now)")
    case True
    have old: "list_all (\<lambda>(c', t, _). c' = ?c \<longrightarrow> t < now) hist"
    proof (cases "jsmap_get m ?c")
      case None
      then have "?c \<notin> fst ` set m" using jsmap_has_get [of m ?c] by simp
      with keys show ?thesis by (auto simp: list_all_iff)
    next
      case (Some r)
      with wf have "(?c, r) \<in> set m" by (auto simp: jsmap_get_def dest: map_of_SomeD)
      with per [of ?c r] True Some show ?thesis by (fastforce simp: list_all_iff)
    qed
    have "window_entries w ?c r' hist = []"
      using window_entries_empty [OF old] True by simp
    with True w show ?thesis
      using old by (auto simp: window_entries_snoc ok list_all_iff)
  next
    case False
    with cases obtain r where r: "jsmap_get m ?c = Some r" "now \<le> resetTime r"
      and r': "r' = r\<lparr>count := count r + 1\<rparr>" by blast
    from r(1) wf have "(?c, r) \<in> set m" by (auto simp: jsmap_get_def dest: map_of_SomeD)
    from per [OF this] clk r(2) show ?thesis
      by (auto simp: r' window_entries_snoc window_entries_def ok list_all_iff)
  qed
  have other: "int (length (window_entries w c2 r2 ?hist)) = count r2 \<and>
      int (length (filter (\<lambda>(_, _, ok). ok) (window_entries w c2 r2 ?hist))) = min (count r2) (max 0 mx) \<and>
      list_all (\<lambda>(c', t, _). c' = c2 \<longrightarrow> t \<le> resetTime r2) ?hist \<and> resetTime r2 - w \<le> now"
    if "(c2, r2) \<in> set m" "c2 \<noteq> ?c" for c2 r2
    using per [OF that(1)] that(2) clk by (auto simp: window_entries_snoc)
  show ?thesis
    unfolding rl_inv_def
  proof (intro conjI)
    show "jsmap_wf m'" using wf by (simp add: m' jsmap_wf_set)
    show "list_all (\<lambda>(c, _, _). c \<in> fst ` set m') ?hist" using keys by (auto simp: m' list_all_iff)
    show "list_all (\<lambda>(c, r).
         int (length (window_entries w c r ?hist)) = count r \<and>
         int (length (filter (\<lambda>(_, _, ok). ok) (window_entries w c r ?hist))) = min (count r) (max 0 mx) \<and>
         list_all (\<lambda>(c', t, _). c' = c \<longrightarrow> t \<le> resetTime r) ?hist \<and> resetTime r - w \<le> now) m'"
      unfolding list_all_iff [where xs = m']
    proof
      fix x assume x: "x \<in> set m'"
      obtain c2 r2 where x2: "x = (c2, r2)" by fastforce
      from x have "(c2 = ?c \<and> r2 = r') \<or> (c2 \<noteq> ?c \<and> (c2, r2) \<in> set m)"
        using jsmap_set_member [OF wf] by (simp add: m' x2)
      with new other show "case x of (c, r) \<Rightarrow>
         int (length (window_entries w c r ?hist)) = count r \<and>
         int (length (filter (\<lambda>(_, _, ok). ok) (window_entries w c r ?hist))) = min (count r) (max 0 mx) \<and>
         list_all (\<lambda>(c', t, _). c' = c \<longrightarrow> t \<le> resetTime r) ?hist \<and> resetTime r - w \<le> now"
        by (auto simp: x2)
    qed
  qed
qed

lemma rl_inv_init: "rl_inv mx w clock [] []"
  by (simp add: rl_inv_def jsmap_wf_def)

lemma rl_inv_run:
  assumes "rl_inv mx w clock m hist" and "0 \<le> w"
    and "sorted (map snd reqs)" and "\<forall>t \<in> snd ` set reqs. clock \<le> t"
  shows "\<exists>clock'. rl_inv mx w clock' (fst (rl_run mx w reqs (m, hist))) (snd (rl_run mx w reqs (m, hist)))"
  using assms
proof (induction reqs arbitrary: clock m hist)
  case Nil then show ?case by auto
next
  case (Cons q reqs)
  obtain ip now where q: "q = (ip, now)" by fastforce
  obtain res m' where step: "rate_limit mx w ip now m = (res, m')" by fastforce
  have "rl_inv mx w now m' (hist @ [(js_or_opt ip ''unknown'', now, proceeds res)])"
    using rl_inv_step [OF Cons.prems(1) _ Cons.prems(2) step] Cons.prems(4) by (simp add: q)
  moreover have "sorted (map snd reqs)" "\<forall>t \<in> snd ` set reqs. now \<le> t"
    using Cons.prems(3) by (auto simp: q)
  ultimately show ?case
    using Cons.IH [of now m' "hist @ [(js_or_opt ip ''unknown'', now, proceeds res)]"] Cons.prems(2)
    by (simp add: q step)
qed

text \<open>C21: Along any run of requests with a forward-running clock and windowMs >= 0, for every client the requests let through since its current window opened are exactly min(count, maxRequests): never more than maxRequests.\<close>

theorem rl_run_window:
  assumes "0 \<le> w" and "sorted (map snd reqs)" and "(c, r) \<in> set (fst (rl_run mx w reqs ([], [])))"
  shows "int (length (filter (\<lambda>(_, _, ok). ok) (window_entries w c r (snd (rl_run mx w reqs ([], [])))))) =
           min (count r) (max 0 mx)"
proof -
  obtain clock where "rl_inv mx w clock (fst (rl_run mx w reqs ([], []))) (snd (rl_run mx w reqs ([], [])))"
    using rl_inv_run [OF rl_inv_init assms(1,2), of "Min (insert 0 (snd ` set reqs))"] by force
  with assms(3) show ?thesis by (auto simp: rl_inv_def list_all_iff)
qed

lemma rl_run_append: "rl_run mx w (xs @ ys) s = rl_run mx w ys (rl_run mx w xs s)"
  by (induction mx w xs s rule: rl_run.induct) (auto simp: Let_def split: prod.split)

lemma rl_run_replicate:
  assumes "jsmap_get m (js_or_opt ip ''unknown'') = Some r" and "now \<le> resetTime r"
  shows "rl_run mx w (replicate k (ip, now)) (m, hist) =
           (jsmap_set m (js_or_opt ip ''unknown'') (r\<lparr>count := count r + int k\<rparr>),
            hist @ map (\<lambda>j. (js_or_opt ip ''unknown'', now, count r + int j \<le> mx)) [1..<Suc k])"
  using assms
proof (induction k arbitrary: m r hist)
  case 0
  have "jsmap_set m (js_or_opt ip ''unknown'') r = m"
    using 0(1) by (induction m) (auto simp: jsmap_get_def split: if_splits)
  then show ?case by simp
next
  case (Suc k)
  let ?c = "js_or_opt ip ''unknown''"
  let ?r1 = "r\<lparr>count := count r + 1\<rparr>"
  have step: "rate_limit mx w ip now m =
      ((if count ?r1 > mx then TooManyRequests \<lceil>rat_of_int (resetTime r - now) / 1000\<rceil>
        else Proceed mx (max 0 (mx - count ?r1)) (resetTime r)), jsmap_set m ?c ?r1)"
    using Suc.prems by (simp add: rate_limit_def Let_def)
  have "rl_run mx w (replicate (Suc k) (ip, now)) (m, hist) =
        rl_run mx w (replicate k (ip, now)) (jsmap_set m ?c ?r1, hist @ [(?c, now, count r + 1 \<le> mx)])"
    by (simp add: step not_less)
  also have "\<dots> = (jsmap_set m ?c (?r1\<lparr>count := count ?r1 + int k\<rparr>),
         (hist @ [(?c, now, count r + 1 \<le> mx)]) @ map (\<lambda>j. (?c, now, count ?r1 + int j \<le> mx)) [1..<Suc k])"
    using Suc.IH [of "jsmap_set m ?c ?r1" ?r1] Suc.prems(2) by (simp del: upt_Suc)
  also have "(hist @ [(?c, now, count r + 1 \<le> mx)]) @ map (\<lambda>j. (?c, now, count ?r1 + int j \<le> mx)) [1..<Suc k] =
             hist @ map (\<lambda>j. (?c, now, count r + int j \<le> mx)) [1..<Suc (Suc k)]"
  proof -
    have "[1..<Suc (Suc k)] = 1 # map Suc [1..<Suc k]" by (simp add: upt_conv_Cons map_Suc_upt del: upt_Suc)
    then show ?thesis by (simp add: add.assoc del: upt_Suc)
  qed
  finally show ?case by (simp add: add.assoc)
qed

lemma rate_limit_fresh:
  "jsmap_get m (js_or_opt ip ''unknown'') = None \<or>
   (\<exists>r. jsmap_get m (js_or_opt ip ''unknown'') = Some r \<and> resetTime r < now) \<Longrightarrow>
   rate_limit mx w ip now m =
     (if 1 > mx then TooManyRequests \<lceil>rat_of_int w / 1000\<rceil> else Proceed mx (max 0 (mx - 1)) (now + w),
      jsmap_set m (js_or_opt ip ''unknown'') \<lparr>count = 1, resetTime = now + w\<rparr>)"
  by (auto simp: rate_limit_def Let_def)

lemma filter_window_all:
  "(\<And>j. j \<in> set js \<Longrightarrow> 1 + int j \<le> mx) \<Longrightarrow> lo \<le> t \<Longrightarrow> t \<le> hi \<Longrightarrow>
   filter (\<lambda>(_, t, ok). ok \<and> lo \<le> t \<and> t \<le> hi) (map (\<lambda>j. (c, t, 1 + int j \<le> mx)) js) =
   map (\<lambda>j. (c, t, 1 + int j \<le> mx)) js"
  by (induction js) auto

text \<open>C22: The window is fixed, not sliding: for maxRequests >= 1 and windowMs > 0, one client gets 2 * maxRequests - 1 requests through within two milliseconds at a window boundary (199 for the 100 per 15 minutes of /api).\<close>

theorem fixed_window_burst:
  assumes "1 \<le> mx" and "0 < w"
  shows "length (filter (\<lambda>(_, t, ok). ok \<and> t0 + w \<le> t \<and> t \<le> t0 + w + 1)
           (snd (rl_run mx w ((ip, t0) # replicate (nat mx - 1) (ip, t0 + w)
                              @ (ip, t0 + w + 1) # replicate (nat mx - 1) (ip, t0 + w + 1)) ([], []))))
         = 2 * nat mx - 1"
proof -
  let ?c = "js_or_opt ip ''unknown''"
  let ?k = "nat mx - 1"
  let ?r0 = "\<lparr>count = 1, resetTime = t0 + w\<rparr>"
  let ?r1 = "\<lparr>count = 1, resetTime = t0 + w + 1 + w\<rparr>"
  have k: "1 + int ?k = mx" using assms(1) by simp
  have js: "1 + int j \<le> mx" if "j \<in> set [1..<Suc ?k]" for j using that assms(1) by auto
  have s1: "rl_run mx w [(ip, t0)] ([], []) = ([(?c, ?r0)], [(?c, t0, True)])"
    using assms(1) rate_limit_fresh [of "[]" ip t0 mx w] by (simp add: jsmap_get_def)
  have s2: "rl_run mx w (replicate ?k (ip, t0 + w)) ([(?c, ?r0)], [(?c, t0, True)]) =
            ([(?c, ?r0\<lparr>count := mx\<rparr>)], [(?c, t0, True)] @ map (\<lambda>j. (?c, t0 + w, 1 + int j \<le> mx)) [1..<Suc ?k])"
    using rl_run_replicate [of "[(?c, ?r0)]" ip ?r0 "t0 + w" mx w ?k "[(?c, t0, True)]"] k
    by (simp add: jsmap_get_def)
  have s3: "rl_run mx w [(ip, t0 + w + 1)] ([(?c, ?r0\<lparr>count := mx\<rparr>)], H) =
            ([(?c, ?r1)], H @ [(?c, t0 + w + 1, True)])" for H
    using assms(1) rate_limit_fresh [of "[(?c, ?r0\<lparr>count := mx\<rparr>)]" ip "t0 + w + 1" mx w]
    by (simp add: jsmap_get_def)
  have s4: "rl_run mx w (replicate ?k (ip, t0 + w + 1)) ([(?c, ?r1)], H) =
            ([(?c, ?r1\<lparr>count := mx\<rparr>)], H @ map (\<lambda>j. (?c, t0 + w + 1, 1 + int j \<le> mx)) [1..<Suc ?k])" for H
    using rl_run_replicate [of "[(?c, ?r1)]" ip ?r1 "t0 + w + 1" mx w ?k H] k assms(2)
    by (simp add: jsmap_get_def)
  have run: "snd (rl_run mx w ((ip, t0) # replicate ?k (ip, t0 + w) @ (ip, t0 + w + 1) # replicate ?k (ip, t0 + w + 1)) ([], []))
     = [(?c, t0, True)] @ map (\<lambda>j. (?c, t0 + w, 1 + int j \<le> mx)) [1..<Suc ?k] @ [(?c, t0 + w + 1, True)]
       @ map (\<lambda>j. (?c, t0 + w + 1, 1 + int j \<le> mx)) [1..<Suc ?k]"
  proof -
    have l: "(ip, t0) # replicate ?k (ip, t0 + w) @ (ip, t0 + w + 1) # replicate ?k (ip, t0 + w + 1) =
             [(ip, t0)] @ replicate ?k (ip, t0 + w) @ [(ip, t0 + w + 1)] @ replicate ?k (ip, t0 + w + 1)"
      by simp
    show ?thesis unfolding l rl_run_append s1 s2 s3 s4 by simp
  qed
  have f1: "filter (\<lambda>(_, t, ok). ok \<and> t0 + w \<le> t \<and> t \<le> t0 + w + 1)
              (map (\<lambda>j. (?c, t0 + w, 1 + int j \<le> mx)) [1..<Suc ?k]) =
            map (\<lambda>j. (?c, t0 + w, 1 + int j \<le> mx)) [1..<Suc ?k]"
    by (rule filter_window_all) (use js in auto)
  have f2: "filter (\<lambda>(_, t, ok). ok \<and> t0 + w \<le> t \<and> t \<le> t0 + w + 1)
              (map (\<lambda>j. (?c, t0 + w + 1, 1 + int j \<le> mx)) [1..<Suc ?k]) =
            map (\<lambda>j. (?c, t0 + w + 1, 1 + int j \<le> mx)) [1..<Suc ?k]"
    by (rule filter_window_all) (use js in auto)
  show ?thesis
    unfolding run filter_append f1 f2 using assms by (simp del: upt_Suc)
qed

text \<open>rateLimitMap is never pruned: after a request its keys are the previous keys plus the client id, so it grows with every distinct client address.\<close>

theorem rate_limit_keys:
  "fst ` set (snd (rate_limit mx w ip now m)) = insert (js_or_opt ip ''unknown'') (fst ` set m)"
  by (simp add: rate_limit_def Let_def)

end
