(* ===== verification/OkxApi.thy ===== *)
theory OkxApi
  imports Monitor Routes
begin

text \<open>
  The position source and the trader endpoints: \<open>OKXApi.getCurrentLeadPositions\<close> and
  \<open>OKXApi.extractUniqueCodeFromUrl\<close> of \<open>src/src/utils/okx-api.ts\<close>, and the two
  handlers of \<open>src/src/routes/trader.routes.ts\<close>. The HTTP exchange with OKX is a
  transport function from trader code to a network error message or the decoded
  \<open>OKXResponse\<close> body; \<open>getCurrentLeadPositions\<close> turns it into the
  \<open>position_source\<close> the monitor polls. The URL patterns are searched the way
  \<open>String.prototype.match\<close> does: the leftmost position where the literal (compared
  case-insensitively under the \<open>/i\<close> flag), sixteen characters of the class and the
  trailing condition all match.
\<close>

section \<open>getCurrentLeadPositions\<close>

record okx_response =
  resp_code :: string
  resp_msg :: string
  resp_data :: "LeadPosition list option"

type_synonym okx_transport = "entity_key \<Rightarrow> string + okx_response"

definition get_current_lead_positions :: "okx_transport \<Rightarrow> position_source" where
  "get_current_lead_positions transport uniqueCode =
     (case transport uniqueCode of
        Inl err \<Rightarrow> Inl err
      | Inr r \<Rightarrow>
          if resp_code r \<noteq> ''0'' then Inl (''OKX API Error: '' @ js_or (resp_msg r) ''Unknown error'')
          else Inr (case resp_data r of None \<Rightarrow> [] | Some ps \<Rightarrow> ps))"

section \<open>extractUniqueCodeFromUrl\<close>

definition is_hex_ci :: "char \<Rightarrow> bool" where
  "is_hex_ci c = (let n = of_char c :: nat in
     (48 \<le> n \<and> n \<le> 57) \<or> (65 \<le> n \<and> n \<le> 70) \<or> (97 \<le> n \<and> n \<le> 102))"

text \<open>A pattern \<open>lit([cls]{16})tail\<close> matching at the start of \<open>s\<close>.\<close>

definition code_match_at :: "bool \<Rightarrow> string \<Rightarrow> (char \<Rightarrow> bool) \<Rightarrow> (string \<Rightarrow> bool) \<Rightarrow> string \<Rightarrow> bool" where
  "code_match_at ci lit cls trail s =
     (let n = length lit; w = take n s in
      n + 16 \<le> length s \<and> (if ci then map js_lower w = map js_lower lit else w = lit) \<and>
      list_all cls (take 16 (drop n s)) \<and> trail (drop (n + 16) s))"

fun search_code :: "bool \<Rightarrow> string \<Rightarrow> (char \<Rightarrow> bool) \<Rightarrow> (string \<Rightarrow> bool) \<Rightarrow> string \<Rightarrow> string option" where
  "search_code ci lit cls trail [] =
     (if code_match_at ci lit cls trail [] then Some (take 16 (drop (length lit) [])) else None)"
| "search_code ci lit cls trail (c # s) =
     (if code_match_at ci lit cls trail (c # s) then Some (take 16 (drop (length lit) (c # s)))
      else search_code ci lit cls trail s)"

text \<open>The trailing conditions: none, \<open>(?:\/|$)\<close> and \<open>(?:\?|$)\<close>.\<close>

definition tail_any :: "string \<Rightarrow> bool" where
  "tail_any s = True"

definition tail_slash_or_end :: "string \<Rightarrow> bool" where
  "tail_slash_or_end s = (s = [] \<or> hd s = CHR ''/'')"

definition tail_query_or_end :: "string \<Rightarrow> bool" where
  "tail_query_or_end s = (s = [] \<or> hd s = CHR ''?'')"

text \<open>\<open>for (const pattern of patterns) { ... return ... }\<close>: the first pattern that matches.\<close>

fun first_some :: "('a \<Rightarrow> 'b option) \<Rightarrow> 'a list \<Rightarrow> 'b option" where
  "first_some f [] = None"
| "first_some f (x # xs) = (case f x of Some y \<Rightarrow> Some y | None \<Rightarrow> first_some f xs)"

definition backend_url_patterns :: "(string \<times> (string \<Rightarrow> bool)) list" where
  "backend_url_patterns =
     [(''/copy-trading/account/'', tail_any), (''/copy-trading/trader/'', tail_any),
      (''uniqueCode='', tail_any), (''/'', tail_slash_or_end)]"

definition extract_unique_code_from_url :: "string \<Rightarrow> string option" where
  "extract_unique_code_from_url url =
     map_option (map js_upper)
       (first_some (\<lambda>(lit, trail). search_code True lit is_hex_ci trail url) backend_url_patterns)"

section \<open>The trader routes\<close>

definition get_trader_positions :: "position_source \<Rightarrow> string \<Rightarrow> http_response" where
  "get_trader_positions fetch uniqueCode =
     (if uniqueCode = [] \<or> length uniqueCode \<noteq> 16 then
        fail_response 400 ''Invalid uniqueCode format. UniqueCode should be 16 characters long.''
      else
        (case fetch uniqueCode of
           Inl err \<Rightarrow> fail_response 500 err
         | Inr ps \<Rightarrow> ok_response (PositionList ps) ''Current positions retrieved successfully''))"

definition post_trader_add :: "position_source \<Rightarrow> string option \<Rightarrow> string option \<Rightarrow> http_response" where
  "post_trader_add fetch uniqueCode nickName =
     (if js_falsy_str uniqueCode \<or> length (the uniqueCode) \<noteq> 16 then
        fail_response 400 ''Invalid uniqueCode format. UniqueCode should be 16 characters long.''
      else
        (case fetch (the uniqueCode) of
           Inl _ \<Rightarrow> fail_response 400 ''Invalid uniqueCode. Unable to fetch trader data.''
         | Inr _ \<Rightarrow>
             ok_response (TraderAdded (the uniqueCode) (js_or_opt nickName ''Unknown Trader''))
               ''Trader added to monitoring list successfully''))"

text \<open>The characters of an extracted code: \<open>[0-9A-F]\<close>.\<close>

definition is_upper_hex :: "char \<Rightarrow> bool" where
  "is_upper_hex c = (let n = of_char c :: nat in (48 \<le> n \<and> n \<le> 57) \<or> (65 \<le> n \<and> n \<le> 70))"

lemmas okx_defs [model_simps] = get_current_lead_positions_def is_hex_ci_def code_match_at_def
  tail_any_def tail_slash_or_end_def tail_query_or_end_def backend_url_patterns_def
  extract_unique_code_from_url_def get_trader_positions_def post_trader_add_def

section \<open>Extracted codes\<close>

lemma search_code_result:
  "search_code ci lit cls trail s = Some w \<Longrightarrow> length w = 16 \<and> list_all cls w"
  by (induction ci lit cls trail s rule: search_code.induct)
     (auto simp: code_match_at_def Let_def split: if_splits)

lemma first_some_Some: "first_some f xs = Some y \<Longrightarrow> \<exists>x \<in> set xs. f x = Some y"
  by (induction f xs rule: first_some.induct) (auto split: option.splits)

lemma js_upper_hex: "is_hex_ci c \<Longrightarrow> is_upper_hex (js_upper c)"
proof -
  assume h: "is_hex_ci c"
  have "of_char c < (256::nat)" by (rule nat_of_char_less_256)
  then show ?thesis using h
    by (auto simp: is_hex_ci_def is_upper_hex_def js_upper_def Let_def)
qed

text \<open>C27: Whatever the URL, a code extracted by extractUniqueCodeFromUrl is sixteen characters, each an upper-case hexadecimal digit, so it passes the 16-character check of the routes.\<close>

theorem extract_shape:
  "extract_unique_code_from_url url = Some c \<Longrightarrow> length c = 16 \<and> list_all is_upper_hex c"
proof -
  assume "extract_unique_code_from_url url = Some c"
  then obtain w where w: "first_some (\<lambda>(lit, trail). search_code True lit is_hex_ci trail url) backend_url_patterns = Some w"
    and c: "c = map js_upper w"
    by (auto simp: extract_unique_code_from_url_def)
  from first_some_Some [OF w] obtain lit trail where "search_code True lit is_hex_ci trail url = Some w"
    by auto
  then have "length w = 16 \<and> list_all is_hex_ci w" by (rule search_code_result)
  then show ?thesis by (auto simp: c list_all_iff js_upper_hex)
qed

text \<open>On a path /copy-trading/account/ followed by sixteen hexadecimal digits, extractUniqueCodeFromUrl returns those digits upper-cased, whatever follows: a seventeenth hex digit is silently cut off.\<close>

theorem extract_account_path:
  assumes "length c = 16" and "list_all is_hex_ci c"
  shows "extract_unique_code_from_url (''/copy-trading/account/'' @ c @ rest) = Some (map js_upper c)"
  using assms by (simp add: extract_unique_code_from_url_def backend_url_patterns_def code_match_at_def
      js_lower_def tail_any_def)

end
