(* ===== verification/JsFormat.thy ===== *)
theory JsFormat
  imports JsRuntime
begin

text \<open>
  Number formatting of the JavaScript runtime, as the helpers and e-mail templates
  use it: \<open>Number.prototype.toFixed\<close> (ECMA-262, steps 5 to 12) and the
  \<open>en-US\<close> grouping of \<open>toLocaleString\<close> with equal minimum and maximum fraction
  digits. Numbers are the exact rationals of \<open>jsnum\<close>, so a value is rounded from
  its exact decimal expansion rather than from the nearest double; this is exact for
  the values the program prints only up to that rounding (\<open>(1.005).toFixed(2)\<close> is
  \<open>'1.00'\<close> in binary64, \<open>'1.01'\<close> here). The main fact is the print/parse round trip
  of the exact model: \<open>parseFloat(x.toFixed(f))\<close> is \<open>x\<close> rounded to \<open>f\<close> decimals.
\<close>

section \<open>Decimal digits\<close>

definition digit_char :: "int \<Rightarrow> char" where
  "digit_char d = char_of (48 + d)"

text \<open>The decimal digits of a non-negative integer, most significant first.\<close>

function dec_digits :: "int \<Rightarrow> string" where
  "dec_digits n = (if n < 10 then [digit_char n] else dec_digits (n div 10) @ [digit_char (n mod 10)])"
  by auto
termination
  by (relation "measure nat") auto

declare dec_digits.simps [simp del]

text \<open>
  \<open>x.toFixed(f)\<close> for \<open>0 \<le> x < 10^21\<close>: the integer \<open>n\<close> nearest to \<open>x * 10^f\<close>, the
  larger on a tie (\<open>round_half_up\<close>, computed from numerator and denominator), printed with at least \<open>f + 1\<close> digits and a point before the last
  \<open>f\<close>.
\<close>

definition round_half_up :: "nat \<Rightarrow> rat \<Rightarrow> int" where
  "round_half_up f x = (let (p, q) = quotient_of x in (2 * p * 10 ^ f + q) div (2 * q))"

definition fixed_digits :: "nat \<Rightarrow> rat \<Rightarrow> string" where
  "fixed_digits f x =
     (let n = round_half_up f x;
          m = dec_digits n;
          m' = replicate (f + 1 - length m) CHR ''0'' @ m;
          k = length m'
      in if f = 0 then m' else take (k - f) m' @ CHR ''.'' # drop (k - f) m')"

text \<open>
  \<open>Number::toString\<close> of a value of at least \<open>10^21\<close>, in exponent form, printed from
  the integer part's digits with trailing zeros dropped.
\<close>

definition exp_string :: "rat \<Rightarrow> string" where
  "exp_string x =
     (let ds = dec_digits \<lfloor>x\<rfloor>;
          sig = rev (dropWhile (\<lambda>c. c = CHR ''0'') (rev (tl ds)))
      in hd ds # (if sig = [] then [] else CHR ''.'' # sig) @ ''e+'' @ dec_digits (int (length ds - 1)))"

definition js_to_fixed :: "nat \<Rightarrow> jsnum \<Rightarrow> string" where
  "js_to_fixed f v =
     (case v of
        NaN \<Rightarrow> ''NaN''
      | PosInf \<Rightarrow> ''Infinity''
      | NegInf \<Rightarrow> ''-Infinity''
      | Num x \<Rightarrow>
          (if x < 0 then ''-'' else []) @
          (if \<bar>x\<bar> \<ge> 10 ^ 21 then exp_string \<bar>x\<bar> else fixed_digits f \<bar>x\<bar>))"

text \<open>
  \<open>x.toLocaleString('en-US', {minimumFractionDigits: f, maximumFractionDigits: f})\<close>:
  the same rounding (half away from zero), the integer part grouped by commas, the
  sign shown for every negative value (a value that rounds to zero included, as
  \<open>signDisplay: 'auto'\<close> does); infinity prints as the UTF-8 bytes of the infinity sign.
\<close>

fun group3 :: "string \<Rightarrow> string" where
  "group3 ds = (if length ds \<le> 3 then ds else group3 (take (length ds - 3) ds) @ CHR '','' # drop (length ds - 3) ds)"

declare group3.simps [simp del]

definition infinity_sign :: string where
  "infinity_sign = [char_of (226::nat), char_of (136::nat), char_of (158::nat)]"

definition js_to_locale_fixed :: "nat \<Rightarrow> jsnum \<Rightarrow> string" where
  "js_to_locale_fixed f v =
     (case v of
        NaN \<Rightarrow> ''NaN''
      | PosInf \<Rightarrow> infinity_sign
      | NegInf \<Rightarrow> ''-'' @ infinity_sign
      | Num x \<Rightarrow>
          (let s = fixed_digits f \<bar>x\<bar>;
               ip = takeWhile (\<lambda>c. c \<noteq> CHR ''.'') s;
               fp = dropWhile (\<lambda>c. c \<noteq> CHR ''.'') s
           in (if x < 0 then ''-'' else []) @ group3 ip @ fp))"

lemmas format_defs [model_simps] = round_half_up_def digit_char_def fixed_digits_def exp_string_def js_to_fixed_def
  infinity_sign_def js_to_locale_fixed_def

section \<open>Printing and parsing back\<close>

lemma of_char_char_of_int [simp]: "(of_char (char_of (k::int)) :: nat) = nat (k mod 256)"
proof -
  have "int (of_char (char_of k)) = (of_char (char_of k) :: int)" by (rule of_nat_of_char)
  then show ?thesis by simp
qed

lemma digit_of_digit_char:
  assumes "0 \<le> d" "d < 10" shows "digit_of (digit_char d) = Some (nat d)"
  using assms by (simp add: digit_of_def digit_char_def nat_add_distrib)

lemma span_digits_append:
  "list_all (\<lambda>c. digit_of c \<noteq> None) s \<Longrightarrow>
   span_digits (s @ r) = (map (the \<circ> digit_of) s @ fst (span_digits r), snd (span_digits r))"
  by (induction s) (auto split: option.splits prod.splits)

lemma foldl_digits:
  "foldl (\<lambda>acc d. 10 * acc + d) a ys = a * 10 ^ length ys + foldl (\<lambda>acc d. 10 * acc + d) (0::nat) ys"
proof (induction ys arbitrary: a)
  case Nil then show ?case by simp
next
  case (Cons y ys)
  have "foldl (\<lambda>acc d. 10 * acc + d) a (y # ys) = (10 * a + y) * 10 ^ length ys + foldl (\<lambda>acc d. 10 * acc + d) 0 ys"
    using Cons.IH [of "10 * a + y"] by (simp only: foldl_Cons)
  moreover have "foldl (\<lambda>acc d. 10 * acc + d) 0 (y # ys) = y * 10 ^ length ys + foldl (\<lambda>acc d. 10 * acc + d) 0 ys"
    using Cons.IH [of y] by (simp only: foldl_Cons mult_0_right add_0)
  ultimately show ?case by (simp add: distrib_right)
qed

lemma digits_value_append:
  "digits_value (xs @ ys) = digits_value xs * 10 ^ length ys + digits_value ys"
  unfolding digits_value_def foldl_append by (rule foldl_digits)

lemma digits_value_zeros [simp]: "digits_value (replicate k 0 @ ds) = digits_value ds"
proof -
  have "digits_value (replicate k 0) = 0" by (induction k) (simp_all add: digits_value_def)
  then show ?thesis by (simp add: digits_value_append)
qed

lemma dec_digits_props:
  "0 \<le> n \<Longrightarrow> dec_digits n \<noteq> [] \<and> list_all (\<lambda>c. digit_of c \<noteq> None) (dec_digits n) \<and>
                digits_value (map (the \<circ> digit_of) (dec_digits n)) = nat n"
proof (induction n rule: dec_digits.induct)
  case (1 n)
  show ?case
  proof (cases "n < 10")
    case True
    then have eq: "dec_digits n = [digit_char n]" by (subst dec_digits.simps) simp
    with True "1.prems" show ?thesis
      by (simp add: digit_of_digit_char digits_value_def)
  next
    case False
    have ih: "dec_digits (n div 10) \<noteq> [] \<and> list_all (\<lambda>c. digit_of c \<noteq> None) (dec_digits (n div 10)) \<and>
              digits_value (map (the \<circ> digit_of) (dec_digits (n div 10))) = nat (n div 10)"
      using "1.IH" False "1.prems" by (simp add: comp_def)
    have d: "digit_of (digit_char (n mod 10)) = Some (nat (n mod 10))"
      by (rule digit_of_digit_char) simp_all
    have nat_eq: "nat (n div 10) * 10 + nat (n mod 10) = nat n"
    proof -
      have "int (nat (n div 10) * 10 + nat (n mod 10)) = n" using "1.prems" by (simp add: pos_imp_zdiv_nonneg_iff)
      then show ?thesis by (metis nat_int)
    qed
    have eq: "dec_digits n = dec_digits (n div 10) @ [digit_char (n mod 10)]"
      using False by (subst dec_digits.simps) simp
    have single: "digits_value [k] = k" for k by (simp add: digits_value_def)
    show ?thesis
      using ih d nat_eq by (simp add: eq digits_value_append single comp_def)
  qed
qed

lemma round_half_up_floor: "round_half_up f x = \<lfloor>x * 10 ^ f + 1 / 2\<rfloor>"
proof -
  obtain p q where pq: "quotient_of x = (p, q)" by fastforce
  have q: "0 < q" using quotient_of_denom_pos [OF pq] .
  have x: "x = of_int p / of_int q" using quotient_of_div [OF pq] .
  have "x * 10 ^ f + 1 / 2 = of_int (2 * p * 10 ^ f + q) / of_int (2 * q)"
    using q by (simp add: x field_simps)
  then have "\<lfloor>x * 10 ^ f + 1 / 2\<rfloor> = (2 * p * 10 ^ f + q) div (2 * q)"
    by (simp only: floor_divide_of_int_eq)
  then show ?thesis by (simp add: round_half_up_def pq)
qed

lemma round_half_up_nonneg: "0 \<le> x \<Longrightarrow> 0 \<le> round_half_up f x"
  by (simp add: round_half_up_floor)

lemma digit_char_not_I: "digit_of c \<noteq> None \<Longrightarrow> c \<noteq> CHR ''I''"
  by (auto simp: digit_of_def)

lemma digit_not_space: "digit_of c \<noteq> None \<Longrightarrow> \<not> is_js_space c"
  by (auto simp: digit_of_def is_js_space_def Let_def split: if_splits)

lemma digit_not_sign: "digit_of c \<noteq> None \<Longrightarrow> c \<noteq> CHR ''-'' \<and> c \<noteq> CHR ''+''"
  by (auto simp: digit_of_def)

lemma padded_digits:
  fixes f :: nat and n :: int
  assumes "0 \<le> n"
  defines "m' \<equiv> replicate (f + 1 - length (dec_digits n)) CHR ''0'' @ dec_digits n"
  shows "f + 1 \<le> length m' \<and> list_all (\<lambda>c. digit_of c \<noteq> None) m' \<and>
         digits_value (map (the \<circ> digit_of) m') = nat n"
proof -
  have d: "dec_digits n \<noteq> [] \<and> list_all (\<lambda>c. digit_of c \<noteq> None) (dec_digits n) \<and>
           digits_value (map (the \<circ> digit_of) (dec_digits n)) = nat n"
    using dec_digits_props [OF assms(1)] .
  have z: "digit_of CHR ''0'' = Some 0" by (simp add: digit_of_def)
  have "map (the \<circ> digit_of) m' = replicate (f + 1 - length (dec_digits n)) 0 @ map (the \<circ> digit_of) (dec_digits n)"
    by (simp add: m'_def z)
  with d z show ?thesis by (auto simp: m'_def list_all_iff)
qed

lemma parse_unsigned_digits:
  assumes "ds \<noteq> []" and "list_all (\<lambda>c. digit_of c \<noteq> None) ds"
  shows "parse_unsigned ds = Num (of_nat (digits_value (map (the \<circ> digit_of) ds)))"
proof -
  obtain c cs where ds: "ds = c # cs" using assms(1) by (cases ds) auto
  have "take 8 ds \<noteq> ''Infinity''" using assms(2) digit_char_not_I [of c] by (auto simp: ds)
  moreover have "span_digits ds = (map (the \<circ> digit_of) ds, [])"
    using span_digits_append [OF assms(2), of "[]"] by simp
  ultimately show ?thesis using assms(1) by (simp add: parse_unsigned_def scale10_def exponent_part_def)
qed

lemma parse_unsigned_point:
  assumes "a \<noteq> []" and "list_all (\<lambda>c. digit_of c \<noteq> None) (a @ b)"
  shows "parse_unsigned (a @ CHR ''.'' # b) =
           Num (of_nat (digits_value (map (the \<circ> digit_of) (a @ b))) / 10 ^ length b)"
proof -
  obtain c cs where a: "a = c # cs" using assms(1) by (cases a) auto
  have "take 8 (a @ CHR ''.'' # b) \<noteq> ''Infinity''"
    using assms(2) digit_char_not_I [of c] by (auto simp: a)
  moreover have "span_digits (a @ CHR ''.'' # b) = (map (the \<circ> digit_of) a, CHR ''.'' # b)"
    using span_digits_append [of a "CHR ''.'' # b"] assms(2) by (simp add: digit_of_def)
  moreover have "span_digits b = (map (the \<circ> digit_of) b, [])"
    using span_digits_append [of b "[]"] assms(2) by simp
  ultimately show ?thesis using assms(1)
    by (simp add: parse_unsigned_def scale10_def exponent_part_def power_int_def)
qed

lemma fixed_digits_shape:
  assumes "0 \<le> y"
  shows "\<exists>c cs. fixed_digits f y = c # cs \<and> digit_of c \<noteq> None \<and>
           parse_unsigned (fixed_digits f y) = Num (of_int (round_half_up f y) / 10 ^ f)"
proof -
  let ?n = "round_half_up f y"
  have n: "0 \<le> ?n" using assms by (rule round_half_up_nonneg)
  define m' where "m' = replicate (f + 1 - length (dec_digits ?n)) CHR ''0'' @ dec_digits ?n"
  have len: "f + 1 \<le> length m'" and dig: "list_all (\<lambda>c. digit_of c \<noteq> None) m'"
    and val: "digits_value (map (the \<circ> digit_of) m') = nat ?n"
    using padded_digits [OF n, of f] by (simp_all add: m'_def)
  have fd: "fixed_digits f y =
      (if f = 0 then m' else take (length m' - f) m' @ CHR ''.'' # drop (length m' - f) m')"
    by (simp add: fixed_digits_def m'_def Let_def)
  obtain c cs where m': "m' = c # cs" using len by (cases m') auto
  have c: "digit_of c \<noteq> None" using dig by (simp add: m')
  have nn: "of_nat (nat ?n) = (of_int ?n :: rat)" using n by simp
  show ?thesis
  proof (cases "f = 0")
    case True
    have "fixed_digits f y = m'" using fd True by simp
    then show ?thesis
      using True parse_unsigned_digits [of m'] dig val c nn by (simp add: m')
  next
    case False
    let ?a = "take (length m' - f) m'" and ?b = "drop (length m' - f) m'"
    have a: "?a \<noteq> []" using len False by (auto simp: m')
    have ab: "?a @ ?b = m'" by simp
    have lb: "length ?b = f" using len by simp
    have hd: "?a = c # tl ?a"
    proof -
      have "0 < length m' - f" using len by simp
      then have "hd ?a = c" by (simp add: hd_take m')
      with a show ?thesis by (metis list.collapse)
    qed
    have "parse_unsigned (?a @ CHR ''.'' # ?b) = Num (of_nat (nat ?n) / 10 ^ f)"
      using parse_unsigned_point [OF a] dig val lb by (simp only: ab)
    with False nn hd c show ?thesis by (metis fd append_Cons)
  qed
qed

text \<open>In exact arithmetic, printing a finite number below \<open>10^21\<close> with \<open>toFixed(f)\<close>
  and reading it back with \<open>parseFloat\<close> gives the number rounded to \<open>f\<close> decimals
  (half up on the magnitude), with its sign; in binary64 both the printed value and the
  value read back are rounded to doubles in addition.\<close>

lemma to_fixed_roundtrip:
  assumes "\<bar>x\<bar> < 10 ^ 21"
  shows "parse_float (js_to_fixed f (Num x)) =
           Num ((if x < 0 then - 1 else 1) * of_int \<lfloor>\<bar>x\<bar> * 10 ^ f + 1 / 2\<rfloor> / 10 ^ f)"
proof -
  obtain c cs where s: "fixed_digits f \<bar>x\<bar> = c # cs" and c: "digit_of c \<noteq> None"
    and p: "parse_unsigned (fixed_digits f \<bar>x\<bar>) = Num (of_int (round_half_up f \<bar>x\<bar>) / 10 ^ f)"
    using fixed_digits_shape [of "\<bar>x\<bar>" f] by auto
  have sp: "\<not> is_js_space c" "c \<noteq> CHR ''-''" "c \<noteq> CHR ''+''"
    using digit_not_space [OF c] digit_not_sign [OF c] by auto
  have minus: "\<not> is_js_space CHR ''-''" by (simp add: is_js_space_def)
  show ?thesis
  proof (cases "x < 0")
    case True
    then show ?thesis using assms p sp minus
      by (simp add: js_to_fixed_def parse_float_def s round_half_up_floor)
  next
    case False
    then have s': "fixed_digits f x = c # cs" and p': "parse_unsigned (fixed_digits f x) =
        Num (of_int (round_half_up f x) / 10 ^ f)" using s p by simp_all
    show ?thesis using False assms p' sp
      by (simp add: js_to_fixed_def parse_float_def s' round_half_up_floor)
  qed
qed

end
