(* ===== verification/Templates.thy ===== *)
theory Templates
  imports Email JsFormat
begin

text \<open>
  The two position e-mails of \<open>src/src/services/email.service.ts\<close>
  (\<open>generateNewPositionEmail\<close>, \<open>generateClosePositionEmail\<close>). A template literal is
  modelled by the values it interpolates, in the order of the template; the fixed
  HTML and the Chinese labels are the constructors of \<open>side_label\<close> and
  \<open>pnl_icon\<close>. An optional field that is absent prints as \<open>undefined\<close>, as
  \<open>${undefined}\<close> does.
\<close>

section \<open>Interpolated values\<close>

definition js_str_opt :: "string option \<Rightarrow> string" where
  "js_str_opt s = (case s of None \<Rightarrow> ''undefined'' | Some t \<Rightarrow> t)"

text \<open>\<open>position.posSide === 'long' ? '\<dots>long\<dots>' : '\<dots>short\<dots>'\<close>.\<close>

datatype side_label = SideLongLabel | SideShortLabel

definition side_label :: "LeadPosition \<Rightarrow> side_label" where
  "side_label p = (if posSide p = ''long'' then SideLongLabel else SideShortLabel)"

datatype pnl_icon = ChartUp | ChartDown

text \<open>
  \<open>n.toLocaleString()\<close> in the default \<open>en-US\<close> locale: at most three fraction
  digits, trailing zeros dropped, the integer part grouped.
\<close>

definition js_to_locale_default :: "jsnum \<Rightarrow> string" where
  "js_to_locale_default v =
     (let s = js_to_locale_fixed 3 v in
      if CHR ''.'' \<in> set s then
        (let t = rev (dropWhile (\<lambda>c. c = CHR ''0'') (rev s))
         in if last t = CHR ''.'' then butlast t else t)
      else s)"

record new_position_email =
  np_trader :: string
  np_inst :: string
  np_side :: side_label
  np_amount :: string
  np_avgPx :: string
  np_lever :: string
  np_notional :: string

definition generate_new_position_email :: "string \<Rightarrow> LeadPosition \<Rightarrow> new_position_email" where
  "generate_new_position_email traderName p =
     \<lparr>np_trader = traderName, np_inst = instId p, np_side = side_label p,
      np_amount = js_str_opt (pos p), np_avgPx = js_str_opt (avgPx p), np_lever = lever p,
      np_notional = js_to_locale_default (parse_float (js_or_opt (notionalUsd p) ''0''))\<rparr>"

record close_position_email =
  ce_color :: string
  ce_icon :: pnl_icon
  ce_trader :: string
  ce_inst :: string
  ce_pnl :: string
  ce_side :: side_label
  ce_amount :: string
  ce_avgPx :: string
  ce_markPx :: string
  ce_lever :: string
  ce_uplRatio :: string

definition generate_close_position_email :: "string \<Rightarrow> LeadPosition \<Rightarrow> close_position_email" where
  "generate_close_position_email traderName p =
     (let pnl = parse_float (upl p);
          up = js_ge pnl (Num 0)
      in \<lparr>ce_color = (if up then ''#52c41a'' else ''#ff4d4f''),
          ce_icon = (if up then ChartUp else ChartDown),
          ce_trader = traderName, ce_inst = instId p,
          ce_pnl = (if up then ''+'' else []) @ js_to_fixed 2 pnl,
          ce_side = side_label p, ce_amount = js_str_opt (pos p), ce_avgPx = js_str_opt (avgPx p),
          ce_markPx = markPx p, ce_lever = lever p, ce_uplRatio = uplRatio p\<rparr>)"

lemmas templates_defs [model_simps] = js_str_opt_def side_label_def js_to_locale_default_def
  generate_new_position_email_def generate_close_position_email_def

section \<open>The PnL line of the close-position e-mail\<close>

text \<open>An unparseable \<open>upl\<close> gives \<open>NaN\<close>: the mail shows the loss icon and the text \<open>NaN\<close>.\<close>

lemma close_email_nan:
  "parse_float (upl p) = NaN \<Longrightarrow>
   ce_icon (generate_close_position_email t p) = ChartDown \<and> ce_pnl (generate_close_position_email t p) = ''NaN''"
  by (simp add: generate_close_position_email_def js_ge_def js_to_fixed_def Let_def)

end
