(* ===== verification/MonitorTask.thy ===== *)
theory MonitorTask
  imports JsFormat
begin

text \<open>
  The standalone script \<open>src/scripts/monitor-task.js\<close>: it loads the previous poll
  from \<open>data/traders.json\<close>, builds the new poll from \<open>getTraderInfo\<close> for a fixed
  list of trader ids, diffs the two with \<open>checkTraderChanges\<close>, mails a report
  (\<open>generateNotificationMessage\<close>, \<open>sendNotification\<close>) when there are changes, and
  writes the new poll back (\<open>saveData\<close>, \<open>updateFrontendData\<close>). \<open>getTraderInfo\<close>
  never fails (it falls back to generated data) and its values are random, so the
  model receives it as a function. The data file is the parsed JSON value, absent
  when the file is missing or does not parse; a \<open>traders\<close> key that is missing is
  \<open>None\<close>, on which \<open>oldData.traders.find\<close> throws a \<open>TypeError\<close>. The
  report's subjects and fixed texts are constructors. \<open>sendNotification\<close> calls
  \<open>nodemailer.createTransporter\<close>, which the module does not export, so no report is
  ever handed to SMTP; \<open>sendOk\<close> is the outcome \<open>sendMail\<close> would have.
\<close>

section \<open>Data\<close>

record task_position =
  symbol :: string
  side :: string
  size :: jsnum
  pnl :: jsnum
  entryPrice :: string
  markPrice :: jsnum

record trader_info =
  traderId :: string
  nickname :: string
  profitRate :: jsnum
  followersCount :: int
  tr_positions :: "task_position list"

record task_data =
  traders :: "trader_info list option"
  data_positions :: "task_position list"
  lastUpdate :: "string option"

datatype task_change =
    NewTrader trader_info
  | ProfitChange trader_info jsnum
  | NewTaskPosition trader_info task_position

datatype report_line =
    NewTraderLine string string
  | ProfitLine bool string string
  | NewPositionLine string string string

datatype task_subject = StatusUpdate | TaskFailed

datatype task_message = Report "report_line list" | FailureMessage string

record task_env =
  smtp_user :: "string option"
  smtp_pass :: "string option"
  notify_to :: "string option"
  sendOk :: bool
  saveOk :: bool
  frontendOk :: bool

record task_state =
  stored :: "task_data option"
  frontend_data :: "task_data option"
  task_outbox :: "(string \<times> task_subject \<times> task_message) list"

definition trader_ids :: "string list" where
  "trader_ids = [''trader1'', ''trader2'', ''trader3'']"

section \<open>Operations\<close>

definition load_data :: "task_data option \<Rightarrow> task_data" where
  "load_data file =
     (case file of None \<Rightarrow> \<lparr>traders = Some [], data_positions = [], lastUpdate = None\<rparr> | Some d \<Rightarrow> d)"

definition js_falsy_opt :: "string option \<Rightarrow> bool" where
  "js_falsy_opt s = (case s of None \<Rightarrow> True | Some x \<Rightarrow> x = [])"

text \<open>The functions the \<open>nodemailer\<close> module exports. \<open>sendNotification\<close> calls
  \<open>nodemailer.createTransporter\<close>, which is not among them: the call throws a
  \<open>TypeError\<close>, which the function's own \<open>catch\<close> logs.\<close>

definition nodemailer_exports :: "string list" where
  "nodemailer_exports = [''createTransport'', ''createTestAccount'', ''getTestMessageUrl'']"

definition send_notification ::
  "task_env \<Rightarrow> task_subject \<Rightarrow> task_message \<Rightarrow> (string \<times> task_subject \<times> task_message) list
   \<Rightarrow> (string \<times> task_subject \<times> task_message) list" where
  "send_notification env subject msg outbox =
     (if js_falsy_opt (smtp_user env) \<or> js_falsy_opt (smtp_pass env) \<or> js_falsy_opt (notify_to env)
      then outbox
      else if ''createTransporter'' \<notin> set nodemailer_exports then outbox
      else if sendOk env then outbox @ [(the (notify_to env), subject, msg)]
      else outbox)"

text \<open>The changes of one trader of the new poll against the old poll's traders.\<close>

definition trader_changes :: "trader_info list \<Rightarrow> trader_info \<Rightarrow> task_change list" where
  "trader_changes oldTraders newTrader =
     (case find (\<lambda>t. traderId t = traderId newTrader) oldTraders of
        None \<Rightarrow> [NewTrader newTrader]
      | Some oldTrader \<Rightarrow>
          (let profitChange = js_sub (profitRate newTrader) (profitRate oldTrader)
           in (if js_gt (js_abs profitChange) (Num 5) then [ProfitChange newTrader profitChange] else [])
              @ concat (map (\<lambda>newPos.
                   case find (\<lambda>p. symbol p = symbol newPos) (tr_positions oldTrader) of
                     None \<Rightarrow> [NewTaskPosition newTrader newPos]
                   | Some _ \<Rightarrow> []) (tr_positions newTrader))))"

definition check_trader_changes :: "task_data \<Rightarrow> task_data \<Rightarrow> string + task_change list" where
  "check_trader_changes oldData newData =
     (case traders newData of
        None \<Rightarrow> Inl ''TypeError''
      | Some newTraders \<Rightarrow>
          if newTraders = [] then Inr []
          else
            (case traders oldData of
               None \<Rightarrow> Inl ''TypeError''
             | Some oldTraders \<Rightarrow> Inr (concat (map (trader_changes oldTraders) newTraders))))"

fun report_line_of :: "task_change \<Rightarrow> report_line" where
  "report_line_of (NewTrader t) = NewTraderLine (nickname t) (traderId t)"
| "report_line_of (ProfitChange t c) = ProfitLine (js_gt c (Num 0)) (nickname t) (js_to_fixed 2 c)"
| "report_line_of (NewTaskPosition t p) = NewPositionLine (nickname t) (symbol p) (side p)"

definition generate_notification_message :: "task_change list \<Rightarrow> task_message" where
  "generate_notification_message changes = Report (map report_line_of changes)"

definition new_poll :: "(string \<Rightarrow> trader_info) \<Rightarrow> string \<Rightarrow> task_data" where
  "new_poll getTraderInfo now =
     \<lparr>traders = Some (map getTraderInfo trader_ids),
      data_positions = concat (map (tr_positions \<circ> getTraderInfo) trader_ids),
      lastUpdate = Some now\<rparr>"

definition run_monitoring :: "task_env \<Rightarrow> (string \<Rightarrow> trader_info) \<Rightarrow> string \<Rightarrow> task_state \<Rightarrow> task_state" where
  "run_monitoring env getTraderInfo now st =
     (let oldData = load_data (stored st);
          newData = new_poll getTraderInfo now
      in case check_trader_changes oldData newData of
           Inl err \<Rightarrow>
             st\<lparr>task_outbox := send_notification env TaskFailed (FailureMessage err) (task_outbox st)\<rparr>
         | Inr changes \<Rightarrow>
             st\<lparr>task_outbox := (if changes \<noteq> []
                                then send_notification env StatusUpdate
                                       (generate_notification_message changes) (task_outbox st)
                                else task_outbox st),
                stored := (if saveOk env then Some newData else stored st),
                frontend_data := (if frontendOk env then Some newData else frontend_data st)\<rparr>)"

lemmas task_defs [model_simps] = trader_ids_def load_data_def js_falsy_opt_def nodemailer_exports_def send_notification_def
  trader_changes_def check_trader_changes_def generate_notification_message_def new_poll_def
  run_monitoring_def

section \<open>Properties of the script\<close>

lemma find_distinct_key:
  "distinct (map key xs) \<Longrightarrow> x \<in> set xs \<Longrightarrow> find (\<lambda>y. key y = key x) xs = Some x"
  by (induction xs) (auto simp: image_iff)

lemma find_None_iff: "find P xs = None \<longleftrightarrow> (\<forall>x \<in> set xs. \<not> P x)"
  by (induction xs) auto

text \<open>The script never mails: with the SMTP settings missing it skips the report, and
  with them present \<open>nodemailer.createTransporter\<close> throws before \<open>sendMail\<close>.\<close>

lemma send_notification_never_delivers: "send_notification env subject msg outbox = outbox"
  by (simp add: send_notification_def nodemailer_exports_def)

theorem run_monitoring_never_mails: "task_outbox (run_monitoring env g now st) = task_outbox st"
  by (simp add: run_monitoring_def send_notification_never_delivers Let_def split: sum.split)

text \<open>C35: On its first run (no data file) the script reports every polled trader as a new trader, unlike the monitor service, which seeds its snapshot silently.\<close>

theorem first_run_all_new:
  "traders d = Some ts \<Longrightarrow> check_trader_changes (load_data None) d = Inr (map NewTrader ts)"
proof -
  have "concat (map (trader_changes []) ts) = map NewTrader ts"
    by (induction ts) (simp_all add: trader_changes_def)
  then show "traders d = Some ts \<Longrightarrow> check_trader_changes (load_data None) d = Inr (map NewTrader ts)"
    by (cases "ts = []") (simp_all add: check_trader_changes_def load_data_def)
qed

lemma trader_changes_covered:
  assumes "distinct (map traderId ots)" and "ot \<in> set ots" and "traderId ot = traderId nt"
    and "profitRate ot = profitRate nt"
    and "symbol ` set (tr_positions nt) \<subseteq> symbol ` set (tr_positions ot)"
  shows "trader_changes ots nt = []"
proof -
  have f: "find (\<lambda>t. traderId t = traderId nt) ots = Some ot"
    using find_distinct_key [OF assms(1,2)] assms(3) by simp
  have found: "find (\<lambda>p. symbol p = symbol np) (tr_positions ot) \<noteq> None"
    if np: "np \<in> set (tr_positions nt)" for np
  proof -
    from np have "symbol np \<in> symbol ` set (tr_positions nt)" by (rule imageI)
    with assms(5) have "symbol np \<in> symbol ` set (tr_positions ot)" by (rule subsetD)
    then obtain op where "op \<in> set (tr_positions ot)" and "symbol np = symbol op" by (rule imageE)
    then show ?thesis unfolding find_None_iff by auto
  qed
  have "(case find (\<lambda>p. symbol p = symbol np) (tr_positions ot) of
           None \<Rightarrow> [NewTaskPosition nt np] | Some _ \<Rightarrow> []) = []"
    if "np \<in> set (tr_positions nt)" for np
    using found [OF that] by (cases "find (\<lambda>p. symbol p = symbol np) (tr_positions ot)") simp_all
  then have "concat (map (\<lambda>newPos. case find (\<lambda>p. symbol p = symbol newPos) (tr_positions ot) of
                None \<Rightarrow> [NewTaskPosition nt newPos] | Some _ \<Rightarrow> []) (tr_positions nt)) = []"
    unfolding concat_eq_Nil_conv by auto
  moreover have "\<not> js_gt (js_abs (js_sub (profitRate nt) (profitRate ot))) (Num 5)"
    using not_gt_abs_sub_self [of 5 "profitRate nt"] assms(4) by simp
  ultimately show ?thesis
    by (simp only: trader_changes_def f option.case Let_def if_False append_Nil)
qed

text \<open>checkTraderChanges reports nothing when every new trader matches an old one with the same profit rate and only symbols the old one had: closed positions and vanished traders are never reported.\<close>

theorem check_no_change:
  assumes "traders oldData = Some ots" and "traders newData = Some nts"
    and "distinct (map traderId ots)"
    and "\<forall>nt \<in> set nts. \<exists>ot \<in> set ots. traderId ot = traderId nt \<and> profitRate ot = profitRate nt \<and>
           symbol ` set (tr_positions nt) \<subseteq> symbol ` set (tr_positions ot)"
  shows "check_trader_changes oldData newData = Inr []"
  using assms trader_changes_covered [OF assms(3)]
  by (fastforce simp: check_trader_changes_def)

lemma run_broken_store:
  assumes "stored st = Some d" and "traders d = None"
  shows "run_monitoring env g now st =
           st\<lparr>task_outbox := send_notification env TaskFailed (FailureMessage ''TypeError'') (task_outbox st)\<rparr>"
  using assms by (simp add: run_monitoring_def check_trader_changes_def new_poll_def trader_ids_def load_data_def)

text \<open>C34: Once the stored data file lacks the traders key, every later run throws before saveData, so the file is never repaired, whatever the runs fetch.\<close>

theorem broken_store_sticks:
  assumes "stored st = Some d" and "traders d = None"
  shows "stored (foldl (\<lambda>s (g, now). run_monitoring env g now s) st runs) = Some d"
  using assms
proof (induction runs arbitrary: st)
  case Nil then show ?case by simp
next
  case (Cons r runs)
  obtain g now where r: "r = (g, now)" by fastforce
  have "stored (run_monitoring env g now st) = Some d" using run_broken_store [OF Cons.prems, of env g now] Cons.prems(1) by simp
  with Cons.IH [of "run_monitoring env g now st"] Cons.prems(2) show ?case by (simp add: r)
qed

text \<open>After a run that saved its poll, a second run that fetches the same traders sends no report and stores the new poll.\<close>

theorem second_run_quiet:
  assumes ids: "\<forall>i. traderId (g i) = i" and ok: "saveOk env"
    and first: "run_monitoring env g now st = st'"
    and "\<exists>cs. check_trader_changes (load_data (stored st)) (new_poll g now) = Inr cs"
  shows "task_outbox (run_monitoring env g now' st') = task_outbox st' \<and>
         stored (run_monitoring env g now' st') = Some (new_poll g now')"
proof -
  obtain cs where cs: "check_trader_changes (load_data (stored st)) (new_poll g now) = Inr cs"
    using assms(4) by blast
  have st': "stored st' = Some (new_poll g now)"
    using first cs ok by (auto simp: run_monitoring_def Let_def)
  have d: "distinct (map traderId (map g trader_ids))" using ids by (simp add: trader_ids_def)
  have "check_trader_changes (new_poll g now) (new_poll g now') = Inr []"
    by (rule check_no_change [where ots = "map g trader_ids" and nts = "map g trader_ids"])
       (use d in \<open>auto simp: new_poll_def\<close>)
  then show ?thesis using st' ok by (simp add: run_monitoring_def load_data_def Let_def)
qed

theorem first_run_all_new_witness:
  "check_trader_changes (load_data None)
     \<lparr>traders = Some [\<lparr>traderId = ''t1'', nickname = ''A'', profitRate = Num 1, followersCount = 3, tr_positions = []\<rparr>],
      data_positions = [], lastUpdate = None\<rparr> =
   Inr [NewTrader \<lparr>traderId = ''t1'', nickname = ''A'', profitRate = Num 1, followersCount = 3, tr_positions = []\<rparr>]"
  using first_run_all_new [of "\<lparr>traders = Some [\<lparr>traderId = ''t1'', nickname = ''A'', profitRate = Num 1,
      followersCount = 3, tr_positions = []\<rparr>], data_positions = [], lastUpdate = None\<rparr>"
      "[\<lparr>traderId = ''t1'', nickname = ''A'', profitRate = Num 1, followersCount = 3, tr_positions = []\<rparr>]"]
  by simp

end
