(* ===== verification/Frontend.thy ===== *)
theory Frontend
  imports OkxApi Templates
begin

text \<open>
  The pure helpers of \<open>src/frontend/src/utils/helpers.ts\<close>: the number formatters
  (\<open>formatCurrency\<close>, \<open>formatPercentage\<close>, \<open>formatLargeNumber\<close>), the labels and
  colours of a position (\<open>getPositionSideName\<close>, \<open>getPositionSideColor\<close>,
  \<open>getPnlColor\<close>, \<open>getPnlIcon\<close>), the front end's own \<open>extractUniqueCodeFromUrl\<close>,
  and the timing combinators \<open>throttle\<close> and \<open>debounce\<close>. An argument typed
  \<open>number | string\<close> is a \<open>js_value\<close>; the Chinese labels and the emoji are
  constructors. The combinators are step relations over invocations and timer
  firings; a timer set at \<open>t\<close> with delay \<open>d\<close> fires at any time from
  \<open>t + delay d\<close> on, where \<open>delay\<close> is \<open>setTimeout\<close>'s clamping of its argument.
\<close>

section \<open>Formatters\<close>

datatype js_value = JsStr string | JsNumber jsnum

text \<open>\<open>typeof value === 'string' ? parseFloat(value) : value\<close>.\<close>

definition to_number :: "js_value \<Rightarrow> jsnum" where
  "to_number v = (case v of JsStr s \<Rightarrow> parse_float s | JsNumber n \<Rightarrow> n)"

definition format_currency :: "js_value \<Rightarrow> string \<Rightarrow> nat \<Rightarrow> string" where
  "format_currency value currency decimals =
     (let num = to_number value in
      if num = NaN then ''0.00'' else js_to_locale_fixed decimals num @ '' '' @ currency)"

definition format_percentage :: "js_value \<Rightarrow> nat \<Rightarrow> bool \<Rightarrow> bool \<Rightarrow> string" where
  "format_percentage value decimals showSign isDecimal =
     (let num = to_number value in
      if num = NaN then ''0.00%''
      else
        (let percentage = (if isDecimal then js_mul num (Num 100) else num);
             sign = (if showSign \<and> js_gt percentage (Num 0) then ''+'' else [])
         in sign @ js_to_fixed decimals percentage @ ''%''))"

definition format_large_number :: "js_value \<Rightarrow> string" where
  "format_large_number value =
     (let num = to_number value in
      if num = NaN then ''0''
      else
        (let a = js_abs num;
             sign = (if js_less num (Num 0) then ''-'' else [])
         in if js_ge a (Num (10 ^ 9)) then sign @ js_to_fixed 1 (js_div a (Num (10 ^ 9))) @ ''B''
            else if js_ge a (Num (10 ^ 6)) then sign @ js_to_fixed 1 (js_div a (Num (10 ^ 6))) @ ''M''
            else if js_ge a (Num (10 ^ 3)) then sign @ js_to_fixed 1 (js_div a (Num (10 ^ 3))) @ ''K''
            else sign @ js_to_fixed 0 a))"

section \<open>Labels and colours\<close>

datatype side_name = SideNameLong | SideNameShort | SideNameNet | SideNameRaw string

definition get_position_side_name :: "string \<Rightarrow> string option \<Rightarrow> side_name" where
  "get_position_side_name side sub_pos =
     (let s = map js_lower side in
      if s = ''long'' then SideNameLong
      else if s = ''short'' then SideNameShort
      else if s = ''net'' then
        (case sub_pos of
           Some sp \<Rightarrow>
             if sp \<noteq> [] then
               (let p = parse_float sp in
                if js_gt p (Num 0) then SideNameLong else if js_less p (Num 0) then SideNameShort else SideNameNet)
             else SideNameNet
         | None \<Rightarrow> SideNameNet)
      else SideNameRaw side)"

definition get_position_side_color :: "string \<Rightarrow> string" where
  "get_position_side_color side =
     (let s = map js_lower side in
      if s = ''long'' then ''text-success-600 bg-success-50''
      else if s = ''short'' then ''text-danger-600 bg-danger-50''
      else ''text-gray-600 bg-gray-50'')"

definition get_pnl_color :: "js_value \<Rightarrow> string" where
  "get_pnl_color pnl =
     (let num = to_number pnl in
      if num = NaN \<or> num = Num 0 then ''text-gray-600''
      else if js_gt num (Num 0) then ''text-success-600'' else ''text-danger-600'')"

datatype pnl_mark = MarkFlat | MarkUp | MarkDown

definition get_pnl_icon :: "js_value \<Rightarrow> pnl_mark" where
  "get_pnl_icon pnl =
     (let num = to_number pnl in
      if num = NaN \<or> num = Num 0 then MarkFlat
      else if js_gt num (Num 0) then MarkUp else MarkDown)"

text \<open>\<open>isValidEmail\<close> tests the same regular expression as \<open>POST /api/subscribe\<close>.\<close>

definition is_valid_email :: "string \<Rightarrow> bool" where
  "is_valid_email addr = email_regex_test addr"

section \<open>The front end's extractUniqueCodeFromUrl\<close>

definition is_alnum :: "char \<Rightarrow> bool" where
  "is_alnum c = (let n = of_char c :: nat in
     (48 \<le> n \<and> n \<le> 57) \<or> (65 \<le> n \<and> n \<le> 90) \<or> (97 \<le> n \<and> n \<le> 122))"

definition frontend_url_patterns :: "(string \<times> (string \<Rightarrow> bool)) list" where
  "frontend_url_patterns =
     [(''/trader/'', tail_any), (''/account/'', tail_any), (''uniqueCode='', tail_any),
      (''/'', tail_query_or_end)]"

definition extract_unique_code_fe :: "string \<Rightarrow> string option" where
  "extract_unique_code_fe url =
     first_some (\<lambda>(lit, trail). search_code False lit is_alnum trail url) frontend_url_patterns"

section \<open>throttle and debounce\<close>

text \<open>\<open>setTimeout\<close>'s delay: negative becomes 0, more than \<open>2^31 - 1\<close> becomes 1.\<close>

definition timer_delay :: "int \<Rightarrow> int" where
  "timer_delay d = (if d < 0 then 0 else if d > 2147483647 then 1 else d)"

datatype 'a timer_event = Invoke ms 'a | TimerFires ms

text \<open>
  \<open>throttle(func, limit)\<close>: the closure's \<open>inThrottle\<close> flag (initially
  \<open>undefined\<close>, falsy), the pending reset timer, the times \<open>func\<close> ran, and the
  clock.
\<close>

record throttle_state =
  inThrottle :: bool
  reset_due :: "ms option"
  ran_at :: "ms list"
  thr_clock :: ms

definition throttle_init :: throttle_state where
  "throttle_init = \<lparr>inThrottle = False, reset_due = None, ran_at = [], thr_clock = 0\<rparr>"

inductive throttle_step :: "int \<Rightarrow> throttle_state \<Rightarrow> 'a timer_event \<Rightarrow> throttle_state \<Rightarrow> bool"
  for limit :: int where
  run: "\<not> inThrottle s \<Longrightarrow> thr_clock s \<le> t \<Longrightarrow>
        throttle_step limit s (Invoke t a)
          (s\<lparr>inThrottle := True, reset_due := Some (t + timer_delay limit), ran_at := ran_at s @ [t],
             thr_clock := t\<rparr>)"
| skip: "inThrottle s \<Longrightarrow> thr_clock s \<le> t \<Longrightarrow>
        throttle_step limit s (Invoke t a) (s\<lparr>thr_clock := t\<rparr>)"
| reset: "reset_due s = Some d \<Longrightarrow> d \<le> t \<Longrightarrow> thr_clock s \<le> t \<Longrightarrow>
        throttle_step limit s (TimerFires t) (s\<lparr>inThrottle := False, reset_due := None, thr_clock := t\<rparr>)"

inductive throttle_reach :: "int \<Rightarrow> throttle_state \<Rightarrow> bool" for limit :: int where
  init: "throttle_reach limit throttle_init"
| step: "throttle_reach limit s \<Longrightarrow> throttle_step limit s (e :: unit timer_event) s' \<Longrightarrow>
         throttle_reach limit s'"

fun spaced_by :: "int \<Rightarrow> ms list \<Rightarrow> bool" where
  "spaced_by l (a # b # xs) = (a + l \<le> b \<and> spaced_by l (b # xs))"
| "spaced_by l _ = True"

text \<open>
  \<open>debounce(func, wait)\<close>: the pending timer with the arguments it will run with,
  the calls so far (arrival time and arguments), the runs of \<open>func\<close> (time,
  arguments and the number of calls made when it ran), and the clock.
\<close>

record 'a debounce_state =
  pending :: "(ms \<times> 'a) option"
  calls :: "(ms \<times> 'a) list"
  runs :: "(ms \<times> 'a \<times> nat) list"
  deb_clock :: ms

definition debounce_init :: "'a debounce_state" where
  "debounce_init = \<lparr>pending = None, calls = [], runs = [], deb_clock = 0\<rparr>"

inductive debounce_step :: "int \<Rightarrow> 'a debounce_state \<Rightarrow> 'a timer_event \<Rightarrow> 'a debounce_state \<Rightarrow> bool"
  for wait :: int where
  call: "deb_clock s \<le> t \<Longrightarrow>
        debounce_step wait s (Invoke t a)
          (s\<lparr>pending := Some (t + timer_delay wait, a), calls := calls s @ [(t, a)], deb_clock := t\<rparr>)"
| fire: "pending s = Some (d, a) \<Longrightarrow> d \<le> t \<Longrightarrow> deb_clock s \<le> t \<Longrightarrow>
        debounce_step wait s (TimerFires t)
          (s\<lparr>pending := None, runs := runs s @ [(t, a, length (calls s))], deb_clock := t\<rparr>)"

inductive debounce_reach :: "int \<Rightarrow> 'a debounce_state \<Rightarrow> bool" for wait :: int where
  init: "debounce_reach wait debounce_init"
| step: "debounce_reach wait s \<Longrightarrow> debounce_step wait s e s' \<Longrightarrow> debounce_reach wait s'"

text \<open>
  The invariant of \<open>throttle\<close>: the flag is set exactly while the reset timer is
  pending, that timer is due \<open>limit\<close> after the last run, and once it has fired
  the clock is at least that far past the last run.
\<close>

definition throttle_inv :: "int \<Rightarrow> throttle_state \<Rightarrow> bool" where
  "throttle_inv limit s =
     ((inThrottle s \<longleftrightarrow> reset_due s \<noteq> None) \<and>
      (\<forall>d. reset_due s = Some d \<longrightarrow> ran_at s \<noteq> [] \<and> d = last (ran_at s) + timer_delay limit) \<and>
      (ran_at s \<noteq> [] \<longrightarrow> last (ran_at s) \<le> thr_clock s) \<and>
      (\<not> inThrottle s \<and> ran_at s \<noteq> [] \<longrightarrow> last (ran_at s) + timer_delay limit \<le> thr_clock s) \<and>
      spaced_by (timer_delay limit) (ran_at s))"

text \<open>
  The invariant of \<open>debounce\<close>: the pending timer carries the arguments of the
  last call and was set at that call; the runs are numbered by strictly increasing
  call counts, and a run with count \<open>n\<close> used the arguments of call \<open>n\<close>, at
  least \<open>wait\<close> after it.
\<close>

definition debounce_inv :: "int \<Rightarrow> 'a debounce_state \<Rightarrow> bool" where
  "debounce_inv wait s =
     ((\<forall>d a. pending s = Some (d, a) \<longrightarrow> calls s \<noteq> [] \<and> last (calls s) = (d - timer_delay wait, a) \<and>
              (\<forall>r \<in> set (runs s). snd (snd r) < length (calls s))) \<and>
      sorted_wrt (<) (map (snd \<circ> snd) (runs s)) \<and>
      (\<forall>(t, a, n) \<in> set (runs s). 0 < n \<and> n \<le> length (calls s) \<and> snd (calls s ! (n - 1)) = a \<and>
            fst (calls s ! (n - 1)) + timer_delay wait \<le> t))"

inductive_cases throttle_stepE: "throttle_step limit s e s'"
inductive_cases debounce_stepE: "debounce_step wait s e s'"

lemmas frontend_defs [model_simps] = to_number_def format_currency_def format_percentage_def
  format_large_number_def get_position_side_name_def get_position_side_color_def get_pnl_color_def
  get_pnl_icon_def is_valid_email_def is_alnum_def frontend_url_patterns_def extract_unique_code_fe_def timer_delay_def
  throttle_init_def debounce_init_def

section \<open>The formatters at their boundaries\<close>

text \<open>formatLargeNumber picks its unit before rounding: 999999.95 is below a million, so it is printed in thousands, and toFixed(1) rounds it up to 1000.0K instead of 1.0M.\<close>

theorem large_number_unit_boundary:
  "format_large_number (JsNumber (Num (9999995 / 10))) = ''1000.0K''"
  by code_simp

section \<open>Position labels on the dashboard and in the e-mails\<close>

lemma parse_float_Nil: "parse_float [] = NaN"
  by (simp add: parse_float_def parse_unsigned_def)

text \<open>For a net-mode position whose subPos parses to a positive number, the dashboard's getPositionSideName labels it long, while the e-mail templates, which test posSide = 'long' alone, label the same position short.\<close>

theorem net_side_label_divergence:
  assumes "posSide p = ''net''" and "parse_float (subPos p) = Num x" and "0 < x"
  shows "get_position_side_name (posSide p) (Some (subPos p)) = SideNameLong \<and>
         Templates.side_label p = SideShortLabel"
proof -
  have "subPos p \<noteq> []" using assms(2) parse_float_Nil by auto
  then show ?thesis
    using assms by (simp add: get_position_side_name_def side_label_def js_lower_def js_gt_def)
qed

section \<open>The two extractors\<close>

text \<open>The front end's extractUniqueCodeFromUrl accepts any sixteen letters and digits after /trader/, while the back end's accepts only hexadecimal digits: a code the dashboard extracts is rejected by the server's extractor.\<close>

theorem extractor_divergence:
  "extract_unique_code_fe ''https://www.okx.com/copy-trading/trader/GHIJKLMNOPQRSTUV'' =
     Some ''GHIJKLMNOPQRSTUV'' \<and>
   extract_unique_code_from_url ''https://www.okx.com/copy-trading/trader/GHIJKLMNOPQRSTUV'' = None"
  by code_simp

section \<open>throttle\<close>

lemma spaced_by_snoc:
  "spaced_by l (xs @ [b]) \<longleftrightarrow> spaced_by l xs \<and> (xs \<noteq> [] \<longrightarrow> last xs + l \<le> b)"
  by (induction l xs rule: spaced_by.induct) auto

lemma timer_delay_nonneg: "0 \<le> timer_delay d"
  by (simp add: timer_delay_def)

lemma throttle_inv_step:
  "throttle_step limit s e s' \<Longrightarrow> throttle_inv limit s \<Longrightarrow> throttle_inv limit s'"
proof (induction rule: throttle_step.induct)
  case (run s t a)
  then show ?case
    using timer_delay_nonneg [of limit]
    by (auto simp: throttle_inv_def spaced_by_snoc)
next
  case (skip s t a)
  then show ?case by (auto simp: throttle_inv_def)
next
  case (reset s d t)
  then show ?case by (auto simp: throttle_inv_def)
qed

lemma throttle_reach_inv: "throttle_reach limit s \<Longrightarrow> throttle_inv limit s"
proof (induction rule: throttle_reach.induct)
  case init then show ?case by (simp add: throttle_inv_def throttle_init_def)
next
  case (step s e s') then show ?case by (blast intro: throttle_inv_step)
qed

text \<open>C38: In every reachable state of a throttled function, any two consecutive runs of func are at least the (clamped) limit apart: a call made while inThrottle is set is dropped, and the flag is only cleared by the timer set at the last run.\<close>

theorem throttle_spacing:
  "throttle_reach limit s \<Longrightarrow> spaced_by (timer_delay limit) (ran_at s)"
  using throttle_reach_inv by (simp add: throttle_inv_def)

text \<open>C40: From every reachable state of a throttled function, a call made one (clamped) limit after the latest event runs func, after at most the firing of the pending reset timer: the throttle never locks up.\<close>

theorem throttle_live:
  assumes "throttle_reach limit s"
  shows "\<exists>s1 s2. (s1 = s \<or> throttle_step limit s (TimerFires (thr_clock s + timer_delay limit)) s1) \<and>
           throttle_step limit s1 (Invoke (thr_clock s + timer_delay limit) a) s2 \<and>
           ran_at s2 = ran_at s @ [thr_clock s + timer_delay limit]"
proof -
  let ?T = "thr_clock s + timer_delay limit"
  have inv: "throttle_inv limit s" using throttle_reach_inv [OF assms] .
  have dl: "0 \<le> timer_delay limit" by (rule timer_delay_nonneg)
  show ?thesis
  proof (cases "inThrottle s")
    case False
    define s2 where "s2 = s\<lparr>inThrottle := True, reset_due := Some (?T + timer_delay limit),
                             ran_at := ran_at s @ [?T], thr_clock := ?T\<rparr>"
    have st: "throttle_step limit s (Invoke ?T a) s2"
      unfolding s2_def by (rule throttle_step.run [OF False]) (simp add: dl)
    have "ran_at s2 = ran_at s @ [?T]" by (simp add: s2_def)
    with st show ?thesis by blast
  next
    case True
    have "reset_due s \<noteq> None" using True inv unfolding throttle_inv_def by blast
    then obtain d where d: "reset_due s = Some d" by blast
    have ne: "ran_at s \<noteq> []" and dv: "d = last (ran_at s) + timer_delay limit"
      using inv d unfolding throttle_inv_def by blast+
    have le: "last (ran_at s) \<le> thr_clock s" using inv ne unfolding throttle_inv_def by blast
    define s1 where "s1 = s\<lparr>inThrottle := False, reset_due := None, thr_clock := ?T\<rparr>"
    define s2 where "s2 = s1\<lparr>inThrottle := True, reset_due := Some (?T + timer_delay limit),
                              ran_at := ran_at s1 @ [?T], thr_clock := ?T\<rparr>"
    have st1: "throttle_step limit s (TimerFires ?T) s1"
      unfolding s1_def by (rule throttle_step.reset [OF d]) (simp_all add: dv le dl)
    have st2: "throttle_step limit s1 (Invoke ?T a) s2"
      unfolding s2_def by (rule throttle_step.run) (simp_all add: s1_def)
    have "ran_at s2 = ran_at s @ [?T]" by (simp add: s2_def s1_def)
    with st1 st2 show ?thesis by blast
  qed
qed

section \<open>debounce\<close>

lemma debounce_inv_step:
  "debounce_step wait s e s' \<Longrightarrow> debounce_inv wait s \<Longrightarrow> debounce_inv wait s'"
proof (induction rule: debounce_step.induct)
  case (call s t a)
  then show ?case
    by (fastforce simp: debounce_inv_def nth_append)
next
  case (fire s d a t)
  then show ?case
    by (fastforce simp: debounce_inv_def sorted_wrt_append last_conv_nth)
qed

lemma debounce_reach_inv: "debounce_reach wait s \<Longrightarrow> debounce_inv wait s"
proof (induction rule: debounce_reach.induct)
  case init then show ?case by (simp add: debounce_inv_def debounce_init_def)
next
  case (step s e s') then show ?case by (blast intro: debounce_inv_step)
qed

text \<open>C39: In every reachable state of a debounced function, each run of func uses the arguments of the call it is numbered by and comes at least the (clamped) wait after that call, and no two runs carry the same call count: a burst of calls yields at most one run, with the last call's arguments.\<close>

theorem debounce_trailing:
  "debounce_reach wait s \<Longrightarrow>
   distinct (map (snd \<circ> snd) (runs s)) \<and>
   (\<forall>(t, a, n) \<in> set (runs s). 0 < n \<and> n \<le> length (calls s) \<and> snd (calls s ! (n - 1)) = a \<and>
      fst (calls s ! (n - 1)) + timer_delay wait \<le> t)"
  using debounce_reach_inv [of wait s]
  by (auto simp: debounce_inv_def strict_sorted_iff)

section \<open>Witnesses\<close>

theorem throttle_spacing_witness:
  "throttle_reach 100 throttle_init \<and> spaced_by (timer_delay 100) (ran_at throttle_init)"
  using throttle_spacing [OF throttle_reach.init] throttle_reach.init by blast

theorem throttle_live_witness:
  "throttle_reach 100 throttle_init \<and>
   (\<exists>s1 s2. (s1 = throttle_init \<or> throttle_step 100 throttle_init (TimerFires 100) s1) \<and>
      throttle_step 100 s1 (Invoke 100 ()) s2 \<and> ran_at s2 = [100])"
  using throttle_live [OF throttle_reach.init, of 100 "()"] throttle_reach.init
  by (simp add: throttle_init_def timer_delay_def)

theorem debounce_trailing_witness:
  "debounce_reach 50 (debounce_init :: unit debounce_state) \<and> runs (debounce_init :: unit debounce_state) = []"
  using debounce_trailing [OF debounce_reach.init, of 50] debounce_reach.init
  by (simp add: debounce_init_def)

end
