(* ===== verification/Config.thy ===== *)
theory Config
  imports Email JsFormat
begin

text \<open>
  The configuration of \<open>src/src/config/index.ts\<close> and the way
  \<open>EmailService\<close>'s constructor reads it. \<open>process.env\<close> is a function from
  variable names to their values; \<open>process.env.X || 'd'\<close> is \<open>js_or_opt\<close>, so an
  empty value falls back to the default as an absent one does. \<open>parseInt\<close> is
  modelled after ECMA-262 (leading white space, one sign, the \<open>0x\<close>/\<open>0X\<close>
  prefix that switches to radix 16, the longest run of digits of the radix, \<open>NaN\<close>
  when there is none); the rounding of integers beyond \<open>2^53\<close> is not modelled.
  The \<open>Config\<close> interface of \<open>src/src/types/index.ts\<close> is the record
  \<open>app_config\<close>, one field per leaf of the nested object.
\<close>

section \<open>parseInt\<close>

definition hex_digit_of :: "char \<Rightarrow> nat option" where
  "hex_digit_of c =
     (let n = of_char c :: nat in
      if 48 \<le> n \<and> n \<le> 57 then Some (n - 48)
      else if 65 \<le> n \<and> n \<le> 70 then Some (n - 55)
      else if 97 \<le> n \<and> n \<le> 102 then Some (n - 87)
      else None)"

fun span_hex :: "string \<Rightarrow> nat list" where
  "span_hex [] = []"
| "span_hex (c # cs) = (case hex_digit_of c of None \<Rightarrow> [] | Some d \<Rightarrow> d # span_hex cs)"

definition hex_value :: "nat list \<Rightarrow> nat" where
  "hex_value ds = foldl (\<lambda>acc d. 16 * acc + d) 0 ds"

definition parse_int :: "string \<Rightarrow> jsnum" where
  "parse_int s =
     (let t = dropWhile is_js_space s;
          neg = (t \<noteq> [] \<and> hd t = CHR ''-'');
          u = (if t \<noteq> [] \<and> (hd t = CHR ''-'' \<or> hd t = CHR ''+'') then tl t else t);
          hex = (take 2 u = ''0x'' \<or> take 2 u = ''0X'');
          ds = (if hex then span_hex (drop 2 u) else fst (span_digits u));
          v = (if hex then hex_value ds else digits_value ds)
      in if ds = [] then NaN else Num (if neg then - of_nat v else of_nat v))"

text \<open>\<open>String(n)\<close> of the integral numbers \<open>parseInt\<close> returns: the digits
  \<open>toFixed(0)\<close> prints, which are \<open>ToString\<close>'s for integers.\<close>

definition js_int_string :: "jsnum \<Rightarrow> string" where
  "js_int_string n = js_to_fixed 0 n"

section \<open>The configuration object\<close>

type_synonym process_env = "string \<Rightarrow> string option"

record app_config =
  okx_apiKey :: string
  okx_secretKey :: string
  okx_passphrase :: string
  okx_sandbox :: bool
  email_host :: string
  email_port :: jsnum
  email_user :: string
  email_pass :: string
  email_from :: string
  email_rateLimit :: jsnum
  database_path :: string
  server_port :: jsnum
  server_env :: string
  cron_updateInterval :: jsnum

definition load_config :: "process_env \<Rightarrow> app_config" where
  "load_config env =
     \<lparr>okx_apiKey = js_or_opt (env ''OKX_API_KEY'') [],
      okx_secretKey = js_or_opt (env ''OKX_SECRET_KEY'') [],
      okx_passphrase = js_or_opt (env ''OKX_PASSPHRASE'') [],
      okx_sandbox = (env ''OKX_SANDBOX'' = Some ''true''),
      email_host = js_or_opt (env ''SMTP_HOST'') ''smtp.gmail.com'',
      email_port = parse_int (js_or_opt (env ''SMTP_PORT'') ''587''),
      email_user = js_or_opt (env ''SMTP_USER'') [],
      email_pass = js_or_opt (env ''SMTP_PASS'') [],
      email_from = js_or_opt (env ''EMAIL_FROM'') ''OKX Trader Monitor <noreply@example.com>'',
      email_rateLimit = parse_int (js_or_opt (env ''EMAIL_RATE_LIMIT'') ''5''),
      database_path = js_or_opt (env ''DATABASE_PATH'') ''./data/database.sqlite'',
      server_port = parse_int (js_or_opt (env ''PORT'') ''3003''),
      server_env = js_or_opt (env ''NODE_ENV'') ''development'',
      cron_updateInterval = parse_int (js_or_opt (env ''UPDATE_INTERVAL'') ''1'')\<rparr>"

text \<open>\<open>OKX_BASE_URL\<close>: both branches of the sandbox test are the same URL.\<close>

definition okx_base_url :: "app_config \<Rightarrow> string" where
  "okx_base_url c = (if okx_sandbox c then ''https://www.okx.com'' else ''https://www.okx.com'')"

section \<open>The e-mail service built from the configuration\<close>

text \<open>
  The constructor creates the transporter only when \<open>user\<close> and \<open>pass\<close> are both
  non-empty; \<open>secure\<close> is \<open>port === 465\<close>; \<open>canSendEmail\<close> divides by
  \<open>config.email.rateLimit\<close>. The transport's outcome, the log table and the
  subscription table are the remaining parameters of the service.
\<close>

definition email_secure :: "app_config \<Rightarrow> bool" where
  "email_secure c = (email_port c = Num 465)"

definition email_service_env ::
  "app_config \<Rightarrow> (EmailNotification \<Rightarrow> bool) \<Rightarrow> bool \<Rightarrow> EmailSubscription list option \<Rightarrow> email_env" where
  "email_service_env c ok logOk subs =
     \<lparr>transporterConfigured = (email_user c \<noteq> [] \<and> email_pass c \<noteq> []),
      rateLimit = email_rateLimit c, sendMailOk = ok, logInsertOk = logOk, subscriptionsTable = subs\<rparr>"

lemmas config_defs [model_simps] = hex_digit_of_def hex_value_def parse_int_def js_int_string_def
  load_config_def okx_base_url_def email_secure_def email_service_env_def

section \<open>Reading the configuration\<close>

lemma dec_digits_zero: "dec_digits 0 = ''0''"
  by (subst dec_digits.simps) (simp add: digit_char_def char_of_def)

lemma dec_digits_hd: "0 < n \<Longrightarrow> hd (dec_digits n) \<noteq> CHR ''0''"
proof (induction n rule: dec_digits.induct)
  case (1 n)
  show ?case
  proof (cases "n < 10")
    case True
    then have "dec_digits n = [digit_char n]" by (subst dec_digits.simps) simp
    moreover have "digit_of (digit_char n) = Some (nat n)"
      using True "1.prems" by (intro digit_of_digit_char) simp_all
    ultimately show ?thesis using "1.prems" by (auto simp: digit_of_def)
  next
    case False
    then have "dec_digits n = dec_digits (n div 10) @ [digit_char (n mod 10)]"
      by (subst dec_digits.simps) simp
    moreover have "dec_digits (n div 10) \<noteq> []" using dec_digits_props [of "n div 10"] False by simp
    ultimately show ?thesis using "1.IH" False by simp
  qed
qed

lemma parse_int_digits:
  assumes "ds \<noteq> []" and "list_all (\<lambda>c. digit_of c \<noteq> None) ds"
    and "rest = [] \<or> digit_of (hd rest) = None"
    and "take 2 (ds @ rest) \<noteq> ''0x'' \<and> take 2 (ds @ rest) \<noteq> ''0X''"
  shows "parse_int (ds @ rest) = Num (of_nat (digits_value (map (the \<circ> digit_of) ds)))"
proof -
  obtain c cs where ds: "ds = c # cs" using assms(1) by (cases ds) auto
  have c: "digit_of c \<noteq> None" using assms(2) ds by simp
  define u where "u = ds @ rest"
  have t: "dropWhile is_js_space u = u" using digit_not_space [OF c] by (simp add: u_def ds)
  have nosign: "hd u \<noteq> CHR ''-'' \<and> hd u \<noteq> CHR ''+''" using digit_not_sign [OF c] by (simp add: u_def ds)
  have hex: "take 2 u \<noteq> ''0x'' \<and> take 2 u \<noteq> ''0X''" using assms(4) by (simp add: u_def)
  have "fst (span_digits rest) = []"
    using assms(3) by (cases rest) (auto split: option.splits)
  then have sp: "fst (span_digits u) = map (the \<circ> digit_of) ds"
    using span_digits_append [OF assms(2), of rest] by (simp add: u_def)
  have "u \<noteq> []" by (simp add: u_def ds)
  then have "parse_int u = Num (of_nat (digits_value (map (the \<circ> digit_of) ds)))"
    using t nosign hex sp assms(1) by (simp add: parse_int_def Let_def)
  then show ?thesis by (simp add: u_def)
qed

text \<open>parseInt reads back the decimal digits of every non-negative integer n, whatever non-digit text follows (parseInt('30.5') is 30), except that '0' followed by 'x' or 'X' is read as a hexadecimal prefix.\<close>

theorem parse_int_dec_digits:
  assumes "0 \<le> n" and "rest = [] \<or> digit_of (hd rest) = None"
    and "n = 0 \<longrightarrow> take 1 rest \<noteq> ''x'' \<and> take 1 rest \<noteq> ''X''"
  shows "parse_int (dec_digits n @ rest) = Num (of_int n)"
proof -
  have p: "dec_digits n \<noteq> [] \<and> list_all (\<lambda>c. digit_of c \<noteq> None) (dec_digits n) \<and>
           digits_value (map (the \<circ> digit_of) (dec_digits n)) = nat n"
    using dec_digits_props [OF assms(1)] .
  have "take 2 (dec_digits n @ rest) \<noteq> ''0x'' \<and> take 2 (dec_digits n @ rest) \<noteq> ''0X''"
  proof (cases "n = 0")
    case True
    then show ?thesis using assms(3) by (cases rest) (auto simp: dec_digits_zero)
  next
    case False
    then have "hd (dec_digits n) \<noteq> CHR ''0''" using assms(1) dec_digits_hd by simp
    then show ?thesis using p by (cases "dec_digits n") auto
  qed
  then show ?thesis
    using parse_int_digits [of "dec_digits n" rest] p assms(1,2) by simp
qed

lemma min_interval_zero_nan:
  "rateLimit env = Num 0 \<or> rateLimit env = NaN \<Longrightarrow> \<not> js_ge (Num d) (min_interval env)"
  by (auto simp: min_interval_def js_ge_def inf_of_sign_def)

text \<open>C28: When EMAIL_RATE_LIMIT, read without a leading minus sign, parses to 0 or NaN (for instance '0', '0.5' or 'abc'), the minimum interval of canSendEmail is Infinity or NaN, so once a recipient has been sent one e-mail, canSendEmail refuses every later e-mail to that recipient, at any time. (With a minus sign, parseInt('-0.5') is -0 and 60 / -0 is -Infinity, which the model's unsigned zero does not represent; that case is excluded.)\<close>

theorem rate_limit_config_blocks:
  assumes "email_rateLimit (load_config env) = Num 0 \<or> email_rateLimit (load_config env) = NaN"
    and "take 1 (dropWhile is_js_space (js_or_opt (env ''EMAIL_RATE_LIMIT'') ''5'')) \<noteq> ''-''"
    and "jsmap_get (emailQueue st) e = Some t"
  shows "\<not> can_send_email (email_service_env (load_config env) ok lg subs) st now e"
  using assms(1,3) min_interval_zero_nan [of "email_service_env (load_config env) ok lg subs"]
  by (simp add: can_send_email_def email_service_env_def)

text \<open>When EMAIL_RATE_LIMIT is the decimal digits of a positive integer k, the e-mail service waits 60000/k milliseconds between two e-mails to one recipient.\<close>

theorem rate_limit_config_interval:
  assumes "env ''EMAIL_RATE_LIMIT'' = Some (dec_digits k)" and "0 < k"
  shows "min_interval (email_service_env (load_config env) ok lg subs) = Num (60000 / of_int k)"
proof -
  have p: "dec_digits k \<noteq> [] \<and> list_all (\<lambda>c. digit_of c \<noteq> None) (dec_digits k) \<and>
           digits_value (map (the \<circ> digit_of) (dec_digits k)) = nat k"
    using dec_digits_props [of k] assms(2) by simp
  then have "CHR ''x'' \<notin> set (dec_digits k) \<and> CHR ''X'' \<notin> set (dec_digits k)"
    by (auto simp: list_all_iff digit_of_def)
  then have "take 2 (dec_digits k @ []) \<noteq> ''0x'' \<and> take 2 (dec_digits k @ []) \<noteq> ''0X''"
    using set_take_subset [of 2 "dec_digits k"] by auto
  then have "parse_int (dec_digits k) = Num (of_int k)"
    using parse_int_digits [of "dec_digits k" "[]"] p assms(2) by simp
  moreover have "dec_digits k \<noteq> []" using p by simp
  ultimately show ?thesis
    using assms by (simp add: min_interval_def email_service_env_def load_config_def js_or_opt_def js_or_def)
qed

text \<open>When EMAIL_RATE_LIMIT parses to a negative number, the minimum interval is negative and canSendEmail never holds a recipient back: the rate limit is off.\<close>

theorem negative_rate_no_limit:
  assumes "email_rateLimit c = Num r" and "r < 0" and "t \<le> now"
    and "jsmap_get (emailQueue st) e = Some t"
  shows "can_send_email (email_service_env c ok lg subs) st now e"
proof -
  have "60000 / r < 0" using assms(2) by (simp add: divide_pos_neg)
  moreover have "0 \<le> rat_of_int now - rat_of_int t" using assms(3) by simp
  ultimately have "\<not> rat_of_int now - rat_of_int t < 60000 / r" by linarith
  then show ?thesis
    using assms by (simp add: can_send_email_def email_service_env_def min_interval_def js_ge_def)
qed

section \<open>Witnesses\<close>

theorem rate_limit_config_blocks_witness:
  "\<not> can_send_email (email_service_env (load_config (\<lambda>v. if v = ''EMAIL_RATE_LIMIT'' then Some ''0.5'' else None))
        (\<lambda>_. True) True None) \<lparr>emailQueue = [(''a@b.co'', 0)], outbox = [], email_logs = []\<rparr> 1000000 ''a@b.co''"
proof -
  have r: "email_rateLimit (load_config (\<lambda>v. if v = ''EMAIL_RATE_LIMIT'' then Some ''0.5'' else None)) = Num 0"
    by (simp add: load_config_def js_or_opt_def js_or_def parse_int_def digits_value_def digit_of_def is_js_space_def)
  have m: "take 1 (dropWhile is_js_space (js_or_opt ((\<lambda>v. if v = ''EMAIL_RATE_LIMIT'' then Some ''0.5'' else None)
              ''EMAIL_RATE_LIMIT'') ''5'')) \<noteq> ''-''"
    by (simp add: js_or_opt_def js_or_def is_js_space_def)
  show ?thesis
    using rate_limit_config_blocks [of "\<lambda>v. if v = ''EMAIL_RATE_LIMIT'' then Some ''0.5'' else None"
        "\<lparr>emailQueue = [(''a@b.co'', 0)], outbox = [], email_logs = []\<rparr>" "''a@b.co''" 0] r m
    by (simp add: jsmap_get_def)
qed

lemma dec_digits_small: "0 \<le> n \<Longrightarrow> n < 10 \<Longrightarrow> dec_digits n = [char_of (48 + n)]"
  by (subst dec_digits.simps) (simp add: digit_char_def)

theorem parse_int_dec_digits_witness:
  "0 \<le> (30::int) \<and> (''.5'' = [] \<or> digit_of (hd ''.5'') = None) \<and>
   ((30::int) = 0 \<longrightarrow> take 1 ''.5'' \<noteq> ''x'' \<and> take 1 ''.5'' \<noteq> ''X'') \<and>
   parse_int (dec_digits 30 @ ''.5'') = Num 30"
  using parse_int_dec_digits [of 30 "''.5''"] by (simp add: digit_of_def)

theorem rate_limit_config_interval_witness:
  "(\<lambda>v. if v = ''EMAIL_RATE_LIMIT'' then Some ''5'' else None) ''EMAIL_RATE_LIMIT'' = Some (dec_digits 5) \<and>
   0 < (5::int) \<and>
   min_interval (email_service_env (load_config (\<lambda>v. if v = ''EMAIL_RATE_LIMIT'' then Some ''5'' else None))
     (\<lambda>_. True) True None) = Num 12000"
proof -
  have d: "dec_digits 5 = ''5''" by (simp add: dec_digits_small char_of_def)
  show ?thesis
    using rate_limit_config_interval [of "\<lambda>v. if v = ''EMAIL_RATE_LIMIT'' then Some ''5'' else None" 5]
    by (simp add: d)
qed

theorem negative_rate_no_limit_witness:
  "email_rateLimit (load_config (\<lambda>v. if v = ''EMAIL_RATE_LIMIT'' then Some ''-1'' else None)) = Num (- 1) \<and>
   (- 1 :: rat) < 0 \<and> (0::int) \<le> 1 \<and> jsmap_get [(''a@b.co'', 0::int)] ''a@b.co'' = Some 0 \<and>
   can_send_email (email_service_env (load_config (\<lambda>v. if v = ''EMAIL_RATE_LIMIT'' then Some ''-1'' else None))
     (\<lambda>_. True) True None) \<lparr>emailQueue = [(''a@b.co'', 0)], outbox = [], email_logs = []\<rparr> 1 ''a@b.co''"
proof -
  have r: "email_rateLimit (load_config (\<lambda>v. if v = ''EMAIL_RATE_LIMIT'' then Some ''-1'' else None)) = Num (- 1)"
    by (simp add: load_config_def js_or_opt_def js_or_def parse_int_def digits_value_def digit_of_def is_js_space_def)
  show ?thesis
    using negative_rate_no_limit [OF r, of 0 1 "\<lparr>emailQueue = [(''a@b.co'', 0)], outbox = [], email_logs = []\<rparr>"
        "''a@b.co''" "\<lambda>_. True" True None]
    by (simp add: r jsmap_get_def)
qed

end
