(* ===== verification/Scheduler.thy ===== *)
theory Scheduler
  imports Config
begin

text \<open>
  The cron scheduler of \<open>src/src/scheduler/index.ts\<close>. A \<open>node-cron\<close> task is a
  record of its name, expression and running flag; \<open>cron.schedule\<close> with
  \<open>scheduled: false\<close> appends a stopped task (or throws when the library rejects the
  expression, which is the parameter \<open>cron_ok\<close>), and \<open>job.start()\<close> sets the flag.
  \<open>jobs\<close> is the class's \<open>Map\<close> from job names to task indices. The job bodies only
  log, so a run of a job changes nothing. The private \<open>checkNewPositions\<close> and
  \<open>checkClosedPositions\<close> are never called (\<open>checkPositionChanges\<close> is an empty
  stub); they are modelled as written, over the history rows they read.
\<close>

section \<open>Tasks and the job map\<close>

record cron_task =
  task_name :: string
  task_expr :: string
  task_running :: bool

record scheduler_state =
  jobs :: "(string, nat) jsmap"
  cron_tasks :: "cron_task list"

definition scheduler_init :: scheduler_state where
  "scheduler_init = \<lparr>jobs = [], cron_tasks = []\<rparr>"

text \<open>\<open>const job = cron.schedule(expr, ..., {scheduled: false}); job.start(); this.jobs.set(name, job)\<close>.\<close>

definition schedule_job ::
  "(string \<Rightarrow> bool) \<Rightarrow> string \<Rightarrow> string \<Rightarrow> scheduler_state \<Rightarrow> string + scheduler_state" where
  "schedule_job cron_ok name expr s =
     (if \<not> cron_ok expr then Inl (''Invalid cron expression: '' @ expr)
      else
        (let i = length (cron_tasks s) in
         Inr (s\<lparr>cron_tasks := cron_tasks s @ [\<lparr>task_name = name, task_expr = expr, task_running = True\<rparr>],
                jobs := jsmap_set (jobs s) name i\<rparr>)))"

definition data_update_expr :: "app_config \<Rightarrow> string" where
  "data_update_expr c = ''*/'' @ js_int_string (cron_updateInterval c) @ '' * * * *''"

definition monitoring_expr :: string where
  "monitoring_expr = ''*/30 * * * * *''"

definition start_data_update_job ::
  "(string \<Rightarrow> bool) \<Rightarrow> app_config \<Rightarrow> scheduler_state \<Rightarrow> string + scheduler_state" where
  "start_data_update_job cron_ok c s = schedule_job cron_ok ''dataUpdate'' (data_update_expr c) s"

definition start_monitoring_job :: "(string \<Rightarrow> bool) \<Rightarrow> scheduler_state \<Rightarrow> string + scheduler_state" where
  "start_monitoring_job cron_ok s = schedule_job cron_ok ''monitoring'' monitoring_expr s"

definition scheduler_start ::
  "(string \<Rightarrow> bool) \<Rightarrow> app_config \<Rightarrow> scheduler_state \<Rightarrow> string + scheduler_state" where
  "scheduler_start cron_ok c s =
     (case start_data_update_job cron_ok c s of
        Inl e \<Rightarrow> Inl e
      | Inr s' \<Rightarrow> start_monitoring_job cron_ok s')"

text \<open>\<open>this.jobs.forEach(job => job.stop()); this.jobs.clear()\<close>.\<close>

definition stop_task :: "nat \<Rightarrow> cron_task list \<Rightarrow> cron_task list" where
  "stop_task i ts = (if i < length ts then ts[i := (ts ! i)\<lparr>task_running := False\<rparr>] else ts)"

definition scheduler_stop :: "scheduler_state \<Rightarrow> scheduler_state" where
  "scheduler_stop s =
     s\<lparr>cron_tasks := fold (\<lambda>(name, i). stop_task i) (jobs s) (cron_tasks s), jobs := []\<rparr>"

definition get_job_status :: "scheduler_state \<Rightarrow> (string \<times> bool) list" where
  "get_job_status s = map (\<lambda>(name, _). (name, True)) (jobs s)"

definition running_tasks :: "scheduler_state \<Rightarrow> nat" where
  "running_tasks s = length (filter task_running (cron_tasks s))"


section \<open>The dead position checks\<close>

record history_row =
  h_pos_id :: "string option"
  h_inst_id :: string
  h_pos_side :: string
  h_pos :: "string option"
  h_mark_px :: string
  h_upl :: string
  h_upl_ratio :: string
  h_lever :: string
  h_notional_usd :: "string option"
  h_record_time :: "ms option"

record trader_row =
  tr_uniqueCode :: entity_key
  tr_nickName :: "string option"

definition recent_rows :: "ms \<Rightarrow> history_row list \<Rightarrow> history_row list" where
  "recent_rows now rows =
     filter (\<lambda>r. case h_record_time r of None \<Rightarrow> False | Some t \<Rightarrow> now - 5 * 60 * 1000 < t) rows"

definition check_new_positions ::
  "email_env \<Rightarrow> ms \<Rightarrow> trader_row \<Rightarrow> LeadPosition list \<Rightarrow> history_row list \<Rightarrow> email_state \<Rightarrow> email_state" where
  "check_new_positions env now trader current history st =
     (let recentPosIds = set (map h_pos_id (recent_rows now history))
      in fold (\<lambda>p st. if posId p \<notin> recentPosIds
                        then notify_new_position env now (tr_uniqueCode trader)
                               (js_or_opt (tr_nickName trader) (tr_uniqueCode trader)) p st
                        else st) current st)"

text \<open>The position the close notice is built from: the fields the row has, the rest absent.\<close>

definition closed_position_of :: "history_row \<Rightarrow> LeadPosition" where
  "closed_position_of r =
     \<lparr>instId = h_inst_id r, subPosId = (case h_pos_id r of None \<Rightarrow> ''undefined'' | Some i \<Rightarrow> i),
      posId = None, posSide = h_pos_side r, subPos = js_or_opt (h_pos r) ''0'', pos = None,
      avgPx = None, markPx = h_mark_px r, upl = h_upl r, uplRatio = h_upl_ratio r, lever = h_lever r,
      notionalUsd = h_notional_usd r\<rparr>"

definition check_closed_positions ::
  "email_env \<Rightarrow> ms \<Rightarrow> trader_row \<Rightarrow> LeadPosition list \<Rightarrow> history_row list \<Rightarrow> email_state \<Rightarrow> email_state" where
  "check_closed_positions env now trader current history st =
     (let currentPosIds = set (map posId current);
          recentRecords = recent_rows now history;
          recentPosIds = remdups (map h_pos_id recentRecords)
      in fold (\<lambda>i st. if i \<notin> currentPosIds
                       then (case find (\<lambda>r. h_pos_id r = i) recentRecords of
                               None \<Rightarrow> st
                             | Some r \<Rightarrow> notify_close_position env now (tr_uniqueCode trader)
                                          (js_or_opt (tr_nickName trader) (tr_uniqueCode trader))
                                          (closed_position_of r) st)
                       else st) recentPosIds st)"

text \<open>The state after one successful start from a fresh scheduler with the default configuration.\<close>

abbreviation sched_one :: scheduler_state where
  "sched_one \<equiv> \<lparr>jobs = [(''dataUpdate'', 0), (''monitoring'', 1)],
     cron_tasks = [\<lparr>task_name = ''dataUpdate'', task_expr = data_update_expr (load_config (\<lambda>_. None)), task_running = True\<rparr>,
                   \<lparr>task_name = ''monitoring'', task_expr = monitoring_expr, task_running = True\<rparr>]\<rparr>"

lemmas scheduler_defs [model_simps] = scheduler_init_def schedule_job_def data_update_expr_def
  monitoring_expr_def start_data_update_job_def start_monitoring_job_def scheduler_start_def
  stop_task_def scheduler_stop_def get_job_status_def running_tasks_def

section \<open>Start, stop and the job map\<close>






lemma start_rejected:
  "\<not> cron_ok (data_update_expr c) \<Longrightarrow> scheduler_start cron_ok c s = Inl (''Invalid cron expression: '' @ data_update_expr c)"
  by (simp add: scheduler_start_def start_data_update_job_def schedule_job_def)

lemma update_interval_nan:
  "data_update_expr (load_config (\<lambda>v. if v = ''UPDATE_INTERVAL'' then Some ''abc'' else None)) = ''*/NaN * * * *''"
proof -
  have "cron_updateInterval (load_config (\<lambda>v. if v = ''UPDATE_INTERVAL'' then Some ''abc'' else None)) = NaN"
    by (simp add: load_config_def js_or_opt_def js_or_def parse_int_def is_js_space_def digit_of_def)
  then show ?thesis by (simp add: data_update_expr_def js_int_string_def js_to_fixed_def)
qed

lemma scheduler_start_init:
  "scheduler_start cron_ok c scheduler_init = Inr s \<Longrightarrow>
   s = \<lparr>jobs = [(''dataUpdate'', 0), (''monitoring'', 1)],
        cron_tasks = [\<lparr>task_name = ''dataUpdate'', task_expr = data_update_expr c, task_running = True\<rparr>,
                      \<lparr>task_name = ''monitoring'', task_expr = monitoring_expr, task_running = True\<rparr>]\<rparr>"
  by (simp add: scheduler_start_def start_data_update_job_def start_monitoring_job_def schedule_job_def
      scheduler_init_def split: if_splits)

text \<open>Started once on a fresh scheduler, stop() stops every task it started and leaves getJobStatus empty.\<close>

theorem start_stop_clean:
  "scheduler_start cron_ok c scheduler_init = Inr s \<Longrightarrow>
   running_tasks (scheduler_stop s) = 0 \<and> get_job_status (scheduler_stop s) = []"
  by (drule scheduler_start_init) (simp add: scheduler_stop_def running_tasks_def stop_task_def get_job_status_def)

text \<open>C30: start() does not check whether the jobs already run: calling it twice schedules four node-cron tasks while the jobs Map keeps two, getJobStatus still reports the two names, and stop() stops only the two the Map holds, so two tasks keep running.\<close>

theorem restart_leaks_tasks:
  "scheduler_start cron_ok c scheduler_init = Inr s1 \<Longrightarrow> scheduler_start cron_ok c s1 = Inr s2 \<Longrightarrow>
   get_job_status s2 = [(''dataUpdate'', True), (''monitoring'', True)] \<and>
   running_tasks (scheduler_stop s2) = 2"
  by (drule scheduler_start_init)
     (auto simp: scheduler_start_def start_data_update_job_def start_monitoring_job_def schedule_job_def
      scheduler_stop_def running_tasks_def stop_task_def get_job_status_def split: if_splits)


section \<open>Witnesses\<close>

lemma start_once: "scheduler_start (\<lambda>_. True) (load_config (\<lambda>_. None)) scheduler_init = Inr sched_one"
  by (simp add: scheduler_start_def start_data_update_job_def start_monitoring_job_def schedule_job_def
      scheduler_init_def)

theorem start_stop_clean_witness:
  "scheduler_start (\<lambda>_. True) (load_config (\<lambda>_. None)) scheduler_init = Inr sched_one \<and>
   running_tasks (scheduler_stop sched_one) = 0 \<and> get_job_status (scheduler_stop sched_one) = []"
  using start_stop_clean [OF start_once] start_once by simp

theorem restart_leaks_tasks_witness:
  "\<exists>s2. scheduler_start (\<lambda>_. True) (load_config (\<lambda>_. None)) scheduler_init = Inr sched_one \<and>
        scheduler_start (\<lambda>_. True) (load_config (\<lambda>_. None)) sched_one = Inr s2 \<and>
        running_tasks (scheduler_stop s2) = 2"
proof -
  obtain s2 where s2: "scheduler_start (\<lambda>_. True) (load_config (\<lambda>_. None)) sched_one = Inr s2"
    by (simp add: scheduler_start_def start_data_update_job_def start_monitoring_job_def schedule_job_def)
  show ?thesis using restart_leaks_tasks [OF start_once s2] start_once s2 by blast
qed


end
