(* ===== verification/Server.thy ===== *)
theory Server
  imports OkxApi RateLimit Config
begin

text \<open>
  The HTTP server of \<open>src/src/server.ts\<close>: the middleware chain of
  \<open>setupMiddleware\<close>, the routers of \<open>setupRoutes\<close> (\<open>src/src/routes/index.ts\<close> with
  the trader and subscription routers mounted under \<open>/api\<close>) and the handlers of
  \<open>setupErrorHandling\<close>, with the middlewares of \<open>src/src/middleware/index.ts\<close>.
  A request is its method, path, query string, client address and JSON body
  (\<open>None\<close> when \<open>express.json\<close> rejects it); a response is its status, the headers
  the application sets, and its body. Express's routing is modelled as it is
  configured here: segments compared case-insensitively, a trailing slash ignored,
  a parameter matching one non-empty segment (percent-decoding is not modelled).
  An error passed to \<open>next\<close> skips every ordinary middleware and reaches
  \<open>errorHandler\<close>. \<open>cors(corsOptions)\<close> is modelled as the \<open>cors\<close> package
  implements it: it sets its headers on every request and ends every \<open>OPTIONS\<close>
  request itself, with \<open>optionsSuccessStatus\<close> 200, before the body parser.
  \<open>helmet\<close> and \<open>express.static\<close> are libraries and are not modelled (their headers
  are not in the model's responses); the production build's files are not modelled, so in production a
  \<open>GET\<close> the routers do not answer reaches the \<open>index.html\<close> fallback.
\<close>

section \<open>Requests and responses\<close>

record req_body =
  b_email :: "string option"
  b_uniqueCode :: "string option"
  b_alertTypes :: "string list option"
  b_nickName :: "string option"

record http_request =
  req_method :: string
  req_path :: string
  req_query :: string
  req_ip :: "string option"
  req_origin :: "string option"
  req_acr_headers :: "string option"
  req_body :: "req_body option"

datatype header_value = HText string | HDate ms

datatype resp_body =
    ApiBody api_response
  | HealthBody ms
  | InfoBody
  | RootBody string
  | IndexHtml
  | NotFoundBody string
  | RateLimitedBody int int int
  | ErrorBody "string option"
  | EmptyBody

record server_response =
  status :: nat
  resp_headers :: "(string, header_value) jsmap"
  resp_body :: resp_body

record server_env =
  srv_config :: app_config
  srv_email_env :: email_env
  srv_dbFail :: "string option"
  srv_fetch :: position_source

record server_state =
  srv_rate :: rate_map
  srv_subs :: sub_table
  srv_email :: email_state

section \<open>Paths\<close>

fun split_slash :: "string \<Rightarrow> string list" where
  "split_slash [] = [ [] ]"
| "split_slash (c # cs) =
     (if c = CHR ''/'' then [] # split_slash cs
      else (case split_slash cs of s # ss \<Rightarrow> (c # s) # ss | [] \<Rightarrow> [ [c] ]))"

definition path_segments :: "string \<Rightarrow> string list" where
  "path_segments p =
     (let segs = split_slash (drop 1 p) in if segs \<noteq> [] \<and> last segs = [] then butlast segs else segs)"

datatype seg_pat = Lit string | Param

fun match_segments :: "seg_pat list \<Rightarrow> string list \<Rightarrow> string list option" where
  "match_segments [] [] = Some []"
| "match_segments (Lit l # ps) (s # ss) =
     (if map js_lower s = map js_lower l then match_segments ps ss else None)"
| "match_segments (Param # ps) (s # ss) =
     (if s = [] then None else map_option (Cons s) (match_segments ps ss))"
| "match_segments _ _ = None"

text \<open>\<open>app.use('/api', ...)\<close>: the path is \<open>/api\<close> or below it.\<close>

definition under_api :: "string list \<Rightarrow> bool" where
  "under_api segs = (segs \<noteq> [] \<and> map js_lower (hd segs) = ''api'')"

section \<open>Middlewares\<close>

definition set_headers ::
  "(string \<times> header_value) list \<Rightarrow> (string, header_value) jsmap \<Rightarrow> (string, header_value) jsmap" where
  "set_headers hs m = fold (\<lambda>(k, v) m. jsmap_set m k v) hs m"

definition security_headers :: "(string \<times> header_value) list" where
  "security_headers =
     [(''X-Content-Type-Options'', HText ''nosniff''), (''X-Frame-Options'', HText ''DENY''),
      (''X-XSS-Protection'', HText ''1; mode=block''),
      (''Referrer-Policy'', HText ''strict-origin-when-cross-origin'')]"

definition api_version_headers :: "(string \<times> header_value) list" where
  "api_version_headers = [(''X-API-Version'', HText ''1.0.0'')]"

definition rate_limit_headers :: "int \<Rightarrow> int \<Rightarrow> ms \<Rightarrow> (string \<times> header_value) list" where
  "rate_limit_headers mx remaining reset =
     [(''X-RateLimit-Limit'', HText (js_int_string (Num (of_int mx)))),
      (''X-RateLimit-Remaining'', HText (js_int_string (Num (of_int remaining)))),
      (''X-RateLimit-Reset'', HDate reset)]"

definition api_max_requests :: int where
  "api_max_requests = 100"

definition api_window_ms :: int where
  "api_window_ms = 15 * 60 * 1000"

text \<open>\<open>corsOptions\<close>: the allowed origins, chosen by \<open>NODE_ENV\<close> when the module
  is loaded, with credentials.\<close>

definition cors_allowed_origins :: "app_config \<Rightarrow> string list" where
  "cors_allowed_origins c =
     (if server_env c = ''production'' then [''https://your-domain.com'']
      else [''http://localhost:3000'', ''http://localhost:3001''])"

text \<open>The headers \<open>cors\<close> sets on every request: the request's origin when it is one
  of the allowed ones, \<open>Vary: Origin\<close>, and the credentials flag.\<close>

definition cors_headers :: "app_config \<Rightarrow> http_request \<Rightarrow> (string \<times> header_value) list" where
  "cors_headers c r =
     (case req_origin r of
        Some org \<Rightarrow> if org \<in> set (cors_allowed_origins c) then [(''Access-Control-Allow-Origin'', HText org)] else []
      | None \<Rightarrow> [])
     @ [(''Vary'', HText ''Origin''), (''Access-Control-Allow-Credentials'', HText ''true'')]"

text \<open>On an \<open>OPTIONS\<close> request \<open>cors\<close> adds the default methods, reflects the
  requested headers, and ends the response with status 200 and no body.\<close>

definition cors_preflight_headers :: "app_config \<Rightarrow> http_request \<Rightarrow> (string \<times> header_value) list" where
  "cors_preflight_headers c r =
     cors_headers c r
     @ [(''Access-Control-Allow-Methods'', HText ''GET,HEAD,PUT,PATCH,POST,DELETE''),
        (''Vary'', HText ''Origin, Access-Control-Request-Headers'')]
     @ (case req_acr_headers r of
          Some h \<Rightarrow> if h = [] then [] else [(''Access-Control-Allow-Headers'', HText h)]
        | None \<Rightarrow> [])
     @ [(''Content-Length'', HText ''0'')]"

text \<open>\<open>errorHandler\<close>: status 500, and the error's message unless \<open>NODE_ENV\<close> is
  \<open>production\<close>; the headers set before the error stay on the response.\<close>

definition error_handler :: "app_config \<Rightarrow> (string, header_value) jsmap \<Rightarrow> string \<Rightarrow> server_response" where
  "error_handler c hs err_msg =
     \<lparr>status = 500, resp_headers = hs,
      resp_body = ErrorBody (if server_env c \<noteq> ''production'' then Some err_msg else None)\<rparr>"

definition not_found_handler :: "http_request \<Rightarrow> (string, header_value) jsmap \<Rightarrow> server_response" where
  "not_found_handler r hs =
     \<lparr>status = 404, resp_headers = hs,
      resp_body = NotFoundBody (''Cannot '' @ req_method r @ '' '' @ req_path r @ req_query r)\<rparr>"

section \<open>The routers\<close>

text \<open>A route \<open>router.METHOD(path, ...)\<close>: the method and a path without parameters,
  or with one parameter whose value is returned.\<close>

definition route_is :: "string \<Rightarrow> string \<Rightarrow> seg_pat list \<Rightarrow> string list \<Rightarrow> bool" where
  "route_is m meth pats segs = (m = meth \<and> match_segments pats segs = Some [])"

definition route_param :: "string \<Rightarrow> string \<Rightarrow> seg_pat list \<Rightarrow> string list \<Rightarrow> string option" where
  "route_param m meth pats segs =
     (if m = meth then (case match_segments pats segs of Some [v] \<Rightarrow> Some v | _ \<Rightarrow> None) else None)"

text \<open>
  The \<open>/api\<close> router, its routes in registration order (\<open>routes/index.ts\<close>, then
  the trader router, then the subscription router): a handler's response and
  the new state, or one of the two fixed bodies of \<open>/health\<close> and \<open>/info\<close>,
  or \<open>None\<close> when no route matches and the request is passed on.
\<close>

datatype api_outcome = Handled http_response server_state | Fixed resp_body | NoRoute

definition api_routes ::
  "server_env \<Rightarrow> ms \<Rightarrow> http_request \<Rightarrow> req_body \<Rightarrow> string list \<Rightarrow> server_state \<Rightarrow> api_outcome" where
  "api_routes env now r b segs st =
     (let m = req_method r; prod = (server_env (srv_config env) = ''production'') in
      if route_is m ''GET'' [Lit ''health''] segs then Fixed (HealthBody now)
      else if route_is m ''GET'' [Lit ''info''] segs then Fixed InfoBody
      else case route_param m ''GET'' [Lit ''trader'', Param, Lit ''positions''] segs of
        Some c \<Rightarrow> Handled (get_trader_positions (srv_fetch env) c) st
      | None \<Rightarrow>
      if route_is m ''POST'' [Lit ''trader'', Lit ''add''] segs then
        Handled (post_trader_add (srv_fetch env) (b_uniqueCode b) (b_nickName b)) st
      else if route_is m ''POST'' [Lit ''subscribe''] segs then
        (let (resp, t', e') = post_subscribe (srv_email_env env) (srv_dbFail env) now
                                \<lparr>sr_email = b_email b, sr_uniqueCode = b_uniqueCode b,
                                 sr_alertTypes = b_alertTypes b\<rparr> (srv_subs st) (srv_email st)
         in Handled resp (st\<lparr>srv_subs := t', srv_email := e'\<rparr>))
      else if route_is m ''DELETE'' [Lit ''unsubscribe''] segs then
        (let (resp, t') = delete_unsubscribe (srv_dbFail env)
                            \<lparr>ur_email = b_email b, ur_uniqueCode = b_uniqueCode b\<rparr> (srv_subs st)
         in Handled resp (st\<lparr>srv_subs := t'\<rparr>))
      else case route_param m ''GET'' [Lit ''subscriptions'', Param] segs of
        Some e \<Rightarrow> Handled (get_subscriptions (srv_dbFail env) e (srv_subs st)) st
      | None \<Rightarrow>
      (case route_param m ''GET'' [Lit ''subscribers'', Param] segs of
        Some c \<Rightarrow> Handled (get_subscribers (srv_dbFail env) c (srv_subs st)) st
      | None \<Rightarrow>
        if route_is m ''POST'' [Lit ''test-email''] segs then
          (let (resp, e') = post_test_email (srv_email_env env) prod now (b_email b) (srv_email st)
           in Handled resp (st\<lparr>srv_email := e'\<rparr>))
        else NoRoute))"

text \<open>
  The whole chain for one request: \<open>cors\<close> (which answers \<open>OPTIONS\<close> itself),
  \<open>express.json\<close> (an unparsable body goes straight to \<open>errorHandler\<close>), \<open>securityHeaders\<close>, \<open>apiVersion\<close>, the rate limiter on
  \<open>/api\<close>, the \<open>/api\<close> router, then the root route (\<open>GET /\<close> in development, every
  \<open>GET\<close> in production) and \<open>notFoundHandler\<close>.
\<close>

definition handle_request ::
  "server_env \<Rightarrow> ms \<Rightarrow> http_request \<Rightarrow> server_state \<Rightarrow> server_response \<times> server_state" where
  "handle_request env now r st =
     (let chs = set_headers (cors_headers (srv_config env) r) [] in
      if req_method r = ''OPTIONS'' then
        (\<lparr>status = 200, resp_headers = set_headers (cors_preflight_headers (srv_config env) r) [],
          resp_body = EmptyBody\<rparr>, st)
      else case req_body r of
        None \<Rightarrow> (error_handler (srv_config env) chs ''Unexpected token in JSON'', st)
      | Some b \<Rightarrow>
          (let hs = set_headers (security_headers @ api_version_headers) chs;
               segs = path_segments (req_path r);
               prod = (server_env (srv_config env) = ''production'');
               fallback = (\<lambda>hs st.
                 if req_method r = ''GET'' \<and> prod then (\<lparr>status = 200, resp_headers = hs, resp_body = IndexHtml\<rparr>, st)
                 else if req_method r = ''GET'' \<and> \<not> prod \<and> segs = [] then
                   (\<lparr>status = 200, resp_headers = hs, resp_body = RootBody (server_env (srv_config env))\<rparr>, st)
                 else (not_found_handler r hs, st))
           in if \<not> under_api segs then fallback hs st
              else
                (case rate_limit api_max_requests api_window_ms (req_ip r) now (srv_rate st) of
                   (TooManyRequests retry, m') \<Rightarrow>
                     (\<lparr>status = 429, resp_headers = hs,
                       resp_body = RateLimitedBody api_max_requests api_window_ms retry\<rparr>, st\<lparr>srv_rate := m'\<rparr>)
                 | (Proceed mx remaining reset, m') \<Rightarrow>
                     (let hs' = set_headers (rate_limit_headers mx remaining reset) hs;
                          st' = st\<lparr>srv_rate := m'\<rparr>
                      in case api_routes env now r b (tl segs) st' of
                           Handled (code, body) st'' \<Rightarrow>
                             (\<lparr>status = code, resp_headers = hs', resp_body = ApiBody body\<rparr>, st'')
                         | Fixed body \<Rightarrow> (\<lparr>status = 200, resp_headers = hs', resp_body = body\<rparr>, st')
                         | NoRoute \<Rightarrow> fallback hs' st'))))"

text \<open>A server with the default configuration, an e-mail service that delivers, a
  working database, a position source that returns no positions, and a fresh state.\<close>

abbreviation server_sample_env :: server_env where
  "server_sample_env \<equiv> \<lparr>srv_config = load_config (\<lambda>_. None),
     srv_email_env = email_service_env (load_config (\<lambda>_. None)) (\<lambda>_. True) True None,
     srv_dbFail = None, srv_fetch = (\<lambda>_. Inr [])\<rparr>"

abbreviation server_sample_state :: server_state where
  "server_sample_state \<equiv> \<lparr>srv_rate = [], srv_subs = sub_table_init, srv_email = email_init\<rparr>"

abbreviation empty_body :: req_body where
  "empty_body \<equiv> \<lparr>b_email = None, b_uniqueCode = None, b_alertTypes = None, b_nickName = None\<rparr>"

text \<open>Requests handled one after the other, each with the time it arrives.\<close>

definition server_run :: "server_env \<Rightarrow> (ms \<times> http_request) list \<Rightarrow> server_state \<Rightarrow> server_state" where
  "server_run env rs st = foldl (\<lambda>st (now, r). snd (handle_request env now r st)) st rs"

text \<open>The requests that reach the rate limiter on \<open>/api\<close>.\<close>

definition rate_counted :: "http_request \<Rightarrow> bool" where
  "rate_counted r = (req_method r \<noteq> ''OPTIONS'' \<and> req_body r \<noteq> None \<and> under_api (path_segments (req_path r)))"

lemmas server_defs [model_simps] = path_segments_def under_api_def set_headers_def security_headers_def
  api_version_headers_def rate_limit_headers_def api_max_requests_def api_window_ms_def error_handler_def
  cors_allowed_origins_def cors_headers_def cors_preflight_headers_def
  not_found_handler_def route_is_def route_param_def api_routes_def handle_request_def

section \<open>Headers, errors and routing\<close>

lemma jsmap_get_set_headers_other:
  "k \<notin> fst ` set hs \<Longrightarrow> jsmap_get (set_headers hs m) k = jsmap_get m k"
  by (induction hs arbitrary: m) (auto simp: set_headers_def)

lemma jsmap_get_set_headers_in:
  "distinct (map fst hs) \<Longrightarrow> (k, v) \<in> set hs \<Longrightarrow> jsmap_get (set_headers hs m) k = Some v"
proof (induction hs arbitrary: m)
  case Nil then show ?case by simp
next
  case (Cons h hs)
  obtain k' v' where h: "h = (k', v')" by (cases h)
  show ?case
  proof (cases "k = k'")
    case True
    then have "k \<notin> fst ` set hs" using Cons.prems h by auto
    then show ?thesis using True Cons.prems h jsmap_get_set_headers_other [of k hs "jsmap_set m k' v'"]
      by (auto simp: set_headers_def)
  next
    case False
    then show ?thesis using Cons h by (simp add: set_headers_def)
  qed
qed

lemma handle_request_headers:
  assumes "req_method r \<noteq> ''OPTIONS''" and "req_body r = Some b"
  shows "\<exists>m. resp_headers (fst (handle_request env now r st)) = set_headers (security_headers @ api_version_headers) m \<or>
             (\<exists>mx rem rs. resp_headers (fst (handle_request env now r st)) =
                set_headers (rate_limit_headers mx rem rs) (set_headers (security_headers @ api_version_headers) m))"
  using assms
  by (auto simp: handle_request_def Let_def not_found_handler_def
      split: prod.splits rl_outcome.splits api_outcome.splits)

text \<open>C24: Every request other than an OPTIONS preflight whose body parses gets the four headers of securityHeaders and X-API-Version, whatever its path and outcome: 404 and 429 responses included, since both middlewares run before the rate limiter and the routers.\<close>

theorem security_headers_always:
  assumes "req_method r \<noteq> ''OPTIONS''" and "req_body r = Some b"
    and "(k, v) \<in> set (security_headers @ api_version_headers)"
  shows "jsmap_get (resp_headers (fst (handle_request env now r st))) k = Some v"
proof -
  have d: "distinct (map fst (security_headers @ api_version_headers))"
    by (simp add: security_headers_def api_version_headers_def)
  have base: "jsmap_get (set_headers (security_headers @ api_version_headers) m) k = Some v" for m
    using jsmap_get_set_headers_in [OF d assms(3)] .
  have "k \<notin> fst ` set (rate_limit_headers mx rem rs)" for mx rem rs
    using assms(3) by (auto simp: rate_limit_headers_def security_headers_def api_version_headers_def)
  then show ?thesis
    using handle_request_headers [OF assms(1,2), of env now st] base jsmap_get_set_headers_other by metis
qed

text \<open>cors answers every OPTIONS request itself, before the body parser and every
  later middleware: status 200, no body, no security header, and no state change.\<close>

theorem preflight_answered_by_cors:
  assumes "req_method r = ''OPTIONS''"
  shows "status (fst (handle_request env now r st)) = 200 \<and> resp_body (fst (handle_request env now r st)) = EmptyBody \<and>
         jsmap_get (resp_headers (fst (handle_request env now r st))) ''X-Frame-Options'' = None \<and>
         snd (handle_request env now r st) = st"
proof -
  have "''X-Frame-Options'' \<notin> fst ` set (cors_preflight_headers (srv_config env) r)"
    by (auto simp: cors_preflight_headers_def cors_headers_def split: option.splits if_splits)
  then show ?thesis
    using assms jsmap_get_set_headers_other [of "''X-Frame-Options''" "cors_preflight_headers (srv_config env) r" "[]"]
    by (simp add: handle_request_def jsmap_get_def)
qed

text \<open>A request other than OPTIONS whose JSON body express.json rejects skips every
  later middleware: it is answered 500 by errorHandler with the cors headers only, and
  it leaves the state unchanged.\<close>

theorem malformed_body_bypasses:
  "req_method r \<noteq> ''OPTIONS'' \<Longrightarrow> req_body r = None \<Longrightarrow>
   status (fst (handle_request env now r st)) = 500 \<and>
   resp_headers (fst (handle_request env now r st)) = set_headers (cors_headers (srv_config env) r) [] \<and>
   snd (handle_request env now r st) = st"
  by (simp add: handle_request_def error_handler_def)

lemma api_routes_rate:
  "api_routes env now r b segs st = Handled resp st' \<Longrightarrow> srv_rate st' = srv_rate st"
  by (auto simp: api_routes_def Let_def split: if_splits option.splits prod.splits)

lemma handle_request_rate:
  "srv_rate (snd (handle_request env now r st)) =
     (if rate_counted r then snd (rate_limit api_max_requests api_window_ms (req_ip r) now (srv_rate st))
      else srv_rate st)"
  by (auto simp: handle_request_def rate_counted_def Let_def dest: api_routes_rate
      split: option.splits prod.splits rl_outcome.splits api_outcome.splits)

text \<open>C25: Over any sequence of requests, the rate limiter's map evolves exactly as if only the requests that are not OPTIONS, whose body parses and whose path is under /api had been sent to it: cors ends every preflight and express.json rejects malformed bodies before the limiter, so neither is ever counted or refused, and every other /api request is counted once, 404 and 429 answers included.\<close>

theorem rate_accounting:
  "srv_rate (server_run env rs st) =
     foldl (\<lambda>m (now, r). snd (rate_limit api_max_requests api_window_ms (req_ip r) now m))
       (srv_rate st) (filter (rate_counted \<circ> snd) rs)"
proof (induction rs arbitrary: st)
  case Nil
  then show ?case by (simp add: server_run_def)
next
  case (Cons x rs)
  obtain now r where x: "x = (now, r)" by (cases x)
  have "server_run env (x # rs) st = server_run env rs (snd (handle_request env now r st))"
    by (simp add: server_run_def x)
  then show ?case using Cons.IH [of "snd (handle_request env now r st)"] by (simp add: x handle_request_rate)
qed

text \<open>A request under /api that the rate limiter refuses is answered 429 and changes neither the subscription table nor the e-mail state.\<close>

theorem rate_limited_no_effect:
  assumes "req_method r \<noteq> ''OPTIONS''" and "req_body r = Some b" and "under_api (path_segments (req_path r))"
    and "fst (rate_limit api_max_requests api_window_ms (req_ip r) now (srv_rate st)) = TooManyRequests retry"
  shows "status (fst (handle_request env now r st)) = 429 \<and>
         srv_subs (snd (handle_request env now r st)) = srv_subs st \<and>
         srv_email (snd (handle_request env now r st)) = srv_email st"
  using assms by (auto simp: handle_request_def Let_def split: prod.splits rl_outcome.splits)

lemma rate_limit_empty:
  "rate_limit api_max_requests api_window_ms ip now [] =
     (Proceed 100 99 (now + 900000), [(js_or_opt ip ''unknown'', \<lparr>count = 1, resetTime = now + 900000\<rparr>)])"
  by (simp add: rate_limit_def api_max_requests_def api_window_ms_def jsmap_get_def)

text \<open>A GET to an /api path no route serves is answered 404 with the message Cannot GET <url> in development, but in production the catch-all GET * route answers it 200 with index.html.\<close>

theorem unknown_api_get:
  assumes "srv_rate st = []"
  shows "status (fst (handle_request env now
            \<lparr>req_method = ''GET'', req_path = ''/api/nonexistent'', req_query = [], req_ip = ip, req_origin = None, req_acr_headers = None, req_body = Some b\<rparr> st)) =
           (if server_env (srv_config env) = ''production'' then 200 else 404) \<and>
         resp_body (fst (handle_request env now
            \<lparr>req_method = ''GET'', req_path = ''/api/nonexistent'', req_query = [], req_ip = ip, req_origin = None, req_acr_headers = None, req_body = Some b\<rparr> st)) =
           (if server_env (srv_config env) = ''production'' then IndexHtml else NotFoundBody ''Cannot GET /api/nonexistent'')"
  using assms
  by (simp add: handle_request_def rate_limit_empty path_segments_def under_api_def js_lower_def api_routes_def
      route_is_def route_param_def not_found_handler_def)

text \<open>C23: Through the whole server, a POST to /api/subscribe (in any letter case, with or without a trailing slash) that the rate limiter lets through is answered with the status and body of the subscription handler, and the table and e-mail state become the handler's.\<close>

theorem server_subscribe:
  assumes "req_body r = Some b" and "req_method r = ''POST''"
    and "map (map js_lower) (path_segments (req_path r)) = [''api'', ''subscribe'']"
    and "fst (rate_limit api_max_requests api_window_ms (req_ip r) now (srv_rate st)) = Proceed mx rem rs"
    and "post_subscribe (srv_email_env env) (srv_dbFail env) now
           \<lparr>sr_email = b_email b, sr_uniqueCode = b_uniqueCode b, sr_alertTypes = b_alertTypes b\<rparr>
           (srv_subs st) (srv_email st) = ((code, body), t', e')"
  shows "status (fst (handle_request env now r st)) = code \<and>
         resp_body (fst (handle_request env now r st)) = ApiBody body \<and>
         srv_subs (snd (handle_request env now r st)) = t' \<and> srv_email (snd (handle_request env now r st)) = e'"
proof -
  obtain a s where segs: "path_segments (req_path r) = [a, s]" and a: "map js_lower a = ''api''"
    and s: "map js_lower s = ''subscribe''"
    using assms(3) by (cases "path_segments (req_path r)" rule: list.exhaust; auto)+
  have route: "api_routes env now r b [s] (st\<lparr>srv_rate := m'\<rparr>) =
                 Handled (code, body) (st\<lparr>srv_rate := m', srv_subs := t', srv_email := e'\<rparr>)" for m'
    using assms(2,5) s by (simp add: api_routes_def route_is_def route_param_def js_lower_def)
  show ?thesis
    using assms(1,2,4) segs a route
    by (auto simp: handle_request_def Let_def under_api_def split: prod.splits rl_outcome.splits)
qed

section \<open>Witnesses\<close>

theorem security_headers_always_witness:
  "req_method \<lparr>req_method = ''GET'', req_path = ''/api/health'', req_query = [], req_ip = Some ''1.2.3.4'',
      req_origin = None, req_acr_headers = None, req_body = Some empty_body\<rparr> \<noteq> ''OPTIONS'' \<and>
   req_body \<lparr>req_method = ''GET'', req_path = ''/api/health'', req_query = [], req_ip = Some ''1.2.3.4'',
      req_origin = None, req_acr_headers = None, req_body = Some empty_body\<rparr> = Some empty_body \<and>
   (''X-API-Version'', HText ''1.0.0'') \<in> set (security_headers @ api_version_headers) \<and>
   jsmap_get (resp_headers (fst (handle_request server_sample_env 0
     \<lparr>req_method = ''GET'', req_path = ''/api/health'', req_query = [], req_ip = Some ''1.2.3.4'',
      req_origin = None, req_acr_headers = None, req_body = Some empty_body\<rparr> server_sample_state))) ''X-API-Version'' =
     Some (HText ''1.0.0'')"
  using security_headers_always [of "\<lparr>req_method = ''GET'', req_path = ''/api/health'', req_query = [],
      req_ip = Some ''1.2.3.4'', req_origin = None, req_acr_headers = None, req_body = Some empty_body\<rparr>" empty_body
      "''X-API-Version''" "HText ''1.0.0''" server_sample_env 0 server_sample_state]
  by (simp add: api_version_headers_def)

theorem malformed_body_bypasses_witness:
  "req_method \<lparr>req_method = ''POST'', req_path = ''/api/subscribe'', req_query = [], req_ip = Some ''1.2.3.4'',
      req_origin = None, req_acr_headers = None, req_body = None\<rparr> \<noteq> ''OPTIONS'' \<and>
   req_body \<lparr>req_method = ''POST'', req_path = ''/api/subscribe'', req_query = [], req_ip = Some ''1.2.3.4'',
      req_origin = None, req_acr_headers = None, req_body = None\<rparr> = None \<and>
   snd (handle_request server_sample_env 0 \<lparr>req_method = ''POST'', req_path = ''/api/subscribe'', req_query = [],
          req_ip = Some ''1.2.3.4'', req_origin = None, req_acr_headers = None, req_body = None\<rparr> server_sample_state) =
     server_sample_state"
  using malformed_body_bypasses [of "\<lparr>req_method = ''POST'', req_path = ''/api/subscribe'', req_query = [],
      req_ip = Some ''1.2.3.4'', req_origin = None, req_acr_headers = None, req_body = None\<rparr>" server_sample_env 0
      server_sample_state]
  by simp

theorem preflight_answered_by_cors_witness:
  "status (fst (handle_request server_sample_env 0 \<lparr>req_method = ''OPTIONS'', req_path = ''/api/subscribe'', req_query = [],
     req_ip = Some ''1.2.3.4'', req_origin = Some ''http://localhost:3000'', req_acr_headers = Some ''content-type'',
     req_body = None\<rparr> server_sample_state)) = 200"
  using preflight_answered_by_cors [of "\<lparr>req_method = ''OPTIONS'', req_path = ''/api/subscribe'', req_query = [],
     req_ip = Some ''1.2.3.4'', req_origin = Some ''http://localhost:3000'', req_acr_headers = Some ''content-type'',
     req_body = None\<rparr>" server_sample_env 0 server_sample_state]
  by simp

theorem rate_limited_no_effect_witness:
  "status (fst (handle_request server_sample_env 0
     \<lparr>req_method = ''POST'', req_path = ''/api/subscribe'', req_query = [], req_ip = Some ''1.2.3.4'', req_origin = None, req_acr_headers = None,
      req_body = Some empty_body\<rparr>
     (server_sample_state\<lparr>srv_rate := [(''1.2.3.4'', \<lparr>count = 100, resetTime = 1000000\<rparr>)]\<rparr>))) = 429"
proof -
  have "fst (rate_limit api_max_requests api_window_ms (Some ''1.2.3.4'') 0
          [(''1.2.3.4'', \<lparr>count = 100, resetTime = 1000000\<rparr>)]) = TooManyRequests 1000"
    by (simp add: rate_limit_def api_max_requests_def api_window_ms_def jsmap_get_def js_or_opt_def js_or_def Let_def)
  then show ?thesis
    using rate_limited_no_effect [of "\<lparr>req_method = ''POST'', req_path = ''/api/subscribe'', req_query = [],
        req_ip = Some ''1.2.3.4'', req_origin = None, req_acr_headers = None, req_body = Some empty_body\<rparr>" empty_body 0
        "server_sample_state\<lparr>srv_rate := [(''1.2.3.4'', \<lparr>count = 100, resetTime = 1000000\<rparr>)]\<rparr>" 1000 server_sample_env]
    by (simp add: path_segments_def under_api_def js_lower_def)
qed

theorem unknown_api_get_witness:
  "resp_body (fst (handle_request (server_sample_env\<lparr>srv_config := (load_config (\<lambda>_. None))\<lparr>server_env := ''production''\<rparr>\<rparr>) 0
     \<lparr>req_method = ''GET'', req_path = ''/api/nonexistent'', req_query = [], req_ip = None, req_origin = None, req_acr_headers = None, req_body = Some empty_body\<rparr>
     server_sample_state)) = IndexHtml"
  using unknown_api_get [of server_sample_state "server_sample_env\<lparr>srv_config := (load_config (\<lambda>_. None))\<lparr>server_env := ''production''\<rparr>\<rparr>"
      0 None empty_body]
  by simp

theorem server_subscribe_witness:
  "status (fst (handle_request server_sample_env 0
     \<lparr>req_method = ''POST'', req_path = ''/API/Subscribe/'', req_query = [], req_ip = Some ''1.2.3.4'', req_origin = None, req_acr_headers = None,
      req_body = Some empty_body\<rparr> server_sample_state)) = 400"
proof -
  have segs: "map (map js_lower) (path_segments ''/API/Subscribe/'') = [''api'', ''subscribe'']"
    by code_simp
  have rl: "fst (rate_limit api_max_requests api_window_ms (Some ''1.2.3.4'') 0 []) = Proceed 100 99 900000"
    by (simp add: rate_limit_empty)
  have ps: "post_subscribe (srv_email_env server_sample_env) (srv_dbFail server_sample_env) 0
              \<lparr>sr_email = None, sr_uniqueCode = None, sr_alertTypes = None\<rparr> sub_table_init email_init =
            ((400, \<lparr>success = False, data = NoData, message = None,
                    error = Some ''email, uniqueCode, and alertTypes are required''\<rparr>), sub_table_init, email_init)"
    by (simp add: post_subscribe_def js_falsy_str_def fail_response_def)
  show ?thesis
    using server_subscribe [of "\<lparr>req_method = ''POST'', req_path = ''/API/Subscribe/'', req_query = [],
        req_ip = Some ''1.2.3.4'', req_origin = None, req_acr_headers = None, req_body = Some empty_body\<rparr>" empty_body 0 server_sample_state 100 99 900000 server_sample_env]
      segs rl ps
    by simp
qed

end
