(* ===== verification/StaticApi.thy ===== *)
theory StaticApi
  imports MonitorTask Frontend Config
begin

text \<open>
  The static client \<open>StaticApiClient\<close> of \<open>src/frontend/src/utils/static-api.ts\<close>,
  used when the dashboard is served without the API server. It reads
  \<open>/data/traders.json\<close>, the file \<open>monitor-task.js\<close> writes with
  \<open>updateFrontendData\<close> (the \<open>frontend_data\<close> of \<open>MonitorTask\<close>), keeps it for five
  minutes, falls back to built-in mock data, and keeps subscriptions in
  \<open>localStorage\<close>. The client's state is its cache, the time of the last fetch and the
  \<open>okx_subscriptions\<close> item; the fetch outcome (\<open>None\<close> for a network error or a
  response that is not ok) and the clock are inputs. \<open>JSON.stringify\<close> followed by
  \<open>JSON.parse\<close> is the identity on these values. A printed number is kept as the
  \<open>jsnum\<close> it prints, an ISO time string as its instant in milliseconds.
\<close>

section \<open>Number(string)\<close>

text \<open>
  \<open>ToNumber\<close> of a string (ECMA-262 StringToNumber) on decimal literals: white space
  trimmed, empty is 0, a \<open>StrDecimalLiteral\<close> (sign, \<open>Infinity\<close> or digits with an
  optional fraction and exponent) is its value, anything else \<open>NaN\<close>. The
  \<open>0x\<close>/\<open>0o\<close>/\<open>0b\<close> literals are not modelled.
\<close>

definition js_trim :: "string \<Rightarrow> string" where
  "js_trim s = rev (dropWhile is_js_space (rev (dropWhile is_js_space s)))"

definition exponent_ok :: "string \<Rightarrow> bool" where
  "exponent_ok r =
     (r = [] \<or>
      ((hd r = CHR ''e'' \<or> hd r = CHR ''E'') \<and>
       (let u = tl r; v = (if u \<noteq> [] \<and> (hd u = CHR ''+'' \<or> hd u = CHR ''-'') then tl u else u)
        in fst (span_digits v) \<noteq> [] \<and> snd (span_digits v) = [])))"

definition str_decimal_literal :: "string \<Rightarrow> bool" where
  "str_decimal_literal t =
     (let u = (if t \<noteq> [] \<and> (hd t = CHR ''+'' \<or> hd t = CHR ''-'') then tl t else t)
      in u = ''Infinity'' \<or>
         (let (ip, r) = span_digits u in
          if r \<noteq> [] \<and> hd r = CHR ''.'' then
            (let (fp, r') = span_digits (tl r) in (ip \<noteq> [] \<or> fp \<noteq> []) \<and> exponent_ok r')
          else ip \<noteq> [] \<and> exponent_ok r))"

definition js_string_to_number :: "string \<Rightarrow> jsnum" where
  "js_string_to_number s =
     (let t = js_trim s in
      if t = [] then Num 0 else if str_decimal_literal t then parse_float t else NaN)"

text \<open>Truthiness of a number: \<open>0\<close> and \<open>NaN\<close> are falsy.\<close>

definition js_truthy_num :: "jsnum \<Rightarrow> bool" where
  "js_truthy_num n = (n \<noteq> Num 0 \<and> n \<noteq> NaN)"

section \<open>The client\<close>

record local_subscription =
  ls_id :: string
  ls_email :: string
  ls_traderId :: string
  ls_alertTypes :: "string list"
  ls_isActive :: bool
  ls_createdAt :: ms
  ls_updatedAt :: ms

record static_client =
  dataCache :: "task_data option"
  lastFetch :: ms
  okx_subscriptions :: "local_subscription list option"

definition static_client_init :: static_client where
  "static_client_init = \<lparr>dataCache = None, lastFetch = 0, okx_subscriptions = None\<rparr>"

definition cache_timeout :: ms where
  "cache_timeout = 5 * 60 * 1000"

text \<open>\<open>getMockData()\<close>: two traders with the numbers of the literal and \<open>lastUpdate\<close> the
  current time; the two Chinese nicknames are written as ASCII names, and the numeric
  \<open>entryPrice\<close> literals as the strings they print.\<close>

definition mock_position :: "string \<Rightarrow> string \<Rightarrow> rat \<Rightarrow> rat \<Rightarrow> string \<Rightarrow> rat \<Rightarrow> task_position" where
  "mock_position sy sd sz pl entry mark =
     \<lparr>symbol = sy, side = sd, size = Num sz, pnl = Num pl, entryPrice = entry, markPrice = Num mark\<rparr>"

definition mock_data :: "string \<Rightarrow> task_data" where
  "mock_data nowIso =
     \<lparr>traders = Some
        [\<lparr>traderId = ''trader1'', nickname = ''quant-master'', profitRate = Num (256 / 10), followersCount = 1250,
          tr_positions = [mock_position ''BTC-USDT'' ''long'' (25 / 10) (125050 / 100) ''42000'' 42500,
                          mock_position ''ETH-USDT'' ''short'' 10 (- 32075 / 100) ''2800'' 2832]\<rparr>,
         \<lparr>traderId = ''trader2'', nickname = ''steady-investor'', profitRate = Num (183 / 10), followersCount = 890,
          tr_positions = [mock_position ''BNB-USDT'' ''long'' 50 (89025 / 100) ''320'' 338]\<rparr>],
      data_positions = [], lastUpdate = Some nowIso\<rparr>"

text \<open>\<open>fetchStaticData()\<close>: the cache while it is younger than five minutes, else the
  fetched file (which is cached), else the mock data (which is not).\<close>

definition fetch_static_data ::
  "task_data option \<Rightarrow> ms \<Rightarrow> string \<Rightarrow> static_client \<Rightarrow> task_data \<times> static_client" where
  "fetch_static_data response now nowIso c =
     (let fetched = (case response of
                       Some d \<Rightarrow> (d, c\<lparr>dataCache := Some d, lastFetch := now\<rparr>)
                     | None \<Rightarrow> (mock_data nowIso, c))
      in case dataCache c of
           Some d \<Rightarrow> if now - lastFetch c < cache_timeout then (d, c) else fetched
         | None \<Rightarrow> fetched)"

text \<open>The position objects \<open>getCurrentPositions\<close> builds; a number printed by
  \<open>toString()\<close> is kept as the number, an ISO time as its instant.\<close>

record static_position =
  sp_positionId :: string
  sp_symbol :: string
  sp_side :: string
  sp_size :: jsnum
  sp_entryPrice :: string
  sp_markPrice :: jsnum
  sp_pnl :: jsnum
  sp_pnlRatio :: string
  sp_margin :: string
  sp_leverage :: string
  sp_openTime :: ms
  sp_updateTime :: ms

definition static_position_of :: "ms \<Rightarrow> task_position \<Rightarrow> static_position" where
  "static_position_of now p =
     \<lparr>sp_positionId = symbol p @ ''_'' @ side p, sp_symbol = symbol p, sp_side = side p, sp_size = size p,
      sp_entryPrice = js_or (entryPrice p) ''0'', sp_markPrice = markPrice p, sp_pnl = pnl p,
      sp_pnlRatio = (if js_truthy_num (pnl p) \<and> entryPrice p \<noteq> []
                     then js_to_fixed 2 (js_mul (js_div (pnl p) (js_mul (js_string_to_number (entryPrice p)) (size p)))
                                           (Num 100))
                     else ''0''),
      sp_margin = ''0'', sp_leverage = ''1'', sp_openTime = now, sp_updateTime = now\<rparr>"

datatype static_error = StaticTypeError | TraderMissing

definition get_current_positions_static ::
  "task_data option \<Rightarrow> ms \<Rightarrow> string \<Rightarrow> string \<Rightarrow> static_client
   \<Rightarrow> (static_error + static_position list) \<times> static_client" where
  "get_current_positions_static response now nowIso uniqueCode c =
     (let (d, c') = fetch_static_data response now nowIso c in
      case traders d of
        None \<Rightarrow> (Inl StaticTypeError, c')
      | Some ts \<Rightarrow>
          (case find (\<lambda>t. traderId t = uniqueCode) ts of
             None \<Rightarrow> (Inl TraderMissing, c')
           | Some t \<Rightarrow> (Inr (map (static_position_of now) (tr_positions t)), c')))"

text \<open>\<open>addTrader\<close> only answers; the message is a constructor.\<close>

definition add_trader_static :: "string \<Rightarrow> string option \<Rightarrow> bool \<times> string \<times> string" where
  "add_trader_static uniqueCode nickName = (True, uniqueCode, js_or_opt nickName uniqueCode)"

definition get_local_subscriptions :: "static_client \<Rightarrow> local_subscription list" where
  "get_local_subscriptions c = (case okx_subscriptions c of None \<Rightarrow> [] | Some l \<Rightarrow> l)"

definition subscribe_static ::
  "ms \<Rightarrow> string \<Rightarrow> string \<Rightarrow> string list \<Rightarrow> static_client \<Rightarrow> local_subscription \<times> static_client" where
  "subscribe_static now e uniqueCode types c =
     (let sub = \<lparr>ls_id = js_int_string (Num (of_int now)), ls_email = e, ls_traderId = uniqueCode,
                 ls_alertTypes = types, ls_isActive = True, ls_createdAt = now, ls_updatedAt = now\<rparr>
      in (sub, c\<lparr>okx_subscriptions := Some (get_local_subscriptions c @ [sub])\<rparr>))"

definition unsubscribe_static :: "string \<Rightarrow> string \<Rightarrow> static_client \<Rightarrow> static_client" where
  "unsubscribe_static e uniqueCode c =
     c\<lparr>okx_subscriptions := Some (filter (\<lambda>sub. \<not> (ls_email sub = e \<and> ls_traderId sub = uniqueCode))
                                    (get_local_subscriptions c))\<rparr>"

definition get_user_subscriptions_static :: "string \<Rightarrow> static_client \<Rightarrow> local_subscription list" where
  "get_user_subscriptions_static e c = filter (\<lambda>sub. ls_email sub = e) (get_local_subscriptions c)"

text \<open>\<open>healthCheck\<close>: the data's \<open>lastUpdate\<close> and \<open>traders?.length || 0\<close>.\<close>

definition health_check_static ::
  "task_data option \<Rightarrow> ms \<Rightarrow> string \<Rightarrow> static_client \<Rightarrow> (string option \<times> nat) \<times> static_client" where
  "health_check_static response now nowIso c =
     (let (d, c') = fetch_static_data response now nowIso c
      in ((lastUpdate d, case traders d of None \<Rightarrow> 0 | Some ts \<Rightarrow> length ts), c'))"

text \<open>\<open>getAllTraders\<close>: per trader the sum of \<open>pos.pnl || 0\<close> and the position count;
  \<open>winRate\<close> is \<open>Math.random() * 100\<close>, a parameter.\<close>

record trader_summary =
  ts_traderId :: string
  ts_nickname :: string
  ts_profitRate :: jsnum
  ts_followersCount :: int
  ts_totalPnl :: jsnum
  ts_winRate :: jsnum
  ts_positionsCount :: nat
  ts_lastUpdate :: "string option"

definition js_or_zero :: "jsnum \<Rightarrow> jsnum" where
  "js_or_zero n = (if js_truthy_num n then n else Num 0)"

definition get_all_traders_static ::
  "(string \<Rightarrow> jsnum) \<Rightarrow> task_data option \<Rightarrow> ms \<Rightarrow> string \<Rightarrow> static_client
   \<Rightarrow> (static_error + trader_summary list) \<times> static_client" where
  "get_all_traders_static winRate response now nowIso c =
     (let (d, c') = fetch_static_data response now nowIso c in
      case traders d of
        None \<Rightarrow> (Inl StaticTypeError, c')
      | Some ts \<Rightarrow>
          (Inr (map (\<lambda>t. \<lparr>ts_traderId = traderId t, ts_nickname = nickname t, ts_profitRate = profitRate t,
                          ts_followersCount = followersCount t,
                          ts_totalPnl = foldl (\<lambda>sum pos. js_add sum (js_or_zero (pnl pos))) (Num 0) (tr_positions t),
                          ts_winRate = winRate (traderId t), ts_positionsCount = length (tr_positions t),
                          ts_lastUpdate = lastUpdate d\<rparr>) ts), c'))"

lemmas static_api_defs [model_simps] = js_trim_def exponent_ok_def str_decimal_literal_def js_string_to_number_def
  js_truthy_num_def static_client_init_def cache_timeout_def mock_position_def mock_data_def fetch_static_data_def
  static_position_of_def get_current_positions_static_def add_trader_static_def get_local_subscriptions_def
  subscribe_static_def unsubscribe_static_def get_user_subscriptions_static_def health_check_static_def
  js_or_zero_def get_all_traders_static_def

section \<open>Cache, composition with monitor-task.js, and local subscriptions\<close>

lemma cache_fresh:
  "dataCache c = Some d \<Longrightarrow> now - lastFetch c < cache_timeout \<Longrightarrow> fetch_static_data r now nowIso c = (d, c)"
  by (simp add: fetch_static_data_def)

text \<open>Once the cache is five minutes old, a failed fetch returns the mock data, not the cached copy of the real file, and leaves the old cache in place.\<close>

theorem stale_cache_mock:
  "dataCache c = Some d \<Longrightarrow> cache_timeout \<le> now - lastFetch c \<Longrightarrow>
   fetch_static_data None now nowIso c = (mock_data nowIso, c)"
  by (simp add: fetch_static_data_def)

text \<open>The static client does not deduplicate: subscribing twice to the same trader stores two entries, where the server's table keeps one row per (email, uniqueCode).\<close>

theorem local_subscribe_duplicates:
  "get_user_subscriptions_static e (snd (subscribe_static t2 e u ts (snd (subscribe_static t1 e u ts c)))) =
     get_user_subscriptions_static e c @ [fst (subscribe_static t1 e u ts c), fst (subscribe_static t2 e u ts c)]"
  by (simp add: get_user_subscriptions_static_def subscribe_static_def get_local_subscriptions_def Let_def)

text \<open>Unsubscribing after subscribing removes every entry of the pair and keeps the others.\<close>

theorem local_unsubscribe_after_subscribe:
  "get_local_subscriptions (unsubscribe_static e u (snd (subscribe_static t e u ts c))) =
     filter (\<lambda>sub. \<not> (ls_email sub = e \<and> ls_traderId sub = u)) (get_local_subscriptions c)"
  by (simp add: unsubscribe_static_def subscribe_static_def get_local_subscriptions_def Let_def)

lemma run_monitoring_frontend:
  assumes "check_trader_changes (load_data (stored st)) (new_poll g nowS) = Inr ch" and "frontendOk env"
  shows "frontend_data (run_monitoring env g nowS st) = Some (new_poll g nowS)"
  using assms by (simp add: run_monitoring_def Let_def)

text \<open>C29: After a run of monitor-task.js that completed and wrote the front-end copy of its poll, a fresh static client of the dashboard asking for trader1 caches that poll and shows exactly trader1's polled positions, in order.\<close>

theorem monitor_to_dashboard:
  assumes "check_trader_changes (load_data (stored st)) (new_poll g nowS) = Inr ch" and "frontendOk env"
    and "traderId (g ''trader1'') = ''trader1''"
  shows "get_current_positions_static (frontend_data (run_monitoring env g nowS st)) now nowIso ''trader1'' static_client_init =
           (Inr (map (static_position_of now) (tr_positions (g ''trader1''))),
            static_client_init\<lparr>dataCache := Some (new_poll g nowS), lastFetch := now\<rparr>)"
  using assms(3) run_monitoring_frontend [OF assms(1,2)]
  by (simp add: get_current_positions_static_def fetch_static_data_def static_client_init_def new_poll_def
      trader_ids_def)

section \<open>Witnesses\<close>

theorem monitor_to_dashboard_witness:
  "get_current_positions_static
     (frontend_data (run_monitoring \<lparr>smtp_user = None, smtp_pass = None, notify_to = None, sendOk = True,
                                     saveOk = True, frontendOk = True\<rparr>
        (\<lambda>i. \<lparr>traderId = i, nickname = i, profitRate = Num 0, followersCount = 0,
               tr_positions = [mock_position ''BTC-USDT'' ''long'' 1 10 ''42000'' 42010]\<rparr>)
        ''2024-01-01T00:00:00.000Z'' \<lparr>stored = None, frontend_data = None, task_outbox = []\<rparr>))
     0 ''1970-01-01T00:00:00.000Z'' ''trader1'' static_client_init =
   (Inr [static_position_of 0 (mock_position ''BTC-USDT'' ''long'' 1 10 ''42000'' 42010)],
    static_client_init\<lparr>dataCache := Some (new_poll (\<lambda>i. \<lparr>traderId = i, nickname = i, profitRate = Num 0,
        followersCount = 0, tr_positions = [mock_position ''BTC-USDT'' ''long'' 1 10 ''42000'' 42010]\<rparr>)
        ''2024-01-01T00:00:00.000Z''), lastFetch := 0\<rparr>)"
proof -
  let ?g = "\<lambda>i. \<lparr>traderId = i, nickname = i, profitRate = Num 0, followersCount = 0,
               tr_positions = [mock_position ''BTC-USDT'' ''long'' 1 10 ''42000'' 42010]\<rparr>"
  have c: "check_trader_changes (load_data (stored \<lparr>stored = None, frontend_data = None, task_outbox = []\<rparr>))
             (new_poll ?g ''2024-01-01T00:00:00.000Z'') = Inr (map (NewTrader \<circ> ?g) trader_ids)"
    by (simp add: check_trader_changes_def load_data_def new_poll_def trader_ids_def trader_changes_def)
  show ?thesis
    using monitor_to_dashboard [OF c, of "\<lparr>smtp_user = None, smtp_pass = None, notify_to = None, sendOk = True,
        saveOk = True, frontendOk = True\<rparr>" 0 "''1970-01-01T00:00:00.000Z''"]
    by simp
qed

end
