(* ===== verification/Interleaving.thy ===== *)
theory Interleaving
  imports Monitor
begin

text \<open>
  Overlapping poll cycles of \<open>src/src/services/monitor.service.ts\<close>. \<open>setInterval\<close>
  calls the async \<open>checkAllSubscriptions\<close> every 30 s whether or not the previous call
  has finished, so two \<open>checkTraderPositions\<close> of one trader can be in flight at once.
  A call is split at its \<open>await this.comparePositions(...)\<close>: \<open>Begin\<close> is the part up to
  it (the fetched positions have arrived, the snapshot is read, and the notifications
  of \<open>comparePositions\<close> are sent, at that instant), \<open>Finish\<close> the part after it (the
  snapshot is replaced, stamped with the time of the write). A first call for a trader
  has no await between the read and the write, so its \<open>Begin\<close> writes the snapshot
  and leaves nothing in flight. A run is a sequence of these events in the order the
  event loop executes them. The awaits of the mails inside \<open>comparePositions\<close> are
  folded into \<open>Begin\<close> (taken in order at that instant), so only the interleaving at
  the snapshot's read and write is modelled.
\<close>

section \<open>Calls in flight\<close>

record inflight =
  fl_code :: entity_key
  fl_positions :: "LeadPosition list"

record conc_state =
  cs_monitor :: monitor_state
  cs_inflight :: "inflight list"

definition begin_check ::
  "email_env \<Rightarrow> ms \<Rightarrow> entity_key \<Rightarrow> string \<Rightarrow> LeadPosition list \<Rightarrow> conc_state \<Rightarrow> conc_state" where
  "begin_check env now code name current cs =
     (let s = cs_monitor cs in
      case jsmap_get (positionSnapshots s) code of
        None \<Rightarrow>
          cs\<lparr>cs_monitor := s\<lparr>positionSnapshots := jsmap_set (positionSnapshots s) code
                                 \<lparr>snap_uniqueCode = code, positions = current, timestamp = now\<rparr>\<rparr>\<rparr>
      | Some previousSnapshot \<Rightarrow>
          cs\<lparr>cs_monitor := s\<lparr>mailer := compare_and_notify env now code name (positions previousSnapshot) current
                                          (mailer s)\<rparr>,
             cs_inflight := cs_inflight cs @ [\<lparr>fl_code = code, fl_positions = current\<rparr>]\<rparr>)"

definition finish_check :: "nat \<Rightarrow> ms \<Rightarrow> conc_state \<Rightarrow> conc_state" where
  "finish_check i now cs =
     (if i < length (cs_inflight cs) then
        (let f = cs_inflight cs ! i; s = cs_monitor cs in
         cs\<lparr>cs_monitor := s\<lparr>positionSnapshots := jsmap_set (positionSnapshots s) (fl_code f)
                               \<lparr>snap_uniqueCode = fl_code f, positions = fl_positions f, timestamp = now\<rparr>\<rparr>,
            cs_inflight := take i (cs_inflight cs) @ drop (Suc i) (cs_inflight cs)\<rparr>)
      else cs)"

datatype conc_event =
    Begin email_env ms entity_key string "LeadPosition list"
  | Finish nat ms

fun conc_step :: "conc_state \<Rightarrow> conc_event \<Rightarrow> conc_state" where
  "conc_step cs (Begin env now code name current) = begin_check env now code name current cs"
| "conc_step cs (Finish i now) = finish_check i now cs"

definition conc_run :: "conc_state \<Rightarrow> conc_event list \<Rightarrow> conc_state" where
  "conc_run cs evs = foldl conc_step cs evs"

definition quiescent :: "monitor_state \<Rightarrow> conc_state" where
  "quiescent s = \<lparr>cs_monitor = s, cs_inflight = []\<rparr>"

fun is_begin :: "conc_event \<Rightarrow> bool" where
  "is_begin (Begin _ _ _ _ _) = True"
| "is_begin (Finish _ _) = False"

lemmas interleaving_defs [model_simps] = begin_check_def finish_check_def conc_run_def quiescent_def

section \<open>Serial runs are the sequential service\<close>

lemma conc_run_append: "conc_run cs (xs @ ys) = conc_run (conc_run cs xs) ys"
  by (simp add: conc_run_def)

lemma conc_run_Cons: "conc_run cs (e # es) = conc_run (conc_step cs e) es"
  by (simp add: conc_run_def)

lemma begin_finish_check:
  "conc_run (quiescent s) [Begin env now code name ps, Finish 0 now] =
     quiescent (check_trader_positions env (\<lambda>_. Inr ps) now code name s)"
  by (cases "jsmap_get (positionSnapshots s) code")
     (simp_all add: conc_run_def quiescent_def begin_check_def finish_check_def check_trader_positions_def)

text \<open>When each checkTraderPositions of a cycle finishes before the next one begins, the interleaved model is exactly the sequential service: a whole cycle over the given trader codes, with the positions each fetch returned, ends in the state checkTraders computes, with nothing left in flight.\<close>

theorem serial_cycle_refines:
  "conc_run (quiescent s) (concat (map (\<lambda>c. [Begin env now c (trader_label c) (ps c), Finish 0 now]) codes)) =
     quiescent (check_traders env (\<lambda>c. Inr (ps c)) now codes s)"
proof (induction codes arbitrary: s)
  case Nil
  then show ?case by (simp add: conc_run_def)
next
  case (Cons c codes)
  have "conc_run (quiescent s) (concat (map (\<lambda>c. [Begin env now c (trader_label c) (ps c), Finish 0 now]) (c # codes))) =
        conc_run (conc_run (quiescent s) [Begin env now c (trader_label c) (ps c), Finish 0 now])
          (concat (map (\<lambda>c. [Begin env now c (trader_label c) (ps c), Finish 0 now]) codes))"
    by (simp add: conc_run_append [symmetric])
  also have "\<dots> = quiescent (check_traders env (\<lambda>c. Inr (ps c)) now codes
                     (check_trader_positions env (\<lambda>c. Inr (ps c)) now c (trader_label c) s))"
    using Cons.IH begin_finish_check [of s env now c "trader_label c" "ps c"]
    by (simp add: check_trader_positions_def)
  finally show ?case by simp
qed

section \<open>Overlapping checks read a stale snapshot\<close>

lemma begin_check_keeps_snapshot:
  "jsmap_get (positionSnapshots (cs_monitor cs)) c = Some prev \<Longrightarrow>
   jsmap_get (positionSnapshots (cs_monitor (begin_check env now code name cur cs))) c = Some prev"
  by (auto simp: begin_check_def Let_def split: option.split)

lemma begins_keep_snapshot:
  "jsmap_get (positionSnapshots (cs_monitor cs)) c = Some prev \<Longrightarrow> list_all is_begin evs \<Longrightarrow>
   jsmap_get (positionSnapshots (cs_monitor (conc_run cs evs))) c = Some prev"
proof (induction evs arbitrary: cs)
  case Nil
  then show ?case by (simp add: conc_run_def)
next
  case (Cons e evs)
  then obtain env now code name cur where e: "e = Begin env now code name cur" by (cases e) auto
  show ?case
    using Cons.IH [of "begin_check env now code name cur cs"] Cons.prems begin_check_keeps_snapshot
    by (simp add: e conc_run_Cons)
qed

text \<open>C16: setInterval starts a cycle every 30 s whether or not the previous one has finished. However many checks have begun since trader c's snapshot prev was written (of c or of any other trader), as long as none has reached its write after the await, a check of c that begins now compares the fetched positions against prev, not against what the checks in flight fetched: it sends exactly the notifications of comparePositions(prev, current), so a position that opened before the first of them is reported again by every one.\<close>

theorem overlapping_check_stale_snapshot:
  assumes "jsmap_get (positionSnapshots (cs_monitor cs)) c = Some prev" and "list_all is_begin evs"
  shows "mailer (cs_monitor (conc_run cs (evs @ [Begin env now c name cur]))) =
           compare_and_notify env now c name (positions prev) cur (mailer (cs_monitor (conc_run cs evs)))"
  using begins_keep_snapshot [OF assms]
  by (simp add: conc_run_append conc_run_def begin_check_def Let_def)

theorem overlapping_check_stale_snapshot_witness:
  "jsmap_get (positionSnapshots (cs_monitor (quiescent (monitor_init\<lparr>positionSnapshots :=
      [(''E1'', \<lparr>snap_uniqueCode = ''E1'', positions = [], timestamp = 0\<rparr>)]\<rparr>)))) ''E1'' =
     Some \<lparr>snap_uniqueCode = ''E1'', positions = [], timestamp = 0\<rparr> \<and>
   list_all is_begin [Begin \<lparr>transporterConfigured = True, rateLimit = Num 5, sendMailOk = (\<lambda>_. True), logInsertOk = True, subscriptionsTable = Some []\<rparr> 30000 ''E1'' ''T'' []] \<and>
   mailer (cs_monitor (conc_run (quiescent (monitor_init\<lparr>positionSnapshots :=
      [(''E1'', \<lparr>snap_uniqueCode = ''E1'', positions = [], timestamp = 0\<rparr>)]\<rparr>))
      ([Begin \<lparr>transporterConfigured = True, rateLimit = Num 5, sendMailOk = (\<lambda>_. True), logInsertOk = True, subscriptionsTable = Some []\<rparr> 30000 ''E1'' ''T'' []] @ [Begin \<lparr>transporterConfigured = True, rateLimit = Num 5, sendMailOk = (\<lambda>_. True), logInsertOk = True, subscriptionsTable = Some []\<rparr> 60000 ''E1'' ''T'' []]))) =
   compare_and_notify \<lparr>transporterConfigured = True, rateLimit = Num 5, sendMailOk = (\<lambda>_. True), logInsertOk = True, subscriptionsTable = Some []\<rparr> 60000 ''E1'' ''T'' [] []
     (mailer (cs_monitor (conc_run (quiescent (monitor_init\<lparr>positionSnapshots :=
      [(''E1'', \<lparr>snap_uniqueCode = ''E1'', positions = [], timestamp = 0\<rparr>)]\<rparr>))
      [Begin \<lparr>transporterConfigured = True, rateLimit = Num 5, sendMailOk = (\<lambda>_. True), logInsertOk = True, subscriptionsTable = Some []\<rparr> 30000 ''E1'' ''T'' []])))"
  using overlapping_check_stale_snapshot [of "quiescent (monitor_init\<lparr>positionSnapshots :=
      [(''E1'', \<lparr>snap_uniqueCode = ''E1'', positions = [], timestamp = 0\<rparr>)]\<rparr>)" "''E1''"
      "\<lparr>snap_uniqueCode = ''E1'', positions = [], timestamp = 0\<rparr>" "[Begin \<lparr>transporterConfigured = True, rateLimit = Num 5, sendMailOk = (\<lambda>_. True), logInsertOk = True, subscriptionsTable = Some []\<rparr> 30000 ''E1'' ''T'' []]"
      "\<lparr>transporterConfigured = True, rateLimit = Num 5, sendMailOk = (\<lambda>_. True), logInsertOk = True, subscriptionsTable = Some []\<rparr>" 60000 "''T''" "[]"]
  by (simp add: quiescent_def jsmap_get_def)

end
