(* ===== verification/Client.thy ===== *)
theory Client
  imports Server StaticApi
begin

text \<open>
  The browser side of the application as it talks to the server: the axios client of
  \<open>src/frontend/src/utils/api.ts\<close>, the subscription form of
  \<open>src/frontend/src/components/EmailSubscription.tsx\<close> and the page of
  \<open>src/frontend/src/components/TraderMonitor.tsx\<close> that hosts it. A call of the
  client is the request it sends (method, the path under axios's \<open>baseURL\<close> \<open>/api\<close>,
  and the JSON body, where \<open>undefined\<close> fields are dropped by \<open>JSON.stringify\<close>;
  the \<open>Origin\<close> header a browser may add to a same-origin request changes only the
  CORS headers of the answer, which the client does not read, so requests carry none),
  answered by \<open>Server.handle_request\<close>. axios rejects every status outside 200..299
  with the error \<open>Request failed with status code N\<close>; only a 2xx response reaches
  the \<open>response.data.success\<close> check of the client. React state is a record per
  component; a handler that awaits is split into its part before the \<open>await\<close> and
  its part after it, and the page's events run each handler to its end before the
  next. The Chinese messages of the components are named by the constructors of
  \<open>ui_msg\<close>; \<open>toast\<close> notifications and logging are not modelled.
\<close>

section \<open>The API client (utils/api.ts)\<close>

datatype client_call =
    GetCurrentPositions string
  | AddTrader string "string option"
  | Subscribe string string "string list"
  | Unsubscribe string string
  | GetUserSubscriptions string
  | TestEmail string
  | HealthCheck
  | GetApiInfo

definition no_body :: req_body where
  "no_body = \<lparr>b_email = None, b_uniqueCode = None, b_alertTypes = None, b_nickName = None\<rparr>"

definition client_request :: "string option \<Rightarrow> client_call \<Rightarrow> http_request" where
  "client_request ip call =
     (let mk = (\<lambda>m p b. \<lparr>req_method = m, req_path = ''/api'' @ p, req_query = [], req_ip = ip, req_origin = None,
                          req_acr_headers = None, req_body = Some b\<rparr>)
      in case call of
        GetCurrentPositions c \<Rightarrow> mk ''GET'' (''/trader/'' @ c @ ''/positions'') no_body
      | AddTrader c n \<Rightarrow> mk ''POST'' ''/trader/add'' (no_body\<lparr>b_uniqueCode := Some c, b_nickName := n\<rparr>)
      | Subscribe e c ts \<Rightarrow>
          mk ''POST'' ''/subscribe'' (no_body\<lparr>b_email := Some e, b_uniqueCode := Some c, b_alertTypes := Some ts\<rparr>)
      | Unsubscribe e c \<Rightarrow> mk ''DELETE'' ''/unsubscribe'' (no_body\<lparr>b_email := Some e, b_uniqueCode := Some c\<rparr>)
      | GetUserSubscriptions e \<Rightarrow> mk ''GET'' (''/subscriptions/'' @ e) no_body
      | TestEmail e \<Rightarrow> mk ''POST'' ''/test-email'' (no_body\<lparr>b_email := Some e\<rparr>)
      | HealthCheck \<Rightarrow> mk ''GET'' ''/health'' no_body
      | GetApiInfo \<Rightarrow> mk ''GET'' ''/info'' no_body)"

text \<open>axios's default \<open>validateStatus\<close>: a status outside 200..299 rejects the promise.\<close>

definition axios_send ::
  "server_env \<Rightarrow> ms \<Rightarrow> string option \<Rightarrow> client_call \<Rightarrow> server_state \<Rightarrow> (string + resp_body) \<times> server_state" where
  "axios_send env now ip call st =
     (case handle_request env now (client_request ip call) st of
        (r, st') \<Rightarrow>
          (if 200 \<le> status r \<and> status r < 300 then Inr (resp_body r)
           else Inl (''Request failed with status code '' @ js_int_string (Num (of_nat (status r)))), st'))"

definition default_error :: "client_call \<Rightarrow> string" where
  "default_error call =
     (case call of
        GetCurrentPositions _ \<Rightarrow> ''Failed to get current positions''
      | AddTrader _ _ \<Rightarrow> ''Failed to add trader''
      | Subscribe _ _ _ \<Rightarrow> ''Failed to subscribe''
      | Unsubscribe _ _ \<Rightarrow> ''Failed to unsubscribe''
      | GetUserSubscriptions _ \<Rightarrow> ''Failed to get user subscriptions''
      | TestEmail _ \<Rightarrow> ''Failed to send test email''
      | HealthCheck \<Rightarrow> []
      | GetApiInfo \<Rightarrow> [])"

datatype client_value = CData response_data | CBody resp_body | CUnit

text \<open>The body of each client method after the request: \<open>healthCheck\<close> and
  \<open>getApiInfo\<close> return \<open>response.data\<close> as it is; the others throw
  \<open>response.data.error || default\<close> when \<open>success\<close> is not set (a body that is not
  an API response, such as the \<open>index.html\<close> string, has no \<open>success\<close>), and return
  \<open>response.data.data\<close>, or nothing for \<open>unsubscribe\<close> and \<open>testEmail\<close>.\<close>

definition check_success :: "client_call \<Rightarrow> resp_body \<Rightarrow> string + client_value" where
  "check_success call b =
     (case call of
        HealthCheck \<Rightarrow> Inr (CBody b)
      | GetApiInfo \<Rightarrow> Inr (CBody b)
      | _ \<Rightarrow>
        (case b of
           ApiBody ar \<Rightarrow>
             if \<not> success ar then Inl (js_or_opt (error ar) (default_error call))
             else Inr (case call of Unsubscribe _ _ \<Rightarrow> CUnit | TestEmail _ \<Rightarrow> CUnit | _ \<Rightarrow> CData (data ar))
         | _ \<Rightarrow> Inl (default_error call)))"

definition api_call ::
  "server_env \<Rightarrow> ms \<Rightarrow> string option \<Rightarrow> client_call \<Rightarrow> server_state \<Rightarrow> (string + client_value) \<times> server_state" where
  "api_call env now ip call st =
     (case axios_send env now ip call st of
        (Inl m, st') \<Rightarrow> (Inl m, st')
      | (Inr b, st') \<Rightarrow> (check_success call b, st'))"

section \<open>The subscription form (EmailSubscription.tsx)\<close>

text \<open>The fixed messages of the two components: \<open>EnterEmail\<close> is the form's
  "please enter an e-mail address", \<open>InvalidEmail\<close> "please enter a valid e-mail
  address", \<open>SelectAlertType\<close> "select at least one notification type",
  \<open>EnterCode\<close> the page's "please enter the trader UniqueCode" and \<open>CodeLength\<close>
  "UniqueCode should be 16 characters".\<close>

datatype ui_msg = EnterEmail | InvalidEmail | SelectAlertType | EnterCode | CodeLength

datatype ui_error = NoError | UiMsg ui_msg | Thrown string

record sub_form =
  sf_email :: string
  selectedAlerts :: "string list"
  isSubscribing :: bool
  isUnsubscribing :: bool
  sf_error :: ui_error

definition default_alerts :: "string list" where
  "default_alerts = [''new_position'', ''close_position'']"

definition alert_options :: "string list" where
  "alert_options = [''new_position'', ''close_position'', ''profit_loss'']"

definition sub_form_init :: sub_form where
  "sub_form_init = \<lparr>sf_email = [], selectedAlerts = default_alerts, isSubscribing = False,
                    isUnsubscribing = False, sf_error = NoError\<rparr>"

definition handle_alert_toggle :: "string \<Rightarrow> sub_form \<Rightarrow> sub_form" where
  "handle_alert_toggle a f =
     f\<lparr>selectedAlerts := (let prev = selectedAlerts f in
                          if a \<in> set prev then filter (\<lambda>ty. ty \<noteq> a) prev else prev @ [a])\<rparr>"

definition handle_email_input :: "string \<Rightarrow> sub_form \<Rightarrow> sub_form" where
  "handle_email_input v f =
     (let f' = f\<lparr>sf_email := v\<rparr> in if sf_error f \<noteq> NoError then f'\<lparr>sf_error := NoError\<rparr> else f')"

definition subscribe_disabled :: "sub_form \<Rightarrow> bool" where
  "subscribe_disabled f = (js_trim (sf_email f) = [] \<or> selectedAlerts f = [] \<or> isSubscribing f)"

definition unsubscribe_disabled :: "sub_form \<Rightarrow> bool" where
  "unsubscribe_disabled f = (js_trim (sf_email f) = [] \<or> isUnsubscribing f)"

text \<open>\<open>handleSubscribe\<close> up to its \<open>await\<close>: the validations with their early
  returns, then the call it makes; and the part after the \<open>await\<close>.\<close>

definition subscribe_start :: "string \<Rightarrow> sub_form \<Rightarrow> sub_form \<times> client_call option" where
  "subscribe_start code f =
     (if js_trim (sf_email f) = [] then (f\<lparr>sf_error := UiMsg EnterEmail\<rparr>, None)
      else if \<not> is_valid_email (sf_email f) then (f\<lparr>sf_error := UiMsg InvalidEmail\<rparr>, None)
      else if selectedAlerts f = [] then (f\<lparr>sf_error := UiMsg SelectAlertType\<rparr>, None)
      else (f\<lparr>sf_error := NoError, isSubscribing := True\<rparr>, Some (Subscribe (sf_email f) code (selectedAlerts f))))"

definition subscribe_finish :: "string + client_value \<Rightarrow> sub_form \<Rightarrow> sub_form" where
  "subscribe_finish res f =
     (case res of
        Inr _ \<Rightarrow> f\<lparr>sf_email := [], selectedAlerts := default_alerts, isSubscribing := False\<rparr>
      | Inl m \<Rightarrow> f\<lparr>sf_error := Thrown m, isSubscribing := False\<rparr>)"

definition unsubscribe_start :: "string \<Rightarrow> sub_form \<Rightarrow> sub_form \<times> client_call option" where
  "unsubscribe_start code f =
     (if js_trim (sf_email f) = [] then (f\<lparr>sf_error := UiMsg EnterEmail\<rparr>, None)
      else if \<not> is_valid_email (sf_email f) then (f\<lparr>sf_error := UiMsg InvalidEmail\<rparr>, None)
      else (f\<lparr>sf_error := NoError, isUnsubscribing := True\<rparr>, Some (Unsubscribe (sf_email f) code)))"

definition unsubscribe_finish :: "string + client_value \<Rightarrow> sub_form \<Rightarrow> sub_form" where
  "unsubscribe_finish res f =
     (case res of
        Inr _ \<Rightarrow> f\<lparr>sf_email := [], isUnsubscribing := False\<rparr>
      | Inl m \<Rightarrow> f\<lparr>sf_error := Thrown m, isUnsubscribing := False\<rparr>)"

text \<open>The states the form can reach, for a trader code fixed by its parent: the
  three alert options can be toggled, the e-mail typed, and each button pressed
  while it is enabled (a disabled default button also blocks submission by Enter);
  a response arrives for a request in flight, with any outcome.\<close>

inductive form_reach :: "string \<Rightarrow> sub_form \<Rightarrow> bool" for code :: string where
  init: "form_reach code sub_form_init"
| toggle: "form_reach code f \<Longrightarrow> a \<in> set alert_options \<Longrightarrow> form_reach code (handle_alert_toggle a f)"
| input: "form_reach code f \<Longrightarrow> form_reach code (handle_email_input v f)"
| submit: "form_reach code f \<Longrightarrow> \<not> subscribe_disabled f \<Longrightarrow> form_reach code (fst (subscribe_start code f))"
| sub_done: "form_reach code f \<Longrightarrow> isSubscribing f \<Longrightarrow> form_reach code (subscribe_finish res f)"
| unsub: "form_reach code f \<Longrightarrow> \<not> unsubscribe_disabled f \<Longrightarrow> form_reach code (fst (unsubscribe_start code f))"
| unsub_done: "form_reach code f \<Longrightarrow> isUnsubscribing f \<Longrightarrow> form_reach code (unsubscribe_finish res f)"

text \<open>A whole press of the subscribe button with the server answering before any
  other event: the start, the call through the client and the server, and the end.\<close>

definition form_subscribe ::
  "server_env \<Rightarrow> ms \<Rightarrow> string option \<Rightarrow> string \<Rightarrow> sub_form \<Rightarrow> server_state \<Rightarrow> sub_form \<times> server_state" where
  "form_subscribe env now ip code f st =
     (case subscribe_start code f of
        (f', None) \<Rightarrow> (f', st)
      | (f', Some call) \<Rightarrow> (case api_call env now ip call st of (res, st') \<Rightarrow> (subscribe_finish res f', st')))"

definition form_unsubscribe ::
  "server_env \<Rightarrow> ms \<Rightarrow> string option \<Rightarrow> string \<Rightarrow> sub_form \<Rightarrow> server_state \<Rightarrow> sub_form \<times> server_state" where
  "form_unsubscribe env now ip code f st =
     (case unsubscribe_start code f of
        (f', None) \<Rightarrow> (f', st)
      | (f', Some call) \<Rightarrow> (case api_call env now ip call st of (res, st') \<Rightarrow> (unsubscribe_finish res f', st')))"

section \<open>The trader page (TraderMonitor.tsx)\<close>

text \<open>The page's state; \<open>tp_form\<close> is the state of the \<open>EmailSubscription\<close> child,
  which is rendered when positions are loaded and \<open>showSubscription\<close> is set, with
  \<open>trader={{ uniqueCode, ... }}\<close>: the page's current input, not the code whose
  positions were fetched.\<close>

record trader_page =
  tp_code :: string
  tp_positions :: "LeadPosition list"
  tp_loading :: bool
  tp_error :: ui_error
  tp_showSub :: bool
  tp_form :: sub_form

definition trader_page_init :: trader_page where
  "trader_page_init = \<lparr>tp_code = [], tp_positions = [], tp_loading = False, tp_error = NoError,
                       tp_showSub = False, tp_form = sub_form_init\<rparr>"

definition sub_mounted :: "trader_page \<Rightarrow> bool" where
  "sub_mounted p = (tp_positions p \<noteq> [] \<and> tp_showSub p)"

text \<open>React discards the state of an unmounted child; mounted again, it starts afresh.\<close>

definition settle_mount :: "trader_page \<Rightarrow> trader_page" where
  "settle_mount p = (if sub_mounted p then p else p\<lparr>tp_form := sub_form_init\<rparr>)"

text \<open>\<open>handleInputChange\<close>; the input's \<open>maxLength={16}\<close> keeps the first 16 characters.\<close>

definition page_code_input :: "string \<Rightarrow> trader_page \<Rightarrow> trader_page" where
  "page_code_input v p =
     (let p' = p\<lparr>tp_code := map js_upper (take 16 v)\<rparr> in
      if tp_error p \<noteq> NoError then p'\<lparr>tp_error := NoError\<rparr> else p')"

definition fetch_disabled :: "trader_page \<Rightarrow> bool" where
  "fetch_disabled p = (js_trim (tp_code p) = [] \<or> tp_loading p)"

definition page_submit_start :: "trader_page \<Rightarrow> trader_page \<times> client_call option" where
  "page_submit_start p =
     (if js_trim (tp_code p) = [] then (p\<lparr>tp_error := UiMsg EnterCode\<rparr>, None)
      else if length (tp_code p) \<noteq> 16 then (p\<lparr>tp_error := UiMsg CodeLength\<rparr>, None)
      else (p\<lparr>tp_error := NoError, tp_loading := True\<rparr>, Some (GetCurrentPositions (tp_code p))))"

text \<open>\<open>getCurrentPositions\<close> returns \<open>response.data.data\<close>, the position list of the route.\<close>

definition client_positions :: "client_value \<Rightarrow> LeadPosition list" where
  "client_positions v = (case v of CData (PositionList ps) \<Rightarrow> ps | _ \<Rightarrow> [])"

definition page_submit_finish :: "string + client_value \<Rightarrow> trader_page \<Rightarrow> trader_page" where
  "page_submit_finish res p =
     (case res of
        Inr v \<Rightarrow> p\<lparr>tp_positions := client_positions v, tp_showSub := True, tp_loading := False\<rparr>
      | Inl m \<Rightarrow> p\<lparr>tp_error := Thrown m, tp_loading := False\<rparr>)"

text \<open>\<open>handleRefresh\<close>: only \<open>if (!uniqueCode) return\<close>; a failure is only a toast.\<close>

definition page_refresh_start :: "trader_page \<Rightarrow> trader_page \<times> client_call option" where
  "page_refresh_start p =
     (if tp_code p = [] then (p, None)
      else (p\<lparr>tp_loading := True\<rparr>, Some (GetCurrentPositions (tp_code p))))"

definition page_refresh_finish :: "string + client_value \<Rightarrow> trader_page \<Rightarrow> trader_page" where
  "page_refresh_finish res p =
     (case res of
        Inr v \<Rightarrow> p\<lparr>tp_positions := client_positions v, tp_loading := False\<rparr>
      | Inl _ \<Rightarrow> p\<lparr>tp_loading := False\<rparr>)"

datatype page_event =
    CodeInput string
  | FetchClick
  | RefreshClick
  | EmailInput string
  | AlertToggle string
  | SubscribeClick
  | UnsubscribeClick

text \<open>One user event at a time, each handler run to its end with the server's answer
  (the buttons are disabled while their request is in flight). The refresh button
  is rendered only when positions are shown; the form's events need it mounted.\<close>

definition page_step ::
  "server_env \<Rightarrow> string option \<Rightarrow> trader_page \<times> server_state \<Rightarrow> ms \<times> page_event \<Rightarrow> trader_page \<times> server_state" where
  "page_step env ip ps e =
     (case ps of (p, st) \<Rightarrow> case e of (now, ev) \<Rightarrow>
      (case ev of
         CodeInput v \<Rightarrow> (page_code_input v p, st)
       | FetchClick \<Rightarrow>
           if fetch_disabled p then (p, st)
           else (case page_submit_start p of
                   (p', None) \<Rightarrow> (p', st)
                 | (p', Some call) \<Rightarrow>
                     (case api_call env now ip call st of (res, st') \<Rightarrow> (settle_mount (page_submit_finish res p'), st')))
       | RefreshClick \<Rightarrow>
           if tp_positions p = [] \<or> tp_loading p then (p, st)
           else (case page_refresh_start p of
                   (p', None) \<Rightarrow> (p', st)
                 | (p', Some call) \<Rightarrow>
                     (case api_call env now ip call st of (res, st') \<Rightarrow> (settle_mount (page_refresh_finish res p'), st')))
       | EmailInput v \<Rightarrow>
           if sub_mounted p then (p\<lparr>tp_form := handle_email_input v (tp_form p)\<rparr>, st) else (p, st)
       | AlertToggle a \<Rightarrow>
           if sub_mounted p \<and> a \<in> set alert_options then (p\<lparr>tp_form := handle_alert_toggle a (tp_form p)\<rparr>, st)
           else (p, st)
       | SubscribeClick \<Rightarrow>
           if sub_mounted p \<and> \<not> subscribe_disabled (tp_form p) then
             (case form_subscribe env now ip (tp_code p) (tp_form p) st of (f', st') \<Rightarrow> (p\<lparr>tp_form := f'\<rparr>, st'))
           else (p, st)
       | UnsubscribeClick \<Rightarrow>
           if sub_mounted p \<and> \<not> unsubscribe_disabled (tp_form p) then
             (case form_unsubscribe env now ip (tp_code p) (tp_form p) st of (f', st') \<Rightarrow> (p\<lparr>tp_form := f'\<rparr>, st'))
           else (p, st)))"

definition page_run ::
  "server_env \<Rightarrow> string option \<Rightarrow> (ms \<times> page_event) list \<Rightarrow> trader_page \<times> server_state \<Rightarrow> trader_page \<times> server_state" where
  "page_run env ip evs s = foldl (page_step env ip) s evs"

text \<open>The form's alert list: no duplicates, only the three options.\<close>

definition form_inv :: "sub_form \<Rightarrow> bool" where
  "form_inv f = (distinct (selectedAlerts f) \<and> set (selectedAlerts f) \<subseteq> set alert_options)"

lemmas client_defs [model_simps] = no_body_def client_request_def axios_send_def default_error_def
  check_success_def api_call_def default_alerts_def alert_options_def sub_form_init_def
  handle_alert_toggle_def handle_email_input_def subscribe_disabled_def unsubscribe_disabled_def
  subscribe_start_def subscribe_finish_def unsubscribe_start_def unsubscribe_finish_def
  form_subscribe_def form_unsubscribe_def trader_page_init_def sub_mounted_def settle_mount_def
  page_code_input_def fetch_disabled_def page_submit_start_def client_positions_def
  page_submit_finish_def page_refresh_start_def page_refresh_finish_def page_step_def page_run_def

section \<open>Requests through the server\<close>

lemma dropWhile_keeps_witness:
  "\<exists>c\<in>set s. \<not> P c \<Longrightarrow> \<exists>c\<in>set (dropWhile P s). \<not> P c"
  by (induction s) auto

lemma js_trim_nonempty: "\<exists>c\<in>set s. \<not> is_js_space c \<Longrightarrow> js_trim s \<noteq> []"
proof -
  assume "\<exists>c\<in>set s. \<not> is_js_space c"
  then have "\<exists>c\<in>set (rev (dropWhile is_js_space s)). \<not> is_js_space c"
    using dropWhile_keeps_witness [of s is_js_space] by simp
  then have "\<exists>c\<in>set (dropWhile is_js_space (rev (dropWhile is_js_space s))). \<not> is_js_space c"
    by (rule dropWhile_keeps_witness)
  then have "dropWhile is_js_space (rev (dropWhile is_js_space s)) \<noteq> []"
    by (metis empty_iff set_empty)
  then show ?thesis by (simp add: js_trim_def)
qed

lemma email_regex_test_trim: "email_regex_test e \<Longrightarrow> js_trim e \<noteq> []"
proof -
  assume t: "email_regex_test e"
  then obtain c r where tw: "takeWhile email_char e = c # r"
    by (cases "takeWhile email_char e") (simp_all add: email_regex_test_def)
  then have "c \<in> set e" "email_char c"
    using set_takeWhileD [of c email_char e] by simp_all
  then show ?thesis by (intro js_trim_nonempty) (auto simp: email_char_def)
qed

lemma subscribe_start_valid:
  assumes "is_valid_email (sf_email f)" and "selectedAlerts f \<noteq> []"
  shows "subscribe_start code f =
           (f\<lparr>sf_error := NoError, isSubscribing := True\<rparr>, Some (Subscribe (sf_email f) code (selectedAlerts f)))"
  using assms email_regex_test_trim [of "sf_email f"] by (simp add: subscribe_start_def is_valid_email_def)

lemma subscribe_request_routed:
  "path_segments (req_path (client_request ip (Subscribe e c ts))) = [''api'', ''subscribe'']"
  "req_method (client_request ip (Subscribe e c ts)) = ''POST''"
  "req_body (client_request ip (Subscribe e c ts)) = Some \<lparr>b_email = Some e, b_uniqueCode = Some c, b_alertTypes = Some ts, b_nickName = None\<rparr>"
  "req_ip (client_request ip (Subscribe e c ts)) = ip"
  by (simp_all add: client_request_def no_body_def path_segments_def)

lemma handle_request_api_route:
  assumes "req_method r \<noteq> ''OPTIONS''" and "req_body r = Some b" and "path_segments (req_path r) = a # segs" and "map js_lower a = ''api''"
    and "rate_limit api_max_requests api_window_ms (req_ip r) now (srv_rate st) = (Proceed mx rem rs, m')"
    and "api_routes env now r b segs (st\<lparr>srv_rate := m'\<rparr>) = Handled (code, body) st''"
  shows "status (fst (handle_request env now r st)) = code \<and>
         resp_body (fst (handle_request env now r st)) = ApiBody body \<and> snd (handle_request env now r st) = st''"
  using assms by (simp add: handle_request_def Let_def under_api_def)

lemma api_routes_subscribe:
  "api_routes env now (client_request ip (Subscribe e c ts)) b [''subscribe''] st =
     (let (resp, t', e') = post_subscribe (srv_email_env env) (srv_dbFail env) now
                             \<lparr>sr_email = b_email b, sr_uniqueCode = b_uniqueCode b, sr_alertTypes = b_alertTypes b\<rparr>
                             (srv_subs st) (srv_email st)
      in Handled resp (st\<lparr>srv_subs := t', srv_email := e'\<rparr>))"
  by (simp add: api_routes_def route_is_def route_param_def js_lower_def client_request_def)

lemma split_slash_ne: "split_slash s \<noteq> []"
  by (induction s) (auto split: list.split)

lemma split_slash_append:
  "CHR ''/'' \<notin> set c \<Longrightarrow> split_slash (c @ r) = (c @ hd (split_slash r)) # tl (split_slash r)"
  by (induction c) (auto split: list.split simp: split_slash_ne)

lemma client_request_fields [simp]:
  "req_ip (client_request ip call) = ip"
  "req_query (client_request ip call) = []"
  "\<exists>b. req_body (client_request ip call) = Some b"
  "req_method (client_request ip call) \<noteq> ''OPTIONS''"
  by (simp_all add: client_request_def Let_def split: client_call.split)

lemma positions_request_routed:
  "CHR ''/'' \<notin> set c \<Longrightarrow>
   path_segments (req_path (client_request ip (GetCurrentPositions c))) = [''api'', ''trader'', c, ''positions'']"
  by (simp add: client_request_def path_segments_def split_slash_append)

lemma api_routes_positions:
  "c \<noteq> [] \<Longrightarrow>
   api_routes env now (client_request ip (GetCurrentPositions c)) b [''trader'', c, ''positions''] st =
     Handled (get_trader_positions (srv_fetch env) c) st"
  by (simp add: api_routes_def route_is_def route_param_def js_lower_def client_request_def)

lemma api_call_handled:
  assumes "path_segments (req_path (client_request ip call)) = ''api'' # segs"
    and "rate_limit api_max_requests api_window_ms ip now (srv_rate st) = (Proceed mx rem rs, m')"
    and "api_routes env now (client_request ip call) (the (req_body (client_request ip call))) segs
           (st\<lparr>srv_rate := m'\<rparr>) = Handled (n, ar) st''"
  shows "api_call env now ip call st =
           (if 200 \<le> n \<and> n < 300 then check_success call (ApiBody ar)
            else Inl (''Request failed with status code '' @ js_int_string (Num (of_nat n))), st'')"
proof -
  obtain b where b: "req_body (client_request ip call) = Some b" using client_request_fields(3) by blast
  have hr: "status (fst (handle_request env now (client_request ip call) st)) = n \<and>
            resp_body (fst (handle_request env now (client_request ip call) st)) = ApiBody ar \<and>
            snd (handle_request env now (client_request ip call) st) = st''"
    using assms b by (intro handle_request_api_route [where a = "''api''"]) (simp_all add: js_lower_def)
  obtain resp st' where hq: "handle_request env now (client_request ip call) st = (resp, st')" by (rule prod.exhaust)
  show ?thesis using hr hq by (simp add: api_call_def axios_send_def)
qed

lemma api_call_subscribe:
  assumes "rate_limit api_max_requests api_window_ms ip now (srv_rate st) = (Proceed mx rem rs, m')"
    and "post_subscribe (srv_email_env env) (srv_dbFail env) now
           \<lparr>sr_email = Some e, sr_uniqueCode = Some c, sr_alertTypes = Some ts\<rparr> (srv_subs st) (srv_email st) =
           ((n, ar), t', e')"
  shows "api_call env now ip (Subscribe e c ts) st =
           (if 200 \<le> n \<and> n < 300 then check_success (Subscribe e c ts) (ApiBody ar)
            else Inl (''Request failed with status code '' @ js_int_string (Num (of_nat n))),
            st\<lparr>srv_rate := m', srv_subs := t', srv_email := e'\<rparr>)"
proof -
  have "api_routes env now (client_request ip (Subscribe e c ts)) (the (req_body (client_request ip (Subscribe e c ts))))
          [''subscribe''] (st\<lparr>srv_rate := m'\<rparr>) = Handled (n, ar) (st\<lparr>srv_rate := m', srv_subs := t', srv_email := e'\<rparr>)"
    using assms(2) by (simp add: api_routes_subscribe subscribe_request_routed)
  then show ?thesis by (rule api_call_handled [OF subscribe_request_routed(1) assms(1)])
qed

lemma api_call_positions:
  assumes "length c = 16" and "CHR ''/'' \<notin> set c" and "srv_fetch env c = Inr ps"
    and "rate_limit api_max_requests api_window_ms ip now (srv_rate st) = (Proceed mx rem rs, m')"
  shows "api_call env now ip (GetCurrentPositions c) st = (Inr (CData (PositionList ps)), st\<lparr>srv_rate := m'\<rparr>)"
proof -
  let ?ar = "\<lparr>success = True, data = PositionList ps,
              message = Some ''Current positions retrieved successfully'', error = None\<rparr>"
  have "c \<noteq> []" using assms(1) by auto
  then have "api_routes env now (client_request ip (GetCurrentPositions c))
               (the (req_body (client_request ip (GetCurrentPositions c)))) [''trader'', c, ''positions'']
               (st\<lparr>srv_rate := m'\<rparr>) = Handled (200, ?ar) (st\<lparr>srv_rate := m'\<rparr>)"
    using assms(1,3) by (simp add: api_routes_positions get_trader_positions_def ok_response_def)
  then have "api_call env now ip (GetCurrentPositions c) st =
               (if 200 \<le> (200::nat) \<and> (200::nat) < 300 then check_success (GetCurrentPositions c) (ApiBody ?ar)
                else Inl (''Request failed with status code '' @ js_int_string (Num (of_nat 200))),
                st\<lparr>srv_rate := m'\<rparr>)"
    by (rule api_call_handled [OF positions_request_routed [OF assms(2)] assms(4)])
  then show ?thesis by (simp add: check_success_def)
qed

lemma rate_proceeds_obtain:
  assumes "proceeds (fst (rate_limit mx w ip now m))"
  obtains l rem rs m' where "rate_limit mx w ip now m = (Proceed l rem rs, m')"
  using assms by (cases "rate_limit mx w ip now m" rule: prod.exhaust) (rename_tac oc m', case_tac oc, auto)

lemma form_subscribe_call:
  assumes "is_valid_email (sf_email f)" and "selectedAlerts f \<noteq> []"
    and "rate_limit api_max_requests api_window_ms ip now (srv_rate st) = (Proceed mx rem rs, m')"
    and "post_subscribe (srv_email_env env) (srv_dbFail env) now
           \<lparr>sr_email = Some (sf_email f), sr_uniqueCode = Some code, sr_alertTypes = Some (selectedAlerts f)\<rparr>
           (srv_subs st) (srv_email st) = ((n, ar), t', e')"
  shows "form_subscribe env now ip code f st =
           (subscribe_finish (if 200 \<le> n \<and> n < 300 then check_success (Subscribe (sf_email f) code (selectedAlerts f)) (ApiBody ar)
                              else Inl (''Request failed with status code '' @ js_int_string (Num (of_nat n))))
              (f\<lparr>sf_error := NoError, isSubscribing := True\<rparr>),
            st\<lparr>srv_rate := m', srv_subs := t', srv_email := e'\<rparr>)"
  using assms by (simp add: form_subscribe_def subscribe_start_valid api_call_subscribe)

lemma post_subscribe_bad_code:
  "email_regex_test e \<Longrightarrow> length c \<noteq> 16 \<Longrightarrow>
   \<exists>m. post_subscribe env dbFail now \<lparr>sr_email = Some e, sr_uniqueCode = Some c, sr_alertTypes = Some ts\<rparr> t st =
        (fail_response 400 m, t, st)"
  by (auto simp: post_subscribe_def js_falsy_str_def email_regex_test_nonempty)

lemma js_int_string_400: "js_int_string (Num 400) = ''400''"
  by code_simp

lemma subscribe_enabled_valid:
  "is_valid_email (sf_email f) \<Longrightarrow> selectedAlerts f \<noteq> [] \<Longrightarrow> \<not> isSubscribing f \<Longrightarrow> \<not> subscribe_disabled f"
  by (simp add: subscribe_disabled_def is_valid_email_def email_regex_test_trim)

lemma form_reach_inv: "form_reach code f \<Longrightarrow> form_inv f"
proof (induction rule: form_reach.induct)
  case (toggle f a)
  then show ?case by (auto simp: form_inv_def handle_alert_toggle_def Let_def distinct_filter)
next
  case (submit f)
  then show ?case by (simp add: form_inv_def subscribe_start_def)
next
  case (unsub f)
  then show ?case by (simp add: form_inv_def unsubscribe_start_def)
qed (auto simp: form_inv_def sub_form_init_def default_alerts_def alert_options_def handle_email_input_def Let_def
                subscribe_finish_def unsubscribe_finish_def split: sum.split)

text \<open>C9: Through the client and the whole server, pressing subscribe on a form with an e-mail the regex accepts, a non-empty list of valid alert types and a 16-character trader code, with a working database and the rate limiter letting the request through, stores the subscription (INSERT OR REPLACE) and resets the form to an empty e-mail and the default alerts with no error.\<close>

theorem form_subscribe_adds:
  assumes "is_valid_email (sf_email f)" and "selectedAlerts f \<noteq> []"
    and "set (selectedAlerts f) \<subseteq> set valid_alert_types" and "length code = 16"
    and "srv_dbFail env = None"
    and "proceeds (fst (rate_limit api_max_requests api_window_ms ip now (srv_rate st)))"
  shows "fst (form_subscribe env now ip code f st) =
           f\<lparr>sf_email := [], selectedAlerts := default_alerts, isSubscribing := False, sf_error := NoError\<rparr> \<and>
         srv_subs (snd (form_subscribe env now ip code f st)) =
           fst (sql_insert_or_replace (srv_subs st)
                  \<lparr>email = sf_email f, unique_code = code, alertTypes = selectedAlerts f, is_active = True\<rparr>)"
proof -
  obtain l rem rs m' where rl: "rate_limit api_max_requests api_window_ms ip now (srv_rate st) = (Proceed l rem rs, m')"
    using assms(6) by (rule rate_proceeds_obtain)
  let ?row = "\<lparr>email = sf_email f, unique_code = code, alertTypes = selectedAlerts f, is_active = True\<rparr>"
  have ps: "post_subscribe (srv_email_env env) (srv_dbFail env) now
              \<lparr>sr_email = Some (sf_email f), sr_uniqueCode = Some code, sr_alertTypes = Some (selectedAlerts f)\<rparr>
              (srv_subs st) (srv_email st) =
            (ok_response (SubscriptionData (sub_next_id (srv_subs st)) ?row) ''Subscription added successfully'',
             fst (sql_insert_or_replace (srv_subs st) ?row),
             send_subscription_confirmation_email (srv_email_env env) now (sf_email f) code (selectedAlerts f) (srv_email st))"
    using assms(1,3,4,5) by (simp add: post_subscribe_valid is_valid_email_def)
  show ?thesis
    using form_subscribe_call [OF assms(1,2) rl ps [unfolded ok_response_def]]
    by (simp add: check_success_def subscribe_finish_def)
qed

text \<open>C12: When the server rejects a subscription with 400 (here a trader code that is not 16 characters), axios rejects before the client reads response.data.error, so the form shows Request failed with status code 400 instead of the server's message, and neither the table nor the e-mail state changes (the rate limiter still counts the request).\<close>

theorem server_rejection_hidden:
  assumes "is_valid_email (sf_email f)" and "selectedAlerts f \<noteq> []" and "length code \<noteq> 16"
    and "proceeds (fst (rate_limit api_max_requests api_window_ms ip now (srv_rate st)))"
  shows "sf_error (fst (form_subscribe env now ip code f st)) = Thrown ''Request failed with status code 400'' \<and>
         srv_subs (snd (form_subscribe env now ip code f st)) = srv_subs st \<and>
         srv_email (snd (form_subscribe env now ip code f st)) = srv_email st"
proof -
  obtain l rem rs m' where rl: "rate_limit api_max_requests api_window_ms ip now (srv_rate st) = (Proceed l rem rs, m')"
    using assms(4) by (rule rate_proceeds_obtain)
  obtain m where ps: "post_subscribe (srv_email_env env) (srv_dbFail env) now
              \<lparr>sr_email = Some (sf_email f), sr_uniqueCode = Some code, sr_alertTypes = Some (selectedAlerts f)\<rparr>
              (srv_subs st) (srv_email st) = (fail_response 400 m, srv_subs st, srv_email st)"
    using post_subscribe_bad_code assms(1,3) by (fastforce simp: is_valid_email_def)
  show ?thesis
    using form_subscribe_call [OF assms(1,2) rl ps [unfolded fail_response_def]]
    by (simp add: subscribe_finish_def js_int_string_400)
qed

text \<open>C13: In every state the subscription form can reach, a subscribe request it sends names the form's trader, carries an e-mail the server's regex accepts and a non-empty, duplicate-free list of alert types the server accepts.\<close>

theorem form_requests_valid:
  assumes "form_reach code f" and "snd (subscribe_start code f) = Some call"
  shows "\<exists>e ts. call = Subscribe e code ts \<and> email_regex_test e \<and> ts \<noteq> [] \<and> distinct ts \<and> invalid_alert_types ts = []"
proof -
  have "form_inv f" using assms(1) by (rule form_reach_inv)
  moreover have "valid_alert_types = alert_options" by (simp add: valid_alert_types_def alert_options_def)
  ultimately show ?thesis using assms(2)
    by (auto simp: subscribe_start_def form_inv_def is_valid_email_def invalid_alert_types_def filter_empty_conv
             split: if_splits)
qed

lemma page_step_code_input:
  "page_step env ip (p, st) (t, CodeInput v) = (page_code_input v p, st)"
  by (simp add: page_step_def)

lemma page_step_subscribe:
  "sub_mounted p \<Longrightarrow> \<not> subscribe_disabled (tp_form p) \<Longrightarrow>
   page_step env ip (p, st) (now, SubscribeClick) =
     (p\<lparr>tp_form := fst (form_subscribe env now ip (tp_code p) (tp_form p) st)\<rparr>,
      snd (form_subscribe env now ip (tp_code p) (tp_form p) st))"
  by (simp add: page_step_def split: prod.split)

lemma page_code_input_keeps:
  "tp_positions (page_code_input v p) = tp_positions p" "tp_form (page_code_input v p) = tp_form p"
  "tp_code (page_code_input v p) = map js_upper (take 16 v)" "sub_mounted (page_code_input v p) = sub_mounted p"
  by (simp_all add: page_code_input_def Let_def sub_mounted_def)

text \<open>C26: On the trader page, after positions are shown, editing the code field and pressing subscribe subscribes to the code now in the field (upper-cased) while the positions shown stay those fetched for the earlier code.\<close>

theorem page_subscribes_edited_code:
  assumes "sub_mounted p" and "is_valid_email (sf_email (tp_form p))" and "\<not> isSubscribing (tp_form p)"
    and "selectedAlerts (tp_form p) \<noteq> []" and "set (selectedAlerts (tp_form p)) \<subseteq> set valid_alert_types"
    and "length v = 16" and "srv_dbFail env = None"
    and "proceeds (fst (rate_limit api_max_requests api_window_ms ip now (srv_rate st)))"
  shows "(case page_run env ip [(t, CodeInput v), (now, SubscribeClick)] (p, st) of (p', st') \<Rightarrow>
            tp_positions p' = tp_positions p \<and>
            srv_subs st' = fst (sql_insert_or_replace (srv_subs st)
              \<lparr>email = sf_email (tp_form p), unique_code = map js_upper v, alertTypes = selectedAlerts (tp_form p),
               is_active = True\<rparr>))"
proof -
  let ?p1 = "page_code_input v p" and ?f = "tp_form p"
  obtain l rem rs m' where rl: "rate_limit api_max_requests api_window_ms ip now (srv_rate st) = (Proceed l rem rs, m')"
    using assms(8) by (rule rate_proceeds_obtain)
  let ?row = "\<lparr>email = sf_email ?f, unique_code = map js_upper v, alertTypes = selectedAlerts ?f, is_active = True\<rparr>"
  have ps: "post_subscribe (srv_email_env env) (srv_dbFail env) now
              \<lparr>sr_email = Some (sf_email ?f), sr_uniqueCode = Some (tp_code ?p1), sr_alertTypes = Some (selectedAlerts ?f)\<rparr>
              (srv_subs st) (srv_email st) =
            (ok_response (SubscriptionData (sub_next_id (srv_subs st)) ?row) ''Subscription added successfully'',
             fst (sql_insert_or_replace (srv_subs st) ?row),
             send_subscription_confirmation_email (srv_email_env env) now (sf_email ?f) (map js_upper v) (selectedAlerts ?f) (srv_email st))"
    using assms(2,5,6,7) by (simp add: post_subscribe_valid is_valid_email_def page_code_input_keeps)
  have en: "\<not> subscribe_disabled (tp_form ?p1)"
    using assms(2,3,4) by (simp add: page_code_input_keeps subscribe_enabled_valid)
  show ?thesis
    using assms(1) en form_subscribe_call [OF assms(2,4) rl ps [unfolded ok_response_def]]
    by (simp add: page_run_def page_step_code_input page_step_subscribe page_code_input_keeps)
qed


section \<open>Witnesses\<close>

lemma valid_demo_email: "is_valid_email ''a@b.io''"
  by (simp add: is_valid_email_def email_regex_test_def email_char_def is_js_space_def)

theorem form_subscribe_adds_witness:
  "fst (form_subscribe server_sample_env 0 None ''34ABFF2DBEC9E970'' (sub_form_init\<lparr>sf_email := ''a@b.io''\<rparr>) server_sample_state) =
     (sub_form_init\<lparr>sf_email := ''a@b.io''\<rparr>)\<lparr>sf_email := [], selectedAlerts := default_alerts, isSubscribing := False,
        sf_error := NoError\<rparr> \<and>
   srv_subs (snd (form_subscribe server_sample_env 0 None ''34ABFF2DBEC9E970'' (sub_form_init\<lparr>sf_email := ''a@b.io''\<rparr>)
     server_sample_state)) =
     fst (sql_insert_or_replace sub_table_init
       \<lparr>email = ''a@b.io'', unique_code = ''34ABFF2DBEC9E970'', alertTypes = default_alerts, is_active = True\<rparr>)"
  using form_subscribe_adds [of "sub_form_init\<lparr>sf_email := ''a@b.io''\<rparr>" "''34ABFF2DBEC9E970''" server_sample_env None 0 server_sample_state]
  by (simp add: valid_demo_email sub_form_init_def default_alerts_def valid_alert_types_def rate_limit_empty)

theorem server_rejection_hidden_witness:
  "sf_error (fst (form_subscribe server_sample_env 0 None ''34ABFF'' (sub_form_init\<lparr>sf_email := ''a@b.io''\<rparr>) server_sample_state)) =
     Thrown ''Request failed with status code 400'' \<and>
   srv_subs (snd (form_subscribe server_sample_env 0 None ''34ABFF'' (sub_form_init\<lparr>sf_email := ''a@b.io''\<rparr>) server_sample_state)) =
     sub_table_init \<and>
   srv_email (snd (form_subscribe server_sample_env 0 None ''34ABFF'' (sub_form_init\<lparr>sf_email := ''a@b.io''\<rparr>) server_sample_state)) =
     email_init"
  using server_rejection_hidden [of "sub_form_init\<lparr>sf_email := ''a@b.io''\<rparr>" "''34ABFF''" None 0 server_sample_state server_sample_env]
  by (simp add: valid_demo_email sub_form_init_def default_alerts_def rate_limit_empty)

theorem form_requests_valid_witness:
  "\<exists>e ts. Subscribe ''a@b.io'' ''34ABFF2DBEC9E970'' default_alerts = Subscribe e ''34ABFF2DBEC9E970'' ts \<and>
     email_regex_test e \<and> ts \<noteq> [] \<and> distinct ts \<and> invalid_alert_types ts = []"
  by (rule form_requests_valid [OF form_reach.input [OF form_reach.init, of "''34ABFF2DBEC9E970''" "''a@b.io''"]])
     (simp add: subscribe_start_def handle_email_input_def sub_form_init_def valid_demo_email default_alerts_def
       email_regex_test_trim [OF valid_demo_email [unfolded is_valid_email_def]])

theorem page_subscribes_edited_code_witness:
  "(case page_run server_sample_env None [(2000, CodeInput ''34ABFF2DBEC9E971''), (4000, SubscribeClick)]
       (trader_page_init\<lparr>tp_code := ''34ABFF2DBEC9E970'',
          tp_positions := [\<lparr>instId = ''BTC-USDT-SWAP'', subPosId = ''1'', posId = None, posSide = ''long'', subPos = ''1'',
            pos = None, avgPx = None, markPx = ''100'', upl = ''0'', uplRatio = ''0'', lever = ''10'', notionalUsd = None\<rparr>],
          tp_showSub := True, tp_form := sub_form_init\<lparr>sf_email := ''a@b.io''\<rparr>\<rparr>, server_sample_state) of
     (p', st') \<Rightarrow>
       tp_positions p' = [\<lparr>instId = ''BTC-USDT-SWAP'', subPosId = ''1'', posId = None, posSide = ''long'', subPos = ''1'',
            pos = None, avgPx = None, markPx = ''100'', upl = ''0'', uplRatio = ''0'', lever = ''10'', notionalUsd = None\<rparr>] \<and>
       srv_subs st' = fst (sql_insert_or_replace sub_table_init
         \<lparr>email = ''a@b.io'', unique_code = map js_upper ''34ABFF2DBEC9E971'', alertTypes = default_alerts, is_active = True\<rparr>))"
  using page_subscribes_edited_code [of "trader_page_init\<lparr>tp_code := ''34ABFF2DBEC9E970'',
          tp_positions := [\<lparr>instId = ''BTC-USDT-SWAP'', subPosId = ''1'', posId = None, posSide = ''long'', subPos = ''1'',
            pos = None, avgPx = None, markPx = ''100'', upl = ''0'', uplRatio = ''0'', lever = ''10'', notionalUsd = None\<rparr>],
          tp_showSub := True, tp_form := sub_form_init\<lparr>sf_email := ''a@b.io''\<rparr>\<rparr>"
      "''34ABFF2DBEC9E971''" server_sample_env None 4000 server_sample_state 2000]
  by (simp add: valid_demo_email sub_form_init_def default_alerts_def valid_alert_types_def rate_limit_empty
        sub_mounted_def trader_page_init_def)

end
