(* ===== verification/Views.thy ===== *)
theory Views
  imports Client
begin

text \<open>
  The values the two statistics components compute before rendering:
  \<open>src/frontend/src/components/PositionsList.tsx\<close>, rendered by the trader page with the
  positions the server returned, and \<open>src/frontend/src/components/TraderStats.tsx\<close>
  (exported but not rendered by \<open>App.tsx\<close>). A view is the record of the texts,
  colours and marks the JSX interpolates; the markup itself is not modelled.
\<close>

section \<open>PositionsList.tsx\<close>

text \<open>\<open>parseFloat(x)\<close> of an optional field: \<open>undefined\<close> becomes the string
  \<open>"undefined"\<close>, which is not a number.\<close>

definition parse_float_opt :: "string option \<Rightarrow> jsnum" where
  "parse_float_opt s = (case s of Some t \<Rightarrow> parse_float t | None \<Rightarrow> NaN)"

text \<open>\<open>xs.reduce((sum, x) => sum + x, 0)\<close>.\<close>

definition js_sum :: "jsnum list \<Rightarrow> jsnum" where
  "js_sum xs = foldl js_add (Num 0) xs"

definition total_pnl :: "LeadPosition list \<Rightarrow> jsnum" where
  "total_pnl ps = js_sum (map (\<lambda>p. parse_float (upl p)) ps)"

definition total_notional :: "LeadPosition list \<Rightarrow> jsnum" where
  "total_notional ps = js_sum (map (\<lambda>p. parse_float_opt (notionalUsd p)) ps)"

record positions_summary =
  sum_count :: nat
  sum_notional_text :: string
  sum_pnl_text :: string
  sum_pnl_color :: string
  sum_pnl_icon :: pnl_mark

datatype positions_view = PositionsLoading | NoPositions | PositionsShown positions_summary

text \<open>The component: the skeleton while loading, the empty card for no positions, and
  otherwise the header and footer totals (count, total notional, total PnL with its
  colour and icon).\<close>

definition positions_list :: "bool \<Rightarrow> LeadPosition list \<Rightarrow> positions_view" where
  "positions_list loading ps =
     (if loading then PositionsLoading
      else if ps = [] then NoPositions
      else PositionsShown
        \<lparr>sum_count = length ps,
         sum_notional_text = format_currency (JsNumber (total_notional ps)) ''USDT'' 2,
         sum_pnl_text = format_currency (JsNumber (total_pnl ps)) ''USDT'' 2,
         sum_pnl_color = get_pnl_color (JsNumber (total_pnl ps)),
         sum_pnl_icon = get_pnl_icon (JsNumber (total_pnl ps))\<rparr>)"

text \<open>The trader page renders the list only when it holds positions, without a
  \<open>loading\<close> prop.\<close>

definition page_positions_view :: "trader_page \<Rightarrow> positions_view option" where
  "page_positions_view p = (if tp_positions p \<noteq> [] then Some (positions_list False (tp_positions p)) else None)"

text \<open>\<open>formatTime\<close> of \<open>utils/helpers.ts\<close>, used for the open and update times of the
  cards: the guards of the helper around \<open>date-fns\<close>'s \<open>format\<close>, which is the
  parameter \<open>fmt\<close> from the integral milliseconds of a valid \<open>Date\<close> to the text
  \<open>yyyy-MM-dd HH:mm:ss\<close> in the browser's time zone.\<close>

datatype time_value = TimeStr string | TimeNum jsnum

text \<open>\<open>parseInt(s, 10)\<close>: white space, a sign, the longest run of decimal digits.\<close>

definition parse_int10 :: "string \<Rightarrow> jsnum" where
  "parse_int10 s =
     (let t = dropWhile is_js_space s;
          neg = (t \<noteq> [] \<and> hd t = CHR ''-'');
          u = (if t \<noteq> [] \<and> (hd t = CHR ''-'' \<or> hd t = CHR ''+'') then tl t else t);
          ds = fst (span_digits u)
      in if ds = [] then NaN else Num (if neg then - of_nat (digits_value ds) else of_nat (digits_value ds)))"

text \<open>A \<open>Date\<close> holds times up to \<open>8.64e15\<close> ms either side of the epoch.\<close>

definition date_valid_ms :: "rat \<Rightarrow> bool" where
  "date_valid_ms v = (\<bar>v\<bar> \<le> 8640000000000000)"

definition format_time :: "(int \<Rightarrow> string) \<Rightarrow> time_value \<Rightarrow> string" where
  "format_time fmt ts =
     (if ts = TimeStr [] \<or> ts = TimeStr ''0'' \<or> ts = TimeNum (Num 0) \<or> ts = TimeNum NaN then ''--''
      else
        (let timeValue = (case ts of TimeStr s \<Rightarrow> parse_int10 s | TimeNum n \<Rightarrow> n) in
         case timeValue of
           Num v \<Rightarrow> if v \<le> 0 then ''--'' else if \<not> date_valid_ms v then ''--'' else fmt \<lfloor>v\<rfloor>
         | _ \<Rightarrow> ''--''))"

text \<open>A position card. The backend's \<open>LeadPosition\<close> type declares more fields than the
  model's record holds; the ones only the card reads come alongside it.\<close>

record position_extra =
  px_instType :: string
  px_mgnMode :: string
  px_ccy :: "string option"
  px_openAvgPx :: "string option"
  px_margin :: "string option"
  px_openTime :: "string option"
  px_uTime :: "string option"
  px_uniqueCode :: "string option"

text \<open>\<open>x && !isNaN(parseFloat(x)) ? parseFloat(x)... : '...'\<close>: a number when the field
  is non-empty and parses, else the loading text (\<open>None\<close>).\<close>

definition num_if_valid :: "string \<Rightarrow> jsnum option" where
  "num_if_valid s = (if s \<noteq> [] \<and> parse_float s \<noteq> NaN then Some (parse_float s) else None)"

text \<open>\<open>s.slice(-8)\<close>.\<close>

definition slice_last8 :: "string \<Rightarrow> string" where
  "slice_last8 s = drop (length s - 8) s"

datatype mgn_label = MgnIsolated | MgnCross | MgnRaw string

datatype inst_label = InstPerpetual | InstSpot | InstRaw string

record position_card =
  card_key :: string
  card_inst :: string
  card_long :: bool
  card_side :: side_name
  card_leverage :: jsnum
  card_pnl_text :: string
  card_pnl_color :: string
  card_ratio_text :: string
  card_ratio_color :: string
  card_size :: "jsnum option"
  card_open_price :: "jsnum option"
  card_mark :: "jsnum option"
  card_margin :: "(jsnum \<times> string) option"
  card_mgn :: mgn_label
  card_inst_type :: inst_label
  card_ccy :: string
  card_trader :: "string option"
  card_open_time :: "string option"
  card_update_time :: "string option"
  card_sub_id :: "string option"

text \<open>The values one card of \<open>positions.map(...)\<close> interpolates; \<open>fmt\<close> is the
  \<open>date-fns\<close> formatting of \<open>formatTime\<close>.\<close>

definition position_card :: "(int \<Rightarrow> string) \<Rightarrow> LeadPosition \<Rightarrow> position_extra \<Rightarrow> position_card" where
  "position_card fmt p x =
     (let pnl = parse_float (upl p);
          pnlRatio = parse_float (uplRatio p);
          size = js_or (subPos p) (js_or_opt (pos p) []);
          openPx = js_or_opt (px_openAvgPx x) (js_or_opt (avgPx p) []);
          ccy = js_or_opt (px_ccy x) ''USDT''
      in \<lparr>card_key = js_or (subPosId p) (js_or_opt (posId p) (instId p @ ''-'' @ posSide p)),
          card_inst = instId p,
          card_long = (posSide p = ''long''),
          card_side = get_position_side_name (posSide p) (Some size),
          card_leverage = parse_float (lever p),
          card_pnl_text = format_currency (JsNumber pnl) ''USDT'' 2,
          card_pnl_color = get_pnl_color (JsNumber pnl),
          card_ratio_text = format_percentage (JsNumber pnlRatio) 2 True True,
          card_ratio_color = get_pnl_color (JsNumber pnlRatio),
          card_size = num_if_valid size,
          card_open_price = num_if_valid openPx,
          card_mark = num_if_valid (markPx p),
          card_margin = map_option (\<lambda>m. (m, ccy)) (num_if_valid (js_or_opt (px_margin x) [])),
          card_mgn = (if px_mgnMode x = ''isolated'' then MgnIsolated
                      else if px_mgnMode x = ''cross'' then MgnCross else MgnRaw (px_mgnMode x)),
          card_inst_type = (if px_instType x = ''SWAP'' then InstPerpetual
                            else if px_instType x = ''SPOT'' then InstSpot else InstRaw (px_instType x)),
          card_ccy = ccy,
          card_trader = (case px_uniqueCode x of Some c \<Rightarrow> if c \<noteq> [] then Some (slice_last8 c) else None | None \<Rightarrow> None),
          card_open_time = (case px_openTime x of
                              Some t \<Rightarrow> if t \<noteq> [] then Some (format_time fmt (TimeStr t)) else None | None \<Rightarrow> None),
          card_update_time = (case px_uTime x of
                                Some t \<Rightarrow> if t \<noteq> [] then Some (format_time fmt (TimeStr t)) else None | None \<Rightarrow> None),
          card_sub_id = (if subPosId p \<noteq> [] then Some (slice_last8 (subPosId p)) else None)\<rparr>)"

section \<open>TraderStats.tsx\<close>

record trader_stats_data =
  curCopyTraderPnl :: string
  investAmt :: string
  winRatio :: string
  profitDays :: string
  lossDays :: string
  stats_ccy :: string

datatype stats_period = Period7d | Period30d | PeriodAll

record multi_period_stats =
  stats7d :: "trader_stats_data option"
  stats30d :: "trader_stats_data option"
  statsAll :: "trader_stats_data option"

text \<open>The statistics of a period, \<open>multiPeriodStats.stats7d\<close> and so on.\<close>

definition period_stats :: "stats_period \<Rightarrow> multi_period_stats \<Rightarrow> trader_stats_data option" where
  "period_stats sel m = (case sel of Period7d \<Rightarrow> stats7d m | Period30d \<Rightarrow> stats30d m | PeriodAll \<Rightarrow> statsAll m)"

text \<open>\<open>getCurrentStats\<close>; \<open>a || b\<close> on an object or \<open>null\<close>.\<close>

definition get_current_stats ::
  "stats_period \<Rightarrow> multi_period_stats option \<Rightarrow> trader_stats_data option \<Rightarrow> trader_stats_data option" where
  "get_current_stats sel multi stats =
     (case multi of
        None \<Rightarrow> stats
      | Some m \<Rightarrow> (case period_stats sel m of Some s \<Rightarrow> Some s | None \<Rightarrow> stats))"

text \<open>The component's state: \<open>selectedPeriod\<close> (initially \<open>'all'\<close>) and
  \<open>showHistory\<close>. The period buttons are rendered only with \<open>multiPeriodStats\<close> and
  are disabled when their period has no data (\<open>available: !!multiPeriodStats?.stats7d\<close>);
  the history toggle is rendered only when there is history.\<close>

record stats_ui =
  ui_period :: stats_period
  ui_showHistory :: bool

definition stats_ui_init :: stats_ui where
  "stats_ui_init = \<lparr>ui_period = PeriodAll, ui_showHistory = False\<rparr>"

definition period_available :: "multi_period_stats option \<Rightarrow> stats_period \<Rightarrow> bool" where
  "period_available multi k = (case multi of None \<Rightarrow> False | Some m \<Rightarrow> period_stats k m \<noteq> None)"

inductive stats_ui_reach :: "multi_period_stats option \<Rightarrow> bool \<Rightarrow> stats_ui \<Rightarrow> bool"
  for multi :: "multi_period_stats option" and has_history :: bool where
  init: "stats_ui_reach multi has_history stats_ui_init"
| period: "stats_ui_reach multi has_history u \<Longrightarrow> period_available multi k \<Longrightarrow>
           stats_ui_reach multi has_history (u\<lparr>ui_period := k\<rparr>)"
| history: "stats_ui_reach multi has_history u \<Longrightarrow> has_history \<Longrightarrow>
            stats_ui_reach multi has_history (u\<lparr>ui_showHistory := \<not> ui_showHistory u\<rparr>)"

text \<open>The component's own \<open>formatPercentage\<close> (no \<open>NaN\<close> guard, unlike the helper of
  the same name) and \<open>formatCurrency\<close> (\<open>Intl.NumberFormat('zh-CN')\<close> with two
  fraction digits, grouped like \<open>en-US\<close>).\<close>

definition stats_format_percentage :: "jsnum \<Rightarrow> nat \<Rightarrow> bool \<Rightarrow> string" where
  "stats_format_percentage value decimals showSign =
     (if showSign \<and> js_gt value (Num 0) then ''+'' else []) @ js_to_fixed decimals value @ ''%''"

definition stats_format_currency :: "jsnum \<Rightarrow> string \<Rightarrow> string" where
  "stats_format_currency amount currency = js_to_locale_fixed 2 amount @ '' '' @ currency"

datatype tone = ToneSuccess | ToneWarning | ToneDanger | ToneInfo

record stat_item =
  item_value :: string
  item_tone :: tone

record stats_view =
  view_profit_days :: jsnum
  view_loss_days :: jsnum
  view_items :: "stat_item list"

text \<open>The values of the component for the chosen statistics: the four cards (total
  return rate, win rate, total PnL, invested amount) and the profit and loss days.\<close>

definition trader_stats_view :: "trader_stats_data \<Rightarrow> stats_view" where
  "trader_stats_view st =
     (let totalPnl = parse_float (js_or (curCopyTraderPnl st) ''0'');
          invest = parse_float (js_or (investAmt st) ''0'');
          win = parse_float (js_or (winRatio st) ''0'');
          pDays = parse_int (js_or (profitDays st) ''0'');
          lDays = parse_int (js_or (lossDays st) ''0'');
          pnlRatio = (if js_gt invest (Num 0) then js_mul (js_div totalPnl invest) (Num 100) else Num 0);
          ccy = js_or (stats_ccy st) ''USDT''
      in \<lparr>view_profit_days = pDays, view_loss_days = lDays,
          view_items =
            [\<lparr>item_value = stats_format_percentage pnlRatio 2 True,
              item_tone = (if js_ge pnlRatio (Num 0) then ToneSuccess else ToneDanger)\<rparr>,
             \<lparr>item_value = stats_format_percentage (js_mul win (Num 100)) 1 False,
              item_tone = (if js_ge win (Num (3 / 5)) then ToneSuccess
                           else if js_ge win (Num (2 / 5)) then ToneWarning else ToneDanger)\<rparr>,
             \<lparr>item_value = stats_format_currency totalPnl ccy,
              item_tone = (if js_ge totalPnl (Num 0) then ToneSuccess else ToneDanger)\<rparr>,
             \<lparr>item_value = stats_format_currency invest ccy, item_tone = ToneInfo\<rparr>]\<rparr>)"

text \<open>What the component renders: nothing to show without statistics (the warning
  card), \<open>null\<close> when the chosen period and the fallback are both missing, else the view.\<close>

datatype stats_render = NoStatsCard | RenderNull | StatsShown stats_view

definition trader_stats :: "stats_period \<Rightarrow> multi_period_stats option \<Rightarrow> trader_stats_data option \<Rightarrow> stats_render" where
  "trader_stats sel multi stats =
     (if stats = None \<and> multi = None then NoStatsCard
      else case get_current_stats sel multi stats of
             None \<Rightarrow> RenderNull
           | Some s \<Rightarrow> StatsShown (trader_stats_view s))"

lemmas views_defs [model_simps] = parse_float_opt_def js_sum_def total_pnl_def total_notional_def
  positions_list_def page_positions_view_def period_stats_def get_current_stats_def stats_ui_init_def
  period_available_def stats_format_percentage_def
  stats_format_currency_def trader_stats_view_def trader_stats_def parse_int10_def date_valid_ms_def format_time_def
  num_if_valid_def slice_last8_def position_card_def

section \<open>Totals\<close>

lemma foldl_js_add_NaN: "NaN \<in> set xs \<Longrightarrow> foldl js_add a xs = NaN"
proof (induction xs arbitrary: a)
  case (Cons x xs)
  show ?case
  proof (cases "x = NaN")
    case True
    have "foldl js_add NaN xs = NaN" by (induction xs) auto
    with True show ?thesis by (cases a) auto
  next
    case False
    with Cons show ?thesis by simp
  qed
qed simp

lemma foldl_js_add_Num: "foldl js_add (Num a) (map Num xs) = Num (a + sum_list xs)"
  by (induction xs arbitrary: a) (simp_all add: add.assoc)

text \<open>C36: One position without \<open>notionalUsd\<close> (a field the public endpoint does not fill)
  turns the total notional into \<open>NaN\<close>, which \<open>formatCurrency\<close> prints as \<open>0.00\<close>
  without the currency: the footer shows a total of zero.\<close>

theorem missing_notional_shows_zero:
  assumes "\<exists>p\<in>set ps. notionalUsd p = None"
  shows "positions_list False ps =
           PositionsShown \<lparr>sum_count = length ps, sum_notional_text = ''0.00'',
             sum_pnl_text = format_currency (JsNumber (total_pnl ps)) ''USDT'' 2,
             sum_pnl_color = get_pnl_color (JsNumber (total_pnl ps)),
             sum_pnl_icon = get_pnl_icon (JsNumber (total_pnl ps))\<rparr>"
proof -
  have "NaN \<in> set (map (\<lambda>p. parse_float_opt (notionalUsd p)) ps)"
    using assms by (force simp: parse_float_opt_def)
  then have "total_notional ps = NaN" by (simp add: total_notional_def js_sum_def foldl_js_add_NaN)
  moreover have "ps \<noteq> []" using assms by auto
  ultimately show ?thesis by (simp add: positions_list_def format_currency_def to_number_def)
qed

text \<open>The total PnL is the sum of the positions' PnL when every \<open>upl\<close> parses to a
  number: the \<open>reduce\<close> with \<open>+\<close> from 0 is the arithmetic sum.\<close>

theorem total_pnl_sum:
  assumes "\<forall>p\<in>set ps. parse_float (upl p) = Num (x p)"
  shows "total_pnl ps = Num (\<Sum>p\<leftarrow>ps. x p)"
proof -
  have m: "map (\<lambda>p. parse_float (upl p)) ps = map Num (map x ps)" using assms by simp
  show ?thesis unfolding total_pnl_def js_sum_def m foldl_js_add_Num by simp
qed

text \<open>On a string, \<open>formatTime\<close> is \<open>parseInt\<close> followed by the range check: a
  positive count of milliseconds a \<open>Date\<close> can hold is formatted, anything else
  (empty, \<open>"0"\<close>, no leading digits, negative, too large) is \<open>--\<close>. A timestamp in
  seconds or in exponent notation (\<open>"1.7e12"\<close> reads as 1) is formatted as a time
  in January 1970.\<close>

theorem format_time_string:
  "format_time fmt (TimeStr s) =
     (case parse_int10 s of
        Num v \<Rightarrow> if 0 < v \<and> date_valid_ms v then fmt \<lfloor>v\<rfloor> else ''--''
      | _ \<Rightarrow> ''--'')"
proof (cases "s = [] \<or> s = ''0''")
  case True
  then show ?thesis by (auto simp: format_time_def parse_int10_def digits_value_def digit_of_def is_js_space_def)
next
  case False
  then show ?thesis by (auto simp: format_time_def Let_def split: jsnum.split)
qed

text \<open>Cards are keyed by \<open>subPosId || posId || instId-posSide\<close>: two positions of one
  instrument and side that carry neither id get the same React key.\<close>

theorem card_key_collision:
  assumes "subPosId p = []" "posId p = None" "subPosId q = []" "posId q = None"
    and "instId p = instId q" "posSide p = posSide q"
  shows "card_key (position_card fmt p x) = card_key (position_card fmt q y)"
  using assms by (simp add: position_card_def Let_def js_or_def js_or_opt_def)

lemma stats_ui_reach_period:
  "stats_ui_reach multi h u \<Longrightarrow> ui_period u = PeriodAll \<or> period_available multi (ui_period u)"
  by (induction rule: stats_ui_reach.induct) (simp_all add: stats_ui_init_def)

text \<open>C37: Clicking only enabled buttons, the selected period is \<open>'all'\<close> or a period with
  data: for any other selection the card shows that period's own statistics, never
  the fallback.\<close>

theorem selected_period_has_data:
  assumes "stats_ui_reach multi h u" and "ui_period u \<noteq> PeriodAll"
  shows "\<exists>m s. multi = Some m \<and> period_stats (ui_period u) m = Some s \<and>
               get_current_stats (ui_period u) multi stats = Some s"
  using stats_ui_reach_period [OF assms(1)] assms(2)
  by (auto simp: period_available_def get_current_stats_def split: option.splits)

section \<open>Statistics\<close>

text \<open>When the invested amount is positive and the PnL field is not a number, the
  return-rate card shows \<open>NaN%\<close> in the loss colour: the component's own
  \<open>formatPercentage\<close> has no \<open>NaN\<close> guard.\<close>

theorem stats_nan_ratio:
  assumes "parse_float (js_or (curCopyTraderPnl st) ''0'') = NaN"
    and "js_gt (parse_float (js_or (investAmt st) ''0'')) (Num 0)"
  shows "hd (view_items (trader_stats_view st)) = \<lparr>item_value = ''NaN%'', item_tone = ToneDanger\<rparr>"
  using assms by (simp add: trader_stats_view_def Let_def stats_format_percentage_def js_gt_def js_ge_def js_to_fixed_def)

text \<open>The win-rate card's colour for a win ratio that parses to \<open>w\<close>: success from 0.6,
  warning from 0.4, loss colour below; an unparsable ratio gets the loss colour.\<close>

theorem win_ratio_tone:
  "item_tone (view_items (trader_stats_view st) ! 1) =
     (case parse_float (js_or (winRatio st) ''0'') of
        Num w \<Rightarrow> if 3 / 5 \<le> w then ToneSuccess else if 2 / 5 \<le> w then ToneWarning else ToneDanger
      | PosInf \<Rightarrow> ToneSuccess
      | _ \<Rightarrow> ToneDanger)"
  by (simp add: trader_stats_view_def Let_def js_ge_def js_gt_def split: jsnum.split)

theorem selected_period_has_data_witness:
  "stats_ui_reach (Some \<lparr>stats7d = Some \<lparr>curCopyTraderPnl = ''1'', investAmt = ''2'', winRatio = ''0.5'',
        profitDays = ''1'', lossDays = ''1'', stats_ccy = ''USDT''\<rparr>, stats30d = None, statsAll = None\<rparr>) False
     \<lparr>ui_period = Period7d, ui_showHistory = False\<rparr> \<and>
   get_current_stats Period7d (Some \<lparr>stats7d = Some \<lparr>curCopyTraderPnl = ''1'', investAmt = ''2'', winRatio = ''0.5'',
        profitDays = ''1'', lossDays = ''1'', stats_ccy = ''USDT''\<rparr>, stats30d = None, statsAll = None\<rparr>) None =
     Some \<lparr>curCopyTraderPnl = ''1'', investAmt = ''2'', winRatio = ''0.5'',
        profitDays = ''1'', lossDays = ''1'', stats_ccy = ''USDT''\<rparr>"
proof -
  have r: "stats_ui_reach (Some \<lparr>stats7d = Some \<lparr>curCopyTraderPnl = ''1'', investAmt = ''2'', winRatio = ''0.5'',
        profitDays = ''1'', lossDays = ''1'', stats_ccy = ''USDT''\<rparr>, stats30d = None, statsAll = None\<rparr>) False
     (stats_ui_init\<lparr>ui_period := Period7d\<rparr>)"
    by (rule stats_ui_reach.period [OF stats_ui_reach.init]) (simp add: period_available_def period_stats_def)
  have u: "stats_ui_init\<lparr>ui_period := Period7d\<rparr> = \<lparr>ui_period = Period7d, ui_showHistory = False\<rparr>"
    by (simp add: stats_ui_init_def)
  show ?thesis
    using r selected_period_has_data [OF r [unfolded u], of None] u by (auto simp: period_stats_def)
qed

end
