(* ===== verification/Lifecycle.thy ===== *)
theory Lifecycle
  imports Server Scheduler Monitor
begin

text \<open>
  The process around the HTTP server: \<open>Server.start\<close> and \<open>Server.stop\<close> of
  \<open>src/src/server.ts\<close> with its signal and error handlers, composing the scheduler
  (\<open>Scheduler.thy\<close>) and the monitor service (\<open>Monitor.thy\<close>); and the module
  initialisation of the serverless entry \<open>src/api/index.ts\<close>, whose \<open>app.use\<close>
  registrations are checked the way Express 4 checks them. \<open>listen\<close> is an outcome
  of the environment (success, port in use, another error); \<open>process.exit\<close> ends the
  process, after which no event is handled.
\<close>

section \<open>Server.start and Server.stop (server.ts)\<close>

record process_state =
  proc_sched :: scheduler_state
  proc_monitor :: monitor_state
  proc_listening :: bool
  proc_exit :: "int option"

definition process_init :: process_state where
  "process_init = \<lparr>proc_sched = scheduler_init, proc_monitor = monitor_init, proc_listening = False,
                   proc_exit = None\<rparr>"

datatype listen_outcome = ListenOk | ListenAddrInUse | ListenError string

text \<open>\<open>start()\<close>: \<open>validateConfig()\<close> only logs; \<open>scheduler.start()\<close> throws on an
  invalid cron expression, caught by \<open>start\<close>'s own \<open>catch\<close> (exit 1); then
  \<open>monitorService.start()\<close> and \<open>listen\<close>. The \<open>'error'\<close> listener exits 1 on
  \<open>EADDRINUSE\<close> and rethrows any other error, which \<open>uncaughtException\<close> turns into
  exit 1.\<close>

definition server_start ::
  "(string \<Rightarrow> bool) \<Rightarrow> app_config \<Rightarrow> listen_outcome \<Rightarrow> process_state \<Rightarrow> process_state" where
  "server_start cron_ok c lo p =
     (case scheduler_start cron_ok c (proc_sched p) of
        Inl _ \<Rightarrow> p\<lparr>proc_exit := Some 1\<rparr>
      | Inr s' \<Rightarrow>
          (let p' = p\<lparr>proc_sched := s', proc_monitor := start (proc_monitor p)\<rparr> in
           case lo of
             ListenOk \<Rightarrow> p'\<lparr>proc_listening := True\<rparr>
           | ListenAddrInUse \<Rightarrow> p'\<lparr>proc_exit := Some 1\<rparr>
           | ListenError _ \<Rightarrow> p'\<lparr>proc_exit := Some 1\<rparr>))"

text \<open>\<open>stop()\<close>: \<open>scheduler.stop()\<close>, \<open>monitorService.stop()\<close>, then the HTTP server
  is closed when there is one.\<close>

definition server_stop :: "process_state \<Rightarrow> process_state" where
  "server_stop p =
     p\<lparr>proc_sched := scheduler_stop (proc_sched p), proc_monitor := stop (proc_monitor p),
       proc_listening := False\<rparr>"

datatype proc_event = ProcStart listen_outcome | ProcSignal string | ProcUncaught

text \<open>The process: \<open>server.start()\<close> when run as the main module, \<open>SIGTERM\<close> and
  \<open>SIGINT\<close> stop the server and exit 0, an uncaught exception exits 1; other signals
  have no handler here. An exited process handles nothing.\<close>

definition proc_step :: "(string \<Rightarrow> bool) \<Rightarrow> app_config \<Rightarrow> process_state \<Rightarrow> proc_event \<Rightarrow> process_state" where
  "proc_step cron_ok c p ev =
     (if proc_exit p \<noteq> None then p
      else case ev of
        ProcStart lo \<Rightarrow> server_start cron_ok c lo p
      | ProcSignal sg \<Rightarrow>
          if sg = ''SIGTERM'' \<or> sg = ''SIGINT'' then (server_stop p)\<lparr>proc_exit := Some 0\<rparr> else p
      | ProcUncaught \<Rightarrow> p\<lparr>proc_exit := Some 1\<rparr>)"

definition proc_run :: "(string \<Rightarrow> bool) \<Rightarrow> app_config \<Rightarrow> proc_event list \<Rightarrow> process_state \<Rightarrow> process_state" where
  "proc_run cron_ok c evs p = foldl (proc_step cron_ok c) p evs"

section \<open>The serverless entry (api/index.ts)\<close>

text \<open>The values passed to \<open>app.use\<close>: a middleware function, or a string. Express 4
  takes a first argument that is not a function as the mount path; when no function
  follows it throws \<open>TypeError: app.use() requires a middleware function\<close>.\<close>

datatype mw_fn =
    Helmet | Cors | RequestLogger | SecurityHeaders | ApiVersion | RateLimitFactory
  | JsonParser | UrlencodedParser | StaticFiles | ApiRouter | NotFoundHandler | ErrorHandler

datatype use_arg = UseFn mw_fn | UseStr string

datatype registration = AppUse "use_arg list" | AppGetAll

definition express_use :: "use_arg list \<Rightarrow> mw_fn list \<Rightarrow> string + mw_fn list" where
  "express_use args stack =
     (let fns = (case args of UseStr _ # rest \<Rightarrow> rest | _ \<Rightarrow> args) in
      if fns = [] then Inl ''app.use() requires a middleware function''
      else if list_all (\<lambda>a. case a of UseFn _ \<Rightarrow> True | UseStr _ \<Rightarrow> False) fns
      then Inr (stack @ map (\<lambda>a. case a of UseFn f \<Rightarrow> f | UseStr _ \<Rightarrow> Helmet) fns)
      else Inl ''app.use() requires a middleware function but got a string'')"

text \<open>The registrations of the module in order; \<open>bodySizeLimit\<close> is the string
  \<open>'10mb'\<close> exported by the middleware module, and \<open>rateLimit\<close> is the factory itself,
  not a middleware it returned.\<close>

definition serverless_registrations :: "registration list" where
  "serverless_registrations =
     [AppUse [UseFn Helmet], AppUse [UseFn Cors], AppUse [UseFn RequestLogger], AppUse [UseFn SecurityHeaders],
      AppUse [UseFn ApiVersion], AppUse [UseStr ''10mb''], AppUse [UseFn RateLimitFactory],
      AppUse [UseFn JsonParser], AppUse [UseFn UrlencodedParser], AppUse [UseFn StaticFiles],
      AppUse [UseStr ''/api'', UseFn ApiRouter], AppGetAll, AppUse [UseFn NotFoundHandler],
      AppUse [UseFn ErrorHandler]]"

fun register_all :: "registration list \<Rightarrow> mw_fn list \<Rightarrow> string + mw_fn list" where
  "register_all [] stack = Inr stack"
| "register_all (AppUse args # rs) stack =
     (case express_use args stack of Inl e \<Rightarrow> Inl e | Inr stack' \<Rightarrow> register_all rs stack')"
| "register_all (AppGetAll # rs) stack = register_all rs stack"

definition serverless_module :: "string + mw_fn list" where
  "serverless_module = register_all serverless_registrations []"

lemmas lifecycle_defs [model_simps] = process_init_def server_start_def server_stop_def proc_step_def
  proc_run_def express_use_def serverless_registrations_def serverless_module_def

section \<open>Start, signals and shutdown\<close>




text \<open>When the port is in use the process exits 1, but only after the scheduler's cron
  tasks and the monitor's interval have been started: \<open>listen\<close> comes last.\<close>

theorem port_in_use_exits_after_starting:
  assumes "scheduler_start cron_ok c scheduler_init = Inr s"
  shows "proc_run cron_ok c [ProcStart ListenAddrInUse] process_init =
           \<lparr>proc_sched = s, proc_monitor = monitor_init\<lparr>monitoringInterval := True\<rparr>, proc_listening = False,
            proc_exit = Some 1\<rparr>"
  using assms by (simp add: proc_run_def proc_step_def server_start_def process_init_def start_def monitor_init_def)

section \<open>The serverless module\<close>

text \<open>Loading the serverless entry api/index.ts throws: app.use(bodySizeLimit) passes the string '10mb', which Express takes as a mount path with no middleware, so the module never exports an app and no request reaches the routes.\<close>

theorem serverless_module_throws:
  "serverless_module = Inl ''app.use() requires a middleware function''"
  by (simp add: serverless_module_def serverless_registrations_def express_use_def)


end
