(* ===== verification/Database.thy ===== *)
theory Database
  imports Routes
begin

text \<open>
  The SQLite wrapper of \<open>src/src/database/index.ts\<close>: the constructor's
  \<open>initTables\<close>, which queues the \<open>CREATE TABLE IF NOT EXISTS\<close> and
  \<open>CREATE INDEX IF NOT EXISTS\<close> statements on one connection and only logs their
  failures, and the promise wrappers \<open>query\<close>, \<open>get\<close> and \<open>run\<close>, which reject with
  SQLite's error. The schema is the set of tables and indexes that exist; the outcome
  of each statement apart from a missing table is an environment function (the disk,
  permissions). A statement on a table that does not exist fails with
  \<open>SQLITE_ERROR: no such table\<close>; this is the \<open>dbFail\<close> the route handlers of
  \<open>Routes.thy\<close> see.
\<close>

section \<open>The schema and initTables\<close>

record db_schema =
  db_tables :: "string list"
  db_indexes :: "(string \<times> string) list"

definition db_empty :: db_schema where
  "db_empty = \<lparr>db_tables = [], db_indexes = []\<rparr>"

datatype ddl = CreateTable string | CreateIndex string string

definition init_statements :: "ddl list" where
  "init_statements =
     [CreateTable ''email_subscriptions'', CreateTable ''email_logs'',
      CreateIndex ''idx_email_subscriptions_email'' ''email_subscriptions'',
      CreateIndex ''idx_email_subscriptions_unique_code'' ''email_subscriptions'',
      CreateIndex ''idx_email_logs_unique_code'' ''email_logs'',
      CreateIndex ''idx_email_logs_sent_at'' ''email_logs'']"

definition no_such_table :: "string \<Rightarrow> string" where
  "no_such_table t = ''SQLITE_ERROR: no such table: '' @ t"

text \<open>One statement: \<open>IF NOT EXISTS\<close> makes an existing object a success without
  change; a failure (the environment's, or an index on a missing table) is only
  logged, and the schema stays as it was.\<close>

definition run_ddl :: "(ddl \<Rightarrow> string option) \<Rightarrow> db_schema \<Rightarrow> ddl \<Rightarrow> (string option \<times> db_schema)" where
  "run_ddl env s d =
     (case d of
        CreateTable t \<Rightarrow>
          if t \<in> set (db_tables s) then (None, s)
          else (case env d of Some e \<Rightarrow> (Some e, s) | None \<Rightarrow> (None, s\<lparr>db_tables := db_tables s @ [t]\<rparr>))
      | CreateIndex i t \<Rightarrow>
          if i \<in> fst ` set (db_indexes s) then (None, s)
          else if t \<notin> set (db_tables s) then (Some (no_such_table t), s)
          else (case env d of Some e \<Rightarrow> (Some e, s) | None \<Rightarrow> (None, s\<lparr>db_indexes := db_indexes s @ [(i, t)]\<rparr>)))"

text \<open>\<open>initTables\<close>: every statement in order, the errors only logged.\<close>

definition init_tables :: "(ddl \<Rightarrow> string option) \<Rightarrow> db_schema \<Rightarrow> db_schema" where
  "init_tables env s = foldl (\<lambda>s d. snd (run_ddl env s d)) s init_statements"

text \<open>The error with which \<open>query\<close>, \<open>get\<close> and \<open>run\<close> reject a statement on table
  \<open>t\<close>: none when the table exists (other failures are the environment's).\<close>

definition db_fail_of :: "db_schema \<Rightarrow> string \<Rightarrow> string option" where
  "db_fail_of s t = (if t \<in> set (db_tables s) then None else Some (no_such_table t))"

text \<open>\<open>query\<close>, \<open>get\<close> and \<open>run\<close>: the promise rejects with the statement's error
  and resolves with its result otherwise.\<close>

definition db_promise :: "string option \<Rightarrow> 'a \<Rightarrow> string + 'a" where
  "db_promise err res = (case err of Some e \<Rightarrow> Inl e | None \<Rightarrow> Inr res)"

text \<open>The schema's well-formedness: every index is on a table that exists.\<close>

definition schema_wf :: "db_schema \<Rightarrow> bool" where
  "schema_wf s = list_all (\<lambda>(i, t). t \<in> set (db_tables s)) (db_indexes s)"

text \<open>A statement whose object already exists.\<close>

fun ddl_exists :: "db_schema \<Rightarrow> ddl \<Rightarrow> bool" where
  "ddl_exists s (CreateTable t) = (t \<in> set (db_tables s))"
| "ddl_exists s (CreateIndex i t) = (i \<in> fst ` set (db_indexes s))"

lemmas database_defs [model_simps] = db_empty_def init_statements_def no_such_table_def run_ddl_def
  init_tables_def db_fail_of_def db_promise_def schema_wf_def

section \<open>Properties\<close>

lemma init_tables_ok:
  "(\<And>d. env d = None) \<Longrightarrow>
   init_tables env db_empty =
     \<lparr>db_tables = [''email_subscriptions'', ''email_logs''],
      db_indexes = [(''idx_email_subscriptions_email'', ''email_subscriptions''),
                    (''idx_email_subscriptions_unique_code'', ''email_subscriptions''),
                    (''idx_email_logs_unique_code'', ''email_logs''),
                    (''idx_email_logs_sent_at'', ''email_logs'')]\<rparr>"
  by (simp add: init_tables_def init_statements_def run_ddl_def db_empty_def)

lemma run_ddl_tables:
  "t \<in> set (db_tables (snd (run_ddl env s d))) \<longleftrightarrow>
   t \<in> set (db_tables s) \<or> (d = CreateTable t \<and> env d = None)"
  by (auto simp: run_ddl_def split: ddl.split option.split)

lemma foldl_run_ddl_missing:
  "t \<notin> set (db_tables s) \<Longrightarrow> env (CreateTable t) \<noteq> None \<Longrightarrow>
   t \<notin> set (db_tables (foldl (\<lambda>s d. snd (run_ddl env s d)) s ds))"
  by (induction ds arbitrary: s) (auto simp: run_ddl_tables)

lemma run_ddl_wf: "schema_wf s \<Longrightarrow> schema_wf (snd (run_ddl env s d))"
  by (auto simp: run_ddl_def schema_wf_def list_all_iff split: ddl.split option.split)

lemma foldl_run_ddl_wf:
  "schema_wf s \<Longrightarrow> schema_wf (foldl (\<lambda>s d. snd (run_ddl env s d)) s ds)"
  by (induction ds arbitrary: s) (simp_all add: run_ddl_wf)

text \<open>Whatever fails while the tables are created, \<open>initTables\<close> never leaves an
  index on a table that does not exist.\<close>

theorem init_tables_wf: "schema_wf s \<Longrightarrow> schema_wf (init_tables env s)"
  unfolding init_tables_def by (rule foldl_run_ddl_wf)

lemma run_ddl_exists: "ddl_exists s d \<Longrightarrow> run_ddl env s d = (None, s)"
  by (cases d) (auto simp: run_ddl_def)

lemma foldl_run_ddl_exists:
  "list_all (ddl_exists s) ds \<Longrightarrow> foldl (\<lambda>s d. snd (run_ddl env s d)) s ds = s"
  by (induction ds) (simp_all add: run_ddl_exists)

text \<open>A restart on a database whose tables and indexes all exist changes nothing and
  logs no error, whatever the environment: \<open>IF NOT EXISTS\<close> makes \<open>initTables\<close>
  idempotent.\<close>

lemma init_tables_existing: "list_all (ddl_exists s) init_statements \<Longrightarrow> init_tables env s = s"
  unfolding init_tables_def by (rule foldl_run_ddl_exists)

theorem init_tables_restart:
  assumes "\<And>d. env d = None"
  shows "init_tables env' (init_tables env db_empty) = init_tables env db_empty"
  unfolding init_tables_ok [OF assms] by (rule init_tables_existing) (simp add: init_statements_def)

text \<open>C33: A failure to create the email_subscriptions table in initTables is only logged: the table is missing after initTables whatever the other statements do, and every POST /api/subscribe with a valid body is then answered 500 with SQLite's no such table message, with the subscription table and the mail state unchanged.\<close>

theorem missing_table_breaks_subscribe:
  assumes "env (CreateTable ''email_subscriptions'') = Some err"
    and "sr_email req = Some e" "sr_uniqueCode req = Some c" "sr_alertTypes req = Some ts"
    and "email_regex_test e" "length c = 16" "set ts \<subseteq> set valid_alert_types"
  shows "''email_subscriptions'' \<notin> set (db_tables (init_tables env db_empty)) \<and>
         post_subscribe eenv (db_fail_of (init_tables env db_empty) ''email_subscriptions'') now req t st =
           (fail_response 500 (no_such_table ''email_subscriptions''), t, st)"
proof -
  have m: "''email_subscriptions'' \<notin> set (db_tables (init_tables env db_empty))"
    unfolding init_tables_def using assms(1) by (intro foldl_run_ddl_missing) (simp_all add: db_empty_def)
  have f: "db_fail_of (init_tables env db_empty) ''email_subscriptions'' = Some (no_such_table ''email_subscriptions'')"
    using m by (simp add: db_fail_of_def)
  show ?thesis
    unfolding f using m post_subscribe_valid [OF assms(2-7)] by simp
qed

theorem missing_table_breaks_subscribe_witness:
  "''email_subscriptions'' \<notin> set (db_tables (init_tables (\<lambda>d. if d = CreateTable ''email_subscriptions'' then Some ''SQLITE_CANTOPEN'' else None) db_empty)) \<and>
   post_subscribe \<lparr>transporterConfigured = True, rateLimit = Num 5, sendMailOk = (\<lambda>_. True), logInsertOk = True, subscriptionsTable = Some []\<rparr> (db_fail_of (init_tables (\<lambda>d. if d = CreateTable ''email_subscriptions'' then Some ''SQLITE_CANTOPEN'' else None) db_empty)
       ''email_subscriptions'') 0
     \<lparr>sr_email = Some ''a@x.io'', sr_uniqueCode = Some ''0123456789ABCDEF'', sr_alertTypes = Some [''close_position'']\<rparr>
     sub_table_init email_init =
   (fail_response 500 (no_such_table ''email_subscriptions''), sub_table_init, email_init)"
proof -
  have e: "email_regex_test ''a@x.io''" by (simp add: email_regex_test_def email_char_def is_js_space_def)
  show ?thesis
    using missing_table_breaks_subscribe [of "\<lambda>d. if d = CreateTable ''email_subscriptions'' then Some ''SQLITE_CANTOPEN'' else None"
        "''SQLITE_CANTOPEN''" "\<lparr>sr_email = Some ''a@x.io'', sr_uniqueCode = Some ''0123456789ABCDEF'', sr_alertTypes = Some [''close_position'']\<rparr>"
        "''a@x.io''" "''0123456789ABCDEF''" "[''close_position'']"
        "\<lparr>transporterConfigured = True, rateLimit = Num 5, sendMailOk = (\<lambda>_. True), logInsertOk = True, subscriptionsTable = Some []\<rparr>" 0 sub_table_init email_init] e
    by (simp add: valid_alert_types_def)
qed

end
