(* ===== verification/Spec2Isabelle.thy ===== *)
theory Spec2Isabelle
  imports Monitor Routes RateLimit OkxApi Templates MonitorTask Frontend Scheduler Server StaticApi
    Interleaving Client Views Lifecycle Database
begin

text \<open>
  \<^bold>\<open>A verification model of the OKX trader monitor (yyh-001/okx).\<close>

  \<^bold>\<open>The program.\<close> A Node/TypeScript service polls the OKX copy-trading endpoint for
  the current positions of every trader that has an active e-mail subscription, compares
  them with the positions seen at the previous poll, and mails the subscribers when a
  position opens or closes. Its core is \<open>src/src/services/monitor.service.ts\<close> (the
  snapshot store, the poll cycle and the diff) and \<open>src/src/services/email.service.ts\<close>
  (subscribers, per-recipient rate limit, sending). Control flows one way: the 30 s
  interval calls \<open>checkAllSubscriptions\<close>, which for each distinct active trader code
  awaits \<open>checkTraderPositions\<close>: fetch, compare with the snapshot (\<open>comparePositions\<close>,
  which awaits \<open>notifyNewPosition\<close> / \<open>notifyClosePosition\<close> and logs size and PnL
  changes), then replace the snapshot.

  \<^bold>\<open>The theories.\<close>
  \<^item> \<open>Prelude\<close>: type names (\<open>ms\<close> for \<open>Date.now()\<close> milliseconds, entity keys,
    addresses), the collections \<open>model_simps\<close> (the equations the witnesses evaluate with)
    and \<open>frame_simps\<close>, and generic list lemmas.
  \<^item> \<open>JsRuntime\<close>: the JavaScript semantics the code relies on: numbers with \<open>NaN\<close> and
    infinities (\<open>jsnum\<close>, exact rationals for finite values: no binary64 rounding,
    no signed zero), \<open>-\<close>, \<open>*\<close>, \<open>/\<close>,
    \<open>Math.abs\<close>, \<open>>\<close>, \<open>>=\<close>, the truthiness behind \<open>a || b\<close>, and \<open>parseFloat\<close>
    (white space, sign, \<open>Infinity\<close>, digits, fraction, exponent, longest prefix).
  \<^item> \<open>JsMap\<close>: a JS \<open>Map\<close> as an association list with distinct keys and insertion
    order (\<open>jsmap_set\<close>, \<open>jsmap_get\<close>, \<open>jsmap_has\<close>, \<open>jsmap_index\<close> for the
    \<open>forEach(set)\<close> idiom), its well-formedness invariant, and its refinement of HOL maps
    through \<open>map_of\<close>.
  \<^item> \<open>Positions\<close>: \<open>LeadPosition\<close> (\<open>src/src/types/index.ts\<close>), the identity
    \<open>posId || subPosId || instId_posSide\<close> (\<open>pos_id_of\<close>), \<open>checkPositionChanges\<close>
    (\<open>check_position_changes\<close>) and \<open>comparePositions\<close> (\<open>compare_positions\<close>), which
    return the list of their effects (\<open>change_action\<close>) in the code's order.
  \<^item> \<open>Email\<close>: subscription rows, the service state (\<open>emailQueue\<close> ledger, the messages
    handed to the transport with their time, the \<open>email_logs\<close> rows), the environment of
    collaborators (transport configured, \<open>rateLimit\<close>, transport and log outcomes, the
    subscriptions table or its failure), \<open>getTraderSubscribers\<close>, \<open>canSendEmail\<close>,
    \<open>sendEmail\<close>, \<open>notifyNewPosition\<close>, \<open>notifyClosePosition\<close>.
  \<^item> \<open>Monitor\<close>: the service state (snapshots, timer, the e-mail singleton),
    \<open>start\<close>, \<open>stop\<close>, \<open>checkTraderPositions\<close>, \<open>checkAllSubscriptions\<close>,
    \<open>checkTrader\<close>, \<open>getStatus\<close>, the notification half of \<open>comparePositions\<close>
    (\<open>perform_action\<close>, \<open>compare_and_notify\<close>), and \<open>monitor_step\<close>, the service as
    a deterministic machine over the events start, stop, timer tick and manual check.
  \<^item> \<open>JsFormat\<close>: \<open>Number.prototype.toFixed\<close> and \<open>toLocaleString\<close> with equal
    minimum and maximum fraction digits, rounded from the exact value, and the
    print/parse round trip \<open>parseFloat(x.toFixed(f))\<close> of the exact model.
  \<^item> \<open>Subscriptions\<close>: the \<open>email_subscriptions\<close> table of
    \<open>src/src/database/index.ts\<close> (\<open>INSERT OR REPLACE\<close> under \<open>UNIQUE(email,
    unique_code)\<close>, \<open>DELETE\<close>, \<open>SELECT\<close>) and the subscription methods of
    \<open>EmailService\<close> (\<open>addSubscription\<close> with its confirmation mail,
    \<open>removeSubscription\<close>, \<open>getUserSubscriptions\<close>, \<open>getTraderSubscribers\<close>).
  \<^item> \<open>Routes\<close>: the five handlers of \<open>src/src/routes/subscription.routes.ts\<close>, the
    e-mail regular expression as a matcher proved equal to its language, and the
    masking regular expression.
  \<^item> \<open>RateLimit\<close>: the \<open>rateLimit\<close> middleware of \<open>src/src/middleware/index.ts\<close> over
    its module-global map, with a ghost log of the requests for the window invariant.
  \<^item> \<open>OkxApi\<close>: \<open>getCurrentLeadPositions\<close> over a transport function,
    \<open>extractUniqueCodeFromUrl\<close> as a leftmost-match search, and the two handlers of
    \<open>src/src/routes/trader.routes.ts\<close>.
  \<^item> \<open>Templates\<close>: the two position e-mails of \<open>email.service.ts\<close> as the values
    their template literals interpolate.
  \<^item> \<open>Config\<close>: \<open>src/src/config/index.ts\<close> (\<open>process.env\<close> read through \<open>||\<close>
    and \<open>parseInt\<close>) and the e-mail service built from it.
  \<^item> \<open>Scheduler\<close>: \<open>src/src/scheduler/index.ts\<close>, the jobs \<open>Map\<close> over node-cron
    tasks, and the two position checks the class never calls.
  \<^item> \<open>Server\<close>: the Express pipeline of \<open>src/src/server.ts\<close> (body parser,
    \<open>securityHeaders\<close>, \<open>apiVersion\<close>, the limiter on \<open>/api\<close>, the \<open>/api\<close> router
    of \<open>src/src/routes/index.ts\<close>, the root route, \<open>notFoundHandler\<close>,
    \<open>errorHandler\<close>) as one function from request and state to response and state,
    with \<open>cors(corsOptions)\<close> in front (its headers on every request, every
    \<open>OPTIONS\<close> request ended with 200 before the body parser).
  \<^item> \<open>MonitorTask\<close>: the standalone script \<open>src/scripts/monitor-task.js\<close>.
  \<^item> \<open>Frontend\<close>: the pure helpers of \<open>src/frontend/src/utils/helpers.ts\<close> and its
    \<open>throttle\<close> and \<open>debounce\<close> as step relations over calls and timer firings.
  \<^item> \<open>StaticApi\<close>: the dashboard's static client
    \<open>src/frontend/src/utils/static-api.ts\<close> (five-minute cache of the file
    \<open>monitor-task.js\<close> writes, mock data, subscriptions in \<open>localStorage\<close>).
  \<^item> \<open>Interleaving\<close>: overlapping poll cycles. \<open>checkTraderPositions\<close> is split at its
    \<open>await\<close> of \<open>comparePositions\<close> into \<open>begin_check\<close> (read the snapshot and
    notify) and \<open>finish_check\<close> (write the snapshot), calls in flight are a list, and a
    run is a sequence of \<open>Begin\<close>/\<open>Finish\<close> events in the event loop's order
    (\<open>conc_run\<close>).
  \<^item> \<open>Client\<close>: the browser side against the modelled server: the axios client of
    \<open>src/frontend/src/utils/api.ts\<close> (request built per method, non-2xx rejected by
    axios, the \<open>success\<close> check), the form of \<open>EmailSubscription.tsx\<close> (state record,
    handlers split at their \<open>await\<close>, button guards, its reachable states as an
    inductive predicate) and the page of \<open>TraderMonitor.tsx\<close> that mounts it
    (\<open>page_step\<close> over user events, each handler completed with the server's answer).
  \<^item> \<open>Views\<close>: the values \<open>PositionsList.tsx\<close> (rendered by the page with the
    fetched positions) and \<open>TraderStats.tsx\<close> compute and interpolate: the totals as
    JS \<open>reduce\<close> sums, the early returns, the per-position cards (key, labels, the
    time column through \<open>formatTime\<close>), the period fallback, return rate and colours,
    and the two toggles of \<open>TraderStats\<close> as a state record with its reachable states
    as an inductive predicate. The \<open>date-fns\<close> formatter is a parameter.
  \<^item> \<open>Lifecycle\<close>: \<open>Server.start\<close>/\<open>stop\<close> of \<open>server.ts\<close> with the process's
    signal and exception handlers, over the scheduler and the monitor service, and the
    module initialisation of the serverless entry \<open>src/api/index.ts\<close>.
  \<^item> \<open>Database\<close>: \<open>initTables\<close> of \<open>src/src/database/index.ts\<close> as a fold of
    \<open>IF NOT EXISTS\<close> statements over a schema (tables, indexes with their table),
    each failure only logged; the promise wrappers \<open>query\<close>/\<open>get\<close>/\<open>run\<close> as
    rejection with the statement's error (\<open>db_promise\<close>, \<open>db_fail_of\<close>).
  \<^item> this theory: sample inputs, the overlapping-cycle scenarios, the end-to-end scenario of the specification, and the
    witnesses of the component theorems.

  \<^bold>\<open>What is proved.\<close> Diff: identical snapshots give no action; a vanished (new)
  identity is reported closed (opened) exactly once and others never; the size rule never
  fires for a short position or without \<open>pos\<close>. Monitor: the first poll only seeds; the
  first cycle after a restart sends nothing; a failed fetch is skipped without affecting
  other traders; start and stop are idempotent; the snapshot store stays well formed along
  every run and snapshots are never removed; only new-position and close-position mails
  are ever sent. Notifier: any two deliveries to a recipient are at least
  \<open>60 / rateLimit\<close> seconds apart, so a burst shorter than that delivers one message; a
  send touches only its recipient's ledger entry; a transport failure changes nothing.
  Subscriptions: \<open>POST /api/subscribe\<close> succeeds exactly on valid input, a rejected
  request changes nothing, and subscribe followed by unsubscribe restores the other rows;
  the confirmation mail uses up the rate-limit slot. Request limiter: the window
  invariant along every run, and the fixed-window burst. Server: the application headers
  on every parsed non-preflight request, the limiter's accounting over any request
  sequence (preflights and malformed bodies are never counted), and the refinement of the
  whole chain to the subscription handler. Configuration: a rate limit that parses to 0
  or \<open>NaN\<close> blocks every second mail. Scheduler: its map invariant, clean start/stop,
  and the leak of a second start. Lifecycle: a signal after a clean start stops every cron
  task and the monitor and exits 0. Database: a failed \<open>CREATE TABLE\<close> is only logged
  and turns every valid subscription into a 500. Front end: throttle spacing and
  liveness, debounce runs with the last call's arguments; a completed run of
  \<open>monitor-task.js\<close> is what a fresh static client shows, and its first run reports
  every trader as new; a position without \<open>notionalUsd\<close> zeroes the displayed total;
  the statistics card only ever selects a period with data. Client: a valid form stores
  its subscription through the whole server and resets; a server rejection reaches the
  user only as an axios status message; every request a reachable form sends passes the
  server's validation; the page subscribes to the code in its input field, not the one
  whose positions it shows. Interleaving: a check that begins while others are in flight
  compares against the snapshot from before them, so overlapping cycles repeat alerts.

  \<^bold>\<open>Findings the theorems make precise\<close> (see PROJECT.json): the size check reads the
  compatibility field \<open>pos\<close>, which the public endpoint does not fill, so no size change is
  ever detected there; it divides by the signed previous size, so short positions never
  trigger; size and PnL changes are only logged, never mailed; the rate limit is a minimum
  spacing (one mail per 12 s at the default of 5), not five mails per minute, and the
  subscription confirmation uses up the new subscriber's slot; snapshots of traders no
  longer monitored are never evicted; positions sharing the fallback key are conflated.
  Beyond the core: a one-letter local part is not masked; the request limiter's map is
  never pruned and its window is fixed; a seventeenth hex digit of a code is cut off;
  a net position is labelled short in the e-mails and long on the dashboard; a fractional
  or non-numeric \<open>EMAIL_RATE_LIMIT\<close> blocks every second mail, a negative one disables
  the limit; a second \<open>Scheduler.start\<close> leaks two cron tasks; malformed bodies get 500
  and bypass the limiter; production answers unknown \<open>/api\<close> GETs with \<open>index.html\<close>;
  \<open>monitor-task.js\<close> reports every trader on its first run and never recovers from a
  data file without \<open>traders\<close>; the static client replaces an expired cache by mock
  data when a fetch fails, and keeps duplicate local subscriptions; overlapping cycles
  send duplicate alerts; the front end hides the server's error messages behind axios's
  and subscribes to whatever code is in the input field; a position without
  \<open>notionalUsd\<close> turns the displayed total notional into 0.00; \<open>monitor-task.js\<close>
  calls \<open>nodemailer.createTransporter\<close>, which does not exist, so it never mails; a
  failed \<open>CREATE TABLE\<close> is only logged and every later subscription fails with 500;
  \<open>OPTIONS\<close> preflights and malformed bodies are never counted by the rate limiter.

  \<^bold>\<open>Abstractions and bounds.\<close> Numbers: finite JS numbers are exact rationals, and
  neither binary64 rounding nor the sign of zero is modelled. The two differ near a
  threshold (in binary64 \<open>|0.33 - 0.3| / 0.3 > 0.1\<close>, \<open>(1.005).toFixed(2)\<close> is
  \<open>'1.00'\<close>, \<open>parseInt('-0.5')\<close> is \<open>-0\<close>), so no claim states a numeric threshold or
  a printed decimal: the claims on numbers rest on signs, \<open>NaN\<close>, the infinities and
  equal operands, which rounding preserves, exclude the negative-zero case in their
  hypotheses (the rate-limit configuration), or, for the e-mail spacing, bound the gaps by
  the exact quotient \<open>60000 / r\<close>, where binary64 uses its rounding. Strings are lists of
  8-bit characters read as U+0000 to U+00FF, so JS white space is the part of \<open>\s\<close> in
  that range (including U+00A0). In \<open>Monitor\<close> a poll cycle is atomic and runs at one
  instant; \<open>Interleaving\<close> refines it with the one await point at which two cycles can
  interleave (the fetch's await is folded into \<open>Begin\<close>, the mails' awaits are taken in
  order inside it); React handlers run to completion with the server's answer, one user
  event at a time; rendering of subjects and HTML is symbolic; the
  collaborators (OKX API, SQLite, SMTP, node-cron's expression check, the random data of
  \<open>getTraderInfo\<close>) are environment values; Express routing is modelled as configured
  (case-insensitive, non-strict, no percent-decoding). No loop needs fuel: every loop of
  the code runs over a finite list; the two recursions that are not structural
  (\<open>dec_digits\<close>, \<open>group3\<close>) terminate by a measure. Timers are step relations: a timer
  fires at any time from its due time on.

  \<^bold>\<open>Not modelled\<close>: logging, file and network I/O as such; the axios interceptors
  (request signing); \<open>postgres.ts\<close> (not imported by any module); the SQL text of the statements
  and \<open>close\<close> of the SQLite wrapper; the purely
  presentational components (\<open>Header\<close>, \<open>Footer\<close>, \<open>ui/\<close>, \<open>TailwindTest\<close>) and
  \<open>TraderAnalyzer\<close> (not rendered; it calls \<open>apiClient.analyzeTrader\<close>, which
  \<open>api.ts\<close> does not define), toasts and logging of the client; URLs are not split at
  \<open>?\<close> or \<open>#\<close> by the client model; binary64 rounding, the sign of zero and the
  overflow of huge exponents (see above); characters beyond U+00FF; the \<open>helmet\<close>
  headers; the test scripts.
\<close>

section \<open>Sample inputs\<close>

definition sample_position :: "string \<Rightarrow> string \<Rightarrow> string option \<Rightarrow> string \<Rightarrow> LeadPosition" where
  "sample_position inst sub amount pl =
     \<lparr>instId = inst, subPosId = sub, posId = None, posSide = ''long'', subPos = ''1'',
      pos = amount, avgPx = None, markPx = ''100'', upl = pl, uplRatio = ''0'', lever = ''10'',
      notionalUsd = None\<rparr>"

definition sample_env :: "EmailSubscription list \<Rightarrow> email_env" where
  "sample_env rows =
     \<lparr>transporterConfigured = True, rateLimit = Num 5, sendMailOk = (\<lambda>_. True),
      logInsertOk = True, subscriptionsTable = Some rows\<rparr>"

definition sample_subscribers :: "EmailSubscription list" where
  "sample_subscribers =
     [\<lparr>email = ''a@x.io'', unique_code = ''E1'', alertTypes = [''close_position''], is_active = True\<rparr>,
      \<lparr>email = ''b@x.io'', unique_code = ''E1'', alertTypes = [''new_position''], is_active = True\<rparr>]"

definition sample_mail :: "email_addr \<Rightarrow> EmailNotification" where
  "sample_mail e =
     \<lparr>to = e, msg = NewPositionMail ''T'' (sample_position ''BTC-USDT-SWAP'' ''1'' None ''0''),
      notification_type = ''new_position''\<rparr>"

lemmas sample_defs = sample_position_def sample_env_def sample_subscribers_def sample_mail_def

section \<open>End-to-end\<close>

text \<open>End-to-end, on the scenario of the specification: with no prior snapshot, a first cycle returning one position sends nothing and seeds the snapshot; a second cycle returning no position sends exactly one close notification, to the subscriber of close alerts only.\<close>

theorem e2e_close_scenario:
  "let P1 = sample_position ''BTC-USDT-SWAP'' ''611'' None ''12.5'';
       env = sample_env sample_subscribers;
       s1 = monitor_run monitor_init [Start, Tick env (\<lambda>_. Inr [P1]) 30000];
       s2 = monitor_run s1 [Tick env (\<lambda>_. Inr []) 60000]
   in outbox (mailer s1) = [] \<and>
      map (positions \<circ> snd) (positionSnapshots s1) = [[P1]] \<and>
      outbox (mailer s2) =
        [(60000, \<lparr>to = ''a@x.io'', msg = ClosePositionMail (trader_label ''E1'') P1,
                  notification_type = ''close_position''\<rparr>)]"
  by (simp add: model_simps sample_defs)

text \<open>Two distinct positions of one instrument and side without posId and subPosId share the fallback identity; closing one of them produces no action at all.\<close>

theorem conflated_positions_invisible:
  "let p1 = sample_position ''ETH-USDT-SWAP'' '''' (Some ''5'') ''10'';
       p2 = sample_position ''ETH-USDT-SWAP'' '''' (Some ''7'') ''10''
   in p1 \<noteq> p2 \<and> compare_positions [p1, p2] [p2] = []"
  by (simp add: model_simps sample_defs)


section \<open>Witnesses\<close>

text \<open>Each theorem with hypotheses, applied at a concrete input where they hold.\<close>

theorem first_poll_seeds_snapshot_witness:
  "jsmap_get (positionSnapshots monitor_init) ''E1'' = None \<and>
   mailer (check_trader_positions (sample_env []) (\<lambda>_. Inr [sample_position ''BTC'' ''1'' None ''0'']) 5 ''E1'' ''T'' monitor_init)
     = mailer monitor_init \<and>
   jsmap_get (positionSnapshots (check_trader_positions (sample_env []) (\<lambda>_. Inr [sample_position ''BTC'' ''1'' None ''0'']) 5 ''E1'' ''T'' monitor_init)) ''E1''
     = Some \<lparr>snap_uniqueCode = ''E1'', positions = [sample_position ''BTC'' ''1'' None ''0''], timestamp = 5\<rparr>"
proof -
  have h: "jsmap_get (positionSnapshots monitor_init) ''E1'' = None"
    by (simp add: monitor_init_def jsmap_get_def)
  show ?thesis
    using h first_poll_seeds_snapshot [where s = monitor_init and c = "''E1''"
        and fetch = "\<lambda>_. Inr [sample_position ''BTC'' ''1'' None ''0'']"
        and ps = "[sample_position ''BTC'' ''1'' None ''0'']" and env = "sample_env []"
        and now = 5 and name = "''T''"]
    by simp
qed

theorem restart_cycle_sends_nothing_witness:
  "positionSnapshots monitor_init = [] \<and>
   mailer (check_all_subscriptions (sample_env sample_subscribers)
             (\<lambda>_. Inr [sample_position ''BTC'' ''1'' None ''0'']) 7 monitor_init) = mailer monitor_init"
  using restart_cycle_sends_nothing [where s = monitor_init and env = "sample_env sample_subscribers"
      and fetch = "\<lambda>_. Inr [sample_position ''BTC'' ''1'' None ''0'']" and now = 7]
  by (simp add: monitor_init_def)

theorem size_change_never_short_or_subPos_witness:
  "((parse_float (js_or_opt (pos (sample_position ''X'' ''1'' (Some ''-100'') ''0'')) ''0'') = Num (-100) \<and>
     parse_float (js_or_opt (pos (sample_position ''X'' ''1'' (Some ''-200'') ''0'')) ''0'') = Num (-200) \<and>
     (-100 :: rat) < 0) \<or>
    (pos (sample_position ''X'' ''1'' (Some ''-100'') ''0'') = None \<and>
     pos (sample_position ''X'' ''1'' (Some ''-200'') ''0'') = None)) \<and>
   \<not> (\<exists>r. SizeChange (sample_position ''X'' ''1'' (Some ''-200'') ''0'') r
        \<in> set (check_position_changes (sample_position ''X'' ''1'' (Some ''-100'') ''0'')
                                      (sample_position ''X'' ''1'' (Some ''-200'') ''0'')))"
proof -
  have a: "parse_float (js_or_opt (pos (sample_position ''X'' ''1'' (Some ''-100'') ''0'')) ''0'') = Num (-100)"
    and b: "parse_float (js_or_opt (pos (sample_position ''X'' ''1'' (Some ''-200'') ''0'')) ''0'') = Num (-200)"
    by (simp_all add: sample_defs model_simps)
  show ?thesis
    using a b size_change_never_short_or_subPos [of "sample_position ''X'' ''1'' (Some ''-100'') ''0''" "-100"
        "sample_position ''X'' ''1'' (Some ''-200'') ''0''" "-200"]
    by simp
qed

theorem deliveries_spaced_witness:
  "rateLimit (sample_env []) = Num 5 \<and> (0::rat) < 5 \<and> sorted (map fst [(0::int, sample_mail ''a''), (20000, sample_mail ''a'')]) \<and>
   spaced (60 / 5 * 1000) (outbox (send_run (sample_env []) [(0, sample_mail ''a''), (20000, sample_mail ''a'')] email_init))"
  using deliveries_spaced [where env = "sample_env []" and r = 5
      and run = "[(0, sample_mail ''a''), (20000, sample_mail ''a'')]"]
  by (simp add: sample_env_def)

theorem burst_delivers_at_most_one_witness:
  "let run = map (\<lambda>t. (t, sample_mail ''a@x.io'')) [0, 200, 400, 600, 800, 1000]
   in rateLimit (sample_env []) = Num 5 \<and> sorted (map fst run) \<and>
      (\<forall>t \<in> fst ` set run. 0 \<le> t \<and> t \<le> 0 + 1000) \<and> of_int 1000 < (60 / 5 * 1000 :: rat) \<and>
      length (filter (\<lambda>(t, n). to n = ''a@x.io'') (outbox (send_run (sample_env []) run email_init))) \<le> 1"
  using burst_delivers_at_most_one [where env = "sample_env []" and r = 5 and tstart = 0 and d = 1000
      and e = "''a@x.io''" and run = "map (\<lambda>t. (t, sample_mail ''a@x.io'')) [0, 200, 400, 600, 800, 1000]"]
  by (simp add: sample_env_def Let_def)

theorem send_email_other_recipient_witness:
  "''b'' \<noteq> to (sample_mail ''a'') \<and>
   jsmap_get (emailQueue (snd (send_email (sample_env []) 9 (sample_mail ''a'') email_init))) ''b'' =
   jsmap_get (emailQueue email_init) ''b''"
  using send_email_other_recipient [where e = "''b''" and n = "sample_mail ''a''" and env = "sample_env []"
      and now = 9 and st = email_init]
  by (simp add: sample_mail_def)

theorem send_email_transport_failure_witness:
  "\<not> sendMailOk ((sample_env [])\<lparr>sendMailOk := (\<lambda>_. False)\<rparr>) (sample_mail ''a'') \<and>
   send_email ((sample_env [])\<lparr>sendMailOk := (\<lambda>_. False)\<rparr>) 9 (sample_mail ''a'') email_init = (False, email_init)"
  using send_email_transport_failure [where env = "(sample_env [])\<lparr>sendMailOk := (\<lambda>_. False)\<rparr>"
      and n = "sample_mail ''a''" and now = 9 and st = email_init]
  by simp

theorem fetch_failure_isolated_witness:
  "(\<lambda>c. if c = ''E2'' then Inl ''timeout'' else Inr []) ''E2'' = (Inl ''timeout'' :: string + LeadPosition list) \<and>
   check_traders (sample_env []) (\<lambda>c. if c = ''E2'' then Inl ''timeout'' else Inr []) 3 [''E1'', ''E2'', ''E3''] monitor_init =
   check_traders (sample_env []) (\<lambda>c. if c = ''E2'' then Inl ''timeout'' else Inr []) 3 [''E1'', ''E3''] monitor_init"
  using fetch_failure_isolated [where fetch = "\<lambda>c. if c = ''E2'' then Inl ''timeout'' else Inr []"
      and c = "''E2''" and err = "''timeout''" and env = "sample_env []" and now = 3
      and before = "[''E1'']" and after = "[''E3'']" and s = monitor_init]
  by simp

theorem sub_table_inv_ops_witness:
  "sub_table_inv sub_table_init \<and>
   sub_table_inv (fst (snd (add_subscription (sample_env []) None 0 ''a@x.io'' ''34ABFF2DBEC9E970''
                              [''new_position''] sub_table_init email_init))) \<and>
   sub_table_inv (snd (remove_subscription None ''a@x.io'' ''34ABFF2DBEC9E970'' sub_table_init))"
  using sub_table_inv_ops [OF sub_table_inv_init] sub_table_inv_init by blast

theorem subscribe_accepted_iff_witness:
  "fst (fst (post_subscribe (sample_env []) None 0
      \<lparr>sr_email = Some ''a@x.io'', sr_uniqueCode = Some ''short'', sr_alertTypes = Some [''new_position'']\<rparr>
      sub_table_init email_init)) \<noteq> 200"
  using subscribe_accepted_iff [of "sample_env []" None 0
      "\<lparr>sr_email = Some ''a@x.io'', sr_uniqueCode = Some ''short'', sr_alertTypes = Some [''new_position'']\<rparr>"
      sub_table_init email_init]
  by (simp add: subscribe_valid_def)

theorem subscribe_unsubscribe_roundtrip_witness:
  "\<exists>r t' st'. post_subscribe (sample_env []) None 0
      \<lparr>sr_email = Some ''a@x.io'', sr_uniqueCode = Some ''34ABFF2DBEC9E970'', sr_alertTypes = Some [''new_position'']\<rparr>
      sub_table_init email_init = (r, t', st') \<and> fst r = 200 \<and>
    sub_rows (snd (delete_unsubscribe None \<lparr>ur_email = Some ''a@x.io'', ur_uniqueCode = Some ''34ABFF2DBEC9E970''\<rparr> t')) = []"
proof -
  have v: "email_regex_test ''a@x.io''" by (simp add: email_regex_test_def email_char_def is_js_space_def)
  obtain r t' st' where eq: "post_subscribe (sample_env []) None 0
      \<lparr>sr_email = Some ''a@x.io'', sr_uniqueCode = Some ''34ABFF2DBEC9E970'', sr_alertTypes = Some [''new_position'']\<rparr>
      sub_table_init email_init = (r, t', st')" by (metis prod_cases3)
  moreover have "fst r = 200"
    using eq post_subscribe_valid [of "\<lparr>sr_email = Some ''a@x.io'', sr_uniqueCode = Some ''34ABFF2DBEC9E970'',
        sr_alertTypes = Some [''new_position'']\<rparr>" "''a@x.io''" "''34ABFF2DBEC9E970''" "[''new_position'']"
        "sample_env []" None 0 sub_table_init email_init] v
    by (auto simp: valid_alert_types_def ok_response_def)
  ultimately show ?thesis
    using subscribe_unsubscribe_roundtrip [OF eq] by (simp add: sub_table_init_def)
qed

theorem email_regex_test_iff_witness:
  "email_regex_spec ''a@x.io'' \<and> \<not> email_regex_spec ''a@x''"
proof -
  have "email_regex_test ''a@x.io''" and "\<not> email_regex_test ''a@x''"
    by (simp_all add: email_regex_test_def email_char_def is_js_space_def)
  then show ?thesis using email_regex_test_iff by blast
qed

theorem confirmation_blocks_alert_witness:
  "\<exists>r t' st'. add_subscription (sample_env []) None 0 ''a@x.io'' ''34ABFF2DBEC9E970'' [''new_position'']
      sub_table_init email_init = (r, t', st') \<and>
    send_email (sample_env []) 1000 (sample_mail ''a@x.io'') st' = (False, st')"
proof -
  obtain r t' st' where eq: "add_subscription (sample_env []) None 0 ''a@x.io'' ''34ABFF2DBEC9E970'' [''new_position'']
      sub_table_init email_init = (r, t', st')" by (metis prod_cases3)
  have "send_email (sample_env []) 1000 (sample_mail ''a@x.io'') st' = (False, st')"
    by (rule confirmation_blocks_alert [OF eq, where rl = 5])
       (simp_all add: sample_env_def sample_mail_def can_send_email_def email_init_def jsmap_get_def)
  with eq show ?thesis by blast
qed

theorem rl_run_window_witness:
  "(''1.2.3.4'', \<lparr>count = 2, resetTime = 10\<rparr>) \<in> set (fst (rl_run 1 10 [(Some ''1.2.3.4'', 0), (Some ''1.2.3.4'', 1)] ([], []))) \<and>
   int (length (filter (\<lambda>(_, _, ok). ok) (window_entries 10 ''1.2.3.4'' \<lparr>count = 2, resetTime = 10\<rparr>
      (snd (rl_run 1 10 [(Some ''1.2.3.4'', 0), (Some ''1.2.3.4'', 1)] ([], [])))))) = 1"
proof -
  have m: "(''1.2.3.4'', \<lparr>count = 2, resetTime = 10\<rparr>) \<in> set (fst (rl_run 1 10 [(Some ''1.2.3.4'', 0), (Some ''1.2.3.4'', 1)] ([], [])))"
    by (simp add: rate_limit_def jsmap_get_def js_or_opt_def js_or_def Let_def)
  show ?thesis using rl_run_window [of 10 "[(Some ''1.2.3.4'', 0), (Some ''1.2.3.4'', 1)]" "''1.2.3.4''"
      "\<lparr>count = 2, resetTime = 10\<rparr>" 1] m by simp
qed

theorem fixed_window_burst_witness:
  "length (filter (\<lambda>(_, t, ok). ok \<and> 0 + 10 \<le> t \<and> t \<le> 0 + 10 + 1)
     (snd (rl_run 2 10 ((Some ''a'', 0) # replicate (nat 2 - 1) (Some ''a'', 0 + 10)
                        @ (Some ''a'', 0 + 10 + 1) # replicate (nat 2 - 1) (Some ''a'', 0 + 10 + 1)) ([], [])))) = 3"
  using fixed_window_burst [of 2 10 0 "Some ''a''"] by simp

theorem extract_shape_witness:
  "extract_unique_code_from_url ''https://www.okx.com/copy-trading/account/34abff2dbec9e970'' = Some ''34ABFF2DBEC9E970'' \<and>
   length ''34ABFF2DBEC9E970'' = 16 \<and> list_all is_upper_hex ''34ABFF2DBEC9E970''"
proof -
  have e: "extract_unique_code_from_url ''https://www.okx.com/copy-trading/account/34abff2dbec9e970'' = Some ''34ABFF2DBEC9E970''"
    by code_simp
  show ?thesis using extract_shape [OF e] e by simp
qed

theorem broken_store_sticks_witness:
  "stored (foldl (\<lambda>s (g, now). run_monitoring \<lparr>smtp_user = None, smtp_pass = None, notify_to = None,
                                   sendOk = True, saveOk = True, frontendOk = True\<rparr> g now s)
      \<lparr>stored = Some \<lparr>traders = None, data_positions = [], lastUpdate = None\<rparr>, frontend_data = None, task_outbox = []\<rparr>
      [(\<lambda>i. \<lparr>traderId = i, nickname = i, profitRate = Num 0, followersCount = 0, tr_positions = []\<rparr>, ''2024-01-01'')])
   = Some \<lparr>traders = None, data_positions = [], lastUpdate = None\<rparr>"
  using broken_store_sticks [of "\<lparr>stored = Some \<lparr>traders = None, data_positions = [], lastUpdate = None\<rparr>,
      frontend_data = None, task_outbox = []\<rparr>" "\<lparr>traders = None, data_positions = [], lastUpdate = None\<rparr>"
      "\<lparr>smtp_user = None, smtp_pass = None, notify_to = None, sendOk = True, saveOk = True, frontendOk = True\<rparr>"
      "[(\<lambda>i. \<lparr>traderId = i, nickname = i, profitRate = Num 0, followersCount = 0, tr_positions = []\<rparr>, ''2024-01-01'')]"]
  by simp

theorem missing_notional_shows_zero_witness:
  "\<exists>s. positions_list False [sample_position ''BTC-USDT-SWAP'' ''1'' None ''12.5''] = PositionsShown s \<and>
       sum_notional_text s = ''0.00''"
proof -
  have "\<exists>p\<in>set [sample_position ''BTC-USDT-SWAP'' ''1'' None ''12.5'']. notionalUsd p = None"
    by (simp add: sample_position_def)
  from missing_notional_shows_zero [OF this] show ?thesis by simp
qed

end
